(* ===== verification/Prelude.thy ===== *)
theory Prelude
  imports Main "HOL-Library.Sublist" "HOL-Library.List_Lexorder" "HOL-Library.Char_ord"
begin

text \<open>
  Shared base of the development: the rule collections, the exceptions of the tools as a
  datatype, results as sums, and generic facts on lists, substrings and sorting that several
  components use.
\<close>

section \<open>Rule collections\<close>

named_theorems py_simps \<open>evaluation rules for the Python string operations\<close>
named_theorems re_simps \<open>evaluation rules for the regular expression matcher\<close>
named_theorems fs_simps \<open>rules for lookups in an updated file system\<close>

section \<open>Exceptions and results\<close>

text \<open>
  The exceptions the tools raise or let through. The texts are the messages of the source
  where it has one.
\<close>

datatype error =
    ValueError string
  | FileNotFoundError string
  | RuntimeError string
  | AttributeError string
  | OSError string
  | IndexError
  | UnicodeDecodeError

type_synonym 'a res = "error + 'a"

abbreviation is_ok :: "'a res \<Rightarrow> bool" where
  "is_ok r \<equiv> (\<exists>x. r = Inr x)"

section \<open>Lists\<close>

lemma dropWhile_eq_self: "xs = [] \<or> \<not> P (hd xs) \<Longrightarrow> dropWhile P xs = xs"
  by (cases xs) auto

lemma takeWhile_all: "\<forall>x\<in>set xs. P x \<Longrightarrow> takeWhile P (xs @ ys) = xs @ takeWhile P ys"
  by (induction xs) auto

lemma dropWhile_all: "\<forall>x\<in>set xs. P x \<Longrightarrow> dropWhile P (xs @ ys) = dropWhile P ys"
  by (induction xs) auto

lemma concat_map_filter_empty: "\<forall>x\<in>set xs. f x = [] \<Longrightarrow> concat (map f xs) = []"
  by auto

lemma concat_map_concat_map:
  "concat (map f (concat (map g xs))) = concat (map (\<lambda>x. concat (map f (g x))) xs)"
  by (induction xs) auto

lemma sort_eq_self: "sorted xs \<Longrightarrow> sort xs = xs"
  by (rule sorted_sort_id)

lemma sorted_remdups_sort: "sorted (remdups (sort (xs :: 'a::linorder list)))"
  by (induction xs) (simp_all add: sorted_insort sorted_remdups)

lemma sort_remdups_set [simp]: "set (sort (remdups xs)) = set (xs :: 'a::linorder list)"
  by simp

lemma distinct_sort_remdups [simp]: "distinct (sort (remdups (xs :: 'a::linorder list)))"
  by simp

text \<open>\<open>sorted\<close> of a set.\<close>

definition sorted_set :: "'a::linorder list \<Rightarrow> 'a list" where
  "sorted_set xs = sort (remdups xs)"

lemma sorted_set_simps [simp]:
  "set (sorted_set xs) = set xs" "sorted (sorted_set xs)" "distinct (sorted_set xs)" "sorted_set [] = []"
  by (simp_all add: sorted_set_def)

lemma sorted_set_Nil [simp]: "sorted_set xs = [] \<longleftrightarrow> xs = []"
  by (metis set_empty sorted_set_simps(1))

section \<open>Substrings\<close>

text \<open>Python's \<open>w in s\<close> on strings.\<close>

fun contains :: "'a list \<Rightarrow> 'a list \<Rightarrow> bool" where
  "contains w [] \<longleftrightarrow> w = []"
| "contains w (c # cs) \<longleftrightarrow> prefix w (c # cs) \<or> contains w cs"

lemma contains_iff: "contains w s \<longleftrightarrow> (\<exists>a b. s = a @ w @ b)"
proof (induction s)
  case Nil
  then show ?case by auto
next
  case (Cons c cs)
  have "(\<exists>a b. c # cs = a @ w @ b) \<longleftrightarrow> prefix w (c # cs) \<or> (\<exists>a b. cs = a @ w @ b)"
    by (auto simp: prefix_def Cons_eq_append_conv)
  with Cons show ?case by simp
qed

lemma contains_eq_sublist: "contains w s \<longleftrightarrow> sublist w s"
  by (auto simp: contains_iff sublist_def)

lemma contains_self [intro, simp]: "contains w w"
  by (auto simp: contains_eq_sublist)

lemma contains_appendI1: "contains w s \<Longrightarrow> contains w (s @ t)"
  by (auto simp: contains_iff) (metis append.assoc)

lemma contains_appendI2: "contains w t \<Longrightarrow> contains w (s @ t)"
  by (auto simp: contains_iff) (metis append.assoc)

lemma contains_ConsI: "contains w t \<Longrightarrow> contains w (c # t)"
  by simp

lemma contains_trans: "contains u v \<Longrightarrow> contains v w \<Longrightarrow> contains u w"
  by (auto simp: contains_eq_sublist intro: sublist_order.order.trans)

lemma contains_length: "contains w s \<Longrightarrow> length w \<le> length s"
  by (auto simp: contains_eq_sublist dest: sublist_length_le)

lemma contains_set: "contains w s \<Longrightarrow> set w \<subseteq> set s"
  by (auto simp: contains_iff)

lemma not_contains_appendD: "\<not> contains w (s @ t) \<Longrightarrow> \<not> contains w s \<and> \<not> contains w t"
  by (auto intro: contains_appendI1 contains_appendI2)

lemmas contains_intros = contains_appendI1 contains_appendI2 contains_ConsI

lemma prefix_of_butlast: "prefix q (butlast p) \<Longrightarrow> prefix q p"
  by (cases p rule: rev_cases) (auto simp: prefix_def)

lemma prefix_drop_append: "prefix w s \<Longrightarrow> s = w @ drop (length w) s"
  by (auto simp: prefix_def)

end
