(* ===== verification/Py_Str.thy ===== *)
theory Py_Str
  imports Prelude
begin

text \<open>
  Python's \<open>str\<close> operations, as far as the tools use them. A \<open>str\<close> is a \<^typ>\<open>string\<close>: the
  text in its UTF-8 form, one \<^typ>\<open>char\<close> per byte. Every string constant of the tools but the
  box-drawing prefixes of the repository map is ASCII, and each operation below commutes with
  the encoding. Character classes (white space, word characters, upper case) are the ASCII
  ones: a non-ASCII letter counts as neither a word character nor a space.
\<close>

section \<open>Character classes\<close>

abbreviation NL :: char where "NL \<equiv> CHR 0x0A"
abbreviation CR :: char where "CR \<equiv> CHR 0x0D"

definition in_range :: "nat \<Rightarrow> nat \<Rightarrow> char \<Rightarrow> bool" where
  "in_range a b c \<longleftrightarrow> a \<le> of_char c \<and> of_char c \<le> b"

text \<open>\<open>str.isspace\<close> on ASCII, which is also the class \<open>\s\<close> of a \<open>str\<close> pattern.\<close>

definition is_space :: "char \<Rightarrow> bool" where
  "is_space c \<longleftrightarrow> c = CHR '' '' \<or> in_range 9 13 c \<or> in_range 28 31 c"

definition is_digit :: "char \<Rightarrow> bool" where
  "is_digit c \<longleftrightarrow> in_range 48 57 c"

definition is_upper :: "char \<Rightarrow> bool" where
  "is_upper c \<longleftrightarrow> in_range 65 90 c"

definition is_lower :: "char \<Rightarrow> bool" where
  "is_lower c \<longleftrightarrow> in_range 97 122 c"

definition is_alpha :: "char \<Rightarrow> bool" where
  "is_alpha c \<longleftrightarrow> is_upper c \<or> is_lower c"

text \<open>The class \<open>\w\<close>.\<close>

definition is_word :: "char \<Rightarrow> bool" where
  "is_word c \<longleftrightarrow> is_alpha c \<or> is_digit c \<or> c = CHR ''_''"

definition upper_char :: "char \<Rightarrow> char" where
  "upper_char c = (if is_lower c then char_of (of_char c - (32::nat)) else c)"

definition lower_char :: "char \<Rightarrow> char" where
  "lower_char c = (if is_upper c then char_of (of_char c + (32::nat)) else c)"

definition upper :: "string \<Rightarrow> string" where
  "upper s = map upper_char s"

definition lower :: "string \<Rightarrow> string" where
  "lower s = map lower_char s"

lemmas char_class_defs [py_simps] =
  in_range_def is_space_def is_digit_def is_upper_def is_lower_def is_alpha_def is_word_def
  upper_char_def lower_char_def

text \<open>ASCII by the top bit of a byte.\<close>

lemma char_small: "of_char (Char b0 b1 b2 b3 b4 b5 b6 b7) < (128 :: nat) \<longleftrightarrow> \<not> b7"
proof -
  have "of_bool b \<le> (1::nat)" for b by simp
  note bits = this[of b0] this[of b1] this[of b2] this[of b3] this[of b4] this[of b5] this[of b6]
  show ?thesis
    using bits by (cases b7) simp_all
qed

lemma is_space_NL [simp]: "is_space NL"
  by (simp add: py_simps)

lemma is_space_blank [simp]: "is_space CHR '' ''"
  by (simp add: py_simps)

lemma upper_simps [simp]:
  "upper [] = []" "upper (c # s) = upper_char c # upper s" "upper (s @ t) = upper s @ upper t"
  by (simp_all add: upper_def)

lemma lower_simps [simp]:
  "lower [] = []" "lower (c # s) = lower_char c # lower s" "lower (s @ t) = lower s @ lower t"
  by (simp_all add: lower_def)

section \<open>Stripping\<close>

text \<open>
  \<open>lstrip\<close>, \<open>rstrip\<close> and \<open>strip\<close> by a set of characters; without an argument Python strips
  white space.
\<close>

definition lstrip_by :: "(char \<Rightarrow> bool) \<Rightarrow> string \<Rightarrow> string" where
  "lstrip_by P s = dropWhile P s"

definition rstrip_by :: "(char \<Rightarrow> bool) \<Rightarrow> string \<Rightarrow> string" where
  "rstrip_by P s = rev (dropWhile P (rev s))"

definition strip_by :: "(char \<Rightarrow> bool) \<Rightarrow> string \<Rightarrow> string" where
  "strip_by P s = rstrip_by P (lstrip_by P s)"

definition strip :: "string \<Rightarrow> string" where
  "strip s = strip_by is_space s"

definition strip_newlines :: "string \<Rightarrow> string" where
  "strip_newlines s = strip_by (\<lambda>c. c = NL) s"

lemma lstrip_by_split: "\<exists>a. s = a @ lstrip_by P s \<and> (\<forall>c\<in>set a. P c)"
  by (metis lstrip_by_def set_takeWhileD takeWhile_dropWhile_id)

lemma rstrip_by_split: "\<exists>b. s = rstrip_by P s @ b \<and> (\<forall>c\<in>set b. P c)"
proof -
  have "s = rev (dropWhile P (rev s)) @ rev (takeWhile P (rev s))"
    by (metis rev_append rev_rev_ident takeWhile_dropWhile_id)
  then show ?thesis
    unfolding rstrip_by_def by (metis set_rev set_takeWhileD)
qed

lemma strip_by_split: "\<exists>a b. s = a @ strip_by P s @ b \<and> (\<forall>c\<in>set a \<union> set b. P c)"
proof -
  obtain a where a: "s = a @ lstrip_by P s" "\<forall>c\<in>set a. P c"
    using lstrip_by_split by blast
  obtain b where b: "lstrip_by P s = rstrip_by P (lstrip_by P s) @ b" "\<forall>c\<in>set b. P c"
    using rstrip_by_split by blast
  show ?thesis
    using a b by (metis Un_iff strip_by_def)
qed

lemma rstrip_by_last: "rstrip_by P s \<noteq> [] \<Longrightarrow> \<not> P (last (rstrip_by P s))"
  by (simp add: rstrip_by_def last_rev hd_dropWhile)

lemma rstrip_by_id: "s = [] \<or> \<not> P (last s) \<Longrightarrow> rstrip_by P s = s"
  by (auto simp: rstrip_by_def dropWhile_eq_self hd_rev)

lemma lstrip_by_id: "s = [] \<or> \<not> P (hd s) \<Longrightarrow> lstrip_by P s = s"
  by (simp add: lstrip_by_def dropWhile_eq_self)

lemma strip_by_id: "s = [] \<or> \<not> P (hd s) \<and> \<not> P (last s) \<Longrightarrow> strip_by P s = s"
  by (auto simp: strip_by_def lstrip_by_id rstrip_by_id)

lemma set_strip_by: "set (strip_by P s) \<subseteq> set s"
  by (metis Un_iff set_append strip_by_split subsetI)

lemma contains_strip_by: "contains (strip_by P s) s"
  by (metis contains_iff strip_by_split)

section \<open>Joining and splitting\<close>

fun join :: "string \<Rightarrow> string list \<Rightarrow> string" where
  "join sep [] = []"
| "join sep [x] = x"
| "join sep (x # y # ys) = x @ sep @ join sep (y # ys)"

text \<open>A text given by its lines: the lines joined by newlines.\<close>

definition text_lines :: "string list \<Rightarrow> string" where
  "text_lines ls = join [NL] ls"

lemma join_Cons: "ys \<noteq> [] \<Longrightarrow> join sep (x # ys) = x @ sep @ join sep ys"
  by (cases ys) auto

lemma join_append: "xs \<noteq> [] \<Longrightarrow> ys \<noteq> [] \<Longrightarrow> join sep (xs @ ys) = join sep xs @ sep @ join sep ys"
  by (induction xs rule: induct_list012) (auto simp: join_Cons)

lemma text_lines_simps [simp]:
  "text_lines [] = []" "text_lines [x] = x"
  "text_lines (x # y # ys) = x @ NL # text_lines (y # ys)"
  by (simp_all add: text_lines_def)

lemma text_lines_Cons: "ys \<noteq> [] \<Longrightarrow> text_lines (x # ys) = x @ NL # text_lines ys"
  by (simp add: text_lines_def join_Cons)

lemma text_lines_append:
  "xs \<noteq> [] \<Longrightarrow> ys \<noteq> [] \<Longrightarrow> text_lines (xs @ ys) = text_lines xs @ NL # text_lines ys"
  by (simp add: text_lines_def join_append)

lemma contains_join: "x \<in> set xs \<Longrightarrow> contains x (join sep xs)"
  by (induction xs rule: induct_list012) (auto intro: contains_appendI1 contains_appendI2)

lemma contains_text_lines: "x \<in> set xs \<Longrightarrow> contains x (text_lines xs)"
  by (simp add: text_lines_def contains_join)

text \<open>A piece of text without a newline cannot straddle a line break.\<close>

lemma contains_append_sep:
  assumes "c \<notin> set w" and "w \<noteq> []"
  shows "contains w (a @ c # b) \<longleftrightarrow> contains w a \<or> contains w b"
proof
  assume "contains w (a @ c # b)"
  then obtain u v where "a @ c # b = u @ w @ v"
    by (auto simp: contains_iff)
  then consider (left) t where "a = u @ w @ t" | (right) t where "u = a @ c # t" "b = t @ w @ v"
    | (mid) t t' where "a = u @ t" "w = t @ c # t'"
    unfolding append_eq_append_conv2 Cons_eq_append_conv
    using assms by (auto simp: append_eq_append_conv2 Cons_eq_append_conv append_eq_Cons_conv)
  then show "contains w a \<or> contains w b"
    using assms(1) by cases (auto simp: contains_iff)
qed (auto intro: contains_intros)

lemma contains_text_lines_iff:
  assumes "NL \<notin> set w" and "w \<noteq> []"
  shows "contains w (text_lines ls) \<longleftrightarrow> (\<exists>l\<in>set ls. contains w l)"
  using assms(2) by (induction ls rule: induct_list012) (auto simp: contains_append_sep[OF assms])

text \<open>\<open>s.split(c)\<close> for a one-character separator: never the empty list.\<close>

fun split_on :: "char \<Rightarrow> string \<Rightarrow> string list" where
  "split_on c [] = [[]]"
| "split_on c (x # xs) =
     (if x = c then [] # split_on c xs
      else (case split_on c xs of [] \<Rightarrow> [[x]] | w # ws \<Rightarrow> (x # w) # ws))"

lemma split_on_nonempty [simp]: "split_on c s \<noteq> []"
  by (induction s) (auto split: list.splits)

lemma join_split_on: "join [c] (split_on c s) = s"
proof (induction s)
  case Nil
  then show ?case by simp
next
  case (Cons x xs)
  obtain w ws where w: "split_on c xs = w # ws"
    by (cases "split_on c xs") auto
  show ?case
    using Cons w by (cases ws) (auto simp: join_Cons)
qed

lemma split_on_no_sep: "w \<in> set (split_on c s) \<Longrightarrow> c \<notin> set w"
proof (induction s arbitrary: w)
  case Nil
  then show ?case by simp
next
  case (Cons x xs)
  then show ?case
    by (cases "split_on c xs") (auto split: if_splits)
qed

lemma split_on_id: "c \<notin> set s \<Longrightarrow> split_on c s = [s]"
  by (induction s) auto

lemma split_on_append: "c \<notin> set w \<Longrightarrow> split_on c (w @ c # s) = w # split_on c s"
  by (induction w) auto

lemma split_on_join: "ws \<noteq> [] \<Longrightarrow> \<forall>w\<in>set ws. c \<notin> set w \<Longrightarrow> split_on c (join [c] ws) = ws"
  by (induction ws rule: induct_list012) (auto simp: split_on_id split_on_append)

text \<open>
  \<open>s.replace(old, new)\<close>: the occurrences from left to right, without overlap; an empty \<open>old\<close>
  stands before every character and at the end.
\<close>

function replace_all :: "string \<Rightarrow> string \<Rightarrow> string \<Rightarrow> string" where
  "replace_all old new s =
     (if old = [] then concat (map (\<lambda>c. new @ [c]) s) @ new
      else if s = [] then []
      else if prefix old s then new @ replace_all old new (drop (length old) s)
      else hd s # replace_all old new (tl s))"
  by pat_completeness auto
termination
  by (relation "measure (\<lambda>(old, new, s). length s)") auto

declare replace_all.simps [simp del]

text \<open>\<open>s.split()\<close>: the words between white space.\<close>

function split_words :: "string \<Rightarrow> string list" where
  "split_words s =
     (let t = dropWhile is_space s
      in if t = [] then []
         else takeWhile (\<lambda>c. \<not> is_space c) t # split_words (dropWhile (\<lambda>c. \<not> is_space c) t))"
  by pat_completeness auto
termination
proof (relation "measure length", goal_cases)
  case 1
  show ?case by simp
next
  case (2 s t)
  then have "t \<noteq> []" "\<not> is_space (hd t)"
    using hd_dropWhile[of is_space s] by auto
  then have "length (dropWhile (\<lambda>c. \<not> is_space c) t) < length t"
    by (cases t) (auto simp: length_dropWhile_le le_imp_less_Suc)
  also have "length t \<le> length s"
    using 2 by (simp add: length_dropWhile_le)
  finally show ?case by simp
qed

declare split_words.simps [simp del]

text \<open>
  \<open>s.splitlines()\<close>: the line boundaries are CR, LF, CR LF, VT, FF, the separators 0x1C to
  0x1E, and the code points U+0085, U+2028 and U+2029 in their UTF-8 form. A boundary at the
  end of the text opens no further line.
\<close>

fun line_break :: "string \<Rightarrow> string option" where
  "line_break [] = None"
| "line_break (c # s) =
     (if c = CR \<and> prefix [NL] s then Some (drop 1 s)
      else if c = CR \<or> c = NL \<or> in_range 11 12 c \<or> in_range 28 30 c then Some s
      else if c = CHR 0xC2 \<and> prefix [CHR 0x85] s then Some (drop 1 s)
      else if c = CHR 0xE2 \<and> (prefix [CHR 0x80, CHR 0xA8] s \<or> prefix [CHR 0x80, CHR 0xA9] s)
           then Some (drop 2 s)
      else None)"

lemma line_break_length: "line_break s = Some t \<Longrightarrow> length t < length s"
  by (cases s) (auto split: if_splits)

function splitlines_from :: "string \<Rightarrow> string \<Rightarrow> string list" where
  "splitlines_from acc [] = (if acc = [] then [] else [rev acc])"
| "splitlines_from acc (c # s) =
     (case line_break (c # s) of
        Some t \<Rightarrow> rev acc # splitlines_from [] t
      | None \<Rightarrow> splitlines_from (c # acc) s)"
  by pat_completeness auto
termination
  by (relation "measure (\<lambda>(acc, s). length s)") (auto dest: line_break_length simp del: line_break.simps)

definition splitlines :: "string \<Rightarrow> string list" where
  "splitlines s = splitlines_from [] s"

section \<open>Numbers\<close>

text \<open>\<open>str(n)\<close> for a natural number, and \<open>int(s)\<close> for a text of ASCII digits.\<close>

definition digit_char :: "nat \<Rightarrow> char" where
  "digit_char d = char_of (48 + d)"

fun str_nat :: "nat \<Rightarrow> string" where
  "str_nat n = (if n < 10 then [digit_char n] else str_nat (n div 10) @ [digit_char (n mod 10)])"

declare str_nat.simps [simp del]

definition int_of_digits :: "string \<Rightarrow> nat" where
  "int_of_digits s = foldl (\<lambda>n c. 10 * n + (of_char c - 48)) 0 s"

lemma digit_value: "d < 10 \<Longrightarrow> of_char (digit_char d) = 48 + d"
  by (simp add: digit_char_def of_char_of)

lemma digit_char_digit: "d < 10 \<Longrightarrow> is_digit (digit_char d)"
  by (simp add: is_digit_def in_range_def digit_value)

lemma str_nat_digits: "c \<in> set (str_nat n) \<Longrightarrow> is_digit c"
proof (induction n arbitrary: c rule: str_nat.induct)
  case (1 n)
  then show ?case
    by (subst (asm) (2) str_nat.simps) (auto simp: digit_char_digit split: if_splits)
qed

lemma str_nat_nonempty [simp]: "str_nat n \<noteq> []"
  by (subst str_nat.simps) simp

lemma int_of_digits_str_nat: "int_of_digits (str_nat n) = n"
proof (induction n rule: str_nat.induct)
  case (1 n)
  show ?case
  proof (cases "n < 10")
    case True
    then show ?thesis
      by (subst str_nat.simps) (simp add: int_of_digits_def digit_value)
  next
    case False
    with 1 have "int_of_digits (str_nat (n div 10)) = n div 10" by simp
    with False show ?thesis
      by (subst str_nat.simps) (simp add: int_of_digits_def digit_value)
  qed
qed

text \<open>\<open>str\<close> of a list of numbers, as an f-string prints it.\<close>

definition str_nat_list :: "nat list \<Rightarrow> string" where
  "str_nat_list ns = ''['' @ join '', '' (map str_nat ns) @ '']''"

end
