(* ===== verification/Model.thy ===== *)
theory Model
  imports Py_Str
begin

text \<open>
  Model of \<^verbatim>\<open>tools/repo_builder/model.py\<close>: a numbered script of a workflow and a workflow
  directory, as records with the source's fields. The fields of \<open>Script\<close> carry the prefix
  \<open>s\<close>, those of \<open>Workflow\<close> the prefix \<open>w\<close>.
\<close>

record script =
  s_order :: string
  s_name :: string
  s_purpose :: string
  s_safety :: string
  s_expected_impact :: string
  s_required_privileges :: string
  s_prerequisites :: string
  s_related_scripts :: string
  s_interpretation :: string
  s_body :: string
  s_kind :: string
  s_execution_location :: string
  s_aurora_version :: string
  s_expected_runtime :: string
  s_table_purpose :: "string option"
  s_generator_managed :: bool

definition filename :: "script \<Rightarrow> string" where
  "filename s = (let ext = (if s_kind s = ''sql'' then ''sql'' else ''md'') in s_name s @ ''.'' @ ext)"

record workflow =
  w_category_slug :: string
  w_category_title :: string
  w_slug :: string
  w_title :: string
  w_summary :: string
  w_symptoms :: "string list"
  w_business_impact :: "string list"
  w_root_causes :: "string list"
  w_investigation_strategy :: "string list"
  w_prerequisites :: "string list"
  w_interpretation_guide :: "string list"
  w_remediation_immediate :: "string list"
  w_remediation_short_term :: "string list"
  w_remediation_long_term :: "string list"
  w_production_safety :: "string list"
  w_escalation_criteria :: "string list"
  w_related_issues :: "string list"
  w_scripts :: "script list"
  w_aurora_notes :: "string list"
  w_execution_guidance :: string
  w_expected_output_guidance :: string
  w_severe_incident_guidance :: string

definition wf_path :: "workflow \<Rightarrow> string" where
  "wf_path w = w_category_slug w @ ''/'' @ w_slug w"

text \<open>The file name ends in the extension of its kind and keeps the stem.\<close>

lemma filename_sql: "s_kind s = ''sql'' \<Longrightarrow> filename s = s_name s @ ''.sql''"
  by (simp add: filename_def)

lemma filename_md: "s_kind s \<noteq> ''sql'' \<Longrightarrow> filename s = s_name s @ ''.md''"
  by (simp add: filename_def)

lemma filename_inj_on_kind:
  "s_kind s = s_kind t \<Longrightarrow> filename s = filename t \<longleftrightarrow> s_name s = s_name t"
  by (auto simp: filename_def Let_def)

end
