(* ===== verification/Helpers.thy ===== *)
theory Helpers
  imports Model
begin

text \<open>
  Model of \<^verbatim>\<open>tools/repo_builder/helpers.py\<close>: the shared label texts and the two script
  constructors. The keyword arguments of a constructor are a record whose default value holds
  the source's defaults; a call overrides fields of it.
\<close>

definition READ_ONLY :: string where
  "READ_ONLY = ''READ ONLY''"

definition READ_ONLY_HEAVY :: string where
  "READ_ONLY_HEAVY = ''READ ONLY (may be resource intensive on very large tables -- see EXPECTED IMPACT)''"

definition GUARDED_DDL :: string where
  "GUARDED_DDL = ''GUARDED -- MANUAL EXECUTION ONLY (see safety warnings in this file before running any statement)''"

definition GUARDED_DML :: string where
  "GUARDED_DML = ''GUARDED -- MANUAL EXECUTION ONLY, WRITE OPERATION (see safety warnings before running)''"

definition PG_MONITOR :: string where
  "PG_MONITOR =
     ''Role membership in `pg_monitor` (or `pg_read_all_stats`) is sufficient. '' @
     ''No superuser required.''"

definition PG_MONITOR_PLUS_PGSS :: string where
  "PG_MONITOR_PLUS_PGSS =
     ''Role membership in `pg_monitor`, plus SELECT on `pg_stat_statements` '' @
     ''(granted automatically to `pg_read_all_stats` once the extension is '' @
     ''created; otherwise `GRANT SELECT ON pg_stat_statements TO <role>;`).''"

definition CONNECT_ONLY :: string where
  "CONNECT_ONLY = ''CONNECT on the target database. No elevated privileges required.''"

definition TABLE_OWNER_OR_DDL :: string where
  "TABLE_OWNER_OR_DDL =
     ''Table owner, or a role granted the `MAINTAIN` privilege on the table '' @
     ''(PostgreSQL 16+), or a role with `pg_maintain` membership. DDL variants '' @
     ''additionally require the privileges needed for the specific DDL '' @
     ''statement (e.g. ownership to ALTER TABLE).''"

definition AURORA_17 :: string where
  "AURORA_17 = ''Aurora PostgreSQL 17+ (compatible with community PostgreSQL 17+ unless a note says otherwise)''"

definition ANY_INSTANCE :: string where
  "ANY_INSTANCE = ''Any instance (writer or reader)''"

definition WRITER_ONLY :: string where
  "WRITER_ONLY = ''Writer instance only (the query reads/writes state that only exists or is meaningful on the writer)''"

definition WRITER_PREFERRED :: string where
  "WRITER_PREFERRED =
     ''Writer instance preferred; safe to run on a reader but results reflect only that '' @
     ''reader's local activity''"

record script_args =
  a_safety :: string
  a_expected_impact :: string
  a_required_privileges :: string
  a_prerequisites :: string
  a_related_scripts :: string
  a_execution_location :: string
  a_expected_runtime :: string
  a_table_purpose :: "string option"
  a_generator_managed :: bool

definition sql_args :: script_args where
  "sql_args =
     \<lparr>a_safety = READ_ONLY,
      a_expected_impact = ''Minimal -- reads system catalogs/statistics views only, no table locks beyond a brief catalog lookup.'',
      a_required_privileges = PG_MONITOR,
      a_prerequisites = ''None beyond CONNECT on the target database.'',
      a_related_scripts = [],
      a_execution_location = ANY_INSTANCE,
      a_expected_runtime = ''Low (sub-second to a few seconds)'',
      a_table_purpose = None,
      a_generator_managed = True\<rparr>"

definition sql_script ::
  "string \<Rightarrow> string \<Rightarrow> string \<Rightarrow> string \<Rightarrow> string \<Rightarrow> script_args \<Rightarrow> script" where
  "sql_script order name purpose body interpretation a =
     \<lparr>s_order = order,
      s_name = name,
      s_purpose = purpose,
      s_safety = a_safety a,
      s_expected_impact = a_expected_impact a,
      s_required_privileges = a_required_privileges a,
      s_prerequisites = a_prerequisites a,
      s_related_scripts = a_related_scripts a,
      s_interpretation = interpretation,
      s_body = body,
      s_kind = ''sql'',
      s_execution_location = a_execution_location a,
      s_aurora_version = AURORA_17,
      s_expected_runtime = a_expected_runtime a,
      s_table_purpose = a_table_purpose a,
      s_generator_managed = a_generator_managed a\<rparr>"

text \<open>
  \<open>md_script\<close> takes no \<open>generator_managed\<close> argument: the field keeps the default of the data
  class, so a runbook is always written by the generator.
\<close>

definition md_args :: script_args where
  "md_args =
     \<lparr>a_safety = GUARDED_DDL,
      a_expected_impact = ''Varies by step -- read each step's own warning before executing it.'',
      a_required_privileges = TABLE_OWNER_OR_DDL,
      a_prerequisites = ''Full read-only investigation for this workflow completed; maintenance window and second engineer approval obtained.'',
      a_related_scripts = [],
      a_execution_location = WRITER_ONLY,
      a_expected_runtime = ''Variable -- depends on table size and chosen batch size; see runbook.'',
      a_table_purpose = None,
      a_generator_managed = True\<rparr>"

definition md_script ::
  "string \<Rightarrow> string \<Rightarrow> string \<Rightarrow> string \<Rightarrow> string \<Rightarrow> script_args \<Rightarrow> script" where
  "md_script order name purpose body interpretation a =
     \<lparr>s_order = order,
      s_name = name,
      s_purpose = purpose,
      s_safety = a_safety a,
      s_expected_impact = a_expected_impact a,
      s_required_privileges = a_required_privileges a,
      s_prerequisites = a_prerequisites a,
      s_related_scripts = a_related_scripts a,
      s_interpretation = interpretation,
      s_body = body,
      s_kind = ''md'',
      s_execution_location = a_execution_location a,
      s_aurora_version = AURORA_17,
      s_expected_runtime = a_expected_runtime a,
      s_table_purpose = a_table_purpose a,
      s_generator_managed = True\<rparr>"

end
