(* ===== verification/Outline.thy ===== *)
theory Outline
  imports Helpers
begin

text \<open>
  What the build and the validator need to know of a registry: the category and slug of a workflow,
  the workflows it links to, and the order, stem, kind and owner of its scripts. The rules read it
  off the definition of a workflow or a script without looking into its texts.
\<close>

type_synonym script_summary = "string \<times> string \<times> string \<times> bool"

type_synonym workflow_summary = "string \<times> string \<times> string list \<times> script_summary list"

definition script_outline :: "script \<Rightarrow> script_summary" where
  "script_outline s = (s_order s, s_name s, s_kind s, s_generator_managed s)"

definition workflow_outline :: "workflow \<Rightarrow> workflow_summary" where
  "workflow_outline w = (w_category_slug w, w_slug w, w_related_issues w, map script_outline (w_scripts w))"

lemma outline_sql:
  "s = sql_script order name purpose body interpretation a \<Longrightarrow>
     script_outline s = (order, name, ''sql'', a_generator_managed a)"
  by (simp add: script_outline_def sql_script_def)

lemma outline_md:
  "s = md_script order name purpose body interpretation a \<Longrightarrow> script_outline s = (order, name, ''md'', True)"
  by (simp add: script_outline_def md_script_def)

text \<open>The three sequences of fields that the registries set.\<close>

lemma outline_plain:
  "w = base\<lparr>w_slug := slug, w_title := x1, w_summary := x2, w_symptoms := x3, w_business_impact := x4,
     w_root_causes := x5, w_investigation_strategy := x6, w_prerequisites := x7, w_interpretation_guide := x8,
     w_remediation_immediate := x9, w_remediation_short_term := x10, w_remediation_long_term := x11,
     w_production_safety := x12, w_escalation_criteria := x13, w_related_issues := issues, w_scripts := ss\<rparr> \<Longrightarrow>
   workflow_outline w = (w_category_slug base, slug, issues, map script_outline ss)"
  by (simp add: workflow_outline_def)

lemma outline_aurora:
  "w = base\<lparr>w_slug := slug, w_title := x1, w_summary := x2, w_symptoms := x3, w_business_impact := x4,
     w_root_causes := x5, w_investigation_strategy := x6, w_prerequisites := x7, w_interpretation_guide := x8,
     w_remediation_immediate := x9, w_remediation_short_term := x10, w_remediation_long_term := x11,
     w_production_safety := x12, w_escalation_criteria := x13, w_related_issues := issues, w_aurora_notes := x14,
     w_scripts := ss\<rparr> \<Longrightarrow>
   workflow_outline w = (w_category_slug base, slug, issues, map script_outline ss)"
  by (simp add: workflow_outline_def)

lemma outline_guided:
  "w = base\<lparr>w_slug := slug, w_title := x1, w_summary := x2, w_symptoms := x3, w_business_impact := x4,
     w_root_causes := x5, w_investigation_strategy := x6, w_prerequisites := x7, w_interpretation_guide := x8,
     w_remediation_immediate := x9, w_remediation_short_term := x10, w_remediation_long_term := x11,
     w_production_safety := x12, w_escalation_criteria := x13, w_related_issues := issues, w_aurora_notes := x14,
     w_execution_guidance := x15, w_expected_output_guidance := x16, w_severe_incident_guidance := x17,
     w_scripts := ss\<rparr> \<Longrightarrow>
   workflow_outline w = (w_category_slug base, slug, issues, map script_outline ss)"
  by (simp add: workflow_outline_def)

end
