(* ===== verification/Render.thy ===== *)
theory Render
  imports Model
begin

text \<open>
  Model of \<^verbatim>\<open>tools/repo_builder/render.py\<close>: the text of every generated file as a function of
  the workflow data. Templates are given by their lines, in the source's order; the values
  between the braces of an f-string are concatenated in place.
\<close>

definition RULE :: string where
  "RULE = replicate 79 CHR ''=''"

text \<open>Python's \<open>x or default\<close> on strings.\<close>

definition or_else :: "string \<Rightarrow> string \<Rightarrow> string" where
  "or_else x d = (if x = [] then d else x)"

section \<open>SQL files\<close>

text \<open>The lines of the header between the comment opener and the closer.\<close>

definition header_lines :: "workflow \<Rightarrow> script \<Rightarrow> string list" where
  "header_lines w s =
     (let related = or_else (s_related_scripts s) ''None'' in
      [RULE,
       ''SCRIPT NAME:'',
       filename s,
       '''',
       ''PURPOSE:'',
       s_purpose s,
       '''',
       ''AURORA POSTGRESQL VERSION:'',
       s_aurora_version s,
       '''',
       ''EXECUTION LOCATION:'',
       s_execution_location s,
       '''',
       ''SAFETY:'',
       s_safety s,
       '''',
       ''EXPECTED IMPACT:'',
       s_expected_impact s,
       '''',
       ''REQUIRED PRIVILEGES:'',
       s_required_privileges s,
       '''',
       ''PREREQUISITES:'',
       s_prerequisites s,
       '''',
       ''EXECUTION ORDER:'',
       ''Step '' @ s_order s @ '' of workflow '' @ CHR 0x27 # w_category_slug w @ ''/'' @ w_slug w @ [CHR 0x27],
       '''',
       ''RELATED SCRIPTS:'',
       related,
       '''',
       ''HOW TO INTERPRET RESULTS:'',
       s_interpretation s,
       RULE])"

definition render_sql_header :: "workflow \<Rightarrow> script \<Rightarrow> string" where
  "render_sql_header w s = text_lines (''/*'' # header_lines w s @ [''*/''])"

definition render_sql_file :: "workflow \<Rightarrow> script \<Rightarrow> string" where
  "render_sql_file w s =
     (let header = render_sql_header w s;
          body = strip_newlines (s_body s)
      in header @ [NL, NL] @ body @ [NL])"

section \<open>Runbooks\<close>

definition render_md_runbook :: "workflow \<Rightarrow> script \<Rightarrow> string" where
  "render_md_runbook w s = text_lines [
     ''# '' @ s_name s,
     '''',
     ''> **This is a manual remediation/runbook template, not an automatic script.**'',
     ''> It contains guarded, potentially disruptive steps. Read it fully, adapt the'',
     ''> guard variables, and execute steps interactively with a second engineer'',
     ''> present before running anything against production.'',
     '''',
     ''| Field | Value |'',
     ''|---|---|'',
     ''| Script name | `'' @ filename s @ ''` |'',
     ''| Purpose | '' @ s_purpose s @ '' |'',
     ''| Aurora PostgreSQL version | '' @ s_aurora_version s @ '' |'',
     ''| Execution location | '' @ s_execution_location s @ '' |'',
     ''| Safety | '' @ s_safety s @ '' |'',
     ''| Expected impact | '' @ s_expected_impact s @ '' |'',
     ''| Required privileges | '' @ s_required_privileges s @ '' |'',
     ''| Prerequisites | '' @ s_prerequisites s @ '' |'',
     ''| Execution order | Step '' @ s_order s @ '' of workflow `'' @ w_category_slug w @ ''/'' @ w_slug w @ ''` |'',
     ''| Related scripts | '' @ or_else (s_related_scripts s) ''None'' @ '' |'',
     '''',
     ''## How to interpret / use this runbook'',
     '''',
     s_interpretation s,
     '''',
     ''---'',
     '''',
     strip_newlines (s_body s),
     '''']"

section \<open>Lists\<close>

definition bullets :: "string list \<Rightarrow> string" where
  "bullets items =
     (if items = [] then ''_None documented._''
      else text_lines (map (\<lambda>item. ''- '' @ item) items))"

definition numbered :: "string list \<Rightarrow> string" where
  "numbered items =
     (if items = [] then ''_None documented._''
      else text_lines (map (\<lambda>(i, item). str_nat i @ ''. '' @ item) (enumerate 1 items)))"

section \<open>Workflow README\<close>

text \<open>The parts of a relative link that can serve as its label.\<close>

definition label_parts :: "string \<Rightarrow> string list" where
  "label_parts rel =
     (let parts = filter (\<lambda>p. p \<notin> {''..'', ''.''}) (split_on CHR ''/'' rel)
      in filter (\<lambda>p. p \<noteq> ''README.md'') parts)"

definition related_link :: "string \<Rightarrow> string" where
  "related_link rel =
     (let label = (if label_parts rel \<noteq> [] then last (label_parts rel) else rel)
      in ''['' @ label @ '']('' @ rel @ '')'')"

definition script_list :: "workflow \<Rightarrow> string" where
  "script_list w =
     text_lines (map (\<lambda>(i, s). str_nat i @ ''. [`scripts/'' @ filename s @ ''`](scripts/'' @ filename s @
       '') -- '' @ s_purpose s) (enumerate 1 (w_scripts w)))"

definition aurora_block :: "workflow \<Rightarrow> string" where
  "aurora_block w =
     (if w_aurora_notes w = [] then []
      else text_lines ['''', ''## Aurora PostgreSQL Notes'', '''',
             ''Differences from self-managed / standard PostgreSQL that matter for this workflow:'', '''',
             bullets (w_aurora_notes w), ''''])"

definition render_workflow_readme :: "workflow \<Rightarrow> string" where
  "render_workflow_readme w =
     (let related = (if w_related_issues w = [] then ''_None documented._''
                     else bullets (map related_link (w_related_issues w)))
      in text_lines [
        ''# '' @ w_title w,
        '''',
        ''**Category:** '' @ w_category_title w @ '' | **Workflow:** `'' @ w_category_slug w @ ''/'' @ w_slug w @ ''`'',
        '''',
        ''## 1. Problem Description'',
        '''',
        w_summary w,
        '''',
        ''## 2. Typical Symptoms'',
        '''',
        bullets (w_symptoms w),
        '''',
        ''## 3. Business Impact'',
        '''',
        bullets (w_business_impact w),
        '''',
        ''## 4. Possible Root Causes'',
        '''',
        bullets (w_root_causes w),
        '''',
        ''## 5. Investigation Strategy'',
        '''',
        numbered (w_investigation_strategy w),
        '''',
        ''## 6. Prerequisites'',
        '''',
        bullets (w_prerequisites w),
        '''',
        ''## 7. Investigation Workflow'',
        '''',
        ''Run the scripts in `scripts/` in numeric order. See `scripts/README.md` for the'',
        ''full execution table (safety, expected runtime, when to stop).'',
        '''',
        script_list w,
        aurora_block w,
        ''## 8. Interpretation Guide'',
        '''',
        bullets (w_interpretation_guide w),
        '''',
        ''## 9. Remediation Options'',
        '''',
        ''**Immediate mitigation** (stop the bleeding, minutes):'',
        '''',
        bullets (w_remediation_immediate w),
        '''',
        ''**Short-term remediation** (hours to days):'',
        '''',
        bullets (w_remediation_short_term w),
        '''',
        ''**Long-term engineering fix** (days to weeks):'',
        '''',
        bullets (w_remediation_long_term w),
        '''',
        ''## 10. Production Safety'',
        '''',
        bullets (w_production_safety w),
        '''',
        ''## 11. Escalation Criteria'',
        '''',
        ''Escalate beyond the on-call DBA when any of the following are true:'',
        '''',
        bullets (w_escalation_criteria w),
        '''',
        ''## 12. Related Issues'',
        '''',
        related,
        ''''])"

section \<open>Category README\<close>

definition category_label :: "string \<Rightarrow> string" where
  "category_label rel = (if label_parts rel \<noteq> [] then join ''/'' (label_parts rel) else rel)"

text \<open>
  The loop that collects the links out of the category, each once, in the order in which they
  are first met. The source's set \<open>seen\<close> and list \<open>related\<close> always hold the same links.
\<close>

fun collect_links :: "string list \<Rightarrow> string list \<Rightarrow> string list" where
  "collect_links related [] = related"
| "collect_links related (rel # rels) =
     (if prefix ''../../'' rel \<and> rel \<notin> set related then collect_links (related @ [rel]) rels
      else collect_links related rels)"

definition related_categories :: "workflow list \<Rightarrow> string list" where
  "related_categories wfs = collect_links [] (concat (map w_related_issues wfs))"

definition render_category_readme :: "string \<Rightarrow> string \<Rightarrow> workflow list \<Rightarrow> string" where
  "render_category_readme category_slug category_title wfs =
     (let rows = text_lines (map (\<lambda>w. ''| [`'' @ w_slug w @ ''`]('' @ w_slug w @ ''/README.md) | '' @ w_summary w @ '' |'') wfs);
          related = related_categories wfs;
          related_block =
            (if related = [] then []
             else text_lines ['''', ''## Related Categories'', '''',
               text_lines (map (\<lambda>r. ''- [`'' @ category_label r @ ''`]('' @ r @ '')'') (sort related)), ''''])
      in text_lines [
        ''# '' @ category_title,
        '''',
        ''**Category:** `'' @ category_slug @ ''`'',
        '''',
        ''This is the index for the `'' @ category_slug @ ''/` category: every workflow'',
        ''(issue directory) below addresses a distinct, real operational problem or'',
        ''DBA use case for this Aurora PostgreSQL toolkit, per the repository's'',
        ''one-parent-directory-per-problem design. Each workflow directory is'',
        ''self-contained -- its own `README.md` (problem description, symptoms,'',
        ''business impact, root causes, investigation strategy, prerequisites,'',
        ''interpretation guide, remediation options, production safety, and'',
        ''escalation criteria) and a `scripts/` directory of numbered, read-only-by'',
        ''-default investigation scripts (see each workflow's `scripts/README.md`'',
        ''for the full script-by-script execution table).'',
        '''',
        ''## Workflows'',
        '''',
        ''| Workflow | Summary |'',
        ''| --- | --- |'',
        rows,
        related_block,
        ''Start with the workflow whose title most closely matches the symptom you are'',
        ''investigating; if uncertain, `database-health/comprehensive-health-check`'',
        ''and `incident-response/production-triage` both provide a broad first pass'',
        ''that surfaces which specific workflow to open next.'',
        ''''])"

section \<open>README of the scripts directory\<close>

definition heavy_or_manual :: "script \<Rightarrow> bool" where
  "heavy_or_manual s \<longleftrightarrow> contains ''resource intensive'' (lower (s_safety s)) \<or> s_kind s = ''md''"

definition DEFAULT_EXPECTED_OUTPUT :: string where
  "DEFAULT_EXPECTED_OUTPUT = text_lines [
     ''Every script returns a result set intended to be read directly in `psql` (or'',
     ''any SQL client). Columns are named for direct interpretation; each script's'',
     ''header contains a `HOW TO INTERPRET RESULTS` section, and the parent'',
     ''`README.md` section 8 ('' @ CHR 0x22 # ''Interpretation Guide'' @ CHR 0x22 # '') gives workflow-level guidance.'']"

definition DEFAULT_SEVERE_INCIDENT_GUIDANCE :: string where
  "DEFAULT_SEVERE_INCIDENT_GUIDANCE =
     ''_All scripts in this workflow are lightweight, read-only, and safe to run '' @
     ''even during a severe incident. Prefer the narrower/most targeted script '' @
     ''first if the system is under extreme load._''"

definition render_scripts_readme :: "workflow \<Rightarrow> string" where
  "render_scripts_readme w =
     (let rows = text_lines (map (\<lambda>s. ''| '' @ s_order s @ '' | `'' @ filename s @ ''` | '' @
            (case s_table_purpose s of None \<Rightarrow> s_purpose s | Some p \<Rightarrow> or_else p (s_purpose s)) @
            '' | '' @ s_safety s @ '' | '' @ s_expected_runtime s @ '' |'') (w_scripts w));
          stop_conditions = bullets (w_escalation_criteria w);
          do_not_run = bullets (map (\<lambda>s. filename s @ '' -- '' @ s_expected_impact s)
            (filter heavy_or_manual (w_scripts w)));
          execution_guidance =
            (if w_execution_guidance w = [] then []
             else text_lines ['''', '''', ''## Platform-specific execution'', '''',
                    strip (w_execution_guidance w), '''']);
          investigation_steps =
            (if w_execution_guidance w \<noteq> [] then ''numbered investigation steps''
             else ''read-only investigation steps'');
          expected_output = or_else (w_expected_output_guidance w) DEFAULT_EXPECTED_OUTPUT;
          severe_incident_guidance = or_else (w_severe_incident_guidance w) DEFAULT_SEVERE_INCIDENT_GUIDANCE
      in text_lines [
        ''# Scripts: '' @ w_title w,
        '''',
        ''Execution order, safety classification, and expected runtime for every script'',
        ''in `'' @ w_category_slug w @ ''/'' @ w_slug w @ ''/scripts/`.'',
        '''',
        ''| Order | Script | Purpose | Safety | Expected Runtime |'',
        ''| ----- | ------ | ------- | ------ | ---------------- |'',
        rows,
        '''',
        ''## Execution Order'',
        '''',
        ''Run scripts strictly in the numeric order shown above. Each script assumes the'',
        ''operator has reviewed the output of the prior step. Do not skip ahead to a'',
        ''remediation template (`.md` files, if present) without completing the'',
        investigation_steps @ '' first.'' @ execution_guidance,
        '''',
        ''## Required Permissions'',
        '''',
        ''Unless a script states otherwise in its `REQUIRED PRIVILEGES` header field, a'',
        ''role with the built-in `pg_monitor` (or `pg_read_all_stats` /'',
        ''`pg_read_all_settings`) attribute, `CONNECT` on the target database, and'',
        ''`USAGE` on `public` is sufficient. Scripts that read `pg_stat_statements`'',
        ''require that extension to be installed in the current database. Scripts that'',
        ''touch DDL, `pg_terminate_backend()`, or write operations state elevated'',
        ''requirements explicitly in their own header.'',
        '''',
        ''## Expected Output'',
        '''',
        expected_output,
        '''',
        ''## When to Stop and Escalate'',
        '''',
        stop_conditions,
        '''',
        ''## Scripts That Should Not Be Run During Severe Incidents'',
        '''',
        (if do_not_run \<noteq> ''_None documented._'' then do_not_run else severe_incident_guidance),
        ''''])"

end
