(* ===== verification/Sha256.thy ===== *)
theory Sha256
  imports Py_Str "HOL-Library.Word"
begin

text \<open>
  \<open>hashlib.sha256(data).hexdigest()\<close>, which the writer uses to recognise its own files: the
  SHA-256 function of FIPS 180-4 on byte strings, on words of 32 bits, and its rendering as
  lowercase hexadecimal digits. The interface \<open>hex_digest\<close> states what the manifest
  relies on: a digest is 64 characters out of \<open>0123456789abcdef\<close>.
\<close>

unbundle bit_operations_syntax

section \<open>The compression function\<close>

type_synonym w32 = "32 word"

text \<open>The round constants and the initial hash value, in decimal.\<close>

definition round_constants :: "w32 list" where
  "round_constants =
    [1116352408, 1899447441, 3049323471, 3921009573, 961987163, 1508970993, 2453635748, 2870763221,
     3624381080, 310598401, 607225278, 1426881987, 1925078388, 2162078206, 2614888103, 3248222580,
     3835390401, 4022224774, 264347078, 604807628, 770255983, 1249150122, 1555081692, 1996064986,
     2554220882, 2821834349, 2952996808, 3210313671, 3336571891, 3584528711, 113926993, 338241895,
     666307205, 773529912, 1294757372, 1396182291, 1695183700, 1986661051, 2177026350, 2456956037,
     2730485921, 2820302411, 3259730800, 3345764771, 3516065817, 3600352804, 4094571909, 275423344,
     430227734, 506948616, 659060556, 883997877, 958139571, 1322822218, 1537002063, 1747873779,
     1955562222, 2024104815, 2227730452, 2361852424, 2428436474, 2756734187, 3204031479, 3329325298]"

datatype hash_state = HS w32 w32 w32 w32 w32 w32 w32 w32

definition initial_hash :: hash_state where
  "initial_hash = HS 1779033703 3144134277 1013904242 2773480762 1359893119 2600822924 528734635 1541459225"

definition rotr :: "nat \<Rightarrow> w32 \<Rightarrow> w32" where
  "rotr n x = (drop_bit n x OR push_bit (32 - n) x)"

text \<open>The message schedule: a sliding window of the last 16 words, oldest first.\<close>

definition next_word :: "w32 list \<Rightarrow> w32" where
  "next_word ws =
     (let w15 = ws ! 1; w2 = ws ! 14;
          s0 = rotr 7 w15 XOR rotr 18 w15 XOR drop_bit 3 w15;
          s1 = rotr 17 w2 XOR rotr 19 w2 XOR drop_bit 10 w2
      in ws ! 0 + s0 + ws ! 9 + s1)"

fun schedule :: "nat \<Rightarrow> w32 list \<Rightarrow> w32 list" where
  "schedule 0 ws = ws"
| "schedule (Suc n) ws = hd ws # schedule n (tl ws @ [next_word ws])"

definition one_round :: "hash_state \<Rightarrow> w32 \<times> w32 \<Rightarrow> hash_state" where
  "one_round s kw =
     (case (s, kw) of (HS a b c d e f g h, (k, w)) \<Rightarrow>
        let S1 = rotr 6 e XOR rotr 11 e XOR rotr 25 e;
            ch = (e AND f) XOR (NOT e AND g);
            t1 = h + S1 + ch + k + w;
            S0 = rotr 2 a XOR rotr 13 a XOR rotr 22 a;
            maj = (a AND b) XOR (a AND c) XOR (b AND c);
            t2 = S0 + maj
        in HS (t1 + t2) a b c (d + t1) e f g)"

fun add_state :: "hash_state \<Rightarrow> hash_state \<Rightarrow> hash_state" where
  "add_state (HS a b c d e f g h) (HS a' b' c' d' e' f' g' h') =
     HS (a + a') (b + b') (c + c') (d + d') (e + e') (f + f') (g + g') (h + h')"

definition compress :: "hash_state \<Rightarrow> w32 list \<Rightarrow> hash_state" where
  "compress s block = add_state s (foldl one_round s (zip round_constants (schedule 48 block)))"

section \<open>Padding and blocks\<close>

definition word_of_bytes :: "string \<Rightarrow> w32" where
  "word_of_bytes bs = foldl (\<lambda>w c. push_bit 8 w OR of_nat (of_char c)) 0 bs"

function chunks :: "nat \<Rightarrow> 'a list \<Rightarrow> 'a list list" where
  "chunks n xs = (if n = 0 \<or> xs = [] then [] else take n xs # chunks n (drop n xs))"
  by pat_completeness auto
termination by (relation "measure (\<lambda>(n, xs). length xs)") auto

declare chunks.simps [simp del]

text \<open>The length in bits as eight bytes, most significant first.\<close>

definition length_bytes :: "nat \<Rightarrow> string" where
  "length_bytes n = map (\<lambda>i. char_of (8 * n div 256 ^ i mod 256)) [7, 6, 5, 4, 3, 2, 1, 0 :: nat]"

definition pad :: "string \<Rightarrow> string" where
  "pad m = m @ [CHR 0x80] @ replicate ((119 - length m mod 64) mod 64) (CHR 0x00) @ length_bytes (length m)"

definition sha256 :: "string \<Rightarrow> hash_state" where
  "sha256 m = foldl compress initial_hash (map (\<lambda>b. map word_of_bytes (chunks 4 b)) (chunks 64 (pad m)))"

section \<open>The digest as text\<close>

definition HEX_DIGITS :: string where
  "HEX_DIGITS = ''0123456789abcdef''"

definition word_hex :: "w32 \<Rightarrow> string" where
  "word_hex w = map (\<lambda>i. HEX_DIGITS ! unat (drop_bit (4 * i) w AND 15)) [7, 6, 5, 4, 3, 2, 1, 0 :: nat]"

fun state_hex :: "hash_state \<Rightarrow> string" where
  "state_hex (HS a b c d e f g h) = concat (map word_hex [a, b, c, d, e, f, g, h])"

definition hexdigest :: "string \<Rightarrow> string" where
  "hexdigest m = state_hex (sha256 m)"

text \<open>The shape the manifest loader checks.\<close>

definition digest_shape :: "string \<Rightarrow> bool" where
  "digest_shape d \<longleftrightarrow> length d = 64 \<and> list_all (\<lambda>c. c \<in> set ''0123456789abcdef'') d"

locale hex_digest =
  fixes digest :: "string \<Rightarrow> string"
  assumes digest_ok: "digest_shape (digest m)"
begin

lemma digest_length [simp]: "length (digest m) = 64"
  using digest_ok[of m] by (simp add: digest_shape_def)

lemma digest_chars: "c \<in> set (digest m) \<Longrightarrow> c \<in> set ''0123456789abcdef''"
  using digest_ok[of m] by (auto simp: digest_shape_def list_all_iff)

lemma digest_not_empty: "digest m \<noteq> []"
  using digest_length[of m] by (metis length_0_conv zero_neq_numeral)

end

lemma word_hex_digit: "HEX_DIGITS ! unat ((w :: w32) AND 15) \<in> set ''0123456789abcdef''"
proof -
  have "unat (w AND 15) < 16"
    using word_and_le1[of w 15] by (simp add: word_le_nat_alt)
  then have "HEX_DIGITS ! unat (w AND 15) \<in> set HEX_DIGITS"
    by (intro nth_mem) (simp add: HEX_DIGITS_def)
  then show ?thesis by (simp add: HEX_DIGITS_def)
qed

lemma word_hex_chars: "set (word_hex w) \<subseteq> set ''0123456789abcdef''"
  unfolding word_hex_def set_map using word_hex_digit by blast

lemma word_hex_length: "length (word_hex w) = 8"
  by (simp add: word_hex_def)

interpretation sha: hex_digest hexdigest
proof
  fix m
  obtain a b c d e f g h where s: "sha256 m = HS a b c d e f g h"
    by (cases "sha256 m")
  have "length (hexdigest m) = 64"
    by (simp add: hexdigest_def s word_hex_length)
  moreover have "set (hexdigest m) \<subseteq> set ''0123456789abcdef''"
    unfolding hexdigest_def s state_hex.simps using word_hex_chars by (simp only: set_concat set_map) blast
  ultimately show "digest_shape (hexdigest m)"
    unfolding digest_shape_def list_all_iff by blast
qed

end
