(* ===== verification/Utf8.thy ===== *)
theory Utf8
  imports Py_Str
begin

text \<open>
  Reading a file as text. The model's strings are UTF-8 bytes, so \<open>decode\<close> is the test whether
  the bytes are well formed, and the identity on them when they are: the ranges of the bytes are
  those of CPython's decoder (no overlong forms, no surrogates, nothing above U+10FFFF). With
  \<open>errors="replace"\<close> a maximal ill-formed run becomes U+FFFD. In text mode both \<open>\r\n\<close> and \<open>\r\<close>
  are read as \<open>\n\<close>.
\<close>

section \<open>Well-formed sequences\<close>

definition utf8_width :: "nat \<Rightarrow> nat" where
  "utf8_width b =
     (if b < 0x80 then 1
      else if 0xC2 \<le> b \<and> b \<le> 0xDF then 2
      else if 0xE0 \<le> b \<and> b \<le> 0xEF then 3
      else if 0xF0 \<le> b \<and> b \<le> 0xF4 then 4
      else 0)"

definition continuation :: "char \<Rightarrow> bool" where
  "continuation c \<longleftrightarrow> in_range 0x80 0xBF c"

text \<open>The range of the second byte, which depends on the first.\<close>

definition second_ok :: "nat \<Rightarrow> char \<Rightarrow> bool" where
  "second_ok b c \<longleftrightarrow>
     (if b = 0xE0 then in_range 0xA0 0xBF c
      else if b = 0xED then in_range 0x80 0x9F c
      else if b = 0xF0 then in_range 0x90 0xBF c
      else if b = 0xF4 then in_range 0x80 0x8F c
      else continuation c)"

text \<open>How many bytes after the first one belong to its sequence, as far as they go.\<close>

definition utf8_run :: "nat \<Rightarrow> string \<Rightarrow> nat" where
  "utf8_run b s =
     (if utf8_width b \<le> 1 then 0
      else (case s of
              [] \<Rightarrow> 0
            | c # cs \<Rightarrow>
                if second_ok b c then Suc (length (takeWhile continuation (take (utf8_width b - 2) cs)))
                else 0))"

definition utf8_complete :: "char \<Rightarrow> string \<Rightarrow> bool" where
  "utf8_complete c s \<longleftrightarrow> Suc (utf8_run (of_char c) s) = utf8_width (of_char c)"

function utf8_valid :: "string \<Rightarrow> bool" where
  "utf8_valid [] \<longleftrightarrow> True"
| "utf8_valid (c # s) \<longleftrightarrow> utf8_complete c s \<and> utf8_valid (drop (utf8_run (of_char c) s) s)"
  by pat_completeness auto
termination by (relation "measure length") auto

definition REPLACEMENT :: string where
  "REPLACEMENT = [CHR 0xEF, CHR 0xBF, CHR 0xBD]"

function utf8_replace :: "string \<Rightarrow> string" where
  "utf8_replace [] = []"
| "utf8_replace (c # s) =
     (let n = utf8_run (of_char c) s in
      (if utf8_complete c s then c # take n s else REPLACEMENT) @ utf8_replace (drop n s))"
  by pat_completeness auto
termination by (relation "measure length") auto

declare utf8_valid.simps(2) [simp del] utf8_replace.simps(2) [simp del]

text \<open>Newlines of a file opened in text mode.\<close>

fun universal_newlines :: "string \<Rightarrow> string" where
  "universal_newlines [] = []"
| "universal_newlines (c # s) =
     (if c = CR then NL # universal_newlines (if prefix [NL] s then tl s else s)
      else c # universal_newlines s)"

text \<open>\<open>read_text(encoding="utf-8")\<close> and \<open>read_text(encoding="utf-8", errors="replace")\<close>.\<close>

definition decode_text :: "string \<Rightarrow> string res" where
  "decode_text bs = (if utf8_valid bs then Inr (universal_newlines bs) else Inl UnicodeDecodeError)"

definition decode_replace :: "string \<Rightarrow> string" where
  "decode_replace bs = universal_newlines (utf8_replace bs)"

section \<open>Facts\<close>

lemma utf8_run_ascii: "of_char c < (0x80 :: nat) \<Longrightarrow> utf8_run (of_char c) s = 0"
  by (simp add: utf8_run_def utf8_width_def)

lemma utf8_valid_ascii: "of_char c < (0x80 :: nat) \<Longrightarrow> utf8_valid (c # s) = utf8_valid s"
  by (simp add: utf8_valid.simps(2) utf8_complete_def utf8_run_ascii utf8_width_def)

definition ascii :: "string \<Rightarrow> bool" where
  "ascii s \<longleftrightarrow> list_all (\<lambda>c. of_char c < (0x80 :: nat)) s"

lemma ascii_simps [simp]:
  "ascii []" "ascii (c # s) \<longleftrightarrow> of_char c < (0x80 :: nat) \<and> ascii s" "ascii (s @ t) \<longleftrightarrow> ascii s \<and> ascii t"
  by (simp_all add: ascii_def)

lemma ascii_valid: "ascii s \<Longrightarrow> utf8_valid s"
  by (induction s) (simp_all add: utf8_valid_ascii)

lemma universal_newlines_id: "CR \<notin> set s \<Longrightarrow> universal_newlines s = s"
  by (induction s) auto

lemma universal_newlines_no_cr: "CR \<notin> set (universal_newlines s)"
  by (induction s rule: universal_newlines.induct) auto

lemma utf8_replace_valid: "utf8_valid s \<Longrightarrow> utf8_replace s = s"
proof (induction s rule: utf8_valid.induct)
  case 1
  then show ?case by simp
next
  case (2 c s)
  then show ?case
    by (simp add: utf8_valid.simps(2) utf8_replace.simps(2) Let_def)
qed

lemma decode_text_ok: "utf8_valid s \<Longrightarrow> CR \<notin> set s \<Longrightarrow> decode_text s = Inr s"
  by (simp add: decode_text_def universal_newlines_id)

lemma decode_replace_ok: "utf8_valid s \<Longrightarrow> decode_replace s = universal_newlines s"
  by (simp add: decode_replace_def utf8_replace_valid)

text \<open>Replacement always yields well-formed text.\<close>

lemma utf8_run_append:
  "utf8_complete c s \<Longrightarrow> utf8_run (of_char c) (take (utf8_run (of_char c) s) s @ t) = utf8_run (of_char c) s"
  for c :: char
proof -
  define b where "b = (of_char c :: nat)"
  assume full: "utf8_complete c s"
  then have w: "Suc (utf8_run b s) = utf8_width b"
    by (simp add: utf8_complete_def b_def)
  show ?thesis
  proof (cases "utf8_width b \<le> 1")
    case True
    then show ?thesis by (simp add: utf8_run_def b_def)
  next
    case False
    with w obtain c1 cs where s: "s = c1 # cs" and ok: "second_ok b c1"
      by (cases s) (auto simp: utf8_run_def split: if_splits)
    define k where "k = utf8_width b - 2"
    have len: "length (takeWhile continuation (take k cs)) = k"
      using w False s ok by (simp add: utf8_run_def k_def)
    then have "k \<le> length cs"
      using length_takeWhile_le[of continuation "take k cs"] by simp
    moreover have "takeWhile continuation (take k cs) = take (length (takeWhile continuation (take k cs))) (take k cs)"
      by (rule takeWhile_eq_take)
    ultimately have tk: "takeWhile continuation (take k cs) = take k cs"
      by (simp only: len take_take min.idem)
    with \<open>k \<le> length cs\<close> have "takeWhile continuation (take k (take k cs @ t)) = take k cs"
      by simp
    then show ?thesis
      using s ok False len \<open>k \<le> length cs\<close> by (simp add: utf8_run_def k_def[symmetric] b_def[symmetric])
  qed
qed

lemma utf8_valid_char: "utf8_complete c s \<Longrightarrow> utf8_valid t \<Longrightarrow> utf8_valid (c # take (utf8_run (of_char c) s) s @ t)"
proof -
  assume full: "utf8_complete c s" and t: "utf8_valid t"
  have "utf8_run (of_char c) s \<le> length s"
    by (auto simp: utf8_run_def split: list.splits intro: order_trans[OF length_takeWhile_le])
  then show ?thesis
    using full t utf8_run_append[OF full, of t]
    by (simp add: utf8_valid.simps(2) utf8_complete_def)
qed

lemma utf8_valid_replacement: "utf8_valid t \<Longrightarrow> utf8_valid (REPLACEMENT @ t)"
proof -
  assume t: "utf8_valid t"
  have cont: "continuation (CHR 0xBF)" "continuation (CHR 0xBD)"
    by (simp_all add: continuation_def in_range_def)
  have width: "utf8_width 239 = 3"
    by (simp add: utf8_width_def)
  have run: "utf8_run 239 [CHR 0xBF, CHR 0xBD] = 2"
    by (simp add: utf8_run_def width cont second_ok_def)
  have "utf8_complete (CHR 0xEF) [CHR 0xBF, CHR 0xBD]"
    by (simp add: utf8_complete_def run width)
  from utf8_valid_char[OF this t] show ?thesis
    by (simp add: REPLACEMENT_def run)
qed

lemma utf8_replace_is_valid: "utf8_valid (utf8_replace s)"
proof (induction s rule: utf8_replace.induct)
  case 1
  then show ?case by simp
next
  case (2 c s)
  then show ?case
    using utf8_valid_char utf8_valid_replacement
    by (simp add: utf8_replace.simps(2) Let_def)
qed

end
