(* ===== verification/File_System.thy ===== *)
theory File_System
  imports Py_Str "HOL-Library.AList"
begin

text \<open>
  The file system the tools act on: a tree of directories, text files and symbolic links, with
  the operations of \<open>os\<close> and \<open>pathlib\<close> that the tools call. A path is the list of its
  components from the file system's root. A symbolic link leads out of the tree: what it
  resolves to is kept with the link, and operations on a path that passes through a linked
  directory fail in the model. Operations that raise return \<open>Inl\<close> and the tree as it is at the
  raise.
\<close>

section \<open>Key-value stores\<close>

text \<open>
  The laws of a store that both the tree of files and a Python \<open>dict\<close> obey, and what a loop of
  updates does under them.
\<close>

locale store =
  fixes get :: "'s \<Rightarrow> 'k \<Rightarrow> 'v option"
    and put :: "'k \<Rightarrow> 'v \<Rightarrow> 's \<Rightarrow> 's"
    and del :: "'k \<Rightarrow> 's \<Rightarrow> 's"
  assumes get_put: "get (put k v s) k' = (if k' = k then Some v else get s k')"
    and get_del: "get (del k s) k' = (if k' = k then None else get s k')"
begin

lemma get_put_same [simp]: "get (put k v s) k = Some v"
  by (simp add: get_put)

lemma get_put_other: "k' \<noteq> k \<Longrightarrow> get (put k v s) k' = get s k'"
  by (simp add: get_put)

lemma get_del_same [simp]: "get (del k s) k = None"
  by (simp add: get_del)

lemma get_del_other: "k' \<noteq> k \<Longrightarrow> get (del k s) k' = get s k'"
  by (simp add: get_del)

lemma get_fold_put: "get (fold (\<lambda>(k, v). put k v) kvs s) k' = (case map_of (rev kvs) k' of None \<Rightarrow> get s k' | Some v \<Rightarrow> Some v)"
  by (induction kvs arbitrary: s) (auto simp: get_put map_add_def split: option.splits)

lemma get_fold_put_other: "k' \<notin> fst ` set kvs \<Longrightarrow> get (fold (\<lambda>(k, v). put k v) kvs s) k' = get s k'"
  by (induction kvs arbitrary: s) (auto simp: get_put)

lemma get_fold_del: "get (fold del ks s) k' = (if k' \<in> set ks then None else get s k')"
  by (induction ks arbitrary: s) (auto simp: get_del)

end

text \<open>A \<open>dict\<close> is an association list in insertion order; an update in place keeps the order.\<close>

type_synonym ('k, 'v) dict = "('k \<times> 'v) list"

definition dict_get :: "('k, 'v) dict \<Rightarrow> 'k \<Rightarrow> 'v option" where
  "dict_get d k = map_of d k"

definition dict_set :: "'k \<Rightarrow> 'v \<Rightarrow> ('k, 'v) dict \<Rightarrow> ('k, 'v) dict" where
  "dict_set k v d = AList.update k v d"

definition dict_pop :: "'k \<Rightarrow> ('k, 'v) dict \<Rightarrow> ('k, 'v) dict" where
  "dict_pop k d = AList.delete k d"

interpretation dict: store dict_get dict_set dict_pop
  by unfold_locales (simp_all add: dict_get_def dict_set_def dict_pop_def update_conv' delete_conv')

text \<open>\<open>d.get(k, {})\<close> for a dictionary of dictionaries.\<close>

definition dict_get_or_empty :: "('k, ('l, 'v) dict) dict \<Rightarrow> 'k \<Rightarrow> ('l, 'v) dict" where
  "dict_get_or_empty d k = (case dict_get d k of None \<Rightarrow> [] | Some x \<Rightarrow> x)"

lemma dict_keys_set: "fst ` set (dict_set k v d) = insert k (fst ` set d)"
  by (simp add: dict_set_def update_conv' flip: dom_map_of_conv_image_fst)

lemma distinct_dict_set: "distinct (map fst d) \<Longrightarrow> distinct (map fst (dict_set k v d))"
  by (simp add: dict_set_def distinct_update)

lemma distinct_dict_pop: "distinct (map fst d) \<Longrightarrow> distinct (map fst (dict_pop k d))"
  by (simp add: dict_pop_def distinct_delete)

lemma dict_keys_pop: "fst ` set (dict_pop k d) = fst ` set d - {k}"
  by (auto simp: dict_pop_def delete_conv' simp flip: dom_map_of_conv_image_fst split: if_splits)

section \<open>Loops that may raise\<close>

text \<open>
  \<open>for x in xs: body(x)\<close> over a mutable state: the loop stops at the first exception and leaves
  the state as it is then.
\<close>

fun for_each :: "('x \<Rightarrow> 's \<Rightarrow> unit res \<times> 's) \<Rightarrow> 'x list \<Rightarrow> 's \<Rightarrow> unit res \<times> 's" where
  "for_each body [] s = (Inr (), s)"
| "for_each body (x # xs) s =
     (case body x s of
        (Inl e, s') \<Rightarrow> (Inl e, s')
      | (Inr _, s') \<Rightarrow> for_each body xs s')"

text \<open>An invariant that each iteration keeps holds after the loop, raised or not.\<close>

locale loop_invariant =
  fixes body :: "'x \<Rightarrow> 's \<Rightarrow> unit res \<times> 's"
    and good :: "'x \<Rightarrow> bool"
    and inv :: "'s \<Rightarrow> bool"
  assumes body_keeps: "inv s \<Longrightarrow> good x \<Longrightarrow> inv (snd (body x s))"
begin

lemma loop_keeps: "inv s \<Longrightarrow> \<forall>x\<in>set xs. good x \<Longrightarrow> inv (snd (for_each body xs s))"
proof (induction xs arbitrary: s)
  case Nil
  then show ?case by simp
next
  case (Cons x xs)
  then have "inv (snd (body x s))"
    by (simp add: body_keeps)
  with Cons show ?case
    by (auto split: prod.splits sum.splits)
qed

text \<open>A loop that does not raise runs its body on every element.\<close>

lemma loop_visits:
  "inv s \<Longrightarrow> \<forall>x\<in>set xs. good x \<Longrightarrow> fst (for_each body xs s) = Inr () \<Longrightarrow> x0 \<in> set xs \<Longrightarrow>
     \<exists>s1 zs. inv s1 \<and> fst (body x0 s1) = Inr () \<and> set zs \<subseteq> set xs \<and>
       for_each body zs (snd (body x0 s1)) = for_each body xs s"
proof (induction xs arbitrary: s)
  case Nil
  then show ?case by simp
next
  case (Cons x xs)
  obtain s2 where step: "body x s = (Inr (), s2)" and rest: "for_each body (x # xs) s = for_each body xs s2"
    using Cons.prems(3) by (auto split: prod.splits sum.splits)
  show ?case
  proof (cases "x0 = x")
    case True
    with Cons.prems(1) step rest show ?thesis by (intro exI[of _ s] exI[of _ xs]) auto
  next
    case False
    have "inv s2"
      using body_keeps[of s x] Cons.prems(1,2) step by simp
    with False Cons.prems rest Cons.IH[of s2] show ?thesis
      by (metis (no_types, lifting) list.set_intros(2) set_ConsD subset_insertI2 list.simps(15))
  qed
qed

end

text \<open>A loop whose every iteration returns when the invariant holds returns.\<close>

locale total_loop = loop_invariant +
  assumes body_returns: "inv s \<Longrightarrow> good x \<Longrightarrow> fst (body x s) = Inr ()"
begin

lemma loop_returns: "inv s \<Longrightarrow> \<forall>x\<in>set xs. good x \<Longrightarrow> fst (for_each body xs s) = Inr ()"
proof (induction xs arbitrary: s)
  case Nil
  then show ?case by simp
next
  case (Cons x xs)
  then have "fst (body x s) = Inr ()" and "inv (snd (body x s))"
    by (simp_all add: body_returns body_keeps)
  with Cons show ?case
    by (auto split: prod.splits sum.splits)
qed

end

lemma for_each_append:
  "for_each body (xs @ ys) s =
     (case for_each body xs s of (Inl e, s') \<Rightarrow> (Inl e, s') | (Inr _, s') \<Rightarrow> for_each body ys s')"
  by (induction xs arbitrary: s) (auto split: prod.splits sum.splits)

lemma for_each_cong:
  "(\<And>x s. x \<in> set xs \<Longrightarrow> f x s = g x s) \<Longrightarrow> for_each f xs s = for_each g xs s"
  by (induction xs arbitrary: s) (auto split: prod.splits sum.splits)

section \<open>Paths\<close>

type_synonym path = "string list"

text \<open>
  \<open>Path(s).parts\<close> without the root: empty components and \<open>.\<close> are dropped, \<open>..\<close> is kept.
\<close>

definition path_parts :: "string \<Rightarrow> path" where
  "path_parts s = filter (\<lambda>x. x \<noteq> [] \<and> x \<noteq> ''.'') (split_on CHR ''/'' s)"

definition is_absolute :: "string \<Rightarrow> bool" where
  "is_absolute s \<longleftrightarrow> prefix ''/'' s"

text \<open>The directory a sequence of components leads to, \<open>..\<close> going up one level.\<close>

fun walk :: "path \<Rightarrow> path \<Rightarrow> path" where
  "walk p [] = p"
| "walk p (x # xs) = (if x = ''..'' then walk (butlast p) xs else walk (p @ [x]) xs)"

text \<open>\<open>os.path.join(p, s)\<close> and \<open>p / s\<close>, as the place the path leads to.\<close>

definition join_path :: "path \<Rightarrow> string \<Rightarrow> path" where
  "join_path p s = (if is_absolute s then walk [] (path_parts s) else walk p (path_parts s))"

text \<open>\<open>Path(os.path.relpath(p, start)).as_posix()\<close>.\<close>

fun relative_parts :: "path \<Rightarrow> path \<Rightarrow> path" where
  "relative_parts (a # start) (b # p) =
     (if a = b then relative_parts start p else replicate (length (a # start)) ''..'' @ b # p)"
| "relative_parts start p = replicate (length start) ''..'' @ p"

definition relative_posix :: "path \<Rightarrow> path \<Rightarrow> string" where
  "relative_posix start p =
     (case relative_parts start p of [] \<Rightarrow> ''.'' | xs \<Rightarrow> join ''/'' xs)"

text \<open>A name that can stand for one component of a path.\<close>

definition clean_name :: "string \<Rightarrow> bool" where
  "clean_name x \<longleftrightarrow> x \<noteq> [] \<and> x \<noteq> ''.'' \<and> x \<noteq> ''..'' \<and> CHR ''/'' \<notin> set x"

lemma clean_name_parts: "clean_name x \<Longrightarrow> path_parts x = [x]"
  by (simp add: clean_name_def path_parts_def split_on_id)

lemma clean_name_not_absolute: "clean_name x \<Longrightarrow> \<not> is_absolute x"
  by (auto simp: clean_name_def is_absolute_def prefix_def)

lemma join_path_clean: "clean_name x \<Longrightarrow> join_path p x = p @ [x]"
  by (simp add: join_path_def clean_name_parts clean_name_not_absolute) (simp add: clean_name_def)

lemma path_parts_join_clean:
  "xs \<noteq> [] \<Longrightarrow> \<forall>x\<in>set xs. clean_name x \<Longrightarrow> path_parts (join ''/'' xs) = xs"
  by (simp add: path_parts_def split_on_join clean_name_def)

lemma relative_parts_append [simp]: "relative_parts p (p @ q) = q"
  by (induction p) simp_all

lemma relative_posix_append: "q \<noteq> [] \<Longrightarrow> relative_posix p (p @ q) = join ''/'' q"
  by (simp add: relative_posix_def split: list.split)

lemma walk_clean: "''..'' \<notin> set q \<Longrightarrow> walk p q = p @ q"
  by (induction q arbitrary: p) auto

section \<open>The tree\<close>

datatype target = Dangling | To_File string | To_Dir

datatype node = File string | Dir | Link target

type_synonym fs = "(path, node) dict"

definition node_at :: "fs \<Rightarrow> path \<Rightarrow> node option" where
  "node_at t p = (if p = [] then Some Dir else dict_get t p)"

definition is_symlink :: "fs \<Rightarrow> path \<Rightarrow> bool" where
  "is_symlink t p \<longleftrightarrow> (case node_at t p of Some (Link _) \<Rightarrow> True | _ \<Rightarrow> False)"

definition exists_at :: "fs \<Rightarrow> path \<Rightarrow> bool" where
  "exists_at t p \<longleftrightarrow> (case node_at t p of None \<Rightarrow> False | Some (Link Dangling) \<Rightarrow> False | _ \<Rightarrow> True)"

definition is_dir :: "fs \<Rightarrow> path \<Rightarrow> bool" where
  "is_dir t p \<longleftrightarrow> node_at t p = Some Dir \<or> node_at t p = Some (Link To_Dir)"

definition read_bytes :: "fs \<Rightarrow> path \<Rightarrow> string option" where
  "read_bytes t p =
     (case node_at t p of Some (File s) \<Rightarrow> Some s | Some (Link (To_File s)) \<Rightarrow> Some s | _ \<Rightarrow> None)"

definition is_file :: "fs \<Rightarrow> path \<Rightarrow> bool" where
  "is_file t p \<longleftrightarrow> read_bytes t p \<noteq> None"

text \<open>\<open>Path.iterdir\<close>: the names in a directory, in the directory's own order.\<close>

definition child_names :: "fs \<Rightarrow> path \<Rightarrow> string list" where
  "child_names t p = map last (filter (\<lambda>q. q \<noteq> [] \<and> butlast q = p) (map fst t))"

definition put_node :: "path \<Rightarrow> node \<Rightarrow> fs \<Rightarrow> fs" where
  "put_node p n t = dict_set p n t"

definition del_node :: "path \<Rightarrow> fs \<Rightarrow> fs" where
  "del_node p t = dict_pop p t"

text \<open>\<open>os.makedirs(p, exist_ok=True)\<close>.\<close>

function makedirs :: "path \<Rightarrow> fs \<Rightarrow> unit res \<times> fs" where
  "makedirs p t =
     (if p = [] then (Inr (), t)
      else
        (case (if exists_at t (butlast p) then (Inr (), t) else makedirs (butlast p) t) of
           (Inl e, t1) \<Rightarrow> (Inl e, t1)
         | (Inr _, t1) \<Rightarrow>
             if is_dir t1 p then (Inr (), t1)
             else if node_at t1 p = None \<and> node_at t1 (butlast p) = Some Dir
             then (Inr (), put_node p Dir t1)
             else (Inl (OSError ''makedirs''), t1)))"
  by pat_completeness auto
termination
  by (relation "measure (\<lambda>(p, t). length p)") auto

declare makedirs.simps [simp del]

text \<open>\<open>open(p, "w")\<close> and one \<open>write\<close> of the whole content; a link is followed.\<close>

definition write_file :: "path \<Rightarrow> string \<Rightarrow> fs \<Rightarrow> unit res \<times> fs" where
  "write_file p content t =
     (case node_at t p of
        Some Dir \<Rightarrow> (Inl (OSError ''is a directory''), t)
      | Some (Link To_Dir) \<Rightarrow> (Inl (OSError ''is a directory''), t)
      | Some (Link _) \<Rightarrow> (Inr (), put_node p (Link (To_File content)) t)
      | Some (File _) \<Rightarrow> (Inr (), put_node p (File content) t)
      | None \<Rightarrow>
          if node_at t (butlast p) = Some Dir then (Inr (), put_node p (File content) t)
          else (Inl (OSError ''no such directory''), t))"

text \<open>\<open>Path.unlink\<close> and \<open>Path.rmdir\<close>.\<close>

definition unlink :: "path \<Rightarrow> fs \<Rightarrow> unit res \<times> fs" where
  "unlink p t =
     (case node_at t p of
        Some (File _) \<Rightarrow> (Inr (), del_node p t)
      | Some (Link _) \<Rightarrow> (Inr (), del_node p t)
      | _ \<Rightarrow> (Inl (OSError ''unlink''), t))"

definition rmdir :: "path \<Rightarrow> fs \<Rightarrow> unit res \<times> fs" where
  "rmdir p t =
     (if p \<noteq> [] \<and> node_at t p = Some Dir \<and> child_names t p = [] then (Inr (), del_node p t)
      else (Inl (OSError ''rmdir''), t))"

section \<open>Lookups after an operation\<close>

interpretation tree: store "dict_get :: fs \<Rightarrow> path \<Rightarrow> node option" put_node del_node
  by unfold_locales (simp_all add: put_node_def del_node_def dict.get_put dict.get_del)

lemma node_at_root [simp]: "node_at t [] = Some Dir"
  by (simp add: node_at_def)

lemma node_at_put [fs_simps]:
  "p \<noteq> [] \<Longrightarrow> node_at (put_node p n t) q = (if q = p then Some n else node_at t q)"
  by (simp add: node_at_def tree.get_put)

lemma node_at_del [fs_simps]:
  "p \<noteq> [] \<Longrightarrow> node_at (del_node p t) q = (if q = p then None else node_at t q)"
  by (simp add: node_at_def tree.get_del)

lemma in_keys_iff: "[] \<notin> fst ` set t \<Longrightarrow> p \<in> fst ` set t \<longleftrightarrow> p \<noteq> [] \<and> node_at t p \<noteq> None"
  by (auto simp: node_at_def dict_get_def domIff dom_map_of_conv_image_fst[symmetric])

text \<open>
  Well-formed trees: the directory entries are distinct, the root is no entry, and every entry
  lies in a directory.
\<close>

definition wf_fs :: "fs \<Rightarrow> bool" where
  "wf_fs t \<longleftrightarrow> distinct (map fst t) \<and>
     list_all (\<lambda>p. p \<noteq> [] \<and> node_at t (butlast p) = Some Dir) (map fst t)"

lemma wf_fs_iff:
  "wf_fs t \<longleftrightarrow> distinct (map fst t) \<and> (\<forall>p\<in>fst ` set t. p \<noteq> [] \<and> node_at t (butlast p) = Some Dir)"
  by (simp add: wf_fs_def list_all_iff)

lemma wf_fs_root_no_key: "wf_fs t \<Longrightarrow> [] \<notin> fst ` set t"
  by (auto simp: wf_fs_iff)

lemma wf_fs_parent: "wf_fs t \<Longrightarrow> node_at t p \<noteq> None \<Longrightarrow> node_at t (butlast p) = Some Dir"
  using in_keys_iff[OF wf_fs_root_no_key, of t p]
  by (cases "p = []") (auto simp: wf_fs_iff)

lemma wf_fs_prefix_dir:
  "wf_fs t \<Longrightarrow> node_at t p \<noteq> None \<Longrightarrow> strict_prefix q p \<Longrightarrow> node_at t q = Some Dir"
proof (induction p rule: rev_induct)
  case Nil
  then show ?case by simp
next
  case (snoc x p)
  then have "node_at t p = Some Dir"
    using wf_fs_parent[of t "p @ [x]"] by simp
  with snoc show ?case
    by (cases "q = p") (auto simp: strict_prefix_def)
qed

lemma child_names_iff:
  assumes "wf_fs t"
  shows "x \<in> set (child_names t p) \<longleftrightarrow> node_at t (p @ [x]) \<noteq> None"
proof -
  have "x \<in> set (child_names t p) \<longleftrightarrow> p @ [x] \<in> fst ` set t"
    by (force simp: child_names_def image_iff snoc_eq_iff_butlast)
  then show ?thesis
    using in_keys_iff[OF wf_fs_root_no_key[OF assms], of "p @ [x]"] by simp
qed

lemma wf_fs_put:
  assumes "wf_fs t" and "p \<noteq> []" and "node_at t (butlast p) = Some Dir"
    and "n = Dir \<or> node_at t p \<noteq> Some Dir"
  shows "wf_fs (put_node p n t)"
proof -
  have "node_at (put_node p n t) (butlast q) = Some Dir" "q \<noteq> []"
    if "q \<in> insert p (fst ` set t)" for q
  proof -
    have "node_at t (butlast q) = Some Dir" and "q \<noteq> []"
      using that assms by (auto simp: wf_fs_iff)
    with assms(2,4) show "node_at (put_node p n t) (butlast q) = Some Dir" "q \<noteq> []"
      by (auto simp: node_at_put)
  qed
  with assms(1) show ?thesis
    unfolding wf_fs_iff put_node_def dict_keys_set by (simp add: distinct_dict_set)
qed

lemma wf_fs_del:
  assumes "wf_fs t" and "p \<noteq> []" and "node_at t p \<noteq> Some Dir \<or> child_names t p = []"
  shows "wf_fs (del_node p t)"
proof -
  have "node_at (del_node p t) (butlast q) = Some Dir" if q: "q \<in> fst ` set t - {p}" for q
  proof -
    have d: "node_at t (butlast q) = Some Dir" "q \<noteq> []" "node_at t q \<noteq> None"
      using q assms(1) in_keys_iff[OF wf_fs_root_no_key[OF assms(1)], of q]
      by (auto simp: wf_fs_iff)
    have "butlast q \<noteq> p"
    proof
      assume "butlast q = p"
      then have "p @ [last q] = q"
        using d(2) by auto
      then have "last q \<in> set (child_names t p)"
        using child_names_iff[OF assms(1)] d(3) by simp
      with assms(3) d(1) \<open>butlast q = p\<close> show False by auto
    qed
    with assms(2) d show ?thesis
      by (simp add: node_at_del)
  qed
  with assms(1) show ?thesis
    unfolding wf_fs_iff del_node_def dict_keys_pop by (auto simp: distinct_dict_pop)
qed

section \<open>What the operations change\<close>

lemma write_file_other: "q \<noteq> p \<Longrightarrow> node_at (snd (write_file p c t)) q = node_at t q"
  by (cases "p = []")
    (auto simp: write_file_def node_at_put split: option.split node.split target.split)

lemma write_file_wf: "wf_fs t \<Longrightarrow> wf_fs (snd (write_file p c t))"
  by (cases "p = []")
    (auto simp: write_file_def split: option.split node.split target.split
      intro!: wf_fs_put dest: wf_fs_parent[of t p])

lemma write_file_ok:
  "fst (write_file p c t) = Inr () \<Longrightarrow> read_bytes (snd (write_file p c t)) p = Some c"
  by (cases "p = []")
    (auto simp: write_file_def read_bytes_def node_at_put
      split: option.splits node.splits target.splits if_splits)

lemma write_file_fresh_or_file:
  "node_at t p = None \<and> node_at t (butlast p) = Some Dir \<or> (\<exists>s. node_at t p = Some (File s)) \<Longrightarrow>
     write_file p c t = (Inr (), put_node p (File c) t)"
  by (auto simp: write_file_def)

text \<open>\<open>makedirs\<close> only turns missing prefixes of its path into directories.\<close>

lemma makedirs_changes:
  "node_at (snd (makedirs p t)) q = node_at t q \<or>
     node_at t q = None \<and> node_at (snd (makedirs p t)) q = Some Dir \<and> prefix q p"
proof (induction p t rule: makedirs.induct)
  case (1 p t)
  define r where "r = (if exists_at t (butlast p) then (Inr (), t) else makedirs (butlast p) t)"
  have *: "node_at (snd r) q = node_at t q \<or>
      node_at t q = None \<and> node_at (snd r) q = Some Dir \<and> prefix q p" if "p \<noteq> []"
    using 1 that by (auto simp: r_def dest: prefix_of_butlast)
  show ?case
  proof (cases "p = []")
    case True
    then show ?thesis by (simp add: makedirs.simps)
  next
    case False
    obtain e t1 where r: "r = (e, t1)" by (cases r)
    have "snd (makedirs p t) = t1 \<or> snd (makedirs p t) = put_node p Dir t1 \<and> node_at t1 p = None"
      using False r unfolding makedirs.simps[of p t] r_def[symmetric] by (auto split: sum.split)
    with False *[OF False] r show ?thesis
      by (cases "q = p") (auto simp: node_at_put)
  qed
qed

lemma makedirs_wf: "wf_fs t \<Longrightarrow> wf_fs (snd (makedirs p t))"
proof (induction p t rule: makedirs.induct)
  case (1 p t)
  define r where "r = (if exists_at t (butlast p) then (Inr (), t) else makedirs (butlast p) t)"
  obtain e t1 where r: "r = (e, t1)" by (cases r)
  show ?case
  proof (cases "p = []")
    case True
    with 1 show ?thesis by (simp add: makedirs.simps)
  next
    case False
    with 1 have "wf_fs (snd r)"
      by (auto simp: r_def)
    with False r show ?thesis
      unfolding makedirs.simps[of p t] r_def[symmetric] by (auto split: sum.split intro!: wf_fs_put)
  qed
qed

lemma makedirs_ok: "fst (makedirs p t) = Inr () \<Longrightarrow> is_dir (snd (makedirs p t)) p"
proof -
  assume ok: "fst (makedirs p t) = Inr ()"
  define r where "r = (if exists_at t (butlast p) then (Inr (), t) else makedirs (butlast p) t)"
  obtain e t1 where r: "r = (e, t1)" by (cases r)
  show ?thesis
  proof (cases "p = []")
    case True
    then show ?thesis by (simp add: is_dir_def)
  next
    case False
    with ok r show ?thesis
      unfolding makedirs.simps[of p t] r_def[symmetric]
      by (auto split: sum.splits if_splits simp: is_dir_def node_at_put)
  qed
qed

text \<open>A path whose prefixes are directories or free can be created.\<close>

definition open_path :: "fs \<Rightarrow> path \<Rightarrow> bool" where
  "open_path t p \<longleftrightarrow> (\<forall>q. prefix q p \<longrightarrow> node_at t q = None \<or> node_at t q = Some Dir)"

lemma open_path_butlast: "open_path t p \<Longrightarrow> open_path t (butlast p)"
  by (auto simp: open_path_def dest: prefix_of_butlast)

lemma makedirs_open:
  "open_path t p \<Longrightarrow> fst (makedirs p t) = Inr () \<and> node_at (snd (makedirs p t)) p = Some Dir"
proof (induction p t rule: makedirs.induct)
  case (1 p t)
  define r where "r = (if exists_at t (butlast p) then (Inr (), t) else makedirs (butlast p) t)"
  obtain e t1 where r: "r = (e, t1)" by (cases r)
  show ?case
  proof (cases "p = []")
    case True
    then show ?thesis by (simp add: makedirs.simps)
  next
    case False
    have "node_at t (butlast p) = None \<or> node_at t (butlast p) = Some Dir"
      using "1.prems" by (auto simp: open_path_def prefixeq_butlast)
    with 1 False open_path_butlast have "e = Inr ()" "node_at t1 (butlast p) = Some Dir"
      using r by (auto simp: r_def exists_at_def split: if_splits)
    moreover have "node_at t1 p = None \<or> node_at t1 p = Some Dir"
      using r "1.prems" makedirs_changes[of "butlast p" t p]
      by (auto simp: r_def open_path_def split: if_splits)
    ultimately show ?thesis
      using False r unfolding makedirs.simps[of p t] r_def[symmetric]
      by (auto simp: is_dir_def node_at_put)
  qed
qed

section \<open>Steps in sequence\<close>

text \<open>The second step runs on the state the first one leaves, unless the first one raises.\<close>

definition and_then :: "('s \<Rightarrow> unit res \<times> 's) \<Rightarrow> ('s \<Rightarrow> 'a res \<times> 's) \<Rightarrow> 's \<Rightarrow> 'a res \<times> 's" where
  "and_then f g s = (case f s of (Inl e, s') \<Rightarrow> (Inl e, s') | (Inr _, s') \<Rightarrow> g s')"

lemma and_then_keeps:
  "P s \<Longrightarrow> (\<And>s. P s \<Longrightarrow> P (snd (f s))) \<Longrightarrow> (\<And>s. P s \<Longrightarrow> P (snd (g s))) \<Longrightarrow>
     P (snd (and_then f g s))"
  by (simp add: and_then_def split: prod.split sum.split) (metis snd_conv)

section \<open>Writing a file with its directories\<close>

text \<open>\<open>write_text\<close> of the writer: the parent directories, then the file.\<close>

definition write_text :: "path \<Rightarrow> string \<Rightarrow> fs \<Rightarrow> unit res \<times> fs" where
  "write_text p content = and_then (makedirs (butlast p)) (write_file p content)"

lemma write_text_changes:
  "q \<noteq> p \<Longrightarrow> node_at (snd (write_text p c t)) q = node_at t q \<or>
     node_at t q = None \<and> node_at (snd (write_text p c t)) q = Some Dir \<and> prefix q (butlast p)"
  using makedirs_changes[of "butlast p" t q]
  by (auto simp: write_text_def and_then_def write_file_other split: prod.split sum.split)

lemma write_text_wf: "wf_fs t \<Longrightarrow> wf_fs (snd (write_text p c t))"
  unfolding write_text_def by (erule and_then_keeps) (simp_all add: makedirs_wf write_file_wf)

lemma write_text_ok: "fst (write_text p c t) = Inr () \<Longrightarrow> read_bytes (snd (write_text p c t)) p = Some c"
  by (auto simp: write_text_def and_then_def intro: write_file_ok split: prod.splits sum.splits)

lemma write_text_reads_other:
  "q \<noteq> p \<Longrightarrow> read_bytes (snd (write_text p c t)) q = read_bytes t q"
  using write_text_changes[of q p c t] by (auto simp: read_bytes_def)

text \<open>Writing a file below open directories succeeds.\<close>

lemma not_prefix_butlast: "p \<noteq> [] \<Longrightarrow> \<not> prefix p (butlast p)"
  using prefix_length_le[of p "butlast p"] by (cases p) auto

lemma write_text_open:
  assumes "open_path t (butlast p)" and "p \<noteq> []"
    and "node_at t p = None \<or> (\<exists>s. node_at t p = Some (File s))"
  shows "fst (write_text p c t) = Inr () \<and> node_at (snd (write_text p c t)) p = Some (File c)"
proof -
  obtain e t1 where m: "makedirs (butlast p) t = (e, t1)"
    by (cases "makedirs (butlast p) t")
  have "e = Inr ()" and d: "node_at t1 (butlast p) = Some Dir"
    using makedirs_open[OF assms(1)] m by simp_all
  have "node_at t1 p = node_at t p"
    using makedirs_changes[of "butlast p" t p] m not_prefix_butlast[OF assms(2)] by simp
  with assms(3) d have "write_file p c t1 = (Inr (), put_node p (File c) t1)"
    by (intro write_file_fresh_or_file) auto
  with m \<open>e = Inr ()\<close> assms(2) show ?thesis
    by (simp add: write_text_def and_then_def node_at_put)
qed

text \<open>Writing what is there already changes nothing.\<close>

lemma dict_set_same: "dict_get d k = Some v \<Longrightarrow> dict_set k v d = d"
  by (induction d) (auto simp: dict_get_def dict_set_def split: if_splits)

lemma makedirs_same: "wf_fs t \<Longrightarrow> node_at t p = Some Dir \<Longrightarrow> makedirs p t = (Inr (), t)"
  using wf_fs_parent[of t p] by (subst makedirs.simps) (simp add: exists_at_def is_dir_def)

lemma write_text_same:
  assumes "wf_fs t" and "read_bytes t p = Some c"
  shows "write_text p c t = (Inr (), t)"
proof -
  have n: "node_at t p = Some (File c) \<or> node_at t p = Some (Link (To_File c))"
    using assms(2) by (auto simp: read_bytes_def split: option.splits node.splits target.splits)
  then have p: "p \<noteq> []" by auto
  with n have "write_file p c t = (Inr (), t)"
    by (auto simp: write_file_def put_node_def node_at_def dict_set_same)
  then show ?thesis
    using n assms(1) makedirs_same[of t "butlast p"] wf_fs_parent[of t p]
    by (auto simp: write_text_def and_then_def)
qed

end
