(* ===== verification/Json.thy ===== *)
theory Json
  imports Utf8 File_System
begin

text \<open>
  \<open>json.loads\<close> and the one shape of \<open>json.dumps(..., indent=2, sort_keys=True)\<close> the writer
  uses: nested dictionaries with string keys. Strings are escaped to ASCII on output and decoded
  to UTF-8 bytes on input. A number with a fraction or an exponent is kept as the exact decimal
  \<open>m * 10 ^ e\<close>, which is enough to say how the rounded float compares with an integer. The parser
  has fuel; \<open>parse_fuel\<close> shows that twice the length of the text is always enough.
\<close>

section \<open>Code points\<close>

definition byte :: "nat \<Rightarrow> char" where
  "byte n = char_of n"

definition utf8_encode :: "nat \<Rightarrow> string" where
  "utf8_encode p =
     (if p < 0x80 then [byte p]
      else if p < 0x800 then [byte (0xC0 + p div 64), byte (0x80 + p mod 64)]
      else if p < 0x10000 then
        [byte (0xE0 + p div 4096), byte (0x80 + p div 64 mod 64), byte (0x80 + p mod 64)]
      else
        [byte (0xF0 + p div 262144), byte (0x80 + p div 4096 mod 64),
         byte (0x80 + p div 64 mod 64), byte (0x80 + p mod 64)])"

text \<open>The code point of a sequence, from its first byte and the following ones.\<close>

definition utf8_point :: "nat \<Rightarrow> string \<Rightarrow> nat" where
  "utf8_point b s = foldl (\<lambda>a c. a * 64 + of_char c mod 64) (b mod 2 ^ (7 - utf8_width b)) s"

section \<open>Values\<close>

datatype json =
    JNull
  | JBool bool
  | JInt int
  | JFloat int int
  | JConst string
  | JStr string
  | JArr "json list"
  | JObj "(string \<times> json) list"

text \<open>
  \<open>v == 1\<close> in Python: \<open>True\<close> and \<open>1.0\<close> are equal to \<open>1\<close> too. A decimal becomes the float \<open>1.0\<close>
  exactly when it lies between the two neighbouring midpoints, which round to even.
\<close>

definition rounds_to_one :: "int \<Rightarrow> int \<Rightarrow> bool" where
  "rounds_to_one m e =
     (let up = 10 ^ nat e; down = 10 ^ nat (- e) in
      (2 ^ 54 - 1) * down \<le> 2 ^ 54 * (m * up) \<and> 2 ^ 53 * (m * up) \<le> (2 ^ 53 + 1) * down)"

fun equals_one :: "json \<Rightarrow> bool" where
  "equals_one (JInt i) = (i = 1)"
| "equals_one (JBool b) = b"
| "equals_one (JFloat m e) = rounds_to_one m e"
| "equals_one _ = False"

section \<open>Reading strings\<close>

definition expect :: "char \<Rightarrow> string \<Rightarrow> string option" where
  "expect c s = (case s of [] \<Rightarrow> None | d # r \<Rightarrow> if d = c then Some r else None)"

definition is_json_space :: "char \<Rightarrow> bool" where
  "is_json_space c \<longleftrightarrow> c = CHR '' '' \<or> c = CHR 0x09 \<or> c = NL \<or> c = CR"

definition skip_space :: "string \<Rightarrow> string" where
  "skip_space s = dropWhile is_json_space s"

definition hex_value :: "char \<Rightarrow> nat option" where
  "hex_value c =
     (if is_digit c then Some (of_char c - 48)
      else if in_range 97 102 c then Some (of_char c - 87)
      else if in_range 65 70 c then Some (of_char c - 55)
      else None)"

fun hex4 :: "string \<Rightarrow> (nat \<times> string) option" where
  "hex4 (a # b # c # d # r) =
     (case (hex_value a, hex_value b, hex_value c, hex_value d) of
        (Some w, Some x, Some y, Some z) \<Rightarrow> Some (w * 4096 + x * 256 + y * 16 + z, r)
      | _ \<Rightarrow> None)"
| "hex4 _ = None"

text \<open>What follows \<open>\u\<close>: four hexadecimal digits, and the second half of a surrogate pair.\<close>

definition unicode_escape_at :: "string \<Rightarrow> (string \<times> string) option" where
  "unicode_escape_at s =
     (case hex4 s of
        None \<Rightarrow> None
      | Some (u, r) \<Rightarrow>
          if 0xD800 \<le> u \<and> u \<le> 0xDBFF \<and> prefix [CHR 0x5C, CHR ''u''] r
          then (case hex4 (drop 2 r) of
                  None \<Rightarrow> None
                | Some (v, r') \<Rightarrow>
                    if 0xDC00 \<le> v \<and> v \<le> 0xDFFF
                    then Some (utf8_encode (0x10000 + (u - 0xD800) * 1024 + (v - 0xDC00)), r')
                    else Some (utf8_encode u, r))
          else Some (utf8_encode u, r))"

definition simple_escape :: "char \<Rightarrow> char option" where
  "simple_escape c =
     (if c = CHR 0x22 \<or> c = CHR 0x5C \<or> c = CHR ''/'' then Some c
      else if c = CHR ''b'' then Some (CHR 0x08)
      else if c = CHR ''f'' then Some (CHR 0x0C)
      else if c = CHR ''n'' then Some NL
      else if c = CHR ''r'' then Some CR
      else if c = CHR ''t'' then Some (CHR 0x09)
      else None)"

text \<open>One character of a string, or the escape sequence that stands for one.\<close>

definition string_item :: "string \<Rightarrow> (string \<times> string) option" where
  "string_item s =
     (case s of
        [] \<Rightarrow> None
      | c # r \<Rightarrow>
          if c = CHR 0x5C
          then (case r of
                  [] \<Rightarrow> None
                | d # r' \<Rightarrow>
                    if d = CHR ''u'' then unicode_escape_at r'
                    else (case simple_escape d of None \<Rightarrow> None | Some x \<Rightarrow> Some ([x], r')))
          else if of_char c < (32 :: nat) then None
          else Some ([c], r))"

lemma hex4_length: "hex4 s = Some (u, r) \<Longrightarrow> length r < length s"
  by (cases s rule: hex4.cases) (auto split: option.splits)

lemma unicode_escape_length: "unicode_escape_at s = Some (x, r) \<Longrightarrow> length r < length s"
  by (auto simp: unicode_escape_at_def dest!: hex4_length split: option.splits if_splits)

lemma string_item_length: "string_item s = Some (x, r) \<Longrightarrow> length r < length s"
  by (auto simp: string_item_def dest: unicode_escape_length split: list.splits if_splits option.splits)

text \<open>The rest of a string after its opening quote.\<close>

function parse_chars :: "string \<Rightarrow> (string \<times> string) option" where
  "parse_chars s =
     (if prefix [CHR 0x22] s then Some ([], tl s)
      else
        (case string_item s of
           None \<Rightarrow> None
         | Some (x, r) \<Rightarrow>
             (case parse_chars r of None \<Rightarrow> None | Some (y, q) \<Rightarrow> Some (x @ y, q))))"
  by pat_completeness auto
termination by (relation "measure length") (auto dest: string_item_length)

declare parse_chars.simps [simp del]

lemma parse_chars_length: "parse_chars s = Some (x, r) \<Longrightarrow> length r < length s"
proof (induction s arbitrary: x r rule: parse_chars.induct)
  case (1 s)
  show ?case
  proof (cases "prefix [CHR 0x22] s")
    case True
    with "1.prems" show ?thesis
      by (subst (asm) parse_chars.simps) (auto simp: prefix_def)
  next
    case False
    with 1 show ?thesis
      by (subst (asm) (2) parse_chars.simps) (force dest: string_item_length split: option.splits)
  qed
qed

section \<open>Reading values\<close>

text \<open>A number: its sign, the digits of its integer part, and what follows them.\<close>

definition int_digits :: "string \<Rightarrow> string" where
  "int_digits s = (if prefix ''0'' s then ''0'' else takeWhile is_digit s)"

definition fraction_digits :: "string \<Rightarrow> string" where
  "fraction_digits s = (if prefix ''.'' s then takeWhile is_digit (tl s) else [])"

text \<open>The exponent's sign and digits, and how many characters it takes.\<close>

definition exponent :: "string \<Rightarrow> (int \<times> nat) option" where
  "exponent s =
     (if prefix ''e'' s \<or> prefix ''E'' s
      then
        (let signed = prefix ''+'' (tl s) \<or> prefix ''-'' (tl s);
             ds = takeWhile is_digit (drop (if signed then 2 else 1) s);
             n = int (int_of_digits ds)
         in if ds = [] then None
            else Some (if prefix ''-'' (tl s) then - n else n, (if signed then 2 else 1) + length ds))
      else None)"

text \<open>\<open>int\<close> refuses more than 4300 digits.\<close>

definition parse_number :: "string \<Rightarrow> (json \<times> string) option" where
  "parse_number s =
     (let neg = prefix ''-'' s; s0 = (if neg then tl s else s); ds = int_digits s0;
          s1 = drop (length ds) s0; fs = fraction_digits s1;
          s2 = (if fs = [] then s1 else drop (Suc (length fs)) s1);
          sign = (if neg then -1 else 1 :: int)
      in if ds = [] then None
         else
           (case exponent s2 of
              Some (e, k) \<Rightarrow> Some (JFloat (sign * int (int_of_digits (ds @ fs))) (e - int (length fs)), drop k s2)
            | None \<Rightarrow>
                if fs \<noteq> [] then Some (JFloat (sign * int (int_of_digits (ds @ fs))) (- int (length fs)), s2)
                else if length ds > 4300 then None
                else Some (JInt (sign * int (int_of_digits ds)), s2)))"

fun parse_word :: "(string \<times> json) list \<Rightarrow> string \<Rightarrow> (json \<times> string) option" where
  "parse_word [] s = parse_number s"
| "parse_word ((w, v) # ws) s = (if prefix w s then Some (v, drop (length w) s) else parse_word ws s)"

definition JSON_WORDS :: "(string \<times> json) list" where
  "JSON_WORDS =
     [(''null'', JNull), (''true'', JBool True), (''false'', JBool False), (''NaN'', JConst ''NaN''),
      (''Infinity'', JConst ''Infinity''), (''-Infinity'', JConst ''-Infinity'')]"

text \<open>A dictionary built from pairs: a repeated key keeps its place and takes the last value.\<close>

definition dict_of :: "('k \<times> 'v) list \<Rightarrow> ('k, 'v) dict" where
  "dict_of kvs = fold (\<lambda>(k, v). dict_set k v) kvs []"

fun parse_value :: "nat \<Rightarrow> string \<Rightarrow> (json \<times> string) option"
  and parse_members :: "nat \<Rightarrow> string \<Rightarrow> ((string \<times> json) list \<times> string) option"
  and parse_elements :: "nat \<Rightarrow> string \<Rightarrow> (json list \<times> string) option" where
  "parse_value 0 s = None"
| "parse_value (Suc n) s =
     (case expect (CHR 0x22) s of
        Some r \<Rightarrow> (case parse_chars r of None \<Rightarrow> None | Some (x, q) \<Rightarrow> Some (JStr x, q))
      | None \<Rightarrow>
     (case expect (CHR 0x7B) s of
        Some r \<Rightarrow>
          (case expect (CHR 0x7D) (skip_space r) of
             Some q \<Rightarrow> Some (JObj [], q)
           | None \<Rightarrow>
               (case parse_members n (skip_space r) of
                  None \<Rightarrow> None
                | Some (kvs, q) \<Rightarrow> Some (JObj (dict_of kvs), q)))
      | None \<Rightarrow>
     (case expect (CHR 0x5B) s of
        Some r \<Rightarrow>
          (case expect (CHR 0x5D) (skip_space r) of
             Some q \<Rightarrow> Some (JArr [], q)
           | None \<Rightarrow>
               (case parse_elements n (skip_space r) of
                  None \<Rightarrow> None
                | Some (vs, q) \<Rightarrow> Some (JArr vs, q)))
      | None \<Rightarrow> parse_word JSON_WORDS s)))"
| "parse_members 0 s = None"
| "parse_members (Suc n) s =
     (case expect (CHR 0x22) s of
        None \<Rightarrow> None
      | Some r \<Rightarrow>
     (case parse_chars r of
        None \<Rightarrow> None
      | Some (k, r1) \<Rightarrow>
     (case expect (CHR '':'') (skip_space r1) of
        None \<Rightarrow> None
      | Some r2 \<Rightarrow>
     (case parse_value n (skip_space r2) of
        None \<Rightarrow> None
      | Some (v, r3) \<Rightarrow>
     (case expect (CHR '','') (skip_space r3) of
        Some r4 \<Rightarrow>
          (case parse_members n (skip_space r4) of
             None \<Rightarrow> None
           | Some (kvs, q) \<Rightarrow> Some ((k, v) # kvs, q))
      | None \<Rightarrow>
          (case expect (CHR 0x7D) (skip_space r3) of
             None \<Rightarrow> None
           | Some q \<Rightarrow> Some ([(k, v)], q)))))))"
| "parse_elements 0 s = None"
| "parse_elements (Suc n) s =
     (case parse_value n s of
        None \<Rightarrow> None
      | Some (v, r) \<Rightarrow>
     (case expect (CHR '','') (skip_space r) of
        Some r1 \<Rightarrow>
          (case parse_elements n (skip_space r1) of
             None \<Rightarrow> None
           | Some (vs, q) \<Rightarrow> Some (v # vs, q))
      | None \<Rightarrow>
          (case expect (CHR 0x5D) (skip_space r) of
             None \<Rightarrow> None
           | Some q \<Rightarrow> Some ([v], q))))"

text \<open>\<open>json.loads(s)\<close>; \<open>JSONDecodeError\<close> is a \<open>ValueError\<close>.\<close>

definition loads :: "string \<Rightarrow> json res" where
  "loads s =
     (case parse_value (Suc (2 * length s)) (skip_space s) of
        None \<Rightarrow> Inl (ValueError ''invalid JSON'')
      | Some (v, r) \<Rightarrow> if skip_space r = [] then Inr v else Inl (ValueError ''extra data''))"

section \<open>Fuel\<close>

lemma expect_Some: "expect c s = Some r \<longleftrightarrow> s = c # r"
  by (auto simp: expect_def split: list.splits)

lemma skip_space_length: "length (skip_space s) \<le> length s"
  by (simp add: skip_space_def length_dropWhile_le)

lemma int_digits_drop: "int_digits s \<noteq> [] \<Longrightarrow> length (drop (length (int_digits s)) s) < length s"
  by (cases s) (auto simp: int_digits_def split: if_splits)

lemma parse_number_length: "parse_number s = Some (v, r) \<Longrightarrow> length r < length s"
proof -
  assume a: "parse_number s = Some (v, r)"
  define s0 where "s0 = (if prefix ''-'' s then tl s else s)"
  define s1 where "s1 = drop (length (int_digits s0)) s0"
  define s2 where "s2 = (if fraction_digits s1 = [] then s1 else drop (Suc (length (fraction_digits s1))) s1)"
  have ne: "int_digits s0 \<noteq> []"
    using a by (auto simp: parse_number_def s0_def Let_def split: if_splits)
  then have "length s1 < length s0"
    using int_digits_drop by (simp add: s1_def)
  moreover have "length s0 \<le> length s" "length s2 \<le> length s1"
    by (auto simp: s0_def s2_def)
  moreover have "length r \<le> length s2"
    using a ne unfolding parse_number_def Let_def s0_def[symmetric] s1_def[symmetric] s2_def[symmetric]
    by (auto split: option.splits if_splits)
  ultimately show ?thesis by simp
qed

lemma parse_word_length:
  "parse_word ws s = Some (v, r) \<Longrightarrow> \<forall>w\<in>fst ` set ws. w \<noteq> [] \<Longrightarrow> length r < length s"
  by (induction ws s rule: parse_word.induct) (auto simp: prefix_def split: if_splits dest: parse_number_length)

lemma expect_length: "expect c s = Some r \<Longrightarrow> length r < length s"
  by (simp add: expect_Some)

lemma less_skip_space: "k < length (skip_space s) \<Longrightarrow> k < length s"
  using skip_space_length[of s] by simp

lemma JSON_WORDS_length: "parse_word JSON_WORDS s = Some (v, r) \<Longrightarrow> length r < length s"
  by (erule parse_word_length) (auto simp: JSON_WORDS_def)

lemmas json_lengths = expect_length parse_chars_length JSON_WORDS_length

lemma parse_lengths:
  "(parse_value n s = Some (v, r) \<longrightarrow> length r < length s) \<and>
   (parse_members n s = Some (kvs, r) \<longrightarrow> length r < length s) \<and>
   (parse_elements n s = Some (vs, r) \<longrightarrow> length r < length s)"
proof (induction n arbitrary: s v r kvs vs)
  case 0
  then show ?case by simp
next
  case (Suc n)
  have val: "length r < length s" if "parse_value n s = Some (v, r)" for s v r
    using Suc that by blast
  have members: "length r < length s" if "parse_members n s = Some (kvs, r)" for s kvs r
    using Suc that by blast
  have elements: "length r < length s" if "parse_elements n s = Some (vs, r)" for s vs r
    using Suc that by blast
  show ?case
    by (intro conjI impI; clarsimp split: option.split_asm)
      (auto dest!: json_lengths val members elements less_skip_space)
qed

lemmas parse_value_length = parse_lengths[THEN conjunct1, rule_format]
  and parse_members_length = parse_lengths[THEN conjunct2, THEN conjunct1, rule_format]
  and parse_elements_length = parse_lengths[THEN conjunct2, THEN conjunct2, rule_format]

text \<open>Enough fuel is twice the length of the text: more of it changes nothing.\<close>

lemma parse_fuel:
  "(2 * length s < n \<longrightarrow> 2 * length s < m \<longrightarrow> parse_value n s = parse_value m s) \<and>
   (2 * length s < n \<longrightarrow> 2 * length s < m \<longrightarrow> parse_members n s = parse_members m s) \<and>
   (2 * length s + 1 < n \<longrightarrow> 2 * length s + 1 < m \<longrightarrow> parse_elements n s = parse_elements m s)"
proof (induction n arbitrary: s m)
  case 0
  then show ?case by simp
next
  case (Suc n)
  have val: "parse_value n t = parse_value m t" if "2 * length t < n" "2 * length t < m" for t m
    using Suc that by blast
  have members: "parse_members n t = parse_members m t" if "2 * length t < n" "2 * length t < m" for t m
    using Suc that by blast
  have elements: "parse_elements n t = parse_elements m t" if "2 * length t + 1 < n" "2 * length t + 1 < m" for t m
    using Suc that by blast
  show ?case
  proof (intro conjI impI)
    assume "2 * length s < Suc n" "2 * length s < m"
    then obtain m' where m: "m = Suc m'" "2 * length s \<le> n" "2 * length s \<le> m'"
      by (cases m) auto
    then have "parse_members n (skip_space r) = parse_members m' (skip_space r)"
      "parse_elements n (skip_space r) = parse_elements m' (skip_space r)" if "expect c s = Some r" for c r
      using members[of "skip_space r" m'] elements[of "skip_space r" m'] expect_length[OF that]
        skip_space_length[of r] by simp_all
    then show "parse_value (Suc n) s = parse_value m s"
      by (auto simp: m(1) split: option.split)
  next
    assume "2 * length s < Suc n" "2 * length s < m"
    then obtain m' where m: "m = Suc m'" "2 * length s \<le> n" "2 * length s \<le> m'"
      by (cases m) auto
    have shorter: "parse_value n t = parse_value m' t" "parse_members n t = parse_members m' t" if "length t < length s" for t
      using val[of t m'] members[of t m'] that m by simp_all
    have "parse_value n (skip_space r2) = parse_value m' (skip_space r2)"
      if "expect q s = Some r" "parse_chars r = Some (k, r1)" "expect c (skip_space r1) = Some r2" for q c r k r1 r2
      using that by (intro shorter) (auto dest!: json_lengths less_skip_space intro: order_le_less_trans[OF skip_space_length])
    moreover have "parse_members n (skip_space r4) = parse_members m' (skip_space r4)"
      if "expect q s = Some r" "parse_chars r = Some (k, r1)" "expect c (skip_space r1) = Some r2"
        "parse_value m' (skip_space r2) = Some (v, r3)" "expect d (skip_space r3) = Some r4" for q c r k r1 r2 v r3 d r4
      using that
      by (intro shorter) (auto dest!: json_lengths parse_value_length less_skip_space intro: order_le_less_trans[OF skip_space_length])
    ultimately show "parse_members (Suc n) s = parse_members m s"
      by (auto simp: m(1) split: option.split)
  next
    assume "2 * length s + 1 < Suc n" "2 * length s + 1 < m"
    then obtain m' where m: "m = Suc m'" "2 * length s < n" "2 * length s < m'"
      by (cases m) auto
    have "parse_elements n (skip_space r1) = parse_elements m' (skip_space r1)"
      if "parse_value m' s = Some (v, r)" "expect c (skip_space r) = Some r1" for v r c r1
    proof -
      have "length r1 < length s" using that by (auto dest!: json_lengths parse_value_length less_skip_space)
      then show ?thesis
        using elements[of "skip_space r1" m'] skip_space_length[of r1] m by simp
    qed
    then show "parse_elements (Suc n) s = parse_elements m s"
      using val[of s m'] m(2,3) by (auto simp: m(1) split: option.split)
  qed
qed

section \<open>Printing\<close>

definition hex_char :: "nat \<Rightarrow> char" where
  "hex_char n = ''0123456789abcdef'' ! n"

definition hex4_text :: "nat \<Rightarrow> string" where
  "hex4_text p = [CHR 0x5C, CHR ''u'', hex_char (p div 4096 mod 16), hex_char (p div 256 mod 16),
     hex_char (p div 16 mod 16), hex_char (p mod 16)]"

text \<open>One code point outside printable ASCII, above U+FFFF as a surrogate pair.\<close>

definition unicode_escape :: "nat \<Rightarrow> string" where
  "unicode_escape p =
     (if p < 0x10000 then hex4_text p
      else hex4_text (0xD800 + (p - 0x10000) div 1024) @ hex4_text (0xDC00 + (p - 0x10000) mod 1024))"

definition ascii_escape :: "char \<Rightarrow> string" where
  "ascii_escape c =
     (if c = CHR 0x22 \<or> c = CHR 0x5C then [CHR 0x5C, c]
      else if c = NL then [CHR 0x5C, CHR ''n'']
      else if c = CR then [CHR 0x5C, CHR ''r'']
      else if c = CHR 0x09 then [CHR 0x5C, CHR ''t'']
      else if c = CHR 0x0C then [CHR 0x5C, CHR ''f'']
      else if c = CHR 0x08 then [CHR 0x5C, CHR ''b'']
      else if in_range 32 126 c then [c]
      else unicode_escape (of_char c))"

function escape_chars :: "string \<Rightarrow> string" where
  "escape_chars [] = []"
| "escape_chars (c # s) =
     (if of_char c < (0x80 :: nat) then ascii_escape c @ escape_chars s
      else
        (let n = utf8_run (of_char c) s in
         unicode_escape (utf8_point (of_char c) (take n s)) @ escape_chars (drop n s)))"
  by pat_completeness auto
termination by (relation "measure length") auto

definition json_string :: "string \<Rightarrow> string" where
  "json_string s = [CHR 0x22] @ escape_chars s @ [CHR 0x22]"

definition indent :: "nat \<Rightarrow> string" where
  "indent level = replicate (2 * level) (CHR '' '')"

definition sort_items :: "(string \<times> 'v) list \<Rightarrow> (string \<times> 'v) list" where
  "sort_items kvs = sort_key fst kvs"

text \<open>
  \<open>json.dumps(d, indent=2, sort_keys=True)\<close> at a nesting level, with the printer of the
  values: \<open>{}\<close>, or one \<open>"key": value\<close> per line in the order of the keys.
\<close>

definition dump_dict :: "nat \<Rightarrow> ('v \<Rightarrow> string) \<Rightarrow> (string \<times> 'v) list \<Rightarrow> string" where
  "dump_dict level dump kvs =
     (if kvs = [] then ''{}''
      else
        [CHR 0x7B, NL] @ indent (Suc level)
          @ join ('','' @ [NL] @ indent (Suc level))
              (map (\<lambda>(k, v). json_string k @ '': '' @ dump v) (sort_items kvs))
          @ [NL] @ indent level @ [CHR 0x7D])"

section \<open>Printed values are read back\<close>

text \<open>
  \<open>printed x v\<close>: the text \<open>x\<close> in front of a comma, a newline or the end is read as the value
  \<open>v\<close>, with enough fuel.
\<close>

definition delimiter :: "string \<Rightarrow> bool" where
  "delimiter s \<longleftrightarrow> s = [] \<or> hd s = CHR '','' \<or> hd s = NL"

definition printed :: "string \<Rightarrow> json \<Rightarrow> bool" where
  "printed x v \<longleftrightarrow> (\<forall>r. delimiter r \<longrightarrow> (\<exists>N. \<forall>n\<ge>N. parse_value n (x @ r) = Some (v, r)))
     \<and> skip_space x = x \<and> x \<noteq> []"

lemma hex_value_table: "list_all (\<lambda>n. hex_value (hex_char n) = Some n) [0..<16]"
  by (simp add: hex_value_def hex_char_def upt_rec py_simps)

lemma hex_value_char: "n < 16 \<Longrightarrow> hex_value (hex_char n) = Some n"
  using hex_value_table by (simp add: list_all_iff)

lemma hex_digits_value:
  "(p :: nat) < 65536 \<Longrightarrow>
     p div 4096 mod 16 * 4096 + p div 256 mod 16 * 256 + p div 16 mod 16 * 16 + p mod 16 = p"
proof -
  assume "p < 65536"
  then have "p div 4096 mod 16 = p div 4096"
    by simp
  moreover have "p div 256 = p div 4096 * 16 + p div 256 mod 16"
    using div_mult_mod_eq[of "p div 256" 16] by (simp add: div_mult2_eq[symmetric])
  moreover have "p div 16 = p div 256 * 16 + p div 16 mod 16"
    using div_mult_mod_eq[of "p div 16" 16] by (simp add: div_mult2_eq[symmetric])
  moreover have "p = p div 16 * 16 + p mod 16"
    by simp
  ultimately show ?thesis by linarith
qed

lemma hex4_hex4_text: "p < 65536 \<Longrightarrow> hex4 (drop 2 (hex4_text p) @ r) = Some (p, r)"
  using hex_digits_value[of p] by (simp add: hex4_text_def hex_value_char)

lemma string_item_hex4: "p < 0x80 \<Longrightarrow> string_item (hex4_text p @ r) = Some ([char_of p], r)"
  using hex4_hex4_text[of p r]
  by (simp add: hex4_text_def string_item_def unicode_escape_at_def utf8_encode_def byte_def)

lemma ascii_escape_plain:
  assumes "in_range 32 126 c" and "c \<noteq> CHR 0x22" and "c \<noteq> CHR 0x5C"
  shows "ascii_escape c = [c]"
proof -
  have "c \<noteq> NL" "c \<noteq> CR" "c \<noteq> CHR 0x09" "c \<noteq> CHR 0x0C" "c \<noteq> CHR 0x08"
    using assms(1) by (auto simp: in_range_def)
  with assms show ?thesis by (simp add: ascii_escape_def)
qed

lemma string_item_ascii_escape:
  assumes "of_char c < (0x80 :: nat)"
  shows "string_item (ascii_escape c @ r) = Some ([c], r) \<and> hd (ascii_escape c @ r) \<noteq> CHR 0x22"
proof -
  consider "c = CHR 0x22 \<or> c = CHR 0x5C" | "c = NL" | "c = CR" | "c = CHR 0x09" | "c = CHR 0x0C" | "c = CHR 0x08"
    | "in_range 32 126 c" "c \<noteq> CHR 0x22" "c \<noteq> CHR 0x5C"
    | "ascii_escape c = unicode_escape (of_char c)"
    by (metis ascii_escape_def)
  then show ?thesis
  proof cases
    case 7
    then have "\<not> of_char c < (32 :: nat)" and "ascii_escape c = [c]"
      by (simp_all add: in_range_def ascii_escape_plain)
    with 7 show ?thesis
      by (simp add: string_item_def)
  next
    case 8
    with assms show ?thesis
      using string_item_hex4[of "of_char c" r] by (simp add: unicode_escape_def) (simp add: hex4_text_def)
  qed (auto simp: ascii_escape_def string_item_def simple_escape_def)
qed

lemma parse_escape_chars: "ascii s \<Longrightarrow> parse_chars (escape_chars s @ CHR 0x22 # r) = Some (s, r)"
proof (induction s)
  case Nil
  then show ?case by (simp add: parse_chars.simps)
next
  case (Cons c s)
  then have c: "of_char c < (0x80 :: nat)" by simp
  let ?rest = "escape_chars s @ CHR 0x22 # r"
  have "\<not> prefix [CHR 0x22] (ascii_escape c @ ?rest)"
    using string_item_ascii_escape[OF c, of ?rest] by (auto simp: prefix_def)
  then show ?case
    using Cons string_item_ascii_escape[OF c, of ?rest]
    by (simp add: parse_chars.simps[of "ascii_escape c @ ?rest"])
qed

lemma printed_string: "ascii s \<Longrightarrow> printed (json_string s) (JStr s)"
proof -
  assume s: "ascii s"
  have "parse_value n (json_string s @ r) = Some (JStr s, r)" if "1 \<le> n" for n r
    using that parse_escape_chars[OF s, of r] by (cases n) (simp_all add: json_string_def expect_def)
  then show ?thesis
    by (auto simp: printed_def json_string_def skip_space_def is_json_space_def)
qed

lemma printed_one: "printed ''1'' (JInt 1)"
proof -
  have "parse_value n (''1'' @ r) = Some (JInt 1, r)" if "1 \<le> n" "delimiter r" for n r
    using that
    by (cases n; cases r)
      (auto simp: delimiter_def expect_def JSON_WORDS_def parse_number_def int_digits_def fraction_digits_def
        exponent_def is_digit_def in_range_def int_of_digits_def)
  then show ?thesis
    by (auto simp: printed_def skip_space_def is_json_space_def)
qed

text \<open>A printed dictionary is read as the pairs in the order of the keys.\<close>

lemma skip_space_append: "skip_space x = x \<Longrightarrow> x \<noteq> [] \<Longrightarrow> skip_space (x @ r) = x @ r"
  by (cases x) (auto simp: skip_space_def dropWhile_eq_Cons_conv split: if_splits)

lemma skip_space_indent: "skip_space (NL # indent k @ r) = skip_space r"
  by (simp add: skip_space_def is_json_space_def indent_def dropWhile_all)

lemma skip_space_space: "skip_space (CHR '' '' # r) = skip_space r"
  by (simp add: skip_space_def is_json_space_def)

lemma skip_space_other: "\<not> is_json_space c \<Longrightarrow> skip_space (c # r) = c # r"
  by (simp add: skip_space_def)

definition reads :: "(nat \<Rightarrow> 'a option) \<Rightarrow> 'a \<Rightarrow> bool" where
  "reads f x \<longleftrightarrow> (\<exists>N. \<forall>n\<ge>N. f n = Some x)"

lemma readsI: "(\<And>n. k \<le> n \<Longrightarrow> f n = Some x) \<Longrightarrow> reads f x"
  by (auto simp: reads_def)

lemma reads_Suc: "reads f x \<Longrightarrow> (\<And>n. f n = Some x \<Longrightarrow> g (Suc n) = Some y) \<Longrightarrow> reads g y"
  unfolding reads_def by (metis Suc_le_D Suc_le_mono)

lemma reads_Suc2:
  "reads f x \<Longrightarrow> reads f' x' \<Longrightarrow> (\<And>n. f n = Some x \<Longrightarrow> f' n = Some x' \<Longrightarrow> g (Suc n) = Some y) \<Longrightarrow> reads g y"
proof -
  assume "reads f x" "reads f' x'" and step: "\<And>n. f n = Some x \<Longrightarrow> f' n = Some x' \<Longrightarrow> g (Suc n) = Some y"
  then obtain N N' where "\<forall>n\<ge>N. f n = Some x" "\<forall>n\<ge>N'. f' n = Some x'"
    by (auto simp: reads_def)
  then show ?thesis
    using step by (intro readsI[of "Suc (max N N')"]) (metis Suc_le_D Suc_le_mono max.bounded_iff)
qed

lemma printed_reads: "printed x v \<Longrightarrow> delimiter r \<Longrightarrow> reads (\<lambda>n. parse_value n (x @ r)) (v, r)"
  by (simp add: printed_def reads_def)

definition dump_item :: "('v \<Rightarrow> string) \<Rightarrow> string \<times> 'v \<Rightarrow> string" where
  "dump_item dump kv = json_string (fst kv) @ '': '' @ dump (snd kv)"

lemma parse_member_head:
  assumes "ascii k" and "printed x v" and "parse_value n (x @ r) = Some (v, r)"
  shows "parse_members (Suc n) (json_string k @ '': '' @ x @ r) =
     (case expect (CHR '','') (skip_space r) of
        Some r4 \<Rightarrow>
          (case parse_members n (skip_space r4) of
             None \<Rightarrow> None
           | Some (kvs, q) \<Rightarrow> Some ((k, v) # kvs, q))
      | None \<Rightarrow>
          (case expect (CHR 0x7D) (skip_space r) of
             None \<Rightarrow> None
           | Some q \<Rightarrow> Some ([(k, v)], q)))"
  using assms parse_escape_chars[OF assms(1), of "CHR '':'' # CHR '' '' # x @ r"]
  by (simp add: json_string_def expect_def skip_space_space skip_space_other is_json_space_def
      skip_space_append printed_def)

lemma parse_dump_items:
  assumes "kvs \<noteq> []" and "\<forall>(k, v)\<in>set kvs. ascii k \<and> printed (dump v) (g v)"
  shows "reads (\<lambda>n. parse_members n
      (join ('','' @ [NL] @ indent l) (map (dump_item dump) kvs) @ NL # indent l' @ CHR 0x7D # r))
    (map (\<lambda>(k, v). (k, g v)) kvs, r)"
  using assms
proof (induction kvs)
  case Nil
  then show ?case by simp
next
  case (Cons kv kvs)
  obtain k v where kv: "kv = (k, v)" by (cases kv)
  with Cons.prems have k: "ascii k" and v: "printed (dump v) (g v)" by auto
  show ?case
  proof (cases "kvs = []")
    case True
    let ?r = "NL # indent l' @ CHR 0x7D # r"
    have "reads (\<lambda>n. parse_value n (dump v @ ?r)) (g v, ?r)"
      using v by (rule printed_reads) (simp add: delimiter_def)
    then show ?thesis
    proof (rule reads_Suc)
      fix n
      assume "parse_value n (dump v @ ?r) = Some (g v, ?r)"
      from parse_member_head[OF k v this]
      show "parse_members (Suc n) (join ('','' @ [NL] @ indent l) (map (dump_item dump) (kv # kvs)) @ ?r) =
          Some (map (\<lambda>(k, v). (k, g v)) (kv # kvs), r)"
        by (simp del: parse_members.simps add: True kv dump_item_def skip_space_indent skip_space_other is_json_space_def expect_def)
    qed
  next
    case False
    let ?items = "join ('','' @ [NL] @ indent l) (map (dump_item dump) kvs) @ NL # indent l' @ CHR 0x7D # r"
    let ?r = "CHR '','' # NL # indent l @ ?items"
    have start: "skip_space ?items = ?items"
      using False by (cases kvs rule: remdups_adj.cases)
        (auto simp: dump_item_def json_string_def skip_space_other is_json_space_def split: prod.split)
    have "reads (\<lambda>n. parse_value n (dump v @ ?r)) (g v, ?r)"
      using v by (rule printed_reads) (simp add: delimiter_def)
    moreover have "reads (\<lambda>n. parse_members n ?items) (map (\<lambda>(k, v). (k, g v)) kvs, r)"
      using Cons.IH False Cons.prems by simp
    ultimately show ?thesis
    proof (rule reads_Suc2)
      fix n
      assume n: "parse_value n (dump v @ ?r) = Some (g v, ?r)"
        "parse_members n ?items = Some (map (\<lambda>(k, v). (k, g v)) kvs, r)"
      have join: "join ('','' @ [NL] @ indent l) (map (dump_item dump) (kv # kvs)) @ NL # indent l' @ CHR 0x7D # r
          = json_string k @ '': '' @ dump v @ ?r"
        using False by (cases kvs) (simp_all add: kv dump_item_def)
      show "parse_members (Suc n)
          (join ('','' @ [NL] @ indent l) (map (dump_item dump) (kv # kvs)) @ NL # indent l' @ CHR 0x7D # r) =
          Some (map (\<lambda>(k, v). (k, g v)) (kv # kvs), r)"
        unfolding join parse_member_head[OF k v n(1)]
        using n(2) start
        by (simp del: parse_members.simps add: kv skip_space_indent skip_space_other is_json_space_def expect_def)
    qed
  qed
qed

lemma dict_set_fresh: "k \<notin> fst ` set d \<Longrightarrow> dict_set k v d = d @ [(k, v)]"
  by (induction d) (auto simp: dict_set_def)

lemma fold_dict_set_distinct:
  "distinct (map fst d @ map fst kvs) \<Longrightarrow> fold (\<lambda>(k, v). dict_set k v) kvs d = d @ kvs"
proof (induction kvs arbitrary: d)
  case Nil
  then show ?case by simp
next
  case (Cons kv kvs)
  obtain k v where kv: "kv = (k, v)" by (cases kv)
  with Cons.prems have "k \<notin> fst ` set d" by auto
  then have "fold (\<lambda>(k, v). dict_set k v) (kv # kvs) d = fold (\<lambda>(k, v). dict_set k v) kvs (d @ [(k, v)])"
    by (simp add: kv dict_set_fresh)
  also have "\<dots> = (d @ [(k, v)]) @ kvs"
    using Cons.prems by (intro Cons.IH) (auto simp: kv)
  finally show ?case by (simp add: kv)
qed

lemma dict_of_distinct: "distinct (map fst kvs) \<Longrightarrow> dict_of kvs = kvs"
  using fold_dict_set_distinct[of "[]" kvs] by (simp add: dict_of_def)

lemma sort_items_set [simp]: "set (sort_items kvs) = set kvs"
  by (simp add: sort_items_def)

lemma sort_items_keys: "distinct (map fst kvs) \<Longrightarrow> distinct (map fst (sort_items kvs))"
  by (simp add: sort_items_def distinct_map)

lemma sort_items_Nil [simp]: "sort_items kvs = [] \<longleftrightarrow> kvs = []"
  by (metis sort_items_set set_empty)

lemma printed_dict:
  assumes "distinct (map fst kvs)" and "\<forall>(k, v)\<in>set kvs. ascii k \<and> printed (dump v) (g v)"
  shows "printed (dump_dict l dump kvs) (JObj (map (\<lambda>(k, v). (k, g v)) (sort_items kvs)))"
proof (cases "kvs = []")
  case True
  have "parse_value n (''{}'' @ r) = Some (JObj [], r)" if "1 \<le> n" for n r
    using that by (cases n) (simp_all add: expect_def skip_space_other is_json_space_def)
  then show ?thesis
    using True by (auto simp: printed_def dump_dict_def skip_space_other is_json_space_def sort_items_def)
next
  case False
  define items where
    "items = join ('','' @ [NL] @ indent (Suc l)) (map (dump_item dump) (sort_items kvs))"
  have dumped: "dump_dict l dump kvs = CHR 0x7B # NL # indent (Suc l) @ items @ NL # indent l @ [CHR 0x7D]"
    using False by (simp add: dump_dict_def items_def dump_item_def[abs_def] case_prod_unfold)
  have start: "skip_space (items @ q) = items @ q \<and> expect (CHR 0x7D) (items @ q) = None" for q
    using False unfolding items_def
    by (cases "sort_items kvs" rule: remdups_adj.cases)
      (auto simp: dump_item_def json_string_def skip_space_other is_json_space_def expect_def)
  have keys: "dict_of (map (\<lambda>(k, v). (k, g v)) (sort_items kvs)) = map (\<lambda>(k, v). (k, g v)) (sort_items kvs)"
    using sort_items_keys[OF assms(1)] by (intro dict_of_distinct) (simp add: comp_def case_prod_unfold)
  have "reads (\<lambda>n. parse_value n (dump_dict l dump kvs @ r)) (JObj (map (\<lambda>(k, v). (k, g v)) (sort_items kvs)), r)" for r
  proof (rule reads_Suc)
    show "reads (\<lambda>n. parse_members n (items @ NL # indent l @ CHR 0x7D # r))
        (map (\<lambda>(k, v). (k, g v)) (sort_items kvs), r)"
      unfolding items_def using False assms(2) by (intro parse_dump_items) simp_all
    fix n
    assume "parse_members n (items @ NL # indent l @ CHR 0x7D # r) = Some (map (\<lambda>(k, v). (k, g v)) (sort_items kvs), r)"
    then show "parse_value (Suc n) (dump_dict l dump kvs @ r) = Some (JObj (map (\<lambda>(k, v). (k, g v)) (sort_items kvs)), r)"
      using start by (simp add: dumped expect_def skip_space_indent keys)
  qed
  then show ?thesis
    by (auto simp: printed_def reads_def dumped skip_space_other is_json_space_def)
qed

text \<open>A printed value with a newline after it is what \<open>loads\<close> returns.\<close>

lemma loads_printed:
  assumes "printed x v"
  shows "loads (x @ [NL]) = Inr v"
proof -
  from assms have skip: "skip_space (x @ [NL]) = x @ [NL]"
    by (simp add: printed_def skip_space_append)
  obtain N where N: "\<forall>n\<ge>N. parse_value n (x @ [NL]) = Some (v, [NL])"
    using printed_reads[OF assms, of "[NL]"] by (auto simp: reads_def delimiter_def)
  have "parse_value (Suc (2 * length (x @ [NL]))) (x @ [NL]) = parse_value (max N (Suc (2 * length (x @ [NL])))) (x @ [NL])"
    using parse_fuel[of "x @ [NL]" "Suc (2 * length (x @ [NL]))" "max N (Suc (2 * length (x @ [NL])))"] by simp
  then have "parse_value (Suc (2 * length (x @ [NL]))) (x @ [NL]) = Some (v, [NL])"
    using N by simp
  then show ?thesis
    by (simp only: loads_def skip) (simp add: skip_space_def is_json_space_def)
qed

end
