(* ===== verification/Writer.thy ===== *)
theory Writer
  imports Render Sha256 Json
begin

text \<open>
  Model of \<^verbatim>\<open>tools/repo_builder/writer.py\<close>: writing one category of workflows into the
  tree, the manifest of the files the generator owns, and the removal of the files it owned and
  no longer generates. Every function takes the tree and returns it as the code leaves it, at a
  raise too.
\<close>

definition MANIFEST_FILENAME :: string where
  "MANIFEST_FILENAME = ''.repo-builder-manifest.json''"

definition content_hash :: "string \<Rightarrow> string" where
  "content_hash content = hexdigest content"

definition relative_path :: "path \<Rightarrow> path \<Rightarrow> string" where
  "relative_path root p = relative_posix root p"

section \<open>Writing a category\<close>

text \<open>The tree and the dictionary \<open>written\<close> that \<open>write_workflows\<close> builds up.\<close>

record write_state =
  ws_fs :: fs
  ws_written :: "(string, string) dict"

definition write_recorded :: "path \<Rightarrow> path \<Rightarrow> string \<Rightarrow> write_state \<Rightarrow> unit res \<times> write_state" where
  "write_recorded root p content st =
     (case write_text p content (ws_fs st) of
        (Inl e, t) \<Rightarrow> (Inl e, st\<lparr>ws_fs := t\<rparr>)
      | (Inr _, t) \<Rightarrow>
          (Inr (), st\<lparr>ws_fs := t,
                     ws_written := dict_set (relative_path root p) (content_hash content) (ws_written st)\<rparr>))"

definition workflow_base :: "path \<Rightarrow> workflow \<Rightarrow> path" where
  "workflow_base root w = join_path (join_path root (w_category_slug w)) (w_slug w)"

definition script_path :: "path \<Rightarrow> workflow \<Rightarrow> script \<Rightarrow> path" where
  "script_path root w s = join_path (join_path (workflow_base root w) ''scripts'') (filename s)"

definition script_content :: "workflow \<Rightarrow> script \<Rightarrow> string" where
  "script_content w s = (if s_kind s = ''sql'' then render_sql_file w s else render_md_runbook w s)"

definition write_script :: "path \<Rightarrow> workflow \<Rightarrow> script \<Rightarrow> write_state \<Rightarrow> unit res \<times> write_state" where
  "write_script root w s st =
     (if \<not> s_generator_managed s
      then (if \<not> is_file (ws_fs st) (script_path root w s)
            then (Inl (FileNotFoundError ''generator-aware external script is missing''), st)
            else (Inr (), st))
      else write_recorded root (script_path root w s) (script_content w s) st)"

definition write_workflow :: "path \<Rightarrow> workflow \<Rightarrow> write_state \<Rightarrow> unit res \<times> write_state" where
  "write_workflow root w =
     and_then (write_recorded root (join_path (workflow_base root w) ''README.md'') (render_workflow_readme w))
       (and_then
         (write_recorded root (join_path (join_path (workflow_base root w) ''scripts'') ''README.md'')
           (render_scripts_readme w))
         (for_each (write_script root w) (w_scripts w)))"

definition write_category_readme :: "path \<Rightarrow> workflow list \<Rightarrow> write_state \<Rightarrow> unit res \<times> write_state" where
  "write_category_readme root ws st =
     (case ws of
        [] \<Rightarrow> (Inr (), st)
      | w # _ \<Rightarrow>
          write_recorded root (join_path (join_path root (w_category_slug w)) ''README.md'')
            (render_category_readme (w_category_slug w) (w_category_title w) ws) st)"

definition write_workflows :: "path \<Rightarrow> workflow list \<Rightarrow> fs \<Rightarrow> (string, string) dict res \<times> fs" where
  "write_workflows root ws t =
     (case and_then (for_each (write_workflow root) ws) (write_category_readme root ws)
             \<lparr>ws_fs = t, ws_written = []\<rparr> of
        (Inl e, st) \<Rightarrow> (Inl e, ws_fs st)
      | (Inr _, st) \<Rightarrow> (Inr (ws_written st), ws_fs st))"

section \<open>The manifest\<close>

type_synonym manifest = "(string, (string, string) dict) dict"

definition manifest_path :: "path \<Rightarrow> path" where
  "manifest_path root = root @ [MANIFEST_FILENAME]"

text \<open>The conditions under which a path and its digest are refused.\<close>

definition unsafe_entry :: "string \<Rightarrow> string \<Rightarrow> string \<Rightarrow> bool" where
  "unsafe_entry category relative digest \<longleftrightarrow>
     length digest \<noteq> 64 \<or>
     list_ex (\<lambda>c. c \<notin> set ''0123456789abcdef'') digest \<or>
     is_absolute relative \<or>
     ''..'' \<in> set (path_parts relative) \<or>
     path_parts relative = [] \<or>
     hd (path_parts relative) \<noteq> category"

fun check_files :: "string \<Rightarrow> (string \<times> json) list \<Rightarrow> (string, string) dict res" where
  "check_files category [] = Inr []"
| "check_files category ((relative, JStr digest) # files) =
     (if unsafe_entry category relative digest
      then Inl (ValueError ''unsafe generator manifest path'')
      else
        (case check_files category files of
           Inl e \<Rightarrow> Inl e
         | Inr checked \<Rightarrow> Inr ((relative, digest) # checked)))"
| "check_files category ((relative, _) # files) = Inl (ValueError ''unsafe generator manifest path'')"

fun check_categories :: "(string \<times> json) list \<Rightarrow> manifest res" where
  "check_categories [] = Inr []"
| "check_categories ((category, JObj files) # rest) =
     (case check_files category files of
        Inl e \<Rightarrow> Inl e
      | Inr checked \<Rightarrow>
          (case check_categories rest of
             Inl e \<Rightarrow> Inl e
           | Inr cats \<Rightarrow> Inr ((category, checked) # cats)))"
| "check_categories ((category, _) # rest) =
     Inl (ValueError ''invalid generator manifest entry for category'')"

definition check_manifest :: "json \<Rightarrow> manifest res" where
  "check_manifest data =
     (case data of
        JObj entries \<Rightarrow>
          (case (dict_get entries ''version'', dict_get entries ''categories'') of
             (Some v, Some (JObj cats)) \<Rightarrow>
               if equals_one v then check_categories cats
               else Inl (ValueError ''unsupported or invalid generator manifest'')
           | _ \<Rightarrow> Inl (ValueError ''unsupported or invalid generator manifest''))
      | _ \<Rightarrow> Inl (AttributeError ''get''))"

text \<open>\<open>path.read_text(encoding="utf-8")\<close>.\<close>

definition read_text :: "fs \<Rightarrow> path \<Rightarrow> string res" where
  "read_text t p =
     (case read_bytes t p of
        None \<Rightarrow> Inl (OSError ''read_text'')
      | Some bs \<Rightarrow> decode_text bs)"

definition load_manifest :: "fs \<Rightarrow> path \<Rightarrow> manifest res" where
  "load_manifest t root =
     (if \<not> exists_at t (manifest_path root) then Inr []
      else
        (case read_text t (manifest_path root) of
           Inl e \<Rightarrow> Inl e
         | Inr txt \<Rightarrow> (case loads txt of Inl e \<Rightarrow> Inl e | Inr data \<Rightarrow> check_manifest data)))"

definition dump_manifest :: "manifest \<Rightarrow> string" where
  "dump_manifest cats =
     dump_dict 0 (\<lambda>x. x)
       [(''version'', ''1''), (''categories'', dump_dict 1 (dump_dict 2 json_string) cats)]"

section \<open>Removing stale files\<close>

definition file_hash :: "fs \<Rightarrow> path \<Rightarrow> string res" where
  "file_hash t p = (case read_text t p of Inl e \<Rightarrow> Inl e | Inr txt \<Rightarrow> Inr (content_hash txt))"

text \<open>The loop of \<open>_remove_empty_parents\<close>, from the parent directory of the removed file upwards.\<close>

function remove_empty_parents :: "path \<Rightarrow> path \<Rightarrow> fs \<Rightarrow> fs" where
  "remove_empty_parents parent root t =
     (if parent = root then t
      else
        (case rmdir parent t of
           (Inl _, _) \<Rightarrow> t
         | (Inr _, t') \<Rightarrow> remove_empty_parents (butlast parent) root t'))"
  by pat_completeness auto
termination
  by (relation "measure (\<lambda>(parent, root, t). length parent)") (auto simp: rmdir_def split: if_splits)

declare remove_empty_parents.simps [simp del]

record sync_state =
  sy_fs :: fs
  sy_removed :: "string list"

definition remove_stale :: "path \<Rightarrow> (string, string) dict \<Rightarrow> string \<Rightarrow> sync_state \<Rightarrow> unit res \<times> sync_state" where
  "remove_stale root old_files relative st =
     (let p = join_path root relative; t = sy_fs st;
          refuse = RuntimeError ''refusing to remove stale generated path with modified content'' in
      if \<not> exists_at t p \<and> \<not> is_symlink t p then (Inr (), st)
      else if is_symlink t p \<or> is_dir t p then (Inl refuse, st)
      else
        (case file_hash t p of
           Inl e \<Rightarrow> (Inl e, st)
         | Inr h \<Rightarrow>
             if dict_get old_files relative \<noteq> Some h then (Inl refuse, st)
             else
               (case unlink p t of
                  (Inl e, t') \<Rightarrow> (Inl e, st\<lparr>sy_fs := t'\<rparr>)
                | (Inr _, t') \<Rightarrow>
                    (Inr (), \<lparr>sy_fs = remove_empty_parents (butlast p) root t',
                             sy_removed = sy_removed st @ [relative]\<rparr>))))"

definition stale_files :: "manifest \<Rightarrow> manifest \<Rightarrow> string \<Rightarrow> string list" where
  "stale_files previous generated category =
     sorted_set (filter (\<lambda>r. r \<notin> fst ` set (dict_get_or_empty generated category))
       (map fst (dict_get_or_empty previous category)))"

definition sync_category :: "path \<Rightarrow> manifest \<Rightarrow> manifest \<Rightarrow> string \<Rightarrow> sync_state \<Rightarrow> unit res \<times> sync_state" where
  "sync_category root previous generated category =
     for_each (remove_stale root (dict_get_or_empty previous category))
       (stale_files previous generated category)"

definition categories_to_sync :: "manifest \<Rightarrow> manifest \<Rightarrow> string list \<Rightarrow> bool \<Rightarrow> string list" where
  "categories_to_sync previous generated selected full_build =
     sorted_set (if full_build then map fst previous @ map fst generated else selected)"

definition next_categories :: "manifest \<Rightarrow> manifest \<Rightarrow> string list \<Rightarrow> bool \<Rightarrow> manifest" where
  "next_categories previous generated cats full_build =
     fold (\<lambda>category d.
             let current_files = dict_get_or_empty generated category in
             if current_files \<noteq> [] then dict_set category (sort_items current_files) d
             else dict_pop category d)
       cats (if full_build then [] else previous)"

definition sync_managed_artifacts ::
  "path \<Rightarrow> manifest \<Rightarrow> string list \<Rightarrow> bool \<Rightarrow> fs \<Rightarrow> string list res \<times> fs"
where
  "sync_managed_artifacts root generated selected full_build t =
     (case load_manifest t root of
        Inl e \<Rightarrow> (Inl e, t)
      | Inr previous \<Rightarrow>
          (let cats = categories_to_sync previous generated selected full_build in
           case for_each (sync_category root previous generated) cats \<lparr>sy_fs = t, sy_removed = []\<rparr> of
             (Inl e, st) \<Rightarrow> (Inl e, sy_fs st)
           | (Inr _, st) \<Rightarrow>
               (case write_text (manifest_path root)
                       (dump_manifest (sort_items (next_categories previous generated cats full_build)) @ [NL])
                       (sy_fs st) of
                  (Inl e, t') \<Rightarrow> (Inl e, t')
                | (Inr _, t') \<Rightarrow> (Inr (sy_removed st), t'))))"

end
