(* ===== verification/Sync_Laws.thy ===== *)
theory Sync_Laws
  imports Writer
begin

text \<open>
  What the synchronisation with the manifest changes in the tree, and what it never touches. The
  invariant of its two nested loops is an instance of \<open>loop_invariant\<close>: every path is as it was
  before the loops, or it is gone and was a file that may go, or an emptied directory above one.
  The last sections say when the synchronisation refuses, what is gone when it returns, and when
  it returns.
\<close>

section \<open>Removing empty parents\<close>

lemma rmdir_ok: "rmdir p t = (Inr u, t') \<Longrightarrow> p \<noteq> [] \<and> node_at t p = Some Dir \<and> child_names t p = [] \<and> t' = del_node p t"
  by (simp add: rmdir_def split: if_splits)

lemma remove_empty_parents_changes:
  "prefix root parent \<Longrightarrow>
     node_at (remove_empty_parents parent root t) q = node_at t q \<or>
     node_at t q = Some Dir \<and> node_at (remove_empty_parents parent root t) q = None \<and>
       strict_prefix root q \<and> prefix q parent"
proof (induction parent root t rule: remove_empty_parents.induct)
  case (1 parent root t)
  show ?case
  proof (cases "parent = root \<or> (\<exists>e s. rmdir parent t = (Inl e, s))")
    case True
    then show ?thesis by (auto simp: remove_empty_parents.simps[of parent])
  next
    case False
    then obtain u t1 where r: "rmdir parent t = (Inr u, t1)" and ne: "parent \<noteq> root"
      by (metis old.sum.exhaust surj_pair)
    have up: "prefix root (butlast parent)"
      using "1.prems" ne by (metis prefix_bot.extremum_uniqueI prefix_snoc append_butlast_last_id)
    have step: "remove_empty_parents parent root t = remove_empty_parents (butlast parent) root t1"
      using ne r by (simp add: remove_empty_parents.simps[of parent])
    have IH: "node_at (remove_empty_parents (butlast parent) root t1) q = node_at t1 q \<or>
        node_at t1 q = Some Dir \<and> node_at (remove_empty_parents (butlast parent) root t1) q = None \<and>
          strict_prefix root q \<and> prefix q (butlast parent)"
      using "1.IH"[OF ne r[symmetric] refl up] by (cases u) simp
    have t1: "node_at t1 q = (if q = parent then None else node_at t q)" "node_at t parent = Some Dir"
      using rmdir_ok[OF r] by (simp_all add: node_at_del)
    show ?thesis
      using IH t1 "1.prems" ne
      by (cases "q = parent") (auto simp: step strict_prefix_def dest: prefix_of_butlast)
  qed
qed

lemma remove_empty_parents_wf: "wf_fs t \<Longrightarrow> wf_fs (remove_empty_parents parent root t)"
proof (induction parent root t rule: remove_empty_parents.induct)
  case (1 parent root t)
  show ?case
  proof (cases "parent = root \<or> (\<exists>e s. rmdir parent t = (Inl e, s))")
    case True
    with "1.prems" show ?thesis by (auto simp: remove_empty_parents.simps[of parent])
  next
    case False
    obtain e t1 where "rmdir parent t = (e, t1)"
      by (cases "rmdir parent t")
    with False have r: "rmdir parent t = (Inr (), t1)" and ne: "parent \<noteq> root"
      by (cases e; simp)+
    then have "wf_fs t1"
      using rmdir_ok[OF r] "1.prems" by (auto intro: wf_fs_del)
    then show ?thesis
      using "1.IH"[OF ne r[symmetric]] ne r by (simp add: remove_empty_parents.simps[of parent])
  qed
qed

section \<open>The loops\<close>

text \<open>A file the loop may remove: its recorded digest is the digest of what it holds now.\<close>

definition removable :: "fs \<Rightarrow> path \<Rightarrow> (string, string) dict \<Rightarrow> string \<Rightarrow> path \<Rightarrow> bool" where
  "removable t root old_files relative p \<longleftrightarrow>
     p = join_path root relative \<and>
     (\<exists>bs txt. node_at t p = Some (File bs) \<and> decode_text bs = Inr txt
        \<and> dict_get old_files relative = Some (content_hash txt))"

definition below :: "path \<Rightarrow> string \<Rightarrow> bool" where
  "below root relative \<longleftrightarrow> strict_prefix root (join_path root relative)"

definition only_removed :: "fs \<Rightarrow> path \<Rightarrow> (path \<Rightarrow> bool) \<Rightarrow> fs \<Rightarrow> bool" where
  "only_removed t root may t' \<longleftrightarrow>
     (\<forall>p. node_at t' p = node_at t p \<or>
          node_at t' p = None \<and>
            (may p \<or> node_at t p = Some Dir \<and> strict_prefix root p \<and> (\<exists>q. may q \<and> prefix p q)))"

definition sync_inv :: "fs \<Rightarrow> path \<Rightarrow> (path \<Rightarrow> bool) \<Rightarrow> sync_state \<Rightarrow> bool" where
  "sync_inv t root may st \<longleftrightarrow> wf_fs (sy_fs st) \<and> only_removed t root may (sy_fs st)"

lemma strict_prefix_butlast: "strict_prefix root p \<Longrightarrow> prefix root (butlast p)"
  by (cases p rule: rev_cases) (auto simp: strict_prefix_def)

text \<open>One iteration, by what is at the path.\<close>

definition refusal :: error where
  "refusal = RuntimeError ''refusing to remove stale generated path with modified content''"

lemma remove_stale_cases:
  "remove_stale root old_files relative st =
     (case node_at (sy_fs st) (join_path root relative) of
        None \<Rightarrow> (Inr (), st)
      | Some (File bs) \<Rightarrow>
          (case decode_text bs of
             Inl e \<Rightarrow> (Inl e, st)
           | Inr ht \<Rightarrow>
               if dict_get old_files relative = Some (content_hash ht)
               then (Inr (), \<lparr>sy_fs = remove_empty_parents (butlast (join_path root relative)) root
                                 (del_node (join_path root relative) (sy_fs st)),
                             sy_removed = sy_removed st @ [relative]\<rparr>)
               else (Inl refusal, st))
      | Some _ \<Rightarrow> (Inl refusal, st))"
proof (cases "node_at (sy_fs st) (join_path root relative)")
  case None
  then show ?thesis by (simp add: remove_stale_def exists_at_def is_symlink_def)
next
  case (Some n)
  show ?thesis
  proof (cases n)
    case (File bs)
    with Some show ?thesis
      by (simp add: remove_stale_def exists_at_def is_symlink_def is_dir_def unlink_def file_hash_def
          read_text_def read_bytes_def refusal_def Let_def split: sum.split)
  qed (use Some in \<open>simp_all add: remove_stale_def exists_at_def is_symlink_def is_dir_def refusal_def\<close>)
qed

lemma remove_stale_keeps:
  assumes inv: "sync_inv t root may st" and safe: "below root relative"
    and may: "\<forall>p. removable t root old_files relative p \<longrightarrow> may p"
  shows "sync_inv t root may (snd (remove_stale root old_files relative st))"
proof -
  define p where "p = join_path root relative"
  define r where "r = remove_stale root old_files relative st"
  have "snd r = st \<or>
      (\<exists>bs ht. node_at (sy_fs st) p = Some (File bs) \<and> decode_text bs = Inr ht \<and>
         dict_get old_files relative = Some (content_hash ht) \<and>
         sy_fs (snd r) = remove_empty_parents (butlast p) root (del_node p (sy_fs st)))"
    unfolding r_def remove_stale_cases p_def[symmetric]
    by (simp split: option.split node.split sum.split)
  then consider "snd r = st" | t1 bs ht where "node_at (sy_fs st) p = Some (File bs)" "decode_text bs = Inr ht"
      "dict_get old_files relative = Some (content_hash ht)" "t1 = del_node p (sy_fs st)"
      "sy_fs (snd r) = remove_empty_parents (butlast p) root t1"
    by blast
  then show ?thesis
  proof cases
    case 1
    with inv show ?thesis by (simp add: r_def)
  next
    case 2
    have p: "p \<noteq> []" "strict_prefix root p"
      using safe by (auto simp: below_def p_def)
    have "node_at t p = node_at (sy_fs st) p"
      using inv 2(1) unfolding sync_inv_def only_removed_def by (metis option.distinct(1))
    then have gone: "may p"
      using 2(1-3) may by (auto simp: removable_def p_def)
    have wf: "wf_fs (sy_fs (snd r))"
      using inv 2(1) p unfolding 2(4,5) sync_inv_def
      by (intro remove_empty_parents_wf wf_fs_del) auto
    have "node_at (sy_fs (snd r)) q = node_at (sy_fs st) q \<or>
        node_at (sy_fs (snd r)) q = None \<and>
          (q = p \<or> node_at (sy_fs st) q = Some Dir \<and> strict_prefix root q \<and> prefix q p)" for q
      using remove_empty_parents_changes[OF strict_prefix_butlast[OF p(2)], of t1 q] p(1)
      unfolding 2(5) by (auto simp: 2(4) node_at_del dest: prefix_of_butlast split: if_splits)
    with inv gone have "only_removed t root may (sy_fs (snd r))"
      unfolding sync_inv_def only_removed_def by metis
    with wf show ?thesis by (simp add: sync_inv_def r_def)
  qed
qed

interpretation stale_loop: loop_invariant "remove_stale root old_files"
    "\<lambda>relative. below root relative \<and> (\<forall>p. removable t root old_files relative p \<longrightarrow> may p)"
    "sync_inv t root may"
  for root old_files t may
  by unfold_locales (blast intro: remove_stale_keeps)

interpretation category_loop: loop_invariant "sync_category root previous generated"
    "\<lambda>category. \<forall>relative\<in>set (stale_files previous generated category). below root relative \<and>
       (\<forall>p. removable t root (dict_get_or_empty previous category) relative p \<longrightarrow> may p)"
    "sync_inv t root may"
  for root previous generated t may
  unfolding sync_category_def by unfold_locales (blast intro: stale_loop.loop_keeps)

section \<open>What the manifest lets the loops reach\<close>

lemma check_files_safe:
  "check_files category files = Inr checked \<Longrightarrow> (r, d) \<in> set checked \<Longrightarrow> \<not> unsafe_entry category r d"
  by (induction category files arbitrary: checked rule: check_files.induct) (auto split: if_splits sum.splits)

lemma check_categories_safe:
  "check_categories cats = Inr checked \<Longrightarrow> (c, files) \<in> set checked \<Longrightarrow> (r, d) \<in> set files \<Longrightarrow>
     \<not> unsafe_entry c r d"
  by (induction cats arbitrary: checked rule: check_categories.induct)
    (auto split: sum.splits, (metis check_files_safe)+)

lemma check_manifest_safe:
  "check_manifest data = Inr cats \<Longrightarrow> (c, files) \<in> set cats \<Longrightarrow> (r, d) \<in> set files \<Longrightarrow> \<not> unsafe_entry c r d"
  by (auto simp: check_manifest_def split: json.splits option.splits if_splits dest: check_categories_safe)

lemma loaded_entry_safe:
  "load_manifest t root = Inr cats \<Longrightarrow> (c, files) \<in> set cats \<Longrightarrow> (r, d) \<in> set files \<Longrightarrow> \<not> unsafe_entry c r d"
  by (auto simp: load_manifest_def split: if_splits sum.splits dest: check_manifest_safe)

lemma safe_join_path: "\<not> unsafe_entry c r d \<Longrightarrow> join_path root r = root @ path_parts r"
  by (simp add: unsafe_entry_def join_path_def walk_clean)

lemma dict_get_or_empty_member:
  "(r, d) \<in> set (dict_get_or_empty m c) \<Longrightarrow> (c, dict_get_or_empty m c) \<in> set m"
  by (auto simp: dict_get_or_empty_def dict_get_def split: option.splits dest: map_of_SomeD)

lemma stale_entry:
  "r \<in> set (stale_files previous generated c) \<Longrightarrow> \<exists>d. (r, d) \<in> set (dict_get_or_empty previous c)"
  by (auto simp: stale_files_def sorted_set_def)

lemma loaded_below:
  assumes "load_manifest t root = Inr previous" and "r \<in> set (stale_files previous generated c)"
  shows "below root r"
proof -
  obtain d where "(r, d) \<in> set (dict_get_or_empty previous c)"
    using stale_entry[OF assms(2)] by blast
  with assms(1) have "\<not> unsafe_entry c r d"
    by (meson loaded_entry_safe dict_get_or_empty_member)
  then show ?thesis
    by (auto simp: below_def safe_join_path unsafe_entry_def strict_prefix_def)
qed

section \<open>The whole synchronisation\<close>

definition owned_stale :: "fs \<Rightarrow> path \<Rightarrow> manifest \<Rightarrow> manifest \<Rightarrow> string list \<Rightarrow> path \<Rightarrow> bool" where
  "owned_stale t root previous generated cats p \<longleftrightarrow>
     (\<exists>c\<in>set cats. \<exists>r\<in>set (stale_files previous generated c).
        removable t root (dict_get_or_empty previous c) r p)"

lemma only_removed_refl: "only_removed t root may t"
  by (simp add: only_removed_def)

lemma sync_inv_start: "wf_fs t \<Longrightarrow> sync_inv t root may \<lparr>sy_fs = t, sy_removed = rs\<rparr>"
  by (simp add: sync_inv_def only_removed_refl)

lemma category_good:
  assumes "load_manifest t root = Inr previous" and "c \<in> set cats"
    and "r \<in> set (stale_files previous generated c)"
  shows "below root r \<and> (\<forall>p. removable t root (dict_get_or_empty previous c) r p \<longrightarrow>
      owned_stale t root previous generated cats p)"
  using assms loaded_below by (auto simp: owned_stale_def)

lemma sync_loop_inv:
  assumes "wf_fs t" and "load_manifest t root = Inr previous"
  shows "sync_inv t root (owned_stale t root previous generated cats)
    (snd (for_each (sync_category root previous generated) cats \<lparr>sy_fs = t, sy_removed = []\<rparr>))"
  using assms category_good by (intro category_loop.loop_keeps sync_inv_start) blast+

lemma only_removed_root: "only_removed t root may t' \<Longrightarrow> \<not> may root \<Longrightarrow> node_at t' root = node_at t root"
  by (auto simp: only_removed_def strict_prefix_def)

lemma owned_below:
  assumes "load_manifest t root = Inr previous" and "owned_stale t root previous generated cats p"
  shows "strict_prefix root p"
  using assms loaded_below by (auto simp: owned_stale_def removable_def below_def)

lemma owned_not_manifest:
  assumes "load_manifest t root = Inr previous" and "owned_stale t root previous generated cats p"
    and "MANIFEST_FILENAME \<notin> set cats"
  shows "p \<noteq> manifest_path root"
proof -
  obtain c r where c: "c \<in> set cats" "r \<in> set (stale_files previous generated c)" "p = join_path root r"
    using assms(2) by (auto simp: owned_stale_def removable_def)
  obtain d where "(r, d) \<in> set (dict_get_or_empty previous c)"
    using stale_entry[OF c(2)] by blast
  with assms(1) have "\<not> unsafe_entry c r d"
    by (meson loaded_entry_safe dict_get_or_empty_member)
  with c assms(3) show ?thesis
    by (auto simp: safe_join_path manifest_path_def unsafe_entry_def)
qed

lemma sync_unfold:
  assumes "load_manifest t root = Inr previous"
    and "cats = categories_to_sync previous generated selected full_build"
    and "for_each (sync_category root previous generated) cats \<lparr>sy_fs = t, sy_removed = []\<rparr> = (e, st)"
  shows "sync_managed_artifacts root generated selected full_build t =
    (case e of
       Inl err \<Rightarrow> (Inl err, sy_fs st)
     | Inr _ \<Rightarrow>
         (case write_text (manifest_path root)
                 (dump_manifest (sort_items (next_categories previous generated cats full_build)) @ [NL])
                 (sy_fs st) of
            (Inl err, t') \<Rightarrow> (Inl err, t')
          | (Inr _, t') \<Rightarrow> (Inr (sy_removed st), t')))"
  by (simp add: sync_managed_artifacts_def Let_def assms(1) assms(2)[symmetric] assms(3))

text \<open>The tree after the synchronisation, by what its loops leave.\<close>

lemma sync_tree:
  assumes "load_manifest t root = Inr previous"
    and "cats = categories_to_sync previous generated selected full_build"
    and "for_each (sync_category root previous generated) cats \<lparr>sy_fs = t, sy_removed = []\<rparr> = (e, st)"
  shows "snd (sync_managed_artifacts root generated selected full_build t) = sy_fs st \<or>
    snd (sync_managed_artifacts root generated selected full_build t) =
      snd (write_text (manifest_path root)
        (dump_manifest (sort_items (next_categories previous generated cats full_build)) @ [NL]) (sy_fs st))"
  unfolding sync_unfold[OF assms] by (auto split: sum.split prod.split)

lemma sync_keeps_wf:
  assumes "wf_fs t"
  shows "wf_fs (snd (sync_managed_artifacts root generated selected full_build t))"
proof (cases "load_manifest t root")
  case (Inl e)
  with assms show ?thesis by (simp add: sync_managed_artifacts_def)
next
  case (Inr previous)
  define cats where "cats = categories_to_sync previous generated selected full_build"
  obtain e st where loop: "for_each (sync_category root previous generated) cats \<lparr>sy_fs = t, sy_removed = []\<rparr> = (e, st)"
    by (metis surj_pair)
  have "wf_fs (sy_fs st)"
    using sync_loop_inv[OF assms Inr, of generated cats] by (simp add: loop sync_inv_def)
  then show ?thesis
    using sync_tree[OF Inr cats_def loop] by (auto simp: write_text_wf)
qed

lemma write_manifest_other:
  assumes "wf_fs t" and "node_at t root = Some Dir" and "p \<noteq> manifest_path root"
  shows "node_at (snd (write_text (manifest_path root) c t)) p = node_at t p"
  using write_text_changes[OF assms(3), of c t] wf_fs_prefix_dir[of t root p] assms(1,2)
  by (cases "p = root") (auto simp: manifest_path_def strict_prefix_def)

text \<open>
  C1: whatever the synchronisation is asked to do, and whether it returns or raises, the only
  paths of the tree that change are the manifest, files the manifest recorded for a synchronised
  category with the digest of their present content and that are no longer generated, and
  directories below the root that lie above such a file.
\<close>

theorem sync_changes_only_owned:
  assumes "wf_fs t" and "node_at t root = Some Dir" and "load_manifest t root = Inr previous"
    and "cats = categories_to_sync previous generated selected full_build"
    and "node_at (snd (sync_managed_artifacts root generated selected full_build t)) p \<noteq> node_at t p"
  shows "p = manifest_path root \<or>
    node_at (snd (sync_managed_artifacts root generated selected full_build t)) p = None \<and>
      (owned_stale t root previous generated cats p \<or>
       node_at t p = Some Dir \<and> strict_prefix root p \<and>
         (\<exists>q. owned_stale t root previous generated cats q \<and> prefix p q))"
proof -
  let ?may = "owned_stale t root previous generated cats"
  obtain e st where loop: "for_each (sync_category root previous generated) cats \<lparr>sy_fs = t, sy_removed = []\<rparr> = (e, st)"
    by (metis surj_pair)
  have inv: "only_removed t root ?may (sy_fs st)" and wf: "wf_fs (sy_fs st)"
    using sync_loop_inv[OF assms(1,3), of generated cats] by (simp_all add: loop sync_inv_def)
  then have root: "node_at (sy_fs st) root = Some Dir"
    using only_removed_root[OF inv] owned_below[OF assms(3)] assms(2) by auto
  have "node_at (snd (sync_managed_artifacts root generated selected full_build t)) p = node_at (sy_fs st) p"
    if "p \<noteq> manifest_path root"
    using sync_tree[OF assms(3,4) loop] write_manifest_other[OF wf root that] by metis
  with inv assms(5) show ?thesis
    unfolding only_removed_def by metis
qed

section \<open>Refusals and completeness\<close>

text \<open>What an iteration that does not raise has done to its own path.\<close>

lemma remove_stale_gone:
  assumes "fst (remove_stale root old_files r st) = Inr ()" and "below root r"
  shows "node_at (sy_fs (snd (remove_stale root old_files r st))) (join_path root r) = None"
proof -
  let ?p = "join_path root r"
  have p: "?p \<noteq> []" "prefix root (butlast ?p)"
    using assms(2) strict_prefix_butlast by (auto simp: below_def)
  have "node_at (remove_empty_parents (butlast ?p) root (del_node ?p (sy_fs st))) ?p = None"
    using remove_empty_parents_changes[OF p(2), of "del_node ?p (sy_fs st)" ?p] p(1)
    by (auto simp: node_at_del)
  with assms(1) show ?thesis
    unfolding remove_stale_cases by (auto split: option.splits node.splits sum.splits if_splits)
qed

text \<open>Nothing the loops do brings a path back.\<close>

lemma remove_stale_absent:
  "node_at (sy_fs st) q = None \<Longrightarrow> below root r \<Longrightarrow> node_at (sy_fs (snd (remove_stale root old_files r st))) q = None"
proof -
  assume q: "node_at (sy_fs st) q = None" and r: "below root r"
  let ?p = "join_path root r"
  have p: "?p \<noteq> []" "prefix root (butlast ?p)"
    using r strict_prefix_butlast by (auto simp: below_def)
  have "node_at (remove_empty_parents (butlast ?p) root (del_node ?p (sy_fs st))) q = None"
    using remove_empty_parents_changes[OF p(2), of "del_node ?p (sy_fs st)" q] p(1) q
    by (auto simp: node_at_del split: if_splits)
  with q show ?thesis
    unfolding remove_stale_cases by (auto split: option.split node.split sum.split)
qed

interpretation absent_loop: loop_invariant "remove_stale root old_files" "below root"
    "\<lambda>st. node_at (sy_fs st) q = None"
  for root old_files q
  by unfold_locales (rule remove_stale_absent)

interpretation absent_category_loop: loop_invariant "sync_category root previous generated"
    "\<lambda>c. \<forall>r\<in>set (stale_files previous generated c). below root r" "\<lambda>st. node_at (sy_fs st) q = None"
  for root previous generated q
  unfolding sync_category_def by unfold_locales (rule absent_loop.loop_keeps)

text \<open>A stale entry is visited by a synchronisation whose loops do not raise.\<close>

lemma sync_visits:
  assumes "wf_fs t" and "load_manifest t root = Inr previous"
    and "for_each (sync_category root previous generated) cats \<lparr>sy_fs = t, sy_removed = []\<rparr> = (Inr (), st)"
    and "c \<in> set cats" and "r \<in> set (stale_files previous generated c)"
  obtains st1 where "sync_inv t root (owned_stale t root previous generated cats) st1"
    and "fst (remove_stale root (dict_get_or_empty previous c) r st1) = Inr ()"
    and "node_at (sy_fs st) (join_path root r) = None"
proof -
  let ?may = "owned_stale t root previous generated cats"
  let ?inv = "sync_inv t root ?may"
  have below: "below root r" if "r \<in> set (stale_files previous generated c)" for c r
    using assms(2) that by (rule loaded_below)
  obtain s1 cs where s1: "?inv s1" "fst (sync_category root previous generated c s1) = Inr ()" "set cs \<subseteq> set cats"
      "for_each (sync_category root previous generated) cs (snd (sync_category root previous generated c s1)) = (Inr (), st)"
    using category_loop.loop_visits[OF sync_inv_start[OF assms(1), of root ?may "[]"], of cats previous generated c]
      category_good[OF assms(2)] assms(4) by (simp only: assms(3) fst_conv) blast
  obtain s2 rs where s2: "?inv s2" "fst (remove_stale root (dict_get_or_empty previous c) r s2) = Inr ()"
      "set rs \<subseteq> set (stale_files previous generated c)"
      "for_each (remove_stale root (dict_get_or_empty previous c)) rs (snd (remove_stale root (dict_get_or_empty previous c) r s2)) =
        sync_category root previous generated c s1"
    using stale_loop.loop_visits[of t root ?may s1 "stale_files previous generated c" "dict_get_or_empty previous c" r]
      s1(1,2) category_good[OF assms(2,4)] assms(5) unfolding sync_category_def by blast
  have "node_at (sy_fs (snd (sync_category root previous generated c s1))) (join_path root r) = None"
    unfolding s2(4)[symmetric]
    using s2(2,3) below[OF assms(5)] below by (intro absent_loop.loop_keeps remove_stale_gone) auto
  then have "node_at (sy_fs (snd (for_each (sync_category root previous generated) cs
      (snd (sync_category root previous generated c s1))))) (join_path root r) = None"
    by (rule absent_category_loop.loop_keeps) (blast intro: below)
  with s1(4) s2(1,2) show ?thesis
    by (intro that) auto
qed

text \<open>
  C6: a recorded file that is no longer generated and whose content does not have the
  recorded digest makes the synchronisation raise. The file keeps its content, and the manifest is
  not rewritten.
\<close>

theorem sync_refuses_modified:
  assumes "wf_fs t" and "load_manifest t root = Inr previous"
    and "cats = categories_to_sync previous generated selected full_build"
    and "c \<in> set cats" and "r \<in> set (stale_files previous generated c)"
    and "p = join_path root r" and "node_at t p = Some (File bs)"
    and "\<not> owned_stale t root previous generated cats p"
  shows "(\<exists>e. fst (sync_managed_artifacts root generated selected full_build t) = Inl e) \<and>
    node_at (snd (sync_managed_artifacts root generated selected full_build t)) p = Some (File bs) \<and>
    (\<not> owned_stale t root previous generated cats (manifest_path root) \<longrightarrow>
      read_bytes (snd (sync_managed_artifacts root generated selected full_build t)) (manifest_path root) =
        read_bytes t (manifest_path root))"
proof -
  let ?may = "owned_stale t root previous generated cats"
  obtain e st where loop: "for_each (sync_category root previous generated) cats \<lparr>sy_fs = t, sy_removed = []\<rparr> = (e, st)"
    by (metis surj_pair)
  have inv: "only_removed t root ?may (sy_fs st)"
    using sync_loop_inv[OF assms(1,2), of generated cats] by (simp_all add: loop sync_inv_def)
  then have p: "node_at (sy_fs st) p = Some (File bs)"
    using assms(7,8) unfolding only_removed_def by (metis node.distinct(1) option.inject)
  have "e \<noteq> Inr ()"
  proof
    assume "e = Inr ()"
    with sync_visits[OF assms(1,2) _ assms(4,5)] loop p assms(6) show False by fastforce
  qed
  then obtain err where e: "e = Inl err" by (cases e) auto
  have "read_bytes (sy_fs st) (manifest_path root) = read_bytes t (manifest_path root)"
    if "\<not> ?may (manifest_path root)"
    using inv that by (auto simp: only_removed_def read_bytes_def dest!: spec[of _ "manifest_path root"])
  with p e show ?thesis
    unfolding sync_unfold[OF assms(2,3) loop] by simp
qed

lemma stale_removed:
  assumes "wf_fs t" and "node_at t root = Some Dir" and "load_manifest t root = Inr previous"
    and "cats = categories_to_sync previous generated selected full_build"
    and "fst (sync_managed_artifacts root generated selected full_build t) = Inr removed"
    and "c \<in> set cats" and "r \<in> set (stale_files previous generated c)"
    and "join_path root r \<noteq> manifest_path root"
  shows "node_at (snd (sync_managed_artifacts root generated selected full_build t)) (join_path root r) = None"
proof -
  let ?may = "owned_stale t root previous generated cats"
  obtain e st where loop: "for_each (sync_category root previous generated) cats \<lparr>sy_fs = t, sy_removed = []\<rparr> = (e, st)"
    by (metis surj_pair)
  have e: "e = Inr ()"
    using assms(5) unfolding sync_unfold[OF assms(3,4) loop] by (cases e) auto
  have inv: "only_removed t root ?may (sy_fs st)" "wf_fs (sy_fs st)"
    using sync_loop_inv[OF assms(1,3), of generated cats] by (simp_all add: loop sync_inv_def)
  have root: "node_at (sy_fs st) root = Some Dir"
    using only_removed_root[OF inv(1)] owned_below[OF assms(3)] assms(2) by auto
  have "node_at (sy_fs st) (join_path root r) = None"
    using sync_visits[OF assms(1,3) loop[unfolded e] assms(6,7)] by blast
  then show ?thesis
    using sync_tree[OF assms(3,4) loop] write_manifest_other[OF inv(2) root assms(8)] by metis
qed

text \<open>
  C7: after a synchronisation that returns, no path recorded for a synchronised category
  and no longer generated exists, the manifest itself aside. This holds of every recorded path,
  also of one whose script has since been declared external.
\<close>

theorem sync_removes_stale:
  assumes "wf_fs t" and "node_at t root = Some Dir" and "load_manifest t root = Inr previous"
    and "cats = categories_to_sync previous generated selected full_build"
    and "fst (sync_managed_artifacts root generated selected full_build t) = Inr removed"
    and "c \<in> set cats" and "r \<in> set (stale_files previous generated c)"
    and "join_path root r \<noteq> manifest_path root"
  shows "node_at (snd (sync_managed_artifacts root generated selected full_build t)) (join_path root r) = None"
  using assms by (rule stale_removed)

section \<open>A synchronisation that returns\<close>

text \<open>Every stale path is absent, or a file that still has the recorded digest.\<close>

definition clearable :: "fs \<Rightarrow> path \<Rightarrow> manifest \<Rightarrow> manifest \<Rightarrow> string \<Rightarrow> bool" where
  "clearable t root previous generated c \<longleftrightarrow>
     (\<forall>r\<in>set (stale_files previous generated c). node_at t (join_path root r) = None \<or>
        removable t root (dict_get_or_empty previous c) r (join_path root r))"

lemma remove_stale_returns:
  assumes "sync_inv t root may st"
    and "node_at t (join_path root r) = None \<or> removable t root old_files r (join_path root r)"
  shows "fst (remove_stale root old_files r st) = Inr ()"
proof -
  have "node_at (sy_fs st) (join_path root r) = node_at t (join_path root r) \<or> node_at (sy_fs st) (join_path root r) = None"
    using assms(1) by (auto simp: sync_inv_def only_removed_def)
  then show ?thesis
    using assms(2) by (auto simp: remove_stale_cases removable_def)
qed

interpretation total_stale: total_loop "remove_stale root old_files"
    "\<lambda>r. (below root r \<and> (\<forall>p. removable t root old_files r p \<longrightarrow> may p)) \<and>
       (node_at t (join_path root r) = None \<or> removable t root old_files r (join_path root r))"
    "sync_inv t root may"
  for root old_files t may
  by unfold_locales (blast intro: remove_stale_keeps remove_stale_returns)+

interpretation total_category: total_loop "sync_category root previous generated"
    "\<lambda>c. (\<forall>r\<in>set (stale_files previous generated c). below root r \<and>
       (\<forall>p. removable t root (dict_get_or_empty previous c) r p \<longrightarrow> may p)) \<and> clearable t root previous generated c"
    "sync_inv t root may"
  for root previous generated t may
  unfolding sync_category_def clearable_def
  by unfold_locales (blast intro: total_stale.loop_keeps total_stale.loop_returns)+

lemma sync_clears:
  assumes "wf_fs t" and "node_at t root = Some Dir" and "load_manifest t root = Inr previous"
    and "cats = categories_to_sync previous generated selected full_build"
    and "\<forall>c\<in>set cats. clearable t root previous generated c"
    and "node_at t (manifest_path root) = None \<or> (\<exists>bs. node_at t (manifest_path root) = Some (File bs))"
  shows "\<exists>removed. fst (sync_managed_artifacts root generated selected full_build t) = Inr removed"
proof -
  let ?may = "owned_stale t root previous generated cats"
  obtain e st where loop: "for_each (sync_category root previous generated) cats \<lparr>sy_fs = t, sy_removed = []\<rparr> = (e, st)"
    by (metis surj_pair)
  have e: "e = Inr ()"
    using total_category.loop_returns[OF sync_inv_start[OF assms(1), of root ?may "[]"], of cats previous generated]
      category_good[OF assms(3)] assms(5) loop by fastforce
  have inv: "only_removed t root ?may (sy_fs st)" "wf_fs (sy_fs st)"
    using sync_loop_inv[OF assms(1,3), of generated cats] by (simp_all add: loop sync_inv_def)
  have root: "node_at (sy_fs st) root = Some Dir"
    using only_removed_root[OF inv(1)] owned_below[OF assms(3)] assms(2) by auto
  then have "open_path (sy_fs st) root"
    using wf_fs_prefix_dir[OF inv(2), of root] by (auto simp: open_path_def strict_prefix_def)
  moreover have "node_at (sy_fs st) (manifest_path root) = None \<or> (\<exists>bs. node_at (sy_fs st) (manifest_path root) = Some (File bs))"
    using inv(1) assms(6) unfolding only_removed_def by metis
  ultimately have "fst (write_text (manifest_path root) c (sy_fs st)) = Inr ()" for c
    using write_text_open[of "sy_fs st" "manifest_path root" c] by (simp add: manifest_path_def)
  then obtain t' where "write_text (manifest_path root)
      (dump_manifest (sort_items (next_categories previous generated cats full_build)) @ [NL]) (sy_fs st) = (Inr (), t')"
    by (metis prod.collapse)
  then show ?thesis
    unfolding sync_unfold[OF assms(3,4) loop] e by simp
qed

text \<open>
  C10: a synchronisation returns when the root is a directory, every stale path of a synchronised
  category is absent or a file with the recorded digest, and what is at the place of the manifest is
  a file, if anything.
\<close>

theorem sync_returns:
  assumes "wf_fs t" and "node_at t root = Some Dir" and "load_manifest t root = Inr previous"
    and "cats = categories_to_sync previous generated selected full_build"
    and "\<forall>c\<in>set cats. clearable t root previous generated c"
    and "node_at t (manifest_path root) = None \<or> (\<exists>bs. node_at t (manifest_path root) = Some (File bs))"
  shows "\<exists>removed. fst (sync_managed_artifacts root generated selected full_build t) = Inr removed"
  using assms by (rule sync_clears)

end
