(* ===== verification/Write_Laws.thy ===== *)
theory Write_Laws
  imports Sync_Laws
begin

text \<open>
  What \<open>write_workflows\<close> does to the tree. The contents of files are a map from paths; a category
  is a list of files with their contents, and writing it is an update of that map. The digests it
  returns are those of the files it leaves.
\<close>

section \<open>What a category generates\<close>

definition workflow_files :: "path \<Rightarrow> workflow \<Rightarrow> (path \<times> string) list" where
  "workflow_files root w =
     [(join_path (workflow_base root w) ''README.md'', render_workflow_readme w),
      (join_path (join_path (workflow_base root w) ''scripts'') ''README.md'', render_scripts_readme w)]
     @ map (\<lambda>s. (script_path root w s, script_content w s)) (filter s_generator_managed (w_scripts w))"

definition category_files :: "path \<Rightarrow> workflow list \<Rightarrow> (path \<times> string) list" where
  "category_files root ws =
     (case ws of
        [] \<Rightarrow> []
      | w # _ \<Rightarrow>
          [(join_path (join_path root (w_category_slug w)) ''README.md'',
            render_category_readme (w_category_slug w) (w_category_title w) ws)])"

definition generated_files :: "path \<Rightarrow> workflow list \<Rightarrow> (path \<times> string) list" where
  "generated_files root ws = concat (map (workflow_files root) ws) @ category_files root ws"

definition generated_paths :: "path \<Rightarrow> workflow list \<Rightarrow> path set" where
  "generated_paths root ws = fst ` set (generated_files root ws)"

text \<open>The scripts that the generator refers to and does not write.\<close>

definition external_scripts :: "path \<Rightarrow> workflow list \<Rightarrow> path list" where
  "external_scripts root ws =
     concat (map (\<lambda>w. map (script_path root w) (filter (\<lambda>s. \<not> s_generator_managed s) (w_scripts w))) ws)"

abbreviation record_file :: "path \<Rightarrow> path \<times> string \<Rightarrow> write_state \<Rightarrow> unit res \<times> write_state" where
  "record_file root \<equiv> \<lambda>(p, c). write_recorded root p c"

lemma workflow_paths:
  "fst ` set (workflow_files root w) =
     {join_path (workflow_base root w) ''README.md'', join_path (join_path (workflow_base root w) ''scripts'') ''README.md''}
     \<union> script_path root w ` set (filter s_generator_managed (w_scripts w))"
  by (auto simp: workflow_files_def image_image)

text \<open>A category that is written without an exception is the loop over its files.\<close>

lemma and_then_Inr: "and_then f g s = (Inr u, s') \<longleftrightarrow> (\<exists>s1. f s = (Inr (), s1) \<and> g s1 = (Inr u, s'))"
  by (auto simp: and_then_def split: prod.splits sum.splits)

lemma for_each_scripts:
  "for_each (write_script root w) ss st = (Inr (), st') \<Longrightarrow>
     for_each (record_file root) (map (\<lambda>s. (script_path root w s, script_content w s)) (filter s_generator_managed ss)) st =
       (Inr (), st')"
  by (induction ss arbitrary: st) (auto simp: write_script_def split: prod.splits sum.splits if_splits)

lemma write_workflow_files:
  assumes "write_workflow root w st = (Inr (), st')"
  shows "for_each (record_file root) (workflow_files root w) st = (Inr (), st')"
  using assms
  by (auto simp: write_workflow_def workflow_files_def and_then_Inr dest: for_each_scripts)

lemma for_each_workflows:
  "for_each (write_workflow root) ws st = (Inr (), st') \<Longrightarrow>
     for_each (record_file root) (concat (map (workflow_files root) ws)) st = (Inr (), st')"
  by (induction ws arbitrary: st) (auto simp: for_each_append split: prod.splits sum.splits dest!: write_workflow_files)

lemma write_category_files:
  "write_category_readme root ws st = (Inr (), st') \<Longrightarrow>
     for_each (record_file root) (category_files root ws) st = (Inr (), st')"
  by (cases ws) (simp_all add: write_category_readme_def category_files_def)

lemma write_workflows_loop:
  assumes "write_workflows root ws t = (Inr written, t')"
  shows "for_each (record_file root) (generated_files root ws) \<lparr>ws_fs = t, ws_written = []\<rparr> =
    (Inr (), \<lparr>ws_fs = t', ws_written = written\<rparr>)"
proof -
  obtain st where st: "and_then (for_each (write_workflow root) ws) (write_category_readme root ws)
      \<lparr>ws_fs = t, ws_written = []\<rparr> = (Inr (), st)" "ws_fs st = t'" "ws_written st = written"
    using assms by (auto simp: write_workflows_def split: prod.splits sum.splits)
  then have "st = \<lparr>ws_fs = t', ws_written = written\<rparr>"
    by (cases st) simp
  with st(1) show ?thesis
    by (auto simp: and_then_Inr generated_files_def for_each_append dest!: for_each_workflows write_category_files)
qed

section \<open>Contents\<close>

text \<open>A map with its updates is a store, too.\<close>

interpretation reads: store "\<lambda>m k. m k" "\<lambda>k v m. m(k \<mapsto> v)" "\<lambda>k m. m(k := None)"
  by unfold_locales simp_all

definition put_files :: "(path \<times> string) list \<Rightarrow> (path \<Rightarrow> string option) \<Rightarrow> path \<Rightarrow> string option" where
  "put_files kvs m = fold (\<lambda>(p, c) m. m(p \<mapsto> c)) kvs m"

lemma put_files_simps [simp]:
  "put_files [] m = m" "put_files (kv # kvs) m = put_files kvs (m(fst kv \<mapsto> snd kv))"
  "put_files (kvs @ lvs) m = put_files lvs (put_files kvs m)"
  by (simp_all add: put_files_def case_prod_unfold)

lemma put_files_get: "put_files kvs m p = (case map_of (rev kvs) p of None \<Rightarrow> m p | Some c \<Rightarrow> Some c)"
  unfolding put_files_def by (rule reads.get_fold_put)

lemma write_recorded_ok:
  assumes "write_recorded root p c st = (Inr u, st')"
  shows "read_bytes (ws_fs st') = (read_bytes (ws_fs st))(p \<mapsto> c) \<and>
    ws_written st' = dict_set (relative_path root p) (content_hash c) (ws_written st)"
proof -
  obtain t1 where t1: "write_text p c (ws_fs st) = (Inr (), t1)"
    "st' = st\<lparr>ws_fs := t1, ws_written := dict_set (relative_path root p) (content_hash c) (ws_written st)\<rparr>"
    using assms by (auto simp: write_recorded_def split: prod.splits sum.splits)
  then have "read_bytes t1 q = ((read_bytes (ws_fs st))(p \<mapsto> c)) q" for q
    using write_text_ok[of p c "ws_fs st"] write_text_reads_other[of q p c "ws_fs st"] by (cases "q = p") simp_all
  with t1(2) show ?thesis by (simp add: fun_eq_iff)
qed

lemma record_files_ok:
  "for_each (record_file root) kvs st = (Inr (), st') \<Longrightarrow>
     read_bytes (ws_fs st') = put_files kvs (read_bytes (ws_fs st)) \<and>
     ws_written st' = fold (\<lambda>(p, c). dict_set (relative_path root p) (content_hash c)) kvs (ws_written st)"
proof (induction kvs arbitrary: st)
  case Nil
  then show ?case by simp
next
  case (Cons kv kvs)
  obtain p c where kv: "kv = (p, c)" by (cases kv)
  obtain st1 where st1: "write_recorded root p c st = (Inr (), st1)"
    "for_each (record_file root) kvs st1 = (Inr (), st')"
    using Cons.prems by (auto simp: kv split: prod.splits sum.splits)
  show ?case
    using Cons.IH[OF st1(2)] write_recorded_ok[OF st1(1)] by (simp add: kv del: fun_upd_apply)
qed

definition generated_digests :: "path \<Rightarrow> workflow list \<Rightarrow> (string, string) dict" where
  "generated_digests root ws =
     fold (\<lambda>(p, c). dict_set (relative_path root p) (content_hash c)) (generated_files root ws) []"

lemma write_workflows_ok:
  assumes "write_workflows root ws t = (Inr written, t')"
  shows "read_bytes t' = put_files (generated_files root ws) (read_bytes t) \<and>
    written = generated_digests root ws"
  using record_files_ok[OF write_workflows_loop[OF assms]] by (simp add: generated_digests_def)

text \<open>
  C13: a category that is written without an exception changes the contents of files as the
  update of a map with the generated files in order, and returns their digests.
\<close>

theorem write_workflows_refines:
  assumes "write_workflows root ws t = (Inr written, t')"
  shows "read_bytes t' = put_files (generated_files root ws) (read_bytes t) \<and>
    written = generated_digests root ws"
  using assms by (rule write_workflows_ok)

section \<open>Nothing else changes\<close>

definition only_written :: "fs \<Rightarrow> path set \<Rightarrow> fs \<Rightarrow> bool" where
  "only_written t ps t' \<longleftrightarrow>
     (\<forall>q. node_at t' q = node_at t q \<or> q \<in> ps \<or>
          node_at t q = None \<and> node_at t' q = Some Dir \<and> (\<exists>p\<in>ps. strict_prefix q p))"

lemma only_written_refl: "only_written t ps t"
  by (simp add: only_written_def)

lemma butlast_strict_prefix: "prefix q (butlast p) \<Longrightarrow> q = p \<or> strict_prefix q p"
  by (auto simp: strict_prefix_def dest: prefix_of_butlast)

lemma write_recorded_tree: "ws_fs (snd (write_recorded root p c st)) = snd (write_text p c (ws_fs st))"
  by (simp add: write_recorded_def split: prod.split sum.split)

lemma write_recorded_only:
  assumes "only_written t ps (ws_fs st)" and "p \<in> ps"
  shows "only_written t ps (ws_fs (snd (write_recorded root p c st)))"
  unfolding only_written_def write_recorded_tree
proof (rule allI)
  fix q
  have "node_at (ws_fs st) q = node_at t q \<or> q \<in> ps \<or>
      node_at t q = None \<and> node_at (ws_fs st) q = Some Dir \<and> (\<exists>p\<in>ps. strict_prefix q p)"
    using assms(1) by (simp add: only_written_def)
  then show "node_at (snd (write_text p c (ws_fs st))) q = node_at t q \<or> q \<in> ps \<or>
      node_at t q = None \<and> node_at (snd (write_text p c (ws_fs st))) q = Some Dir \<and> (\<exists>p\<in>ps. strict_prefix q p)"
    using write_text_changes[of q p c "ws_fs st"] butlast_strict_prefix[of q p] assms(2) by (cases "q = p") auto
qed

text \<open>The invariant of the loops of \<open>write_workflows\<close>.\<close>

definition write_inv :: "fs \<Rightarrow> path set \<Rightarrow> write_state \<Rightarrow> bool" where
  "write_inv t ps st \<longleftrightarrow> only_written t ps (ws_fs st) \<and> (wf_fs t \<longrightarrow> wf_fs (ws_fs st))"

lemma write_recorded_inv: "write_inv t ps st \<Longrightarrow> p \<in> ps \<Longrightarrow> write_inv t ps (snd (write_recorded root p c st))"
  unfolding write_inv_def using write_recorded_only[of t ps st p root c] by (auto simp: write_recorded_tree write_text_wf)

lemma write_script_inv:
  "write_inv t ps st \<Longrightarrow> s_generator_managed s \<longrightarrow> script_path root w s \<in> ps \<Longrightarrow>
     write_inv t ps (snd (write_script root w s st))"
  by (simp add: write_script_def write_recorded_inv)

interpretation scripts_loop: loop_invariant "write_script root w"
    "\<lambda>s. s_generator_managed s \<longrightarrow> script_path root w s \<in> ps" "write_inv t ps"
  for root w t ps
  by unfold_locales (rule write_script_inv)

lemma write_workflow_inv:
  assumes "write_inv t ps st" and "fst ` set (workflow_files root w) \<subseteq> ps"
  shows "write_inv t ps (snd (write_workflow root w st))"
  unfolding write_workflow_def
proof (rule and_then_keeps[where P = "write_inv t ps"])
  show "write_inv t ps (snd (write_recorded root (join_path (workflow_base root w) ''README.md'') (render_workflow_readme w) s))"
    if "write_inv t ps s" for s
    using that assms(2) by (intro write_recorded_inv) (auto simp: workflow_paths)
  show "write_inv t ps (snd (and_then (write_recorded root (join_path (join_path (workflow_base root w) ''scripts'') ''README.md'')
        (render_scripts_readme w)) (for_each (write_script root w) (w_scripts w)) s))" if "write_inv t ps s" for s
    using that assms(2)
    by (intro and_then_keeps[where P = "write_inv t ps"] write_recorded_inv scripts_loop.loop_keeps)
      (auto simp: workflow_paths)
qed (rule assms(1))

interpretation workflows_loop: loop_invariant "write_workflow root"
    "\<lambda>w. fst ` set (workflow_files root w) \<subseteq> ps" "write_inv t ps"
  for root t ps
  by unfold_locales (rule write_workflow_inv)

lemma write_category_inv:
  "write_inv t ps st \<Longrightarrow> fst ` set (category_files root ws) \<subseteq> ps \<Longrightarrow> write_inv t ps (snd (write_category_readme root ws st))"
  by (cases ws) (auto simp: write_category_readme_def category_files_def intro: write_recorded_inv)

lemma write_workflows_inv: "write_inv t (generated_paths root ws) \<lparr>ws_fs = snd (write_workflows root ws t), ws_written = x\<rparr>"
proof -
  let ?ps = "generated_paths root ws" and ?st = "\<lparr>ws_fs = t, ws_written = []\<rparr>"
  have "write_inv t ?ps ?st"
    by (simp add: write_inv_def only_written_refl)
  then have "write_inv t ?ps (snd (and_then (for_each (write_workflow root) ws) (write_category_readme root ws) ?st))"
    by (intro and_then_keeps[where P = "write_inv t ?ps"] workflows_loop.loop_keeps write_category_inv)
      (auto simp: generated_paths_def generated_files_def)
  moreover have "ws_fs (snd (and_then (for_each (write_workflow root) ws) (write_category_readme root ws) ?st)) =
      snd (write_workflows root ws t)"
    by (simp add: write_workflows_def split: prod.split sum.split)
  ultimately show ?thesis
    by (simp add: write_inv_def)
qed

lemma write_workflows_only: "only_written t (generated_paths root ws) (snd (write_workflows root ws t))"
  using write_workflows_inv[of t root ws "[]"] by (simp add: write_inv_def)

lemma write_workflows_wf: "wf_fs t \<Longrightarrow> wf_fs (snd (write_workflows root ws t))"
  using write_workflows_inv[of t root ws "[]"] by (simp add: write_inv_def)

text \<open>
  C12: whether it returns or raises, writing a category changes nothing of the tree but the
  generated paths, and adds nothing else but directories above them; it removes nothing.
\<close>

theorem write_workflows_frame:
  "node_at (snd (write_workflows root ws t)) q = node_at t q \<or>
   q \<in> generated_paths root ws \<or>
   node_at t q = None \<and> node_at (snd (write_workflows root ws t)) q = Some Dir \<and>
     (\<exists>p\<in>generated_paths root ws. strict_prefix q p)"
  using write_workflows_only[of t root ws] unfolding only_written_def by blast

section \<open>A build that returns\<close>

text \<open>
  Paths that can all be written: nothing but directories is above them, none is above another, and
  what is there already is a file.
\<close>

definition writable :: "fs \<Rightarrow> path set \<Rightarrow> bool" where
  "writable t ps \<longleftrightarrow>
     (\<forall>p\<in>ps. p \<noteq> [] \<and> open_path t (butlast p) \<and> (node_at t p = None \<or> (\<exists>s. node_at t p = Some (File s))))"

definition antichain :: "path set \<Rightarrow> bool" where
  "antichain ps \<longleftrightarrow> (\<forall>p\<in>ps. \<forall>q\<in>ps. \<not> strict_prefix q p)"

lemma writable_mono: "writable t ps \<Longrightarrow> qs \<subseteq> ps \<Longrightarrow> writable t qs"
  unfolding writable_def by blast

lemma antichain_mono: "antichain ps \<Longrightarrow> qs \<subseteq> ps \<Longrightarrow> antichain qs"
  unfolding antichain_def by blast

lemma writable_ok: "writable t ps \<Longrightarrow> p \<in> ps \<Longrightarrow> fst (write_text p c t) = Inr () \<and> node_at (snd (write_text p c t)) p = Some (File c)"
  unfolding writable_def by (metis write_text_open)

lemma writable_step:
  assumes "writable t ps" and "antichain ps" and "p \<in> ps"
  shows "writable (snd (write_text p c t)) ps"
proof -
  let ?t = "snd (write_text p c t)"
  have other: "node_at ?t q = node_at t q \<or> node_at t q = None \<and> node_at ?t q = Some Dir \<and> strict_prefix q p"
    if "q \<noteq> p" for q
    using write_text_changes[OF that, of c t] butlast_strict_prefix[of q p] that by auto
  have "open_path ?t (butlast q)" "node_at ?t q = None \<or> (\<exists>s. node_at ?t q = Some (File s))" if q: "q \<in> ps" for q
  proof -
    have "node_at ?t r = None \<or> node_at ?t r = Some Dir" if r: "prefix r (butlast q)" for r
    proof -
      have "r \<noteq> p"
        using r q assms(1-3) butlast_strict_prefix[OF r] not_prefix_butlast[of q]
        unfolding antichain_def writable_def by blast
      moreover have "open_path t (butlast q)"
        using assms(1) q by (simp add: writable_def)
      then have "node_at t r = None \<or> node_at t r = Some Dir"
        using r by (simp add: open_path_def)
      ultimately show ?thesis
        using other[of r] by auto
    qed
    then show "open_path ?t (butlast q)"
      by (simp add: open_path_def)
    show "node_at ?t q = None \<or> (\<exists>s. node_at ?t q = Some (File s))"
    proof (cases "q = p")
      case True
      then show ?thesis using writable_ok[OF assms(1,3), of c] by simp
    next
      case False
      then have "node_at ?t q = node_at t q"
        using other[of q] assms(2,3) q unfolding antichain_def by blast
      then show ?thesis
        using assms(1) q unfolding writable_def by auto
    qed
  qed
  then show ?thesis
    using assms(1) unfolding writable_def by blast
qed

text \<open>What every iteration of the loops needs: the paths can be written, the external scripts are there.\<close>

definition ready :: "path set \<Rightarrow> path set \<Rightarrow> write_state \<Rightarrow> bool" where
  "ready ps es st \<longleftrightarrow> writable (ws_fs st) ps \<and> antichain ps \<and> (\<forall>p\<in>es. is_file (ws_fs st) p)"

lemma is_file_write_text:
  "fst (write_text p c t) = Inr () \<Longrightarrow> is_file t q \<Longrightarrow> is_file (snd (write_text p c t)) q"
  using write_text_reads_other[of q p c t] write_text_ok[of p c t] by (cases "q = p") (auto simp: is_file_def)

lemma write_recorded_ready:
  assumes "ready ps es st" and "p \<in> ps"
  shows "ready ps es (snd (write_recorded root p c st))" and "fst (write_recorded root p c st) = Inr ()"
proof -
  have ok: "fst (write_text p c (ws_fs st)) = Inr ()"
    using assms writable_ok unfolding ready_def by blast
  then show "fst (write_recorded root p c st) = Inr ()"
    by (cases "write_text p c (ws_fs st)") (simp add: write_recorded_def)
  show "ready ps es (snd (write_recorded root p c st))"
    using assms writable_step[of "ws_fs st" ps p c] is_file_write_text[OF ok]
    by (simp add: ready_def write_recorded_tree)
qed

definition script_ready :: "path \<Rightarrow> path set \<Rightarrow> path set \<Rightarrow> workflow \<Rightarrow> script \<Rightarrow> bool" where
  "script_ready root ps es w s \<longleftrightarrow> script_path root w s \<in> (if s_generator_managed s then ps else es)"

lemma write_script_ready:
  assumes "ready ps es st" and "script_ready root ps es w s"
  shows "ready ps es (snd (write_script root w s st))" and "fst (write_script root w s st) = Inr ()"
  using assms write_recorded_ready[of ps es st "script_path root w s" root "script_content w s"]
  by (auto simp: write_script_def script_ready_def ready_def split: if_splits)

interpretation ready_scripts: total_loop "write_script root w" "script_ready root ps es w" "ready ps es"
  for root w ps es
  by unfold_locales (simp_all add: write_script_ready)

definition workflow_ready :: "path \<Rightarrow> path set \<Rightarrow> path set \<Rightarrow> workflow \<Rightarrow> bool" where
  "workflow_ready root ps es w \<longleftrightarrow>
     fst ` set (workflow_files root w) \<subseteq> ps \<and>
     script_path root w ` set (filter (\<lambda>s. \<not> s_generator_managed s) (w_scripts w)) \<subseteq> es"

lemma and_then_returns:
  assumes "fst (f s) = Inr ()" and "fst (g (snd (f s))) = Inr ()"
  shows "fst (and_then f g s) = Inr ()" and "snd (and_then f g s) = snd (g (snd (f s)))"
  using assms by (cases "f s"; simp add: and_then_def)+

lemma write_workflow_ready:
  assumes "ready ps es st" and "workflow_ready root ps es w"
  shows "ready ps es (snd (write_workflow root w st)) \<and> fst (write_workflow root w st) = Inr ()"
proof -
  have paths: "join_path (workflow_base root w) ''README.md'' \<in> ps"
    "join_path (join_path (workflow_base root w) ''scripts'') ''README.md'' \<in> ps"
    "\<forall>s\<in>set (w_scripts w). script_ready root ps es w s"
    using assms(2) unfolding workflow_ready_def workflow_paths by (auto simp: script_ready_def)
  note first = write_recorded_ready[OF assms(1) paths(1), of root "render_workflow_readme w"]
  note second = write_recorded_ready[OF first(1) paths(2), of root "render_scripts_readme w"]
  note scripts = ready_scripts.loop_keeps[OF second(1) paths(3)] ready_scripts.loop_returns[OF second(1) paths(3)]
  let ?f = "write_recorded root (join_path (workflow_base root w) ''README.md'') (render_workflow_readme w)"
  let ?g = "write_recorded root (join_path (join_path (workflow_base root w) ''scripts'') ''README.md'') (render_scripts_readme w)"
  let ?h = "for_each (write_script root w) (w_scripts w)"
  note rest = and_then_returns[of ?g "snd (?f st)" ?h, OF second(2) scripts(2)]
  show ?thesis
    unfolding write_workflow_def
    using and_then_returns[of ?f st "and_then ?g ?h", OF first(2) rest(1)] rest(2) scripts(1) by simp
qed

interpretation ready_workflows: total_loop "write_workflow root" "workflow_ready root ps es" "ready ps es"
  for root ps es
  by unfold_locales (simp_all add: write_workflow_ready)

lemma ready_tree: "ready ps es st \<longleftrightarrow> ready ps es \<lparr>ws_fs = ws_fs st, ws_written = []\<rparr>"
  by (simp add: ready_def)

lemma write_category_ready:
  assumes "ready ps es st" and "fst ` set (category_files root ws) \<subseteq> ps"
  shows "fst (write_category_readme root ws st) = Inr ()" and "ready ps es (snd (write_category_readme root ws st))"
  using assms by (cases ws; auto simp: write_category_readme_def category_files_def write_recorded_ready)+

lemma write_workflows_ready:
  assumes "ready ps es \<lparr>ws_fs = t, ws_written = []\<rparr>"
    and "generated_paths root ws \<subseteq> ps" and "set (external_scripts root ws) \<subseteq> es"
  shows "fst (write_workflows root ws t) = Inr (generated_digests root ws)"
    and "ready ps es \<lparr>ws_fs = snd (write_workflows root ws t), ws_written = []\<rparr>"
proof -
  let ?st = "\<lparr>ws_fs = t, ws_written = []\<rparr>"
  have good: "\<forall>w\<in>set ws. workflow_ready root ps es w" and last: "fst ` set (category_files root ws) \<subseteq> ps"
    using assms(2,3) by (auto simp: workflow_ready_def generated_paths_def generated_files_def external_scripts_def image_subset_iff UN_subset_iff)
  note loop = ready_workflows.loop_returns[OF assms(1) good] ready_workflows.loop_keeps[OF assms(1) good]
  note readme = write_category_ready[OF loop(2) last]
  note both = and_then_returns[of "for_each (write_workflow root) ws" ?st "write_category_readme root ws", OF loop(1) readme(1)]
  let ?run = "and_then (for_each (write_workflow root) ws) (write_category_readme root ws) ?st"
  obtain st where st: "?run = (Inr (), st)" "ready ps es st"
    using both readme(2) by (metis prod.collapse)
  then have *: "write_workflows root ws t = (Inr (ws_written st), ws_fs st)"
    by (simp add: write_workflows_def)
  show "fst (write_workflows root ws t) = Inr (generated_digests root ws)"
    using write_workflows_ok[OF *] by (simp add: *)
  show "ready ps es \<lparr>ws_fs = snd (write_workflows root ws t), ws_written = []\<rparr>"
    using st(2) by (subst (asm) ready_tree) (simp add: *)
qed

lemma write_workflows_return:
  assumes "writable t (generated_paths root ws)" and "antichain (generated_paths root ws)"
    and "list_all (is_file t) (external_scripts root ws)"
  shows "fst (write_workflows root ws t) = Inr (generated_digests root ws)"
  using assms by (intro write_workflows_ready[of "generated_paths root ws" "set (external_scripts root ws)"])
    (auto simp: ready_def list_all_iff)

text \<open>
  C14: a category is written, and its digests are returned, when the generated paths can be
  written and the scripts it refers to without writing them are there.
\<close>

theorem write_workflows_returns:
  assumes "writable t (generated_paths root ws)" and "antichain (generated_paths root ws)"
    and "list_all (is_file t) (external_scripts root ws)"
  shows "fst (write_workflows root ws t) = Inr (generated_digests root ws)"
  using assms by (rule write_workflows_return)

text \<open>A missing external script stops the loop: nothing in a category creates its file.\<close>

lemma only_written_file:
  "only_written t ps t' \<Longrightarrow> p \<notin> ps \<Longrightarrow> read_bytes t' p = read_bytes t p"
  by (auto simp: only_written_def read_bytes_def dest!: spec[of _ p])

lemma for_each_visit:
  "for_each f xs s = (Inr (), s') \<Longrightarrow> x \<in> set xs \<Longrightarrow>
     \<exists>ys s1. set ys \<subseteq> set xs \<and> for_each f ys s = (Inr (), s1) \<and> fst (f x s1) = Inr ()"
proof (induction xs arbitrary: s)
  case Nil
  then show ?case by simp
next
  case (Cons y ys)
  obtain s2 where s2: "f y s = (Inr (), s2)" "for_each f ys s2 = (Inr (), s')"
    using Cons.prems(1) by (auto split: prod.splits sum.splits)
  show ?case
  proof (cases "x = y")
    case True
    with s2(1) show ?thesis by (intro exI[of _ "[]"]) simp
  next
    case False
    with Cons.prems(2) Cons.IH[OF s2(2)] obtain zs s1 where
      "set zs \<subseteq> set ys" "for_each f zs s2 = (Inr (), s1)" "fst (f x s1) = Inr ()" by auto
    with s2(1) show ?thesis by (intro exI[of _ "y # zs"] exI[of _ s1]) auto
  qed
qed

lemma external_present:
  assumes "write_workflows root ws t = (Inr written, t')"
    and "p \<in> set (external_scripts root ws)" and "p \<notin> generated_paths root ws"
  shows "is_file t p"
proof -
  let ?inv = "write_inv t (generated_paths root ws)"
  obtain w s where ws: "w \<in> set ws" "s \<in> set (w_scripts w)" "\<not> s_generator_managed s" "p = script_path root w s"
    using assms(2) by (auto simp: external_scripts_def)
  have paths: "fst ` set (workflow_files root v) \<subseteq> generated_paths root ws" if "v \<in> set ws" for v
    using that by (auto simp: generated_paths_def generated_files_def)
  obtain st where "for_each (write_workflow root) ws \<lparr>ws_fs = t, ws_written = []\<rparr> = (Inr (), st)"
    using assms(1) by (auto simp: write_workflows_def and_then_Inr split: prod.splits sum.splits)
  from for_each_visit[OF this ws(1)] obtain vs s1 where s1: "set vs \<subseteq> set ws"
    "for_each (write_workflow root) vs \<lparr>ws_fs = t, ws_written = []\<rparr> = (Inr (), s1)" "fst (write_workflow root w s1) = Inr ()"
    by blast
  have "?inv s1"
    using workflows_loop.loop_keeps[of t "generated_paths root ws" "\<lparr>ws_fs = t, ws_written = []\<rparr>" vs root] s1(1) paths
    by (auto simp: write_inv_def only_written_refl s1(2))
  moreover obtain s2 s3 where s2: "write_recorded root (join_path (workflow_base root w) ''README.md'') (render_workflow_readme w) s1 = (Inr (), s2)"
    "write_recorded root (join_path (join_path (workflow_base root w) ''scripts'') ''README.md'') (render_scripts_readme w) s2 = (Inr (), s3)"
    "fst (for_each (write_script root w) (w_scripts w) s3) = Inr ()"
    using s1(3) by (auto simp: write_workflow_def and_then_def split: prod.splits sum.splits)
  ultimately have "?inv s2" and s3: "?inv s3"
    using write_recorded_inv[of t "generated_paths root ws" s1 "join_path (workflow_base root w) ''README.md''" root "render_workflow_readme w"]
      write_recorded_inv[of t "generated_paths root ws" s2 "join_path (join_path (workflow_base root w) ''scripts'') ''README.md''"
        root "render_scripts_readme w"] paths[OF ws(1)]
    by (simp_all add: workflow_paths)
  obtain s5 where "for_each (write_script root w) (w_scripts w) s3 = (Inr (), s5)"
    using s2(3) by (metis prod.collapse)
  from for_each_visit[OF this ws(2)] obtain ss s4 where s4: "set ss \<subseteq> set (w_scripts w)"
    "for_each (write_script root w) ss s3 = (Inr (), s4)" "fst (write_script root w s s4) = Inr ()" by blast
  have "?inv s4"
    using scripts_loop.loop_keeps[where root = root and w = w and xs = ss, OF s3] paths[OF ws(1)] s4(1) by (auto simp: s4(2) workflow_paths)
  moreover have "is_file (ws_fs s4) p"
    using s4(3) ws(3,4) by (auto simp: write_script_def split: if_splits)
  ultimately show ?thesis
    using only_written_file[OF _ assms(3)] by (auto simp: write_inv_def is_file_def)
qed

text \<open>
  C16: a script that the generator refers to without owning it keeps its content, whether
  the category is written or not, and the category is not written when it is missing.
\<close>

theorem external_script_required:
  assumes "p \<in> set (external_scripts root ws)" and "p \<notin> generated_paths root ws"
  shows "read_bytes (snd (write_workflows root ws t)) p = read_bytes t p \<and>
    ((\<exists>e. fst (write_workflows root ws t) = Inl e) \<or> is_file t p)"
proof (cases "fst (write_workflows root ws t)")
  case (Inl e)
  then show ?thesis using only_written_file[OF write_workflows_only assms(2)] by simp
next
  case (Inr written)
  then have "is_file t p"
    using external_present[OF _ assms] by (metis prod.collapse)
  then show ?thesis using only_written_file[OF write_workflows_only assms(2)] by simp
qed

end
