(* ===== verification/Manifest_Laws.thy ===== *)
theory Manifest_Laws
  imports Sync_Laws
begin

text \<open>
  The manifest file: what the writer prints is what the loader reads back, so a synchronisation
  that returns leaves the manifest it computed, and a second one with the same input finds
  nothing to do.
\<close>

section \<open>Printable text\<close>

definition plain :: "string \<Rightarrow> bool" where
  "plain s \<longleftrightarrow> list_all (\<lambda>c. c = NL \<or> in_range 32 126 c) s"

lemma plain_simps [simp]:
  "plain []" "plain (c # s) \<longleftrightarrow> (c = NL \<or> in_range 32 126 c) \<and> plain s" "plain (s @ t) \<longleftrightarrow> plain s \<and> plain t"
  by (simp_all add: plain_def)

lemma plain_ascii: "plain s \<Longrightarrow> ascii s"
  by (induction s) (auto simp: in_range_def)

lemma plain_no_cr: "plain s \<Longrightarrow> CR \<notin> set s"
  by (induction s) (auto simp: in_range_def)

lemma plain_decode: "plain s \<Longrightarrow> decode_text s = Inr s"
  by (simp add: decode_text_ok plain_ascii ascii_valid plain_no_cr)

lemma plain_join: "plain sep \<Longrightarrow> \<forall>x\<in>set xs. plain x \<Longrightarrow> plain (join sep xs)"
  by (induction xs rule: join.induct[of _ sep]) auto

lemma plain_hex_char: "n < 16 \<Longrightarrow> plain [hex_char n]"
proof -
  assume "n < 16"
  then have "hex_char n \<in> set ''0123456789abcdef''"
    unfolding hex_char_def by (intro nth_mem) simp
  then show ?thesis by (auto simp: in_range_def)
qed

lemma plain_hex4: "plain (hex4_text p)"
proof -
  have "plain [hex_char (n mod 16)]" for n
    by (rule plain_hex_char) simp
  then show ?thesis
    by (simp add: hex4_text_def) (simp add: in_range_def)
qed

lemma plain_unicode_escape: "plain (unicode_escape p)"
  by (simp add: unicode_escape_def plain_hex4)

lemma plain_ascii_escape: "plain (ascii_escape c)"
  unfolding ascii_escape_def using plain_unicode_escape
  by (auto simp: in_range_def)

lemma plain_escape_chars: "plain (escape_chars s)"
  by (induction s rule: escape_chars.induct) (simp_all add: plain_ascii_escape plain_unicode_escape Let_def)

lemma plain_json_string: "plain (json_string s)"
  by (simp add: json_string_def plain_escape_chars) (simp add: in_range_def)

lemma plain_indent: "plain (indent n)"
  by (simp add: indent_def plain_def list_all_iff in_range_def)

lemma plain_dump_dict: "\<forall>(k, v)\<in>set kvs. plain (dump v) \<Longrightarrow> plain (dump_dict l dump kvs)"
  unfolding dump_dict_def
  by (fastforce intro!: plain_join simp: plain_indent plain_json_string in_range_def)

lemma plain_dump_manifest: "plain (dump_manifest cats)"
  unfolding dump_manifest_def
  by (rule plain_dump_dict) (auto intro!: plain_dump_dict simp: plain_json_string in_range_def)

section \<open>Round trip\<close>

definition valid_files :: "string \<Rightarrow> (string, string) dict \<Rightarrow> bool" where
  "valid_files category files \<longleftrightarrow>
     distinct (map fst files) \<and> list_all (\<lambda>(r, d). ascii r \<and> \<not> unsafe_entry category r d) files"

definition valid_manifest :: "manifest \<Rightarrow> bool" where
  "valid_manifest cats \<longleftrightarrow>
     distinct (map fst cats) \<and> list_all (\<lambda>(c, files). ascii c \<and> valid_files c files) cats"

text \<open>The dictionaries in the order of their keys, as they are in the file.\<close>

definition sorted_manifest :: "manifest \<Rightarrow> manifest" where
  "sorted_manifest cats = map (\<lambda>(c, files). (c, sort_items files)) (sort_items cats)"

lemma check_files_ok:
  "\<forall>(r, d)\<in>set files. \<not> unsafe_entry c r d \<Longrightarrow> check_files c (map (\<lambda>(r, d). (r, JStr d)) files) = Inr files"
  by (induction files) auto

lemma check_categories_ok:
  "\<forall>(c, files)\<in>set cats. \<forall>(r, d)\<in>set files. \<not> unsafe_entry c r d \<Longrightarrow>
     check_categories (map (\<lambda>(c, files). (c, JObj (map (\<lambda>(r, d). (r, JStr d)) files))) cats) = Inr cats"
  by (induction cats) (auto simp: check_files_ok)

lemma digest_ascii: "\<not> unsafe_entry c r d \<Longrightarrow> ascii d"
proof -
  assume "\<not> unsafe_entry c r d"
  then have "\<forall>c\<in>set d. c \<in> set ''0123456789abcdef''"
    unfolding unsafe_entry_def list_ex_iff by blast
  moreover have "\<forall>c\<in>set ''0123456789abcdef''. of_char c < (0x80 :: nat)"
    by simp
  ultimately show "ascii d"
    unfolding ascii_def list_all_iff by blast
qed

lemma valid_filesD: "valid_files c files \<Longrightarrow> (r, d) \<in> set files \<Longrightarrow> ascii r \<and> \<not> unsafe_entry c r d \<and> ascii d"
  unfolding valid_files_def list_all_iff using digest_ascii by fast

lemma valid_manifestD: "valid_manifest cats \<Longrightarrow> (c, files) \<in> set cats \<Longrightarrow> ascii c \<and> valid_files c files"
  unfolding valid_manifest_def list_all_iff by fast

lemma valid_manifest_keys: "valid_manifest cats \<Longrightarrow> distinct (map fst cats)"
  by (simp add: valid_manifest_def)

lemma printed_files:
  "valid_files c files \<Longrightarrow>
     printed (dump_dict l json_string files) (JObj (map (\<lambda>(r, d). (r, JStr d)) (sort_items files)))"
  by (rule printed_dict) (auto dest: valid_filesD intro: printed_string, simp add: valid_files_def)

lemma printed_categories:
  assumes "valid_manifest cats"
  shows "printed (dump_dict 1 (dump_dict 2 json_string) cats)
    (JObj (map (\<lambda>(c, files). (c, JObj (map (\<lambda>(r, d). (r, JStr d)) files))) (sorted_manifest cats)))"
proof -
  have "printed (dump_dict 1 (dump_dict 2 json_string) cats)
    (JObj (map (\<lambda>(c, files). (c, JObj (map (\<lambda>(r, d). (r, JStr d)) (sort_items files)))) (sort_items cats)))"
    using assms by (intro printed_dict) (auto dest: valid_manifestD valid_manifest_keys intro: printed_files)
  then show ?thesis
    by (simp add: sorted_manifest_def comp_def case_prod_unfold)
qed

lemma loads_dump_manifest:
  assumes "valid_manifest cats"
  shows "\<exists>data. loads (dump_manifest cats @ [NL]) = Inr data \<and> check_manifest data = Inr (sorted_manifest cats)"
proof -
  let ?cats = "map (\<lambda>(c, files). (c, JObj (map (\<lambda>(r, d). (r, JStr d)) files))) (sorted_manifest cats)"
  let ?body = "dump_dict 1 (dump_dict 2 json_string) cats"
  have ne: "?body \<noteq> ''1''"
    by (simp add: dump_dict_def)
  let ?g = "\<lambda>x. if x = ''1'' then JInt 1 else JObj ?cats"
  have "printed (dump_manifest cats)
      (JObj (map (\<lambda>(k, v). (k, ?g v)) (sort_items [(''version'', ''1''), (''categories'', ?body)])))"
    unfolding dump_manifest_def
    using printed_one printed_categories[OF assms] ne by (intro printed_dict) auto
  also have "sort_items [(''version'', ''1''), (''categories'', ?body)] = [(''categories'', ?body), (''version'', ''1'')]"
    by (simp add: sort_items_def)
  finally have "loads (dump_manifest cats @ [NL]) = Inr (JObj [(''categories'', JObj ?cats), (''version'', JInt 1)])"
    using ne by (intro loads_printed) simp
  moreover have "check_categories ?cats = Inr (sorted_manifest cats)"
    using assms by (intro check_categories_ok)
      (auto simp: sorted_manifest_def dest!: valid_manifestD valid_filesD)
  ultimately show ?thesis
    by (simp add: check_manifest_def dict_get_def)
qed

lemma load_written_manifest:
  assumes "valid_manifest cats" and "read_bytes t (manifest_path root) = Some (dump_manifest cats @ [NL])"
  shows "load_manifest t root = Inr (sorted_manifest cats)"
proof -
  have "plain (dump_manifest cats @ [NL])"
    by (simp add: plain_dump_manifest)
  moreover have "exists_at t (manifest_path root)"
    using assms(2) by (auto simp: exists_at_def read_bytes_def split: option.splits node.splits target.splits)
  ultimately show ?thesis
    using loads_dump_manifest[OF assms(1)] assms(2)
    by (auto simp: load_manifest_def read_text_def plain_decode)
qed

section \<open>What a synchronisation records\<close>

lemma next_categories_get:
  "dict_get (next_categories previous generated cats full_build) c =
     (if c \<in> set cats
      then (if dict_get_or_empty generated c = [] then None else Some (sort_items (dict_get_or_empty generated c)))
      else if full_build then None else dict_get previous c)"
proof -
  have "dict_get (fold (\<lambda>category d. let current_files = dict_get_or_empty generated category in
          if current_files \<noteq> [] then dict_set category (sort_items current_files) d else dict_pop category d) cats d0) c =
      (if c \<in> set cats
       then (if dict_get_or_empty generated c = [] then None else Some (sort_items (dict_get_or_empty generated c)))
       else dict_get d0 c)" for d0
    by (induction cats arbitrary: d0) (auto simp: Let_def dict.get_put dict.get_del)
  then show ?thesis
    by (simp add: next_categories_def) (simp add: dict_get_def)
qed

lemma next_categories_distinct:
  "full_build \<or> distinct (map fst previous) \<Longrightarrow>
     distinct (map fst (next_categories previous generated cats full_build))"
proof -
  have "distinct (map fst d0) \<Longrightarrow> distinct (map fst (fold (\<lambda>category d.
      let current_files = dict_get_or_empty generated category in
      if current_files \<noteq> [] then dict_set category (sort_items current_files) d else dict_pop category d) cats d0))" for d0
    by (induction cats arbitrary: d0) (auto simp: Let_def distinct_dict_set distinct_dict_pop)
  then show "full_build \<or> distinct (map fst previous) \<Longrightarrow> ?thesis"
    by (auto simp: next_categories_def)
qed

lemma valid_files_sort: "valid_files c files \<Longrightarrow> valid_files c (sort_items files)"
  by (simp add: valid_files_def sort_items_keys list_all_iff)

lemma valid_manifest_get: "valid_manifest m \<Longrightarrow> dict_get m c = Some files \<Longrightarrow> ascii c \<and> valid_files c files"
  unfolding dict_get_def by (drule map_of_SomeD) (rule valid_manifestD)

lemma valid_manifest_iff:
  "distinct (map fst m) \<Longrightarrow> (\<And>c files. dict_get m c = Some files \<Longrightarrow> ascii c \<and> valid_files c files) \<Longrightarrow> valid_manifest m"
  by (auto simp: valid_manifest_def list_all_iff dict_get_def)

lemma dict_get_or_empty_get: "dict_get_or_empty m c \<noteq> [] \<Longrightarrow> dict_get m c = Some (dict_get_or_empty m c)"
  by (auto simp: dict_get_or_empty_def split: option.splits)

lemma valid_next_categories:
  assumes "valid_manifest generated" and "full_build \<or> valid_manifest previous"
  shows "valid_manifest (next_categories previous generated cats full_build)"
proof (rule valid_manifest_iff)
  show "distinct (map fst (next_categories previous generated cats full_build))"
    using assms(2) by (auto intro: next_categories_distinct dest: valid_manifest_keys)
  show "ascii c \<and> valid_files c files"
    if "dict_get (next_categories previous generated cats full_build) c = Some files" for c files
    using that assms valid_manifest_get dict_get_or_empty_get[of generated c] valid_files_sort
    unfolding next_categories_get by (metis option.distinct(1) option.inject)
qed

lemma valid_sort_items: "valid_manifest m \<Longrightarrow> valid_manifest (sort_items m)"
  by (simp add: valid_manifest_def sort_items_keys list_all_iff)

lemma sort_items_idem: "sort_items (sort_items kvs) = sort_items kvs"
  by (simp add: sort_items_def sorted_sort_id[symmetric] sort_key_id_if_sorted)

lemma sync_recorded:
  assumes "load_manifest t root = Inr previous"
    and "cats = categories_to_sync previous generated selected full_build"
    and "valid_manifest generated" and "full_build \<or> valid_manifest previous"
    and "sync_managed_artifacts root generated selected full_build t = (Inr removed, t')"
  shows "load_manifest t' root = Inr (sorted_manifest (next_categories previous generated cats full_build))"
proof -
  let ?next = "next_categories previous generated cats full_build"
  obtain e st where loop: "for_each (sync_category root previous generated) cats \<lparr>sy_fs = t, sy_removed = []\<rparr> = (e, st)"
    by (metis surj_pair)
  have "read_bytes t' (manifest_path root) = Some (dump_manifest (sort_items ?next) @ [NL])"
    using assms(5) write_text_ok[of "manifest_path root" "dump_manifest (sort_items ?next) @ [NL]" "sy_fs st"]
    unfolding sync_unfold[OF assms(1,2) loop] by (auto split: sum.splits prod.splits)
  then have "load_manifest t' root = Inr (sorted_manifest (sort_items ?next))"
    using valid_next_categories[OF assms(3,4)] by (intro load_written_manifest valid_sort_items)
  then show ?thesis
    by (simp add: sorted_manifest_def sort_items_idem)
qed

text \<open>
  C9: a synchronisation that returns leaves a manifest that the next run loads as
  exactly the categories it recorded, sorted by key.
\<close>

theorem sync_manifest_roundtrip:
  assumes "load_manifest t root = Inr previous"
    and "cats = categories_to_sync previous generated selected full_build"
    and "valid_manifest generated" and "full_build \<or> valid_manifest previous"
    and "sync_managed_artifacts root generated selected full_build t = (Inr removed, t')"
  shows "load_manifest t' root = Inr (sorted_manifest (next_categories previous generated cats full_build))"
  using assms by (rule sync_recorded)

section \<open>A second run\<close>

lemma sort_items_eqI:
  assumes "distinct (map fst m1)" and "distinct (map fst m2)" and "dict_get m1 = dict_get m2"
  shows "sort_items m1 = sort_items m2"
proof -
  have "map_of m1 = map_of m2"
    using assms(3) by (simp add: dict_get_def fun_eq_iff)
  then have "set m1 = set m2"
    using assms(1,2) by (simp add: map_of_inject_set)
  then show ?thesis
    using assms(1,2) unfolding sort_items_def
    by (intro map_sorted_distinct_set_unique[of fst]) (auto simp: distinct_map inj_on_def)
qed

lemma dict_get_sort_items: "distinct (map fst m) \<Longrightarrow> dict_get (sort_items m) c = dict_get m c"
  using map_of_inject_set[of "sort_items m" m] by (simp add: dict_get_def sort_items_keys)

lemma dict_get_sorted_manifest:
  "distinct (map fst m) \<Longrightarrow> dict_get (sorted_manifest m) c = map_option sort_items (dict_get m c)"
proof -
  assume m: "distinct (map fst m)"
  have "dict_get (sorted_manifest m) c = map_option sort_items (dict_get (sort_items m) c)"
    by (simp add: sorted_manifest_def dict_get_def map_of_map)
  with m show ?thesis by (simp add: dict_get_sort_items)
qed

lemma category_recorded: "dict_get_or_empty m c \<noteq> [] \<Longrightarrow> c \<in> fst ` set m"
  by (auto simp: dict_get_or_empty_def dict_get_def split: option.splits dest: map_of_SomeD intro: rev_image_eqI)

lemma full_sync_categories: "dict_get_or_empty generated c \<noteq> [] \<Longrightarrow> c \<in> set (categories_to_sync previous generated selected True)"
  by (auto simp: categories_to_sync_def sorted_set_def dest: category_recorded)

lemma full_next_get:
  "dict_get (next_categories previous generated (categories_to_sync previous generated selected True) True) c =
     (if dict_get_or_empty generated c = [] then None else Some (sort_items (dict_get_or_empty generated c)))"
  using full_sync_categories by (simp add: next_categories_get)

text \<open>After a full build the manifest holds no path that the same build does not generate.\<close>

lemma nothing_stale:
  assumes "previous' = sorted_manifest (next_categories previous generated (categories_to_sync previous generated selected True) True)"
  shows "stale_files previous' generated c = []"
proof -
  have "dict_get_or_empty previous' c = sort_items (sort_items (dict_get_or_empty generated c)) \<or>
      dict_get_or_empty previous' c = []"
    unfolding assms dict_get_or_empty_def[of "sorted_manifest _"]
    by (simp add: dict_get_sorted_manifest next_categories_distinct full_next_get)
  then have "fst ` set (dict_get_or_empty previous' c) \<subseteq> fst ` set (dict_get_or_empty generated c)"
    by auto
  then have "filter (\<lambda>r. r \<notin> fst ` set (dict_get_or_empty generated c)) (map fst (dict_get_or_empty previous' c)) = []"
    by (auto simp: filter_empty_conv)
  then show ?thesis
    by (simp add: stale_files_def sorted_set_def)
qed

lemma for_each_skip: "(\<And>x s. f x s = (Inr (), s)) \<Longrightarrow> for_each f xs s = (Inr (), s)"
  by (induction xs) simp_all

lemma sync_again:
  assumes "wf_fs t" and "valid_manifest generated"
    and "sync_managed_artifacts root generated selected True t = (Inr removed, t')"
  shows "sync_managed_artifacts root generated selected' True t' = (Inr [], t')"
proof -
  obtain previous where previous: "load_manifest t root = Inr previous"
    using assms(3) by (cases "load_manifest t root") (simp_all add: sync_managed_artifacts_def)
  define cats where "cats = categories_to_sync previous generated selected True"
  define recorded where "recorded = next_categories previous generated cats True"
  define previous' where "previous' = sorted_manifest recorded"
  define cats' where "cats' = categories_to_sync previous' generated selected' True"
  obtain e st where loop: "for_each (sync_category root previous generated) cats \<lparr>sy_fs = t, sy_removed = []\<rparr> = (e, st)"
    by (metis surj_pair)
  have read: "read_bytes t' (manifest_path root) = Some (dump_manifest (sort_items recorded) @ [NL])"
    using assms(3) write_text_ok[of "manifest_path root" "dump_manifest (sort_items recorded) @ [NL]" "sy_fs st"]
    unfolding sync_unfold[OF previous cats_def loop] recorded_def by (auto split: sum.splits prod.splits)
  have load: "load_manifest t' root = Inr previous'"
    unfolding previous'_def recorded_def
    using sync_recorded[OF previous cats_def assms(2) _ assms(3)] by simp
  have wf: "wf_fs t'"
    using sync_keeps_wf[OF assms(1), of root generated selected True] assms(3) by simp
  have loop': "for_each (sync_category root previous' generated) cats' \<lparr>sy_fs = t', sy_removed = []\<rparr> =
      (Inr (), \<lparr>sy_fs = t', sy_removed = []\<rparr>)"
    by (rule for_each_skip)
      (simp add: sync_category_def nothing_stale[OF previous'_def[unfolded recorded_def cats_def]])
  have "sort_items (next_categories previous' generated cats' True) = sort_items recorded"
    unfolding recorded_def cats_def cats'_def
    by (rule sort_items_eqI) (simp_all add: next_categories_distinct full_next_get fun_eq_iff)
  then show ?thesis
    unfolding sync_unfold[OF load cats'_def loop'] using write_text_same[OF wf read] by simp
qed

text \<open>
  C8: a full build synchronised twice with the same generated files returns the second
  time, removes nothing and leaves the tree as it is, whatever categories were selected.
\<close>

theorem sync_idempotent:
  assumes "wf_fs t" and "valid_manifest generated"
    and "sync_managed_artifacts root generated selected True t = (Inr removed, t')"
  shows "sync_managed_artifacts root generated selected' True t' = (Inr [], t')"
  using assms by (rule sync_again)

end
