(* ===== verification/Build.thy ===== *)
theory Build
  imports Writer
begin

text \<open>
  Model of \<^verbatim>\<open>tools/build_repository.py\<close>: which category modules a build processes, what it
  writes for each, and the synchronisation at its end. The attributes \<open>CATEGORY_SLUG\<close> and
  \<open>WORKFLOWS\<close> of an imported module are given by a function \<open>registry\<close> from module names.
\<close>

definition CATEGORY_MODULES :: "string list" where
  "CATEGORY_MODULES =
     [''tools.repo_builder.wf_performance'',
      ''tools.repo_builder.wf_locking'',
      ''tools.repo_builder.wf_xid'',
      ''tools.repo_builder.wf_vacuum'',
      ''tools.repo_builder.wf_partitioning'',
      ''tools.repo_builder.wf_archival'',
      ''tools.repo_builder.wf_tables_indexes'',
      ''tools.repo_builder.wf_connections'',
      ''tools.repo_builder.wf_replication'',
      ''tools.repo_builder.wf_health'',
      ''tools.repo_builder.wf_query_optimization'',
      ''tools.repo_builder.wf_storage'',
      ''tools.repo_builder.wf_schema_changes'',
      ''tools.repo_builder.wf_incident_response'',
      ''tools.repo_builder.wf_security'',
      ''tools.repo_builder.wf_observability'',
      ''tools.repo_builder.wf_maintenance'',
      ''tools.repo_builder.wf_dr'',
      ''tools.repo_builder.wf_automation'']"

type_synonym registry = "string \<Rightarrow> string \<times> workflow list"

text \<open>\<open>--only\<close>: an empty value selects every module, like no value.\<close>

definition selected_modules :: "string option \<Rightarrow> string list" where
  "selected_modules only =
     (case only of
        None \<Rightarrow> CATEGORY_MODULES
      | Some v \<Rightarrow>
          if v = [] then CATEGORY_MODULES
          else filter (\<lambda>m. list_ex (\<lambda>f. contains f m) (split_on CHR '','' v)) CATEGORY_MODULES)"

record build_state =
  b_fs :: fs
  b_generated :: manifest
  b_selected :: "string list"
  b_workflows :: nat
  b_scripts :: nat
  b_out :: "string list"

definition script_count :: "workflow list \<Rightarrow> nat" where
  "script_count ws = sum_list (map (\<lambda>w. length (w_scripts w)) ws)"

definition build_module :: "path \<Rightarrow> registry \<Rightarrow> string \<Rightarrow> build_state \<Rightarrow> unit res \<times> build_state" where
  "build_module root registry mod_name st =
     (let (category, workflows) = registry mod_name;
          st1 = st\<lparr>b_selected := List.insert category (b_selected st)\<rparr>
      in if workflows = []
         then (Inr (), st1\<lparr>b_generated := dict_set category [] (b_generated st1)\<rparr>)
         else if list_ex (\<lambda>w. w_category_slug w \<noteq> category) workflows
         then (Inl (ValueError (mod_name @ '' contains workflows from multiple categories'')), st1)
         else
           (case write_workflows root workflows (b_fs st1) of
              (Inl e, t) \<Rightarrow> (Inl e, st1\<lparr>b_fs := t\<rparr>)
            | (Inr written, t) \<Rightarrow>
                (Inr (),
                 st1\<lparr>b_fs := t,
                     b_generated := dict_set category written (b_generated st1),
                     b_workflows := b_workflows st1 + length workflows,
                     b_scripts := b_scripts st1 + script_count workflows,
                     b_out := b_out st1 @ [''[ok] '' @ mod_name @ '': '' @ str_nat (length workflows)
                       @ '' workflows, '' @ str_nat (script_count workflows) @ '' scripts'']\<rparr>)))"

definition start_state :: "fs \<Rightarrow> build_state" where
  "start_state t = \<lparr>b_fs = t, b_generated = [], b_selected = [], b_workflows = 0, b_scripts = 0, b_out = []\<rparr>"

text \<open>\<open>main\<close>: the lines printed, and the tree it leaves.\<close>

definition build_main :: "path \<Rightarrow> string option \<Rightarrow> registry \<Rightarrow> fs \<Rightarrow> string list res \<times> fs" where
  "build_main root only registry t =
     (case for_each (build_module root registry) (selected_modules only) (start_state t) of
        (Inl e, st) \<Rightarrow> (Inl e, b_fs st)
      | (Inr _, st) \<Rightarrow>
          (case sync_managed_artifacts root (b_generated st) (b_selected st) (only = None) (b_fs st) of
             (Inl e, t') \<Rightarrow> (Inl e, t')
           | (Inr removed, t') \<Rightarrow>
               (Inr (b_out st
                     @ (if removed \<noteq> [] then [''[clean] removed '' @ str_nat (length removed) @ '' obsolete generator-managed file(s)''] else [])
                     @ [NL # ''Total: '' @ str_nat (b_workflows st) @ '' workflows, '' @ str_nat (b_scripts st)
                          @ '' scripts written under /'' @ join ''/'' root]),
                t')))"

end
