(* ===== verification/Build_Laws.thy ===== *)
theory Build_Laws
  imports Write_Laws Manifest_Laws Build
begin

text \<open>
  The build as a whole: the digests it records are those of the files it leaves, and a second build
  on its result changes nothing, unless the first one removed a script that the registry has
  declared external since it was recorded.
\<close>

section \<open>Names\<close>

text \<open>A name that is one path component and prints to the manifest as it is.\<close>

definition good_name :: "string \<Rightarrow> bool" where
  "good_name x \<longleftrightarrow> clean_name x \<and> ascii x"

definition good_workflow :: "workflow \<Rightarrow> bool" where
  "good_workflow w \<longleftrightarrow>
     good_name (w_category_slug w) \<and> good_name (w_slug w) \<and> list_all (\<lambda>s. good_name (filename s)) (w_scripts w)"

lemma good_names [simp]: "good_name ''README.md''" "good_name ''scripts''"
  by (simp_all add: good_name_def clean_name_def ascii_def)

lemma good_join: "good_name x \<Longrightarrow> join_path p x = p @ [x]"
  by (simp add: good_name_def join_path_clean)

lemma workflow_base_good: "good_workflow w \<Longrightarrow> workflow_base root w = root @ [w_category_slug w, w_slug w]"
  by (simp add: good_workflow_def workflow_base_def good_join)

text \<open>A path below the root and inside a category.\<close>

definition inside :: "path \<Rightarrow> string \<Rightarrow> path \<Rightarrow> bool" where
  "inside root category p \<longleftrightarrow> (\<exists>q. p = root @ category # q \<and> good_name category \<and> list_all good_name q)"

lemma insideI: "p = root @ category # q \<Longrightarrow> good_name category \<Longrightarrow> list_all good_name q \<Longrightarrow> inside root category p"
  by (auto simp: inside_def)

lemma workflow_inside:
  assumes "good_workflow w" and "p \<in> fst ` set (workflow_files root w)"
  shows "inside root (w_category_slug w) p"
proof -
  have good: "good_name (w_category_slug w)" "good_name (w_slug w)" "\<forall>s\<in>set (w_scripts w). good_name (filename s)"
    using assms(1) by (auto simp: good_workflow_def list_all_iff)
  from assms(2) consider "p = root @ w_category_slug w # [w_slug w, ''README.md'']"
    | "p = root @ w_category_slug w # [w_slug w, ''scripts'', ''README.md'']"
    | s where "s \<in> set (w_scripts w)" "p = root @ w_category_slug w # [w_slug w, ''scripts'', filename s]"
    using good by (auto simp: workflow_paths workflow_base_good[OF assms(1)] good_join script_path_def)
  then show ?thesis
    using good by cases (auto simp: inside_def)
qed

definition one_category :: "string \<Rightarrow> workflow list \<Rightarrow> bool" where
  "one_category category ws \<longleftrightarrow> list_all (\<lambda>w. w_category_slug w = category \<and> good_workflow w) ws"

lemma generated_inside:
  assumes "one_category category ws" and "p \<in> generated_paths root ws"
  shows "inside root category p"
proof -
  have ws: "\<forall>w\<in>set ws. w_category_slug w = category \<and> good_workflow w"
    using assms(1) by (simp add: one_category_def list_all_iff)
  consider w where "w \<in> set ws" "p \<in> fst ` set (workflow_files root w)" | "p \<in> fst ` set (category_files root ws)"
    using assms(2) by (auto simp: generated_paths_def generated_files_def)
  then show ?thesis
  proof cases
    case 1
    then show ?thesis
      using workflow_inside[of w p root] ws by auto
  next
    case 2
    then obtain w vs where w: "ws = w # vs" and p: "p = join_path (join_path root (w_category_slug w)) ''README.md''"
      by (auto simp: category_files_def split: list.splits)
    with ws have "good_name category" "w_category_slug w = category"
      by (auto simp: good_workflow_def)
    with p show ?thesis
      by (intro insideI[of _ _ _ "[''README.md'']"]) (simp_all add: good_join)
  qed
qed

lemma inside_names: "inside root category p \<Longrightarrow> \<exists>q. p = root @ q \<and> q \<noteq> [] \<and> (\<forall>x\<in>set q. clean_name x)"
  by (auto simp: inside_def good_name_def list_all_iff)

lemma relative_inside:
  assumes "inside root category p"
  shows "join_path root (relative_path root p) = p"
proof -
  obtain q where q: "p = root @ q" "q \<noteq> []" "\<forall>x\<in>set q. clean_name x"
    using inside_names[OF assms] by blast
  have "\<not> is_absolute (join ''/'' q)"
  proof (cases q)
    case (Cons x xs)
    then obtain c cs where "x = c # cs" "c \<noteq> CHR ''/''"
      using q(3) by (cases x) (auto simp: clean_name_def)
    with Cons show ?thesis by (cases xs) (auto simp: is_absolute_def)
  qed (use q(2) in simp)
  moreover have "''..'' \<notin> set q"
    using q(3) by (auto simp: clean_name_def)
  ultimately show ?thesis
    using path_parts_join_clean[OF q(2,3)] q(2)
    by (simp add: q(1) relative_path_def relative_posix_append join_path_def walk_clean)
qed

lemma relative_inj: "inside root c p \<Longrightarrow> inside root d q \<Longrightarrow> relative_path root p = relative_path root q \<Longrightarrow> p = q"
  using relative_inside by metis

section \<open>Digests\<close>

lemma digests_member:
  "dict_get (fold (\<lambda>(p, c). dict_set (relative_path root p) (content_hash c)) kvs d0) r = Some h \<Longrightarrow>
     dict_get d0 r = None \<Longrightarrow> \<forall>(p, c)\<in>set kvs. inside root category p \<Longrightarrow>
     \<exists>p c. r = relative_path root p \<and> h = content_hash c \<and> p \<in> fst ` set kvs \<and> map_of (rev kvs) p = Some c"
proof (induction kvs rule: rev_induct)
  case Nil
  then show ?case by simp
next
  case (snoc kv kvs)
  obtain p c where kv: "kv = (p, c)" by (cases kv)
  show ?case
  proof (cases "r = relative_path root p")
    case True
    with snoc.prems(1) kv show ?thesis
      by (intro exI[of _ p] exI[of _ c]) simp
  next
    case False
    with snoc.prems kv obtain p' c' where
      *: "r = relative_path root p'" "h = content_hash c'" "p' \<in> fst ` set kvs" "map_of (rev kvs) p' = Some c'"
      using snoc.IH by (auto simp: dict.get_put_other)
    with False have "p' \<noteq> p" by auto
    with * kv show ?thesis
      by (intro exI[of _ p'] exI[of _ c']) auto
  qed
qed

lemma digests_recorded:
  assumes "one_category category ws" and "dict_get (generated_digests root ws) r = Some h"
  shows "\<exists>p c. r = relative_path root p \<and> h = content_hash c \<and> p \<in> generated_paths root ws \<and>
    map_of (rev (generated_files root ws)) p = Some c"
  using digests_member[of root "generated_files root ws" "[]" r h category] assms generated_inside[OF assms(1), of _ root]
  by (force simp: generated_digests_def generated_paths_def dict_get_def)

text \<open>Contents that are read back as they were written: valid UTF-8 with no carriage return.\<close>

definition readable :: "(path \<times> string) list \<Rightarrow> bool" where
  "readable files \<longleftrightarrow> list_all (\<lambda>(p, c). decode_text c = Inr c) files"

lemma written_content:
  assumes "write_workflows root ws t = (Inr written, t')" and "one_category category ws"
    and "dict_get written r = Some h"
  shows "\<exists>c. (join_path root r, c) \<in> set (generated_files root ws) \<and> read_bytes t' (join_path root r) = Some c \<and>
    h = content_hash c"
proof -
  note ok = write_workflows_ok[OF assms(1)]
  obtain p c where p: "r = relative_path root p" "h = content_hash c" "p \<in> generated_paths root ws"
    "map_of (rev (generated_files root ws)) p = Some c"
    using digests_recorded[OF assms(2)] assms(3) ok by metis
  have "read_bytes t' p = Some c"
    using ok put_files_get[of "generated_files root ws" "read_bytes t" p] p(4) by simp
  moreover have "join_path root r = p"
    using relative_inside[OF generated_inside[OF assms(2) p(3)]] p(1) by simp
  ultimately show ?thesis
    using p(2) map_of_SomeD[OF p(4)] by auto
qed

lemma written_digest:
  assumes "write_workflows root ws t = (Inr written, t')" and "one_category category ws"
    and "readable (generated_files root ws)" and "dict_get written r = Some h"
  shows "file_hash t' (join_path root r) = Inr h"
proof -
  obtain c where c: "(join_path root r, c) \<in> set (generated_files root ws)" "read_bytes t' (join_path root r) = Some c"
    "h = content_hash c"
    using written_content[OF assms(1,2,4)] by blast
  moreover have "decode_text c = Inr c"
    using assms(3) c(1) by (auto simp: readable_def list_all_iff)
  ultimately show ?thesis
    by (simp add: file_hash_def read_text_def)
qed

text \<open>
  C15: every digest that writing a category returns is the digest of the content of the file it
  leaves at the path it is returned for.
\<close>

theorem written_digests_match:
  assumes "write_workflows root ws t = (Inr written, t')" and "one_category category ws"
    and "dict_get written r = Some h"
  shows "\<exists>c. read_bytes t' (join_path root r) = Some c \<and> h = content_hash c"
  using written_content[OF assms] by blast

section \<open>Writing what is there\<close>

definition unchanged :: "fs \<Rightarrow> write_state \<Rightarrow> bool" where
  "unchanged t st \<longleftrightarrow> wf_fs t \<and> ws_fs st = t"

definition holds :: "fs \<Rightarrow> path \<times> string \<Rightarrow> bool" where
  "holds t = (\<lambda>(p, c). read_bytes t p = Some c)"

lemma rewrite_file:
  "unchanged t st \<Longrightarrow> holds t (p, c) \<Longrightarrow>
     fst (write_recorded root p c st) = Inr () \<and> unchanged t (snd (write_recorded root p c st))"
  using write_text_same[of t p c] by (simp add: unchanged_def holds_def write_recorded_def)

definition script_there :: "fs \<Rightarrow> path \<Rightarrow> workflow \<Rightarrow> script \<Rightarrow> bool" where
  "script_there t root w s \<longleftrightarrow>
     (if s_generator_managed s then holds t (script_path root w s, script_content w s) else is_file t (script_path root w s))"

lemma rewrite_script:
  "unchanged t st \<Longrightarrow> script_there t root w s \<Longrightarrow>
     fst (write_script root w s st) = Inr () \<and> unchanged t (snd (write_script root w s st))"
  using rewrite_file[of t st "script_path root w s" "script_content w s" root]
  by (auto simp: write_script_def script_there_def unchanged_def)

interpretation same_scripts: total_loop "write_script root w" "script_there t root w" "unchanged t"
  for root w t
  by unfold_locales (simp_all add: rewrite_script)

definition workflow_there :: "fs \<Rightarrow> path \<Rightarrow> workflow \<Rightarrow> bool" where
  "workflow_there t root w \<longleftrightarrow>
     list_all (holds t) (workflow_files root w) \<and>
     list_all (\<lambda>s. s_generator_managed s \<or> is_file t (script_path root w s)) (w_scripts w)"

lemma rewrite_workflow:
  assumes "unchanged t st" and "workflow_there t root w"
  shows "fst (write_workflow root w st) = Inr () \<and> unchanged t (snd (write_workflow root w st))"
proof -
  let ?f = "write_recorded root (join_path (workflow_base root w) ''README.md'') (render_workflow_readme w)"
  let ?g = "write_recorded root (join_path (join_path (workflow_base root w) ''scripts'') ''README.md'') (render_scripts_readme w)"
  let ?h = "for_each (write_script root w) (w_scripts w)"
  have there: "holds t (join_path (workflow_base root w) ''README.md'', render_workflow_readme w)"
    "holds t (join_path (join_path (workflow_base root w) ''scripts'') ''README.md'', render_scripts_readme w)"
    "\<forall>s\<in>set (w_scripts w). script_there t root w s"
    using assms(2) by (auto simp: workflow_there_def workflow_files_def script_there_def list_all_iff)
  note first = rewrite_file[OF assms(1) there(1), of root]
  note second = rewrite_file[OF conjunct2[OF first] there(2), of root]
  note scripts = same_scripts.loop_keeps[OF conjunct2[OF second] there(3)]
    same_scripts.loop_returns[OF conjunct2[OF second] there(3)]
  note rest = and_then_returns[of ?g "snd (?f st)" ?h, OF conjunct1[OF second] scripts(2)]
  show ?thesis
    unfolding write_workflow_def
    using and_then_returns[of ?f st "and_then ?g ?h", OF conjunct1[OF first] rest(1)] rest(2) scripts(1) by simp
qed

interpretation same_workflows: total_loop "write_workflow root" "workflow_there t root" "unchanged t"
  for root t
  by unfold_locales (simp_all add: rewrite_workflow)

lemma write_workflows_same:
  assumes "wf_fs t" and "list_all (holds t) (generated_files root ws)" and "list_all (is_file t) (external_scripts root ws)"
  shows "write_workflows root ws t = (Inr (generated_digests root ws), t)"
proof -
  let ?st = "\<lparr>ws_fs = t, ws_written = []\<rparr>"
  have start: "unchanged t ?st"
    using assms(1) by (simp add: unchanged_def)
  have there: "\<forall>w\<in>set ws. workflow_there t root w"
    using assms(2,3) by (auto simp: workflow_there_def generated_files_def external_scripts_def list_all_iff)
  note loop = same_workflows.loop_keeps[OF start there] same_workflows.loop_returns[OF start there]
  have last: "fst (write_category_readme root ws st) = Inr () \<and> unchanged t (snd (write_category_readme root ws st))"
    if "unchanged t st" for st
    using rewrite_file[OF that] that assms(2)
    by (cases ws) (auto simp: write_category_readme_def generated_files_def category_files_def)
  note ret = and_then_returns[of "for_each (write_workflow root) ws" ?st "write_category_readme root ws", OF loop(2)]
  have "fst (write_workflows root ws t) = Inr (ws_written (snd (and_then (for_each (write_workflow root) ws)
      (write_category_readme root ws) ?st))) \<and> snd (write_workflows root ws t) = t"
    using ret last loop(1) by (auto simp: write_workflows_def unchanged_def split: prod.splits sum.splits)
  then show ?thesis
    using write_workflows_ok[of root ws t _ t] by (metis prod.collapse)
qed

section \<open>The loop over the modules\<close>

definition all_files :: "path \<Rightarrow> registry \<Rightarrow> string list \<Rightarrow> (path \<times> string) list" where
  "all_files root registry mods = concat (map (\<lambda>m. generated_files root (snd (registry m))) mods)"

definition all_digests :: "path \<Rightarrow> registry \<Rightarrow> string list \<Rightarrow> manifest" where
  "all_digests root registry mods =
     fold (\<lambda>m. dict_set (fst (registry m)) (generated_digests root (snd (registry m)))) mods []"

text \<open>The build refuses a module with workflows of another category.\<close>

definition uniform :: "registry \<Rightarrow> string \<Rightarrow> bool" where
  "uniform registry m \<longleftrightarrow> list_all (\<lambda>w. w_category_slug w = fst (registry m)) (snd (registry m))"

lemma not_uniform: "list_ex (\<lambda>w. w_category_slug w \<noteq> fst (registry m)) (snd (registry m)) \<longleftrightarrow> \<not> uniform registry m"
  by (auto simp: uniform_def list_ex_iff list_all_iff)

lemma no_files [simp]: "generated_files root [] = []" "generated_digests root [] = []" "external_scripts root [] = []"
  by (simp_all add: generated_files_def category_files_def generated_digests_def external_scripts_def)

lemma build_module_cases:
  "build_module root registry m st =
     (let st1 = st\<lparr>b_selected := List.insert (fst (registry m)) (b_selected st)\<rparr> in
      if snd (registry m) = [] then (Inr (), st1\<lparr>b_generated := dict_set (fst (registry m)) [] (b_generated st)\<rparr>)
      else if \<not> uniform registry m
      then (Inl (ValueError (m @ '' contains workflows from multiple categories'')), st1)
      else
        (case write_workflows root (snd (registry m)) (b_fs st) of
           (Inl e, t) \<Rightarrow> (Inl e, st1\<lparr>b_fs := t\<rparr>)
         | (Inr written, t) \<Rightarrow>
             (Inr (),
              st1\<lparr>b_fs := t,
                  b_generated := dict_set (fst (registry m)) written (b_generated st),
                  b_workflows := b_workflows st + length (snd (registry m)),
                  b_scripts := b_scripts st + script_count (snd (registry m)),
                  b_out := b_out st @ [''[ok] '' @ m @ '': '' @ str_nat (length (snd (registry m)))
                    @ '' workflows, '' @ str_nat (script_count (snd (registry m))) @ '' scripts'']\<rparr>)))"
  unfolding build_module_def Let_def case_prod_beta not_uniform[symmetric] by (simp split: sum.split)

lemma build_module_ok:
  assumes "build_module root registry m st = (Inr (), st')"
  shows "uniform registry m \<and>
    read_bytes (b_fs st') = put_files (generated_files root (snd (registry m))) (read_bytes (b_fs st)) \<and>
    b_generated st' = dict_set (fst (registry m)) (generated_digests root (snd (registry m))) (b_generated st)"
proof (cases "snd (registry m)")
  case Nil
  with assms show ?thesis by (auto simp: build_module_cases Let_def uniform_def)
next
  case (Cons w ws)
  then have ne: "snd (registry m) \<noteq> []" by simp
  obtain written t where wt: "write_workflows root (snd (registry m)) (b_fs st) = (Inr written, t)"
    and u: "uniform registry m" and st': "b_fs st' = t" "b_generated st' = dict_set (fst (registry m)) written (b_generated st)"
    using assms ne by (auto simp: build_module_cases Let_def split: if_splits prod.splits sum.splits)
  show ?thesis
    using write_workflows_ok[OF wt] u st' by simp
qed

lemma build_loop_ok:
  "for_each (build_module root registry) mods st = (Inr (), st') \<Longrightarrow>
     list_all (uniform registry) mods \<and>
     read_bytes (b_fs st') = put_files (all_files root registry mods) (read_bytes (b_fs st)) \<and>
     b_generated st' = fold (\<lambda>m. dict_set (fst (registry m)) (generated_digests root (snd (registry m)))) mods (b_generated st)"
proof (induction mods arbitrary: st)
  case Nil
  then show ?case by (simp add: all_files_def)
next
  case (Cons m mods)
  obtain st1 where st1: "build_module root registry m st = (Inr (), st1)"
    "for_each (build_module root registry) mods st1 = (Inr (), st')"
    using Cons.prems by (auto split: prod.splits sum.splits)
  show ?case
    using Cons.IH[OF st1(2)] build_module_ok[OF st1(1)] by (simp add: all_files_def)
qed

text \<open>What the loop leaves alone, whether it returns or raises.\<close>

definition build_inv :: "fs \<Rightarrow> path set \<Rightarrow> build_state \<Rightarrow> bool" where
  "build_inv t ps st \<longleftrightarrow> only_written t ps (b_fs st) \<and> (wf_fs t \<longrightarrow> wf_fs (b_fs st))"

lemma only_written_trans: "only_written t ps t1 \<Longrightarrow> only_written t1 ps t2 \<Longrightarrow> only_written t ps t2"
  unfolding only_written_def by metis

lemma only_written_mono: "only_written t ps t1 \<Longrightarrow> ps \<subseteq> qs \<Longrightarrow> only_written t qs t1"
  unfolding only_written_def by blast

lemma build_module_tree:
  "b_fs (snd (build_module root registry m st)) = b_fs st \<or>
   b_fs (snd (build_module root registry m st)) = snd (write_workflows root (snd (registry m)) (b_fs st))"
  by (auto simp: build_module_cases Let_def split: prod.split sum.split)

lemma build_module_inv:
  assumes "build_inv t ps st" and "generated_paths root (snd (registry m)) \<subseteq> ps"
  shows "build_inv t ps (snd (build_module root registry m st))"
  using build_module_tree[of root registry m st] assms only_written_trans[of t ps]
    only_written_mono[OF write_workflows_only assms(2)] write_workflows_wf
  unfolding build_inv_def by metis

interpretation build_loop: loop_invariant "build_module root registry"
    "\<lambda>m. generated_paths root (snd (registry m)) \<subseteq> ps" "build_inv t ps"
  for root registry t ps
  by unfold_locales (rule build_module_inv)

lemma all_paths: "fst ` set (all_files root registry mods) = (\<Union>m\<in>set mods. generated_paths root (snd (registry m)))"
  by (auto simp: all_files_def generated_paths_def)

lemma build_loop_inv:
  "build_inv t (fst ` set (all_files root registry mods)) (snd (for_each (build_module root registry) mods (start_state t)))"
  by (rule build_loop.loop_keeps) (auto simp: build_inv_def start_state_def only_written_refl all_paths)

section \<open>A second build\<close>

definition rerun_state :: "fs \<Rightarrow> build_state \<Rightarrow> bool" where
  "rerun_state t st \<longleftrightarrow> wf_fs t \<and> b_fs st = t"

definition module_there :: "fs \<Rightarrow> path \<Rightarrow> registry \<Rightarrow> string \<Rightarrow> bool" where
  "module_there t root registry m \<longleftrightarrow>
     uniform registry m \<and> list_all (holds t) (generated_files root (snd (registry m))) \<and>
     list_all (is_file t) (external_scripts root (snd (registry m)))"

lemma build_module_same:
  "rerun_state t st \<Longrightarrow> module_there t root registry m \<Longrightarrow>
     fst (build_module root registry m st) = Inr () \<and> rerun_state t (snd (build_module root registry m st))"
  by (auto simp: rerun_state_def module_there_def build_module_cases Let_def write_workflows_same)

interpretation same_modules: total_loop "build_module root registry" "module_there t root registry" "rerun_state t"
  for root registry t
  by unfold_locales (simp_all add: build_module_same)

lemma build_loop_same:
  assumes "wf_fs t" and "list_all (module_there t root registry) mods"
  shows "\<exists>st. for_each (build_module root registry) mods (start_state t) = (Inr (), st) \<and> b_fs st = t \<and>
    b_generated st = all_digests root registry mods"
proof -
  have start: "rerun_state t (start_state t)"
    using assms(1) by (simp add: rerun_state_def start_state_def)
  have there: "\<forall>m\<in>set mods. module_there t root registry m"
    using assms(2) by (simp add: list_all_iff)
  obtain st where st: "for_each (build_module root registry) mods (start_state t) = (Inr (), st)"
    using same_modules.loop_returns[OF start there] by (metis prod.collapse)
  then show ?thesis
    using build_loop_ok[OF st] same_modules.loop_keeps[OF start there]
    by (simp add: all_digests_def start_state_def rerun_state_def)
qed

text \<open>A manifest that names every file the way the generator does.\<close>

definition normal_manifest :: "manifest \<Rightarrow> bool" where
  "normal_manifest cats \<longleftrightarrow> list_all (\<lambda>(c, files). list_all (\<lambda>(r, d). join ''/'' (path_parts r) = r) files) cats"

lemma normal_entry: "normal_manifest cats \<Longrightarrow> (c, files) \<in> set cats \<Longrightarrow> (r, d) \<in> set files \<Longrightarrow> join ''/'' (path_parts r) = r"
  by (auto simp: normal_manifest_def list_all_iff)

text \<open>A file the build generates is not removed by the synchronisation that follows.\<close>

lemma digests_keys: "fst ` set (generated_digests root ws) = relative_path root ` generated_paths root ws"
proof -
  have "fst ` set (fold (\<lambda>(p, c). dict_set (relative_path root p) (content_hash c)) kvs d) =
      relative_path root ` fst ` set kvs \<union> fst ` set d" for kvs d
    by (induction kvs arbitrary: d) (simp_all add: dict_keys_set case_prod_unfold)
  from this[of "generated_files root ws" "[]"] show ?thesis
    by (simp add: generated_digests_def generated_paths_def)
qed

lemma all_digests_get:
  assumes "distinct (map (\<lambda>m. fst (registry m)) mods)" and "m \<in> set mods"
  shows "dict_get (all_digests root registry mods) (fst (registry m)) = Some (generated_digests root (snd (registry m)))"
  using assms unfolding all_digests_def
proof (induction mods rule: rev_induct)
  case Nil
  then show ?case by simp
next
  case (snoc x xs)
  show ?case
  proof (cases "m = x")
    case True
    then show ?thesis by simp
  next
    case False
    with snoc.prems have m: "m \<in> set xs" and "fst (registry x) \<notin> (\<lambda>m. fst (registry m)) ` set xs"
      "distinct (map (\<lambda>m. fst (registry m)) xs)"
      by simp_all
    then have "fst (registry m) \<noteq> fst (registry x)"
      by (metis image_eqI)
    with snoc.IH m \<open>distinct (map (\<lambda>m. fst (registry m)) xs)\<close> show ?thesis
      by (simp add: dict.get_put_other)
  qed
qed

lemma not_stale:
  assumes "load_manifest t root = Inr previous" and "normal_manifest previous"
    and "dict_get generated category = Some (generated_digests root ws)"
    and "one_category category ws" and "p \<in> generated_paths root ws"
  shows "\<not> owned_stale t root previous generated cats p"
proof
  assume "owned_stale t root previous generated cats p"
  then obtain c r where r: "r \<in> set (stale_files previous generated c)" "p = join_path root r"
    by (auto simp: owned_stale_def removable_def)
  obtain d where rd: "(r, d) \<in> set (dict_get_or_empty previous c)"
    using stale_entry[OF r(1)] by blast
  then have entry: "(c, dict_get_or_empty previous c) \<in> set previous"
    by (rule dict_get_or_empty_member)
  have safe: "\<not> unsafe_entry c r d"
    using assms(1) entry rd by (rule loaded_entry_safe)
  obtain q where q: "p = root @ category # q"
    using generated_inside[OF assms(4,5)] by (auto simp: inside_def)
  with safe r(2) have parts: "path_parts r = category # q"
    by (simp add: safe_join_path)
  with safe have "c = category"
    by (auto simp: unsafe_entry_def)
  moreover have "r = relative_path root p"
    using normal_entry[OF assms(2) entry rd] parts by (simp add: q relative_path_def relative_posix_append)
  then have "r \<in> fst ` set (dict_get_or_empty generated category)"
    using assms(3,5) by (simp add: dict_get_or_empty_def digests_keys)
  ultimately show False
    using r(1) by (auto simp: stale_files_def)
qed

lemma sync_keeps_read:
  assumes "wf_fs t" and "load_manifest t root = Inr previous"
    and "\<not> owned_stale t root previous generated (categories_to_sync previous generated selected full_build) p"
    and "p \<noteq> manifest_path root"
  shows "read_bytes (snd (sync_managed_artifacts root generated selected full_build t)) p = read_bytes t p"
proof -
  define cats where "cats = categories_to_sync previous generated selected full_build"
  obtain e st where loop: "for_each (sync_category root previous generated) cats \<lparr>sy_fs = t, sy_removed = []\<rparr> = (e, st)"
    by (metis surj_pair)
  have "only_removed t root (owned_stale t root previous generated cats) (sy_fs st)"
    using sync_loop_inv[OF assms(1,2), of generated cats] by (simp add: loop sync_inv_def)
  then have "read_bytes (sy_fs st) p = read_bytes t p"
    using assms(3) by (auto simp: only_removed_def read_bytes_def cats_def dest!: spec[of _ p])
  then show ?thesis
    using sync_tree[OF assms(2) cats_def loop] write_text_reads_other[OF assms(4)] by metis
qed

section \<open>The manifest of a build\<close>

lemma inside_entry:
  assumes "inside root category p"
  shows "ascii (relative_path root p) \<and> \<not> unsafe_entry category (relative_path root p) (content_hash c)"
proof -
  obtain q where q: "p = root @ category # q" "good_name category" "list_all good_name q"
    using assms by (auto simp: inside_def)
  let ?names = "category # q"
  have names: "\<forall>x\<in>set ?names. clean_name x" "\<forall>x\<in>set ?names. ascii x"
    using q(2,3) by (auto simp: good_name_def list_all_iff)
  have rel: "relative_path root p = join ''/'' ?names"
    by (simp add: q(1) relative_path_def relative_posix_append)
  have parts: "path_parts (join ''/'' ?names) = ?names"
    using names(1) by (intro path_parts_join_clean) simp_all
  have "ascii sep \<Longrightarrow> \<forall>x\<in>set xs. ascii x \<Longrightarrow> ascii (join sep xs)" for sep xs
    by (induction sep xs rule: join.induct) auto
  then have "\<forall>x\<in>set xs. ascii x \<Longrightarrow> ascii (join ''/'' xs)" for xs
    by simp
  moreover obtain x xs where "category = x # xs" "x \<noteq> CHR ''/''"
    using q(2) by (cases category) (auto simp: good_name_def clean_name_def)
  then have "\<not> is_absolute (join ''/'' ?names)"
    by (cases q) (auto simp: is_absolute_def)
  moreover have "length (content_hash c) = 64" "\<not> list_ex (\<lambda>x. x \<notin> set ''0123456789abcdef'') (content_hash c)"
    using sha.digest_length sha.digest_chars unfolding content_hash_def list_ex_iff by blast+
  moreover have "''..'' \<notin> set ?names"
    using names(1) by (auto simp: clean_name_def)
  ultimately show ?thesis
    using names(2) parts unfolding rel unsafe_entry_def by simp
qed

lemma digests_distinct: "distinct (map fst (generated_digests root ws))"
proof -
  have "distinct (map fst d) \<Longrightarrow>
      distinct (map fst (fold (\<lambda>(p, c). dict_set (relative_path root p) (content_hash c)) kvs d))" for kvs d
    by (induction kvs arbitrary: d) (simp_all add: distinct_dict_set case_prod_unfold)
  then show ?thesis
    by (simp add: generated_digests_def)
qed

lemma valid_digests:
  assumes "one_category category ws"
  shows "valid_files category (generated_digests root ws)"
  unfolding valid_files_def list_all_iff
proof (intro conjI ballI)
  show "distinct (map fst (generated_digests root ws))"
    by (rule digests_distinct)
  fix x
  assume x: "x \<in> set (generated_digests root ws)"
  obtain r h where rh: "x = (r, h)" by (cases x)
  have "dict_get (generated_digests root ws) r = Some h"
    using x digests_distinct[of root ws] by (simp add: rh dict_get_def)
  then obtain p c where "r = relative_path root p" "h = content_hash c" "p \<in> generated_paths root ws"
    using digests_recorded[OF assms] by blast
  then show "case x of (r, d) \<Rightarrow> ascii r \<and> \<not> unsafe_entry category r d"
    using inside_entry[OF generated_inside[OF assms]] by (simp add: rh)
qed

definition good_module :: "registry \<Rightarrow> string \<Rightarrow> bool" where
  "good_module registry m \<longleftrightarrow>
     good_name (fst (registry m)) \<and> fst (registry m) \<noteq> MANIFEST_FILENAME \<and> list_all good_workflow (snd (registry m))"

lemma good_uniform: "good_module registry m \<Longrightarrow> uniform registry m \<Longrightarrow> one_category (fst (registry m)) (snd (registry m))"
  by (auto simp: good_module_def uniform_def one_category_def list_all_iff)

lemma valid_all_digests:
  assumes "list_all (good_module registry) mods" and "list_all (uniform registry) mods"
  shows "valid_manifest (all_digests root registry mods)"
proof (rule valid_manifest_iff)
  have "distinct (map fst d) \<Longrightarrow>
      distinct (map fst (fold (\<lambda>m. dict_set (fst (registry m)) (generated_digests root (snd (registry m)))) mods d))" for d
    by (induction mods arbitrary: d) (auto simp: distinct_dict_set)
  then show "distinct (map fst (all_digests root registry mods))"
    by (simp add: all_digests_def)
  have member: "dict_get (fold (\<lambda>m. dict_set (fst (registry m)) (generated_digests root (snd (registry m)))) ms []) c = Some files \<Longrightarrow>
      \<exists>m\<in>set ms. c = fst (registry m) \<and> files = generated_digests root (snd (registry m))" for ms c files
    by (induction ms rule: rev_induct) (auto simp: dict.get_put dict_get_def[of "[]"] split: if_splits)
  show "ascii c \<and> valid_files c files" if found: "dict_get (all_digests root registry mods) c = Some files" for c files
  proof -
    obtain m where m: "m \<in> set mods" "c = fst (registry m)" "files = generated_digests root (snd (registry m))"
      using member[OF found[unfolded all_digests_def]] by blast
    then have "good_module registry m" "uniform registry m"
      using assms by (simp_all add: list_all_iff)
    then show ?thesis
      using valid_digests[OF good_uniform] m(2,3) by (simp add: good_module_def good_name_def)
  qed
qed

section \<open>The build twice\<close>

lemma paths_not_manifest:
  assumes "good_module registry m" and "uniform registry m" and "p \<in> generated_paths root (snd (registry m))"
  shows "\<not> prefix (manifest_path root) p"
  using generated_inside[OF good_uniform[OF assms(1,2)] assms(3)] assms(1)
  by (auto simp: inside_def good_module_def manifest_path_def)

text \<open>The state the loop over the modules leaves to the synchronisation.\<close>

lemma build_loop_state:
  assumes "for_each (build_module root registry) mods (start_state t) = (Inr (), st)"
    and "wf_fs t" and "list_all (good_module registry) mods"
  shows "wf_fs (b_fs st)" and "list_all (uniform registry) mods" and "b_generated st = all_digests root registry mods"
    and "read_bytes (b_fs st) = put_files (all_files root registry mods) (read_bytes t)"
    and "load_manifest (b_fs st) root = load_manifest t root"
proof -
  have inv: "only_written t (fst ` set (all_files root registry mods)) (b_fs st)"
    using build_loop_inv[of t root registry mods] assms(1) by (simp add: build_inv_def)
  show "wf_fs (b_fs st)"
    using build_loop_inv[of t root registry mods] assms(1,2) by (simp add: build_inv_def)
  show uniform: "list_all (uniform registry) mods" and "b_generated st = all_digests root registry mods"
    and "read_bytes (b_fs st) = put_files (all_files root registry mods) (read_bytes t)"
    using build_loop_ok[OF assms(1)] by (simp_all add: all_digests_def start_state_def)
  have "\<not> prefix (manifest_path root) p" if p: "p \<in> fst ` set (all_files root registry mods)" for p
  proof -
    obtain m where "m \<in> set mods" "p \<in> generated_paths root (snd (registry m))"
      using p unfolding all_paths by blast
    with assms(3) uniform show ?thesis
      by (intro paths_not_manifest) (simp_all add: list_all_iff)
  qed
  then have "node_at (b_fs st) (manifest_path root) = node_at t (manifest_path root)"
    using inv unfolding only_written_def strict_prefix_def by (metis prefix_order.dual_order.refl)
  then show "load_manifest (b_fs st) root = load_manifest t root"
    by (simp add: load_manifest_def exists_at_def read_text_def read_bytes_def)
qed

lemma put_files_distinct: "distinct (map fst kvs) \<Longrightarrow> (p, c) \<in> set kvs \<Longrightarrow> put_files kvs m p = Some c"
proof -
  assume "distinct (map fst kvs)" and p: "(p, c) \<in> set kvs"
  then have "distinct (map fst (rev kvs))"
    by (simp add: rev_map[symmetric])
  then have "map_of (rev kvs) p = Some c"
    using p by (simp add: map_of_eq_Some_iff)
  then show "put_files kvs m p = Some c"
    by (simp add: put_files_get)
qed

definition distinct_categories :: "registry \<Rightarrow> string list \<Rightarrow> bool" where
  "distinct_categories registry mods \<longleftrightarrow> distinct (map (\<lambda>m. fst (registry m)) mods)"

text \<open>Every generated file is there after the build, the synchronisation included.\<close>

lemma build_main_ok:
  assumes "build_main root None registry t = (Inr out, t')"
  obtains st removed where "for_each (build_module root registry) CATEGORY_MODULES (start_state t) = (Inr (), st)"
    and "sync_managed_artifacts root (b_generated st) (b_selected st) True (b_fs st) = (Inr removed, t')"
  using assms that by (auto simp: build_main_def selected_modules_def split: prod.splits sum.splits)

lemma built_files:
  assumes "wf_fs t" and "list_all (good_module registry) CATEGORY_MODULES"
    and "distinct_categories registry CATEGORY_MODULES"
    and "distinct (map fst (all_files root registry CATEGORY_MODULES))"
    and "load_manifest t root = Inr previous" and "normal_manifest previous"
    and "build_main root None registry t = (Inr out, t')"
    and "m \<in> set CATEGORY_MODULES" and "(p, c) \<in> set (generated_files root (snd (registry m)))"
  shows "read_bytes t' p = Some c"
proof -
  obtain st removed where st: "for_each (build_module root registry) CATEGORY_MODULES (start_state t) = (Inr (), st)"
    "sync_managed_artifacts root (b_generated st) (b_selected st) True (b_fs st) = (Inr removed, t')"
    using assms(7) by (rule build_main_ok)
  note loop = build_loop_state[OF st(1) assms(1,2)]
  have m: "good_module registry m" "uniform registry m"
    using assms(2,8) loop(2) by (simp_all add: list_all_iff)
  have p: "p \<in> generated_paths root (snd (registry m))"
    using assms(9) by (force simp: generated_paths_def)
  have load: "load_manifest (b_fs st) root = Inr previous"
    using loop(5) assms(5) by simp
  have "dict_get (b_generated st) (fst (registry m)) = Some (generated_digests root (snd (registry m)))"
    using all_digests_get[OF _ assms(8)] assms(3) loop(3) by (simp add: distinct_categories_def)
  note stale = not_stale[OF load assms(6) this good_uniform[OF m] p]
  have "p \<noteq> manifest_path root"
    using paths_not_manifest[OF m p] by auto
  note keeps = sync_keeps_read[OF loop(1) load stale this, of "b_selected st" True]
  moreover have "(p, c) \<in> set (all_files root registry CATEGORY_MODULES)"
    using assms(8,9) by (auto simp: all_files_def)
  then have "read_bytes (b_fs st) p = Some c"
    using put_files_distinct[OF assms(4)] loop(4) by simp
  ultimately show ?thesis
    using st(2) by simp
qed

lemma build_again:
  assumes "wf_fs t" and "list_all (good_module registry) CATEGORY_MODULES"
    and "distinct_categories registry CATEGORY_MODULES"
    and "distinct (map fst (all_files root registry CATEGORY_MODULES))"
    and "load_manifest t root = Inr previous" and "normal_manifest previous"
    and "build_main root None registry t = (Inr out, t')"
    and "list_all (\<lambda>m. list_all (is_file t') (external_scripts root (snd (registry m)))) CATEGORY_MODULES"
  shows "\<exists>out'. build_main root None registry t' = (Inr out', t')"
proof -
  obtain st removed where st: "for_each (build_module root registry) CATEGORY_MODULES (start_state t) = (Inr (), st)"
    "sync_managed_artifacts root (b_generated st) (b_selected st) True (b_fs st) = (Inr removed, t')"
    using assms(7) by (rule build_main_ok)
  note loop = build_loop_state[OF st(1) assms(1,2)]
  have wf: "wf_fs t'"
    using sync_keeps_wf[OF loop(1), of root "b_generated st" "b_selected st" True] st(2) by simp
  have "list_all (module_there t' root registry) CATEGORY_MODULES"
    using loop(2) assms(8) built_files[OF assms(1-7)]
    by (auto simp: module_there_def list_all_iff holds_def)
  from build_loop_same[OF wf this] obtain st2 where st2:
    "for_each (build_module root registry) CATEGORY_MODULES (start_state t') = (Inr (), st2)"
    "b_fs st2 = t'" "b_generated st2 = all_digests root registry CATEGORY_MODULES"
    by blast
  have "sync_managed_artifacts root (b_generated st) (b_selected st2) True t' = (Inr [], t')"
    using sync_again[OF loop(1) _ st(2)] valid_all_digests[OF assms(2) loop(2)] loop(3) by simp
  then have "sync_managed_artifacts root (b_generated st2) (b_selected st2) True (b_fs st2) = (Inr [], t')"
    using st2(2,3) loop(3) by simp
  then show ?thesis
    using st2(1) by (simp add: build_main_def selected_modules_def)
qed

text \<open>A file that is there before the build, is not generated and is not recorded stays.\<close>

definition unrecorded :: "manifest \<Rightarrow> string \<Rightarrow> bool" where
  "unrecorded cats r \<longleftrightarrow> list_all (\<lambda>(c, files). list_all (\<lambda>(r', d). r' \<noteq> r) files) cats"

lemma not_recorded_stale:
  assumes "load_manifest t root = Inr previous" and "normal_manifest previous"
    and "p = root @ x # q" and "unrecorded previous (relative_path root p)"
  shows "\<not> owned_stale t root previous generated cats p"
proof
  assume "owned_stale t root previous generated cats p"
  then obtain c r where r: "r \<in> set (stale_files previous generated c)" "p = join_path root r"
    by (auto simp: owned_stale_def removable_def)
  obtain d where rd: "(r, d) \<in> set (dict_get_or_empty previous c)"
    using stale_entry[OF r(1)] by blast
  then have entry: "(c, dict_get_or_empty previous c) \<in> set previous"
    by (rule dict_get_or_empty_member)
  have "\<not> unsafe_entry c r d"
    using assms(1) entry rd by (rule loaded_entry_safe)
  then have "path_parts r = x # q"
    using r(2) assms(3) by (simp add: safe_join_path)
  then have "r = relative_path root p"
    using normal_entry[OF assms(2) entry rd] by (simp add: assms(3) relative_path_def relative_posix_append)
  then show False
    using assms(4) entry rd by (auto simp: unrecorded_def list_all_iff)
qed

lemma external_location:
  assumes "good_module registry m" and "p \<in> set (external_scripts root (snd (registry m)))"
  obtains w s where "w \<in> set (snd (registry m))" and "p = root @ [w_category_slug w, w_slug w, ''scripts'', filename s]"
    and "s \<in> set (w_scripts w)"
    and "s \<in> set (w_scripts w)"
proof -
  obtain w s where ws: "w \<in> set (snd (registry m))" "s \<in> set (w_scripts w)" "p = script_path root w s"
    using assms(2) by (auto simp: external_scripts_def)
  have w: "good_workflow w"
    using assms(1) ws(1) by (simp add: good_module_def list_all_iff)
  then have "good_name (filename s)"
    using ws(2) by (simp add: good_workflow_def list_all_iff)
  then show thesis
    using that[of w s] ws w by (simp add: script_path_def workflow_base_good good_join)
qed

lemma build_needs_externals:
  assumes "for_each (build_module root registry) mods (start_state t) = (Inr (), st)"
    and "m \<in> set mods" and "p \<in> set (external_scripts root (snd (registry m)))"
    and "p \<notin> fst ` set (all_files root registry mods)"
  shows "is_file t p"
proof -
  obtain ms st1 where st1: "set ms \<subseteq> set mods" "for_each (build_module root registry) ms (start_state t) = (Inr (), st1)"
    "fst (build_module root registry m st1) = Inr ()"
    using for_each_visit[OF assms(1,2)] by blast
  have ne: "snd (registry m) \<noteq> []"
    using assms(3) by (auto simp: external_scripts_def)
  obtain written t1 where "write_workflows root (snd (registry m)) (b_fs st1) = (Inr written, t1)"
    using st1(3) ne by (auto simp: build_module_cases Let_def split: if_splits prod.splits sum.splits)
  moreover have "p \<notin> generated_paths root (snd (registry m))"
    using assms(2,4) unfolding all_paths by blast
  ultimately have "is_file (b_fs st1) p"
    using external_present assms(3) by blast
  moreover have "fst ` set (all_files root registry ms) \<subseteq> fst ` set (all_files root registry mods)"
    using st1(1) unfolding all_paths by blast
  then have "read_bytes (b_fs st1) p = read_bytes t p"
    using only_written_file[of t "fst ` set (all_files root registry ms)" "b_fs st1" p] build_loop_inv[of t root registry ms]
      assms(4) st1(2) by (auto simp: build_inv_def)
  ultimately show ?thesis
    by (simp add: is_file_def)
qed

definition externals_unrecorded :: "path \<Rightarrow> registry \<Rightarrow> manifest \<Rightarrow> bool" where
  "externals_unrecorded root registry previous \<longleftrightarrow>
     list_all (\<lambda>m. list_all (\<lambda>p. unrecorded previous (relative_path root p)) (external_scripts root (snd (registry m))))
       CATEGORY_MODULES"

lemma external_kept:
  assumes "wf_fs t" and "list_all (good_module registry) CATEGORY_MODULES"
    and "distinct_categories registry CATEGORY_MODULES"
    and "distinct (map fst (all_files root registry CATEGORY_MODULES))"
    and "load_manifest t root = Inr previous" and "normal_manifest previous"
    and "build_main root None registry t = (Inr out, t')"
    and "externals_unrecorded root registry previous"
    and "m \<in> set CATEGORY_MODULES" and "p \<in> set (external_scripts root (snd (registry m)))"
  shows "is_file t' p"
proof (cases "p \<in> fst ` set (all_files root registry CATEGORY_MODULES)")
  case True
  then obtain n c where "n \<in> set CATEGORY_MODULES" "(p, c) \<in> set (generated_files root (snd (registry n)))"
    by (auto simp: all_files_def)
  from built_files[OF assms(1-7) this] show ?thesis
    by (simp add: is_file_def)
next
  case False
  obtain st removed where st: "for_each (build_module root registry) CATEGORY_MODULES (start_state t) = (Inr (), st)"
    "sync_managed_artifacts root (b_generated st) (b_selected st) True (b_fs st) = (Inr removed, t')"
    using assms(7) by (rule build_main_ok)
  note loop = build_loop_state[OF st(1) assms(1,2)]
  have m: "good_module registry m"
    using assms(2,9) by (simp add: list_all_iff)
  then obtain x q where q: "p = root @ x # q" "q \<noteq> []"
    using assms(10) by (rule external_location) simp
  have load: "load_manifest (b_fs st) root = Inr previous"
    using loop(5) assms(5) by simp
  have "unrecorded previous (relative_path root p)"
    using assms(8-10) by (simp add: externals_unrecorded_def list_all_iff)
  note stale = not_recorded_stale[OF load assms(6) q(1) this]
  have "p \<noteq> manifest_path root"
    using q by (auto simp: manifest_path_def)
  then have "read_bytes t' p = read_bytes (b_fs st) p"
    using sync_keeps_read[OF loop(1) load stale, of "b_generated st" "b_selected st" True] st(2) by simp
  moreover have "read_bytes (b_fs st) p = read_bytes t p"
    using only_written_file[OF _ False] build_loop_inv[of t root registry CATEGORY_MODULES] st(1) by (simp add: build_inv_def)
  moreover have "is_file t p"
    using build_needs_externals[OF st(1) assms(9,10) False] .
  ultimately show ?thesis
    by (simp add: is_file_def)
qed

text \<open>
  C4: a full build on the result of a full build returns and leaves the tree as it is: every
  file has the content it is generated with, nothing is stale, and the manifest is the same. The
  names in the registry have to be single ASCII path components, its categories and generated paths
  distinct, the manifest found by the first build written in the generator's form, and none of
  the scripts that the generator does not own recorded in it.
\<close>

theorem build_idempotent:
  assumes "wf_fs t" and "list_all (good_module registry) CATEGORY_MODULES"
    and "distinct_categories registry CATEGORY_MODULES"
    and "distinct (map fst (all_files root registry CATEGORY_MODULES))"
    and "load_manifest t root = Inr previous" and "normal_manifest previous"
    and "build_main root None registry t = (Inr out, t')"
    and "externals_unrecorded root registry previous"
  shows "\<exists>out'. build_main root None registry t' = (Inr out', t')"
  using external_kept[OF assms] by (intro build_again[OF assms(1-7)]) (simp add: list_all_iff)

text \<open>
  The case that is left out of the last law: a script that an earlier build generated and recorded,
  and that the registry has since declared external. It is no longer generated, hence stale, and
  goes while its content is the recorded one; the next build then misses it.
\<close>

lemma external_inside:
  assumes "good_module registry m" and "uniform registry m" and "p \<in> set (external_scripts root (snd (registry m)))"
  shows "inside root (fst (registry m)) p"
proof -
  obtain w s where ws: "w \<in> set (snd (registry m))" "p = root @ [w_category_slug w, w_slug w, ''scripts'', filename s]"
    "s \<in> set (w_scripts w)"
    using assms(1,3) by (rule external_location)
  moreover have "w_category_slug w = fst (registry m)"
    using assms(2) ws(1) by (simp add: uniform_def list_all_iff)
  moreover have "good_workflow w"
    using assms(1) ws(1) by (simp add: good_module_def list_all_iff)
  then have "good_name (w_category_slug w)" "good_name (w_slug w)" "good_name (filename s)"
    using ws(3) by (simp_all add: good_workflow_def list_all_iff)
  ultimately show ?thesis
    unfolding inside_def by (intro exI[of _ "[w_slug w, ''scripts'', filename s]"]) simp
qed

lemma all_generated_inside:
  assumes "list_all (good_module registry) mods" and "list_all (uniform registry) mods"
    and "p \<in> fst ` set (all_files root registry mods)"
  obtains c where "inside root c p"
proof -
  obtain m where m: "m \<in> set mods" "p \<in> generated_paths root (snd (registry m))"
    using assms(3) unfolding all_paths by blast
  then have "good_module registry m" "uniform registry m"
    using assms(1,2) by (simp_all add: list_all_iff)
  from generated_inside[OF good_uniform[OF this] m(2)] show thesis
    by (rule that)
qed

lemma external_stale:
  assumes "good_module registry m" and "uniform registry m" and "p \<in> set (external_scripts root (snd (registry m)))"
    and "p \<notin> generated_paths root (snd (registry m))"
    and "dict_get generated (fst (registry m)) = Some (generated_digests root (snd (registry m)))"
    and "relative_path root p \<in> fst ` set (dict_get_or_empty previous (fst (registry m)))"
  shows "relative_path root p \<in> set (stale_files previous generated (fst (registry m)))"
proof -
  have "relative_path root p \<notin> fst ` set (generated_digests root (snd (registry m)))"
    unfolding digests_keys
    using relative_inj[OF external_inside[OF assms(1-3)] generated_inside[OF good_uniform[OF assms(1,2)]]] assms(4) by blast
  then show ?thesis
    using assms(5,6) by (auto simp: stale_files_def dict_get_or_empty_def)
qed

text \<open>
  C11: a build that returns deletes a script that its registry holds as external and its manifest
  still records, and the next build raises, since the script is missing.
\<close>

theorem recorded_external_lost:
  assumes "wf_fs t" and "node_at t root = Some Dir" and "list_all (good_module registry) CATEGORY_MODULES"
    and "distinct_categories registry CATEGORY_MODULES"
    and "load_manifest t root = Inr previous"
    and "build_main root None registry t = (Inr out, t')"
    and "m \<in> set CATEGORY_MODULES" and "p \<in> set (external_scripts root (snd (registry m)))"
    and "p \<notin> fst ` set (all_files root registry CATEGORY_MODULES)"
    and "relative_path root p \<in> fst ` set (dict_get_or_empty previous (fst (registry m)))"
  shows "node_at t' p = None \<and> (\<exists>e. fst (build_main root None registry t') = Inl e)"
proof -
  obtain st removed where st: "for_each (build_module root registry) CATEGORY_MODULES (start_state t) = (Inr (), st)"
    "sync_managed_artifacts root (b_generated st) (b_selected st) True (b_fs st) = (Inr removed, t')"
    using assms(6) by (rule build_main_ok)
  note loop = build_loop_state[OF st(1) assms(1,3)]
  have load: "load_manifest (b_fs st) root = Inr previous"
    using loop(5) assms(5) by simp
  have m: "good_module registry m" "uniform registry m"
    using assms(3,7) loop(2) by (simp_all add: list_all_iff)
  have p: "inside root (fst (registry m)) p"
    using m assms(8) by (rule external_inside)
  have generated: "dict_get (b_generated st) (fst (registry m)) = Some (generated_digests root (snd (registry m)))"
    using all_digests_get[OF _ assms(7)] assms(4) loop(3) by (simp add: distinct_categories_def)
  have "p \<notin> generated_paths root (snd (registry m))"
    using assms(7,9) unfolding all_paths by blast
  note stale = external_stale[OF m assms(8) this generated assms(10)]
  have category: "fst (registry m) \<in> set (categories_to_sync previous (b_generated st) (b_selected st) True)"
    using map_of_SomeD[OF generated[unfolded dict_get_def]] by (force simp: categories_to_sync_def)
  have "only_written t (fst ` set (all_files root registry CATEGORY_MODULES)) (b_fs st)"
    using build_loop_inv[of t root registry CATEGORY_MODULES] st(1) by (simp add: build_inv_def)
  moreover have below: "root \<notin> fst ` set (all_files root registry CATEGORY_MODULES)"
    using all_generated_inside[OF assms(3) loop(2), of root root] by (auto simp: inside_def)
  ultimately have root: "node_at (b_fs st) root = Some Dir"
    using assms(2) below unfolding only_written_def by (metis option.distinct(1))
  have path: "join_path root (relative_path root p) = p"
    using p by (rule relative_inside)
  have "p \<noteq> manifest_path root"
    using p m(1) by (auto simp: inside_def good_module_def manifest_path_def)
  then have gone: "node_at t' p = None"
    using stale_removed[OF loop(1) root load refl _ category stale] st(2) by (simp add: path)
  moreover have "fst (build_main root None registry t') \<noteq> Inr r" for r
  proof
    assume "fst (build_main root None registry t') = Inr r"
    then obtain t2 where "build_main root None registry t' = (Inr r, t2)"
      by (metis prod.collapse)
    then obtain st2 removed2 where "for_each (build_module root registry) CATEGORY_MODULES (start_state t') = (Inr (), st2)"
      by (rule build_main_ok)
    from build_needs_externals[OF this assms(7-9)] gone show False
      by (simp add: is_file_def read_bytes_def)
  qed
  then have "\<exists>e. fst (build_main root None registry t') = Inl e"
    by (cases "fst (build_main root None registry t')") auto
  ultimately show ?thesis ..
qed

end
