(* ===== verification/Py_Regex.thy ===== *)
theory Py_Regex
  imports Py_Str
begin

text \<open>
  The part of Python's \<open>re\<close> that the tools use, as a datatype of patterns and a backtracking
  matcher. A cursor is the character before the position, the text from the position on, and
  the captured groups, latest first. \<open>ends r x\<close> lists every cursor at which a match of \<open>r\<close>
  from \<open>x\<close> can end, in the order in which the backtracking engine tries them, so that the first
  element is the match \<open>re\<close> reports. The second half relates the matcher to a declarative
  match relation.
\<close>

section \<open>Patterns\<close>

datatype re =
    Eps
  | Chr "char \<Rightarrow> bool"
  | Seq re re
  | Alt re re
  | Star re
  | Lazy re
  | Group nat re
  | Ref nat
  | Word_Boundary
  | Text_Start
  | Line_Start
  | Text_End

type_synonym cursor = "char option \<times> string \<times> (nat \<times> string) list"

fun rest :: "cursor \<Rightarrow> string" where
  "rest (p, s, g) = s"

fun groups :: "cursor \<Rightarrow> (nat \<times> string) list" where
  "groups (p, s, g) = g"

fun advance :: "string \<Rightarrow> cursor \<Rightarrow> cursor" where
  "advance w (p, s, g) = (if w = [] then p else Some (last w), drop (length w) s, g)"

fun capture :: "nat \<Rightarrow> string \<Rightarrow> cursor \<Rightarrow> cursor" where
  "capture n s (p, t, g) = (p, t, (n, take (length s - length t) s) # g)"

definition opt_word :: "char option \<Rightarrow> bool" where
  "opt_word p \<longleftrightarrow> (case p of None \<Rightarrow> False | Some c \<Rightarrow> is_word c)"

definition first_of :: "string \<Rightarrow> char option" where
  "first_of s = (case s of [] \<Rightarrow> None | c # _ \<Rightarrow> Some c)"

lemma opt_word_simps [simp]: "opt_word None = False" "opt_word (Some c) = is_word c"
  by (simp_all add: opt_word_def)

lemma first_of_simps [simp]: "first_of [] = None" "first_of (c # s) = Some c"
  by (simp_all add: first_of_def)

function ends :: "re \<Rightarrow> cursor \<Rightarrow> cursor list" where
  "ends Eps x = [x]"
| "ends (Chr P) (p, s, g) =
     (case s of [] \<Rightarrow> [] | c # cs \<Rightarrow> if P c then [(Some c, cs, g)] else [])"
| "ends (Seq r1 r2) x = concat (map (\<lambda>y. ends r2 y) (ends r1 x))"
| "ends (Alt r1 r2) x = ends r1 x @ ends r2 x"
| "ends (Star r) x =
     concat (map (\<lambda>y. ends (Star r) y)
       (filter (\<lambda>y. length (rest y) < length (rest x)) (ends r x))) @ [x]"
| "ends (Lazy r) x =
     x # concat (map (\<lambda>y. ends (Lazy r) y)
       (filter (\<lambda>y. length (rest y) < length (rest x)) (ends r x)))"
| "ends (Group n r) (p, s, g) = map (capture n s) (ends r (p, s, g))"
| "ends (Ref n) (p, s, g) =
     (case map_of g n of
        None \<Rightarrow> []
      | Some w \<Rightarrow> if prefix w s then [advance w (p, s, g)] else [])"
| "ends Word_Boundary (p, s, g) =
     (if opt_word p \<noteq> opt_word (first_of s) then [(p, s, g)] else [])"
| "ends Text_Start (p, s, g) = (if p = None then [(p, s, g)] else [])"
| "ends Line_Start (p, s, g) = (if p = None \<or> p = Some NL then [(p, s, g)] else [])"
| "ends Text_End (p, s, g) = (if s = [] \<or> s = [NL] then [(p, s, g)] else [])"
  by pat_completeness auto
termination
  by (relation "measures [\<lambda>(r, x). size r, \<lambda>(r, x). length (rest x)]") auto

declare ends.simps(5,6) [simp del]

section \<open>Derived patterns\<close>

definition Plus :: "re \<Rightarrow> re" where
  "Plus r = Seq r (Star r)"

definition Opt :: "re \<Rightarrow> re" where
  "Opt r = Alt r Eps"

text \<open>A literal text, and a literal text under \<open>re.IGNORECASE\<close>.\<close>

fun lit :: "string \<Rightarrow> re" where
  "lit [] = Eps"
| "lit (c # cs) = Seq (Chr ((=) c)) (lit cs)"

fun liti :: "string \<Rightarrow> re" where
  "liti [] = Eps"
| "liti (c # cs) = Seq (Chr (\<lambda>d. lower_char d = lower_char c)) (liti cs)"

fun alts :: "re list \<Rightarrow> re" where
  "alts [] = Chr (\<lambda>_. False)"
| "alts [r] = r"
| "alts (r # r' # rs) = Alt r (alts (r' # rs))"

fun seqs :: "re list \<Rightarrow> re" where
  "seqs [] = Eps"
| "seqs [r] = r"
| "seqs (r # r' # rs) = Seq r (seqs (r' # rs))"

abbreviation Space :: re where "Space \<equiv> Chr is_space"
abbreviation Any :: re where "Any \<equiv> Chr (\<lambda>_. True)"
abbreviation Not_In :: "char list \<Rightarrow> re" where "Not_In cs \<equiv> Chr (\<lambda>c. c \<notin> set cs)"
abbreviation In_Set :: "char list \<Rightarrow> re" where "In_Set cs \<equiv> Chr (\<lambda>c. c \<in> set cs)"

section \<open>Searching and substituting\<close>

text \<open>
  \<open>re.match\<close> tries the start of the text only. \<open>re.search\<close> tries every position from left to
  right and reports the text from the match on, with the cursor at its end.
\<close>

definition match_at :: "re \<Rightarrow> char option \<Rightarrow> string \<Rightarrow> cursor option" where
  "match_at r p s = (case ends r (p, s, []) of [] \<Rightarrow> None | y # _ \<Rightarrow> Some y)"

definition re_match :: "re \<Rightarrow> string \<Rightarrow> cursor option" where
  "re_match r s = match_at r None s"

fun search_at :: "re \<Rightarrow> char option \<Rightarrow> string \<Rightarrow> (string \<times> cursor) option" where
  "search_at r p [] = map_option (\<lambda>y. ([], y)) (match_at r p [])"
| "search_at r p (c # cs) =
     (case match_at r p (c # cs) of
        Some y \<Rightarrow> Some (c # cs, y)
      | None \<Rightarrow> search_at r (Some c) cs)"

definition re_search :: "re \<Rightarrow> string \<Rightarrow> (string \<times> cursor) option" where
  "re_search r s = search_at r None s"

definition found :: "re \<Rightarrow> string \<Rightarrow> bool" where
  "found r s \<longleftrightarrow> re_search r s \<noteq> None"

definition group :: "nat \<Rightarrow> cursor \<Rightarrow> string" where
  "group n x = (case map_of (groups x) n of None \<Rightarrow> [] | Some w \<Rightarrow> w)"

text \<open>
  \<open>re.sub\<close> replaces every leftmost match; after an empty match one character is copied.
\<close>

function sub_at :: "re \<Rightarrow> string \<Rightarrow> char option \<Rightarrow> string \<Rightarrow> string" where
  "sub_at r new p s =
     (case match_at r p s of
        Some (p', s', g') \<Rightarrow>
          if length s' < length s then new @ sub_at r new p' s'
          else new @ (case s of [] \<Rightarrow> [] | c # cs \<Rightarrow> c # sub_at r new (Some c) cs)
      | None \<Rightarrow> (case s of [] \<Rightarrow> [] | c # cs \<Rightarrow> c # sub_at r new (Some c) cs))"
  by pat_completeness auto
termination
  by (relation "measure (\<lambda>(r, new, p, s). length s)") auto

declare sub_at.simps [simp del]

definition re_sub :: "re \<Rightarrow> string \<Rightarrow> string \<Rightarrow> string" where
  "re_sub r new s = sub_at r new None s"

text \<open>\<open>re.findall\<close> for a pattern with one group: the group's text of each match.\<close>

function findall_at :: "re \<Rightarrow> char option \<Rightarrow> string \<Rightarrow> string list" where
  "findall_at r p s =
     (case match_at r p s of
        Some (p', s', g') \<Rightarrow>
          if length s' < length s then group 1 (p', s', g') # findall_at r p' s'
          else group 1 (p', s', g') # (case s of [] \<Rightarrow> [] | c # cs \<Rightarrow> findall_at r (Some c) cs)
      | None \<Rightarrow> (case s of [] \<Rightarrow> [] | c # cs \<Rightarrow> findall_at r (Some c) cs))"
  by pat_completeness auto
termination
  by (relation "measure (\<lambda>(r, p, s). length s)") auto

declare findall_at.simps [simp del]

definition re_findall :: "re \<Rightarrow> string \<Rightarrow> string list" where
  "re_findall r s = findall_at r None s"

section \<open>The declarative reading\<close>

text \<open>
  \<open>matches r x y\<close>: pattern \<open>r\<close> can match from cursor \<open>x\<close> to cursor \<open>y\<close>, with no priority
  between the alternatives. An iteration of a repetition has to consume text.
\<close>

inductive matches :: "re \<Rightarrow> cursor \<Rightarrow> cursor \<Rightarrow> bool" where
  m_eps: "matches Eps x x"
| m_chr: "P c \<Longrightarrow> matches (Chr P) (p, c # s, g) (Some c, s, g)"
| m_seq: "matches r1 x y \<Longrightarrow> matches r2 y z \<Longrightarrow> matches (Seq r1 r2) x z"
| m_alt1: "matches r1 x y \<Longrightarrow> matches (Alt r1 r2) x y"
| m_alt2: "matches r2 x y \<Longrightarrow> matches (Alt r1 r2) x y"
| m_star0: "matches (Star r) x x"
| m_star: "matches r x y \<Longrightarrow> length (rest y) < length (rest x) \<Longrightarrow> matches (Star r) y z \<Longrightarrow>
     matches (Star r) x z"
| m_lazy0: "matches (Lazy r) x x"
| m_lazy: "matches r x y \<Longrightarrow> length (rest y) < length (rest x) \<Longrightarrow> matches (Lazy r) y z \<Longrightarrow>
     matches (Lazy r) x z"
| m_group: "matches r (p, s, g) y \<Longrightarrow> matches (Group n r) (p, s, g) (capture n s y)"
| m_ref: "map_of g n = Some w \<Longrightarrow> prefix w s \<Longrightarrow> matches (Ref n) (p, s, g) (advance w (p, s, g))"
| m_word: "opt_word p \<noteq> opt_word (first_of s) \<Longrightarrow> matches Word_Boundary (p, s, g) (p, s, g)"
| m_start: "matches Text_Start (None, s, g) (None, s, g)"
| m_line: "p = None \<or> p = Some NL \<Longrightarrow> matches Line_Start (p, s, g) (p, s, g)"
| m_end: "s = [] \<or> s = [NL] \<Longrightarrow> matches Text_End (p, s, g) (p, s, g)"

lemma in_ends_Star:
  "y \<in> set (ends (Star r) x) \<longleftrightarrow>
     y = x \<or> (\<exists>z \<in> set (ends r x). length (rest z) < length (rest x) \<and> y \<in> set (ends (Star r) z))"
  by (subst ends.simps) (simp only: set_append set_concat set_map set_filter list.set, blast)

lemma in_ends_Lazy:
  "y \<in> set (ends (Lazy r) x) \<longleftrightarrow>
     y = x \<or> (\<exists>z \<in> set (ends r x). length (rest z) < length (rest x) \<and> y \<in> set (ends (Lazy r) z))"
  by (subst ends.simps) (simp only: set_append set_concat set_map set_filter list.set, blast)

lemma ends_complete: "matches r x y \<Longrightarrow> y \<in> set (ends r x)"
proof (induction rule: matches.induct)
  case (m_star r x y z)
  then show ?case
    by (subst in_ends_Star) blast
next
  case (m_lazy r x y z)
  then show ?case
    by (subst in_ends_Lazy) blast
next
  case (m_star0 r x)
  show ?case by (subst in_ends_Star) simp
next
  case (m_lazy0 r x)
  show ?case by (subst in_ends_Lazy) simp
qed auto

lemma ends_sound: "y \<in> set (ends r x) \<Longrightarrow> matches r x y"
proof (induction r x arbitrary: y rule: ends.induct)
  case (3 r1 r2 x)
  then obtain z where "z \<in> set (ends r1 x)" "y \<in> set (ends r2 z)"
    by (simp only: ends.simps set_concat set_map) blast
  with 3 show ?case by (blast intro: m_seq)
next
  case (7 n r p s g)
  then obtain z where "z \<in> set (ends r (p, s, g))" "y = capture n s z"
    by (simp only: ends.simps set_map) blast
  with 7 show ?case by (blast intro: m_group)
next
  case (8 n p s g)
  then obtain w where "map_of g n = Some w" "prefix w s" "y = advance w (p, s, g)"
    by (cases "map_of g n") (auto split: if_splits simp del: advance.simps)
  then show ?case by (blast intro: m_ref)
next
  case (5 r x)
  from iffD1[OF in_ends_Star "5.prems"] show ?case
  proof
    assume "\<exists>z \<in> set (ends r x). length (rest z) < length (rest x) \<and> y \<in> set (ends (Star r) z)"
    then obtain z where z: "z \<in> set (ends r x)" "length (rest z) < length (rest x)"
      "y \<in> set (ends (Star r) z)" by blast
    then have "matches r x z" "matches (Star r) z y"
      using "5.IH" by simp_all
    with z show ?thesis by (blast intro: matches.intros)
  qed (simp add: matches.intros)
next
  case (6 r x)
  from iffD1[OF in_ends_Lazy "6.prems"] show ?case
  proof
    assume "\<exists>z \<in> set (ends r x). length (rest z) < length (rest x) \<and> y \<in> set (ends (Lazy r) z)"
    then obtain z where z: "z \<in> set (ends r x)" "length (rest z) < length (rest x)"
      "y \<in> set (ends (Lazy r) z)" by blast
    then have "matches r x z" "matches (Lazy r) z y"
      using "6.IH" by simp_all
    with z show ?thesis by (blast intro: matches.intros)
  qed (simp add: matches.intros)
qed (auto intro: matches.intros split: list.splits option.splits if_splits)

lemma ends_iff_matches: "y \<in> set (ends r x) \<longleftrightarrow> matches r x y"
  using ends_sound ends_complete by blast

text \<open>A match moves forward over a piece of the text.\<close>

lemma matches_suffix:
  "matches r x y \<Longrightarrow> \<exists>w. rest x = w @ rest y \<and> fst y = (if w = [] then fst x else Some (last w))"
proof (induction rule: matches.induct)
  case (m_seq r1 x y r2 z)
  then obtain v w where "rest x = v @ rest y" "rest y = w @ rest z"
    "fst y = (if v = [] then fst x else Some (last v))"
    "fst z = (if w = [] then fst y else Some (last w))" by blast
  then show ?case by (intro exI[of _ "v @ w"]) auto
next
  case (m_star r x y z)
  then obtain v w where "rest x = v @ rest y" "rest y = w @ rest z"
    "fst y = (if v = [] then fst x else Some (last v))"
    "fst z = (if w = [] then fst y else Some (last w))" by blast
  then show ?case by (intro exI[of _ "v @ w"]) auto
next
  case (m_lazy r x y z)
  then obtain v w where "rest x = v @ rest y" "rest y = w @ rest z"
    "fst y = (if v = [] then fst x else Some (last v))"
    "fst z = (if w = [] then fst y else Some (last w))" by blast
  then show ?case by (intro exI[of _ "v @ w"]) auto
next
  case (m_group r p s g y n)
  then show ?case by (cases y) auto
next
  case (m_ref g n w s p)
  then show ?case by (intro exI[of _ w]) (auto simp: prefix_def)
qed auto

lemma ends_suffix: "y \<in> set (ends r x) \<Longrightarrow> \<exists>w. rest x = w @ rest y"
  using ends_sound matches_suffix by blast

lemma ends_rest_le: "y \<in> set (ends r x) \<Longrightarrow> length (rest y) \<le> length (rest x)"
  by (drule ends_suffix) auto

lemma match_at_Some: "match_at r p s = Some y \<Longrightarrow> matches r (p, s, []) y"
  by (auto simp: match_at_def split: list.splits intro: ends_sound)

lemma match_at_None_ends: "match_at r p s = None \<longleftrightarrow> ends r (p, s, []) = []"
  by (simp add: match_at_def split: list.split)

lemma match_at_None: "match_at r p s = None \<longleftrightarrow> (\<forall>y. \<not> matches r (p, s, []) y)"
proof -
  have "match_at r p s = None \<longleftrightarrow> set (ends r (p, s, [])) = {}"
    by (simp add: match_at_None_ends)
  also have "\<dots> \<longleftrightarrow> (\<forall>y. \<not> matches r (p, s, []) y)"
    unfolding ends_iff_matches[symmetric] by (simp only: ex_in_conv[symmetric] set_eq_iff) simp
  finally show ?thesis .
qed

lemma match_at_suffix:
  "match_at r p s = Some (p', s', g') \<Longrightarrow>
     \<exists>w. s = w @ s' \<and> p' = (if w = [] then p else Some (last w))"
  by (drule match_at_Some, drule matches_suffix) (simp only: rest.simps fst_conv)

section \<open>Searching is finding the leftmost match\<close>

definition char_before :: "char option \<Rightarrow> string \<Rightarrow> char option" where
  "char_before p a = (if a = [] then p else Some (last a))"

lemma char_before_Nil [simp]: "char_before p [] = p"
  by (simp add: char_before_def)

lemma char_before_Cons [simp]: "char_before p (c # a) = char_before (Some c) a"
  by (simp add: char_before_def)

lemma char_before_append [simp]: "char_before p (a @ b) = char_before (char_before p a) b"
  by (auto simp: char_before_def)

lemma search_at_None:
  "search_at r p s = None \<longleftrightarrow> (\<forall>a b. s = a @ b \<longrightarrow> match_at r (char_before p a) b = None)"
proof (induction s arbitrary: p)
  case Nil
  then show ?case by simp
next
  case (Cons c cs)
  have "(\<forall>a b. c # cs = a @ b \<longrightarrow> match_at r (char_before p a) b = None) \<longleftrightarrow>
      match_at r p (c # cs) = None \<and>
      (\<forall>a b. cs = a @ b \<longrightarrow> match_at r (char_before (Some c) a) b = None)" (is "?L \<longleftrightarrow> ?R")
  proof
    assume L: ?L
    have "match_at r (char_before (Some c) a) b = None" if "cs = a @ b" for a b
      using L[rule_format, of "c # a" b] that by simp
    then show ?R using L[rule_format, of "[]"] by simp
  next
    assume ?R
    then show ?L by (auto simp: Cons_eq_append_conv)
  qed
  with Cons show ?case by (simp split: option.splits)
qed

lemma search_at_Some:
  "search_at r p s = Some (t, y) \<Longrightarrow>
     \<exists>a. s = a @ t \<and> match_at r (char_before p a) t = Some y \<and>
       (\<forall>b c. b @ c = a \<and> c \<noteq> [] \<longrightarrow> match_at r (char_before p b) (c @ t) = None)"
proof (induction s arbitrary: p)
  case Nil
  then show ?case by auto
next
  case (Cons c cs)
  show ?case
  proof (cases "match_at r p (c # cs)")
    case None
    with Cons.prems have "search_at r (Some c) cs = Some (t, y)" by simp
    from Cons.IH[OF this] obtain a where a: "cs = a @ t"
      "match_at r (char_before (Some c) a) t = Some y"
      "\<forall>b d. b @ d = a \<and> d \<noteq> [] \<longrightarrow> match_at r (char_before (Some c) b) (d @ t) = None" by blast
    have "match_at r (char_before p b) (d @ t) = None" if "b @ d = c # a" "d \<noteq> []" for b d
      using that None a by (cases b) auto
    with a show ?thesis by (intro exI[of _ "c # a"]) auto
  next
    case (Some y')
    with Cons.prems show ?thesis by (intro exI[of _ "[]"]) auto
  qed
qed

theorem found_iff: "found r s \<longleftrightarrow> (\<exists>a b y. s = a @ b \<and> matches r (char_before None a, b, []) y)"
  by (auto simp: found_def re_search_def search_at_None match_at_None)

section \<open>Literals and runs\<close>

lemma advance_Cons [simp]: "advance (c # w) (p, d # s, g) = advance w (Some c, s, g)"
  by simp

lemma ends_lit [simp]: "ends (lit w) (p, s, g) = (if prefix w s then [advance w (p, s, g)] else [])"
proof (induction w arbitrary: p s)
  case Nil
  then show ?case by simp
next
  case (Cons c w)
  then show ?case by (cases s) auto
qed

lemma ends_Opt [simp]: "ends (Opt r) x = ends r x @ [x]"
  by (simp add: Opt_def)

lemma ends_Plus [simp]: "ends (Plus r) x = concat (map (ends (Star r)) (ends r x))"
  by (simp add: Plus_def)

text \<open>A greedy or lazy repetition of one character class.\<close>

lemma ends_Star_Chr_Nil [simp]: "ends (Star (Chr P)) (p, [], g) = [(p, [], g)]"
  by (subst ends.simps) simp

lemma ends_Star_Chr_Cons [simp]:
  "ends (Star (Chr P)) (p, c # s, g) =
     (if P c then ends (Star (Chr P)) (Some c, s, g) @ [(p, c # s, g)] else [(p, c # s, g)])"
  by (subst ends.simps) simp

lemma ends_Lazy_Chr_Nil [simp]: "ends (Lazy (Chr P)) (p, [], g) = [(p, [], g)]"
  by (subst ends.simps) simp

lemma ends_Lazy_Chr_Cons [simp]:
  "ends (Lazy (Chr P)) (p, c # s, g) =
     (p, c # s, g) # (if P c then ends (Lazy (Chr P)) (Some c, s, g) else [])"
  by (subst ends.simps) simp

section \<open>The first match of common pattern shapes\<close>

definition first :: "'a list \<Rightarrow> 'a option" where
  "first xs = (case xs of [] \<Rightarrow> None | x # _ \<Rightarrow> Some x)"

lemma first_simps [simp]:
  "first [] = None" "first (x # xs) = Some x"
  "first (xs @ ys) = (case first xs of None \<Rightarrow> first ys | Some x \<Rightarrow> Some x)"
  by (auto simp: first_def split: list.splits)

lemma first_None [simp]: "first xs = None \<longleftrightarrow> xs = []"
  by (simp add: first_def split: list.split)

lemma match_at_first: "match_at r p s = first (ends r (p, s, []))"
  by (simp add: match_at_def first_def)

lemma ends_Seq_single: "ends r1 x = [y] \<Longrightarrow> ends (Seq r1 r2) x = ends r2 y"
  by simp

lemma advance_char_before [simp]: "advance w (p, s, g) = (char_before p w, drop (length w) s, g)"
  by (simp add: char_before_def)

declare advance.simps [simp del] advance_Cons [simp del]

text \<open>All ways to cut a text in two, shortest first part first.\<close>

fun splits :: "'a list \<Rightarrow> ('a list \<times> 'a list) list" where
  "splits [] = [([], [])]"
| "splits (c # cs) = ([], c # cs) # map (\<lambda>(a, b). (c # a, b)) (splits cs)"

lemma splits_append: "(a, b) \<in> set (splits s) \<Longrightarrow> s = a @ b"
  by (induction s arbitrary: a b) auto

lemma ends_Lazy_Any:
  "ends (Lazy Any) (p, s, g) = map (\<lambda>(a, b). (char_before p a, b, g)) (splits s)"
  by (induction s arbitrary: p) (auto simp: comp_def case_prod_unfold)

lemma ends_Group_Lazy_Any:
  "ends (Group n (Lazy Any)) (p, s, g) =
     map (\<lambda>(a, b). (char_before p a, b, (n, a) # g)) (splits s)"
  by (auto simp: ends_Lazy_Any dest!: splits_append)

text \<open>The text before and after the first occurrence of a piece of text.\<close>

fun find_sub :: "'a list \<Rightarrow> 'a list \<Rightarrow> ('a list \<times> 'a list) option" where
  "find_sub w [] = (if w = [] then Some ([], []) else None)"
| "find_sub w (c # cs) =
     (if prefix w (c # cs) then Some ([], drop (length w) (c # cs))
      else map_option (\<lambda>(a, b). (c # a, b)) (find_sub w cs))"

lemma find_sub_Some: "find_sub w s = Some (a, b) \<Longrightarrow> s = a @ w @ b"
  by (induction s arbitrary: a b) (auto simp: prefix_def split: if_splits)

lemma find_sub_length: "find_sub w s = Some (a, b) \<Longrightarrow> length b \<le> length s"
  by (drule find_sub_Some) simp

lemma find_sub_None: "find_sub w s = None \<longleftrightarrow> \<not> contains w s"
  by (induction s) auto

lemma find_sub_contains: "find_sub w s = Some x \<Longrightarrow> contains w s"
  by (metis find_sub_None option.distinct(1))

lemma no_early_prefix:
  assumes "w \<noteq> []" and "\<not> contains w (a @ butlast w)" and "a \<noteq> []"
  shows "\<not> prefix w (a @ w @ b)"
proof
  assume "prefix w (a @ w @ b)"
  then have "prefix w (a @ butlast w)"
  proof (rule prefix_length_prefix)
    have "a @ w @ b = (a @ butlast w) @ [last w] @ b"
      using assms(1) by simp
    then show "prefix (a @ butlast w) (a @ w @ b)"
      by (metis prefixI)
    show "length w \<le> length (a @ butlast w)"
      using assms(3) by (cases a) auto
  qed
  with assms show False
    by (metis append_is_Nil_conv contains.elims(3) contains_iff prefix_def append_Nil)
qed

lemma find_sub_append:
  assumes "w \<noteq> []" and "\<not> contains w (a @ butlast w)"
  shows "find_sub w (a @ w @ b) = Some (a, b)"
  using assms(2)
proof (induction a)
  case Nil
  with assms(1) show ?case by (cases w) auto
next
  case (Cons c a)
  then have "\<not> prefix w (c # a @ w @ b)"
    using no_early_prefix[OF assms(1), of "c # a" b] by simp
  with Cons show ?case by simp
qed

lemma first_lazy_then_lit:
  "first (concat (map (\<lambda>(a, b). if prefix w b then [f (pre @ a) (drop (length w) b)] else []) (splits s))) =
     map_option (\<lambda>(a, b). f (pre @ a) b) (find_sub w s)"
proof (induction s arbitrary: pre)
  case Nil
  then show ?case by simp
next
  case (Cons c cs)
  have "first (concat (map (\<lambda>(a, b). if prefix w b then [f (pre @ c # a) (drop (length w) b)] else [])
      (splits cs))) = map_option (\<lambda>(a, b). f (pre @ c # a) b) (find_sub w cs)"
    using Cons[of "pre @ [c]"] unfolding append_assoc append_Cons append_Nil .
  then show ?case
    by (cases "find_sub w cs") (auto simp: comp_def case_prod_unfold cong: if_cong)
qed

lemma first_Lazy_Any_lit:
  "first (ends (Seq (Lazy Any) (lit w)) (p, s, g)) =
     map_option (\<lambda>(a, b). (char_before p (a @ w), b, g)) (find_sub w s)"
  using first_lazy_then_lit[of w "\<lambda>a b. (char_before p (a @ w), b, g)" "[]" s]
  by (simp add: ends_Lazy_Any comp_def case_prod_unfold cong: if_cong)

lemma first_Group_Lazy_Any_lit:
  "first (ends (Seq (Group n (Lazy Any)) (lit w)) (p, s, g)) =
     map_option (\<lambda>(a, b). (char_before p (a @ w), b, (n, a) # g)) (find_sub w s)"
  using first_lazy_then_lit[of w "\<lambda>a b. (char_before p (a @ w), b, (n, a) # g)" "[]" s]
  by (simp only: ends.simps(3) ends_Group_Lazy_Any)
    (simp add: comp_def case_prod_unfold cong: if_cong)

text \<open>A greedy run of one class: the longest run comes first.\<close>

lemma ends_Star_Chr_run:
  assumes "\<forall>c\<in>set a. P c" and "b = [] \<or> \<not> P (hd b)"
  shows "\<exists>ys. ends (Star (Chr P)) (p, a @ b, g) = (char_before p a, b, g) # ys"
  using assms
proof (induction a arbitrary: p)
  case Nil
  then show ?case by (cases b) auto
next
  case (Cons c a)
  then obtain ys where "ends (Star (Chr P)) (Some c, a @ b, g) = (char_before (Some c) a, b, g) # ys"
    by auto
  with Cons.prems show ?case by simp
qed

lemma first_Star_Chr:
  "first (ends (Star (Chr P)) (p, s, g)) =
     Some (char_before p (takeWhile P s), dropWhile P s, g)"
proof -
  have "\<exists>ys. ends (Star (Chr P)) (p, takeWhile P s @ dropWhile P s, g) =
      (char_before p (takeWhile P s), dropWhile P s, g) # ys"
    using hd_dropWhile[of P s] by (intro ends_Star_Chr_run) (auto dest: set_takeWhileD)
  then show ?thesis by auto
qed

section \<open>Sequences that start with a deterministic pattern\<close>

declare lit.simps [simp del] liti.simps [simp del] ends.simps(3) [simp del]

lemmas ends_eval [re_simps] =
  lit.simps liti.simps ends.simps(3) Plus_def Opt_def alts.simps seqs.simps char_before_def

lemma ends_lit_Nil [simp]: "ends (lit []) x = [x]"
  by (simp add: lit.simps)

lemma ends_Seq_lit [simp]:
  "ends (Seq (lit w) r) (p, s, g) =
     (if prefix w s then ends r (char_before p w, drop (length w) s, g) else [])"
  by (simp add: ends.simps(3))

lemma ends_Seq_Text_Start [simp]:
  "ends (Seq Text_Start r) (p, s, g) = (if p = None then ends r (p, s, g) else [])"
  by (cases p) (simp_all add: ends.simps(3))

lemma ends_Seq_Star_Chr_Nil [simp]: "ends (Seq (Star (Chr P)) r) (p, [], g) = ends r (p, [], g)"
  by (simp add: ends.simps(3))

lemma ends_Seq_Star_Chr_Cons [simp]:
  "ends (Seq (Star (Chr P)) r) (p, c # s, g) =
     (if P c then ends (Seq (Star (Chr P)) r) (Some c, s, g) @ ends r (p, c # s, g)
      else ends r (p, c # s, g))"
  by (simp add: ends.simps(3))

lemma ends_Seq_Opt [simp]: "ends (Seq (Opt q) r) x = ends (Seq q r) x @ ends r x"
  by (simp add: ends.simps(3))

lemma search_at_skip:
  assumes "\<And>b c. a = b @ c \<Longrightarrow> c \<noteq> [] \<Longrightarrow> match_at r (char_before p b) (c @ t) = None"
    and "match_at r (char_before p a) t = Some y"
  shows "search_at r p (a @ t) = Some (t, y)"
  using assms
proof (induction a arbitrary: p)
  case Nil
  then show ?case by (cases t) auto
next
  case (Cons c a)
  have "match_at r p (c # a @ t) = None"
    using Cons.prems(1)[of "[]" "c # a"] by simp
  moreover have "search_at r (Some c) (a @ t) = Some (t, y)"
  proof (rule Cons.IH)
    fix b d assume "a = b @ d" "d \<noteq> []"
    then show "match_at r (char_before (Some c) b) (d @ t) = None"
      using Cons.prems(1)[of "c # b" d] by simp
  next
    show "match_at r (char_before (Some c) a) t = Some y"
      using Cons.prems(2) by simp
  qed
  ultimately show ?case by simp
qed

lemma match_at_Seq_lit_None: "\<not> prefix w s \<Longrightarrow> match_at (Seq (lit w) r) p s = None"
  by (simp add: match_at_first)

lemma search_Seq_lit:
  assumes "w \<noteq> []" and "\<not> contains w (a @ butlast w)"
    and "match_at (Seq (lit w) r) (char_before None a) (w @ t) = Some y"
  shows "re_search (Seq (lit w) r) (a @ w @ t) = Some (w @ t, y)"
  unfolding re_search_def
proof (rule search_at_skip)
  fix b c assume bc: "a = b @ c" "c \<noteq> []"
  have "\<not> contains w (c @ butlast w)"
    using assms(2) bc by (auto dest: contains_appendI2)
  then show "match_at (Seq (lit w) r) (char_before None b) (c @ w @ t) = None"
    using no_early_prefix[OF assms(1)] bc by (intro match_at_Seq_lit_None) simp
qed (use assms in simp)

lemma first_map [simp]: "first (map f xs) = map_option f (first xs)"
  by (simp add: first_def split: list.split)

lemma first_Plus_Chr:
  "first (ends (Plus (Chr P)) (p, s, g)) =
     (if s \<noteq> [] \<and> P (hd s) then Some (char_before p (takeWhile P s), dropWhile P s, g) else None)"
  by (cases s) (simp_all add: first_Star_Chr)

lemma re_search_None: "\<not> contains w s \<Longrightarrow> re_search (Seq (lit w) r) s = None"
  unfolding re_search_def search_at_None
  by (metis contains_appendI2 contains_appendI1 contains_self match_at_Seq_lit_None prefix_def)

section \<open>Substitution step by step\<close>

lemma sub_at_Nil: "match_at r p [] = None \<Longrightarrow> sub_at r new p [] = []"
  by (subst sub_at.simps) simp

lemma sub_at_skip: "match_at r p (c # s) = None \<Longrightarrow> sub_at r new p (c # s) = c # sub_at r new (Some c) s"
  by (subst sub_at.simps) simp

lemma sub_at_match:
  "match_at r p s = Some (p', s', g') \<Longrightarrow> length s' < length s \<Longrightarrow>
     sub_at r new p s = new @ sub_at r new p' s'"
  by (subst sub_at.simps) simp

text \<open>
  A greedy run followed by a character outside its class can only end where the run ends.
\<close>

lemma ends_Star_Chr_longest:
  "\<exists>ys. ends (Star (Chr P)) (p, s, g) = (char_before p (takeWhile P s), dropWhile P s, g) # ys \<and>
     (\<forall>y\<in>set ys. rest y \<noteq> [] \<and> P (hd (rest y)))"
proof (induction s arbitrary: p)
  case Nil
  then show ?case by simp
next
  case (Cons c s)
  show ?case
  proof (cases "P c")
    case True
    obtain ys where "ends (Star (Chr P)) (Some c, s, g) =
        (char_before (Some c) (takeWhile P s), dropWhile P s, g) # ys"
      "\<forall>y\<in>set ys. rest y \<noteq> [] \<and> P (hd (rest y))"
      using Cons by blast
    with True show ?thesis by auto
  qed simp
qed

lemma ends_Group_run_then_lit:
  assumes "\<not> P d"
  shows "ends (Seq (Group n (Star (Chr P))) (Seq (lit (d # w)) r)) (p, s, g) =
     ends (Seq (lit (d # w)) r)
       (char_before p (takeWhile P s), dropWhile P s, (n, takeWhile P s) # g)"
proof -
  obtain ys where ys: "ends (Star (Chr P)) (p, s, g) =
      (char_before p (takeWhile P s), dropWhile P s, g) # ys"
    "\<forall>y\<in>set ys. rest y \<noteq> [] \<and> P (hd (rest y))"
    using ends_Star_Chr_longest by blast
  have no: "ends (Seq (lit (d # w)) r) (capture n s y) = []" if "y \<in> set ys" for y
  proof -
    obtain q u h where y: "y = (q, u, h)" by (cases y)
    then have "u \<noteq> []" "P (hd u)"
      using ys(2) that by auto
    with assms y show ?thesis by (cases u) auto
  qed
  have "take (length s - length (dropWhile P s)) s = takeWhile P s"
    by (metis append_eq_conv_conj diff_add_inverse2 length_append takeWhile_dropWhile_id)
  then have "concat (map (ends (Seq (lit (d # w)) r)) (map (capture n s) (ends (Star (Chr P)) (p, s, g)))) =
      ends (Seq (lit (d # w)) r)
        (char_before p (takeWhile P s), dropWhile P s, (n, takeWhile P s) # g)"
    unfolding ys(1) list.map concat.simps map_map comp_def
    by (simp only: capture.simps) (simp add: no concat_map_filter_empty del: ends_Seq_lit)
  then show ?thesis
    by (simp only: ends.simps(3,7))
qed

lemma ends_Seq_Star:
  "ends (Seq (Star r) k) x =
     concat (map (\<lambda>y. ends (Seq (Star r) k) y)
       (filter (\<lambda>y. length (rest y) < length (rest x)) (ends r x))) @ ends k x"
  unfolding ends.simps(3)
  by (subst ends.simps(5)) (simp only: map_append concat_append concat_map_concat_map
    list.map concat.simps append_Nil2)

end
