(* ===== verification/Sql_Header.thy ===== *)
theory Sql_Header
  imports Py_Regex Utf8
begin

text \<open>
  Model of \<^verbatim>\<open>tools/validation/sql_header.py\<close>: extraction of the leading block comment of a SQL
  file, its required fields and its safety label, and removal of comments and literals. The
  patterns are the source's regular expressions; the second half shows what they compute.
\<close>

section \<open>Constants\<close>

definition REQUIRED_HEADER_FIELDS :: "string list" where
  "REQUIRED_HEADER_FIELDS = [
     ''SCRIPT NAME:'',
     ''PURPOSE:'',
     ''AURORA POSTGRESQL VERSION:'',
     ''EXECUTION LOCATION:'',
     ''SAFETY:'',
     ''EXPECTED IMPACT:'',
     ''REQUIRED PRIVILEGES:'',
     ''PREREQUISITES:'',
     ''EXECUTION ORDER:'',
     ''RELATED SCRIPTS:'',
     ''HOW TO INTERPRET RESULTS:'']"

definition KNOWN_SAFETY_LABELS :: "string list" where
  "KNOWN_SAFETY_LABELS = [''READ ONLY'', ''LOW RISK WRITE'', ''ELEVATED RISK'', ''DESTRUCTIVE'']"

definition HEADER_BLOCK_RE :: re where
  "HEADER_BLOCK_RE = Seq Text_Start (Seq (Star Space) (Seq (lit ''/*'')
     (Seq (Group 1 (Lazy Any)) (lit ''*/''))))"

definition SAFETY_VALUE_RE :: re where
  "SAFETY_VALUE_RE = Seq (lit ''SAFETY:'') (Seq (Star Space) (Seq (Opt (lit [CR])) (Seq (lit [NL])
     (Seq (Star Space) (Group 1 (Plus (Not_In [CR, NL])))))))"

section \<open>Parsing the header\<close>

record sql_header =
  header_found :: bool
  raw_text :: string
  missing_fields :: "string list"
  safety_label :: "string option"
  safety_label_recognized :: bool

definition parse_sql_header :: "string \<Rightarrow> sql_header" where
  "parse_sql_header content =
     (case re_match HEADER_BLOCK_RE content of
        None \<Rightarrow>
          \<lparr>header_found = False, raw_text = [], missing_fields = REQUIRED_HEADER_FIELDS,
           safety_label = None, safety_label_recognized = False\<rparr>
      | Some m \<Rightarrow>
          let header_text = group 1 m;
              missing = filter (\<lambda>f. \<not> contains f header_text) REQUIRED_HEADER_FIELDS;
              (label, recognized) =
                (case re_search SAFETY_VALUE_RE header_text of
                   None \<Rightarrow> (None, False)
                 | Some (t, sm) \<Rightarrow>
                     let l = strip (group 1 sm)
                     in (Some l, list_ex (\<lambda>k. prefix k (upper l)) KNOWN_SAFETY_LABELS))
          in \<lparr>header_found = True, raw_text = header_text, missing_fields = missing,
              safety_label = label, safety_label_recognized = recognized\<rparr>)"

section \<open>Stripping comments and literals\<close>

definition BLOCK_COMMENT_RE :: re where
  "BLOCK_COMMENT_RE = Seq (lit ''/*'') (Seq (Lazy Any) (lit ''*/''))"

definition LINE_COMMENT_RE :: re where
  "LINE_COMMENT_RE = Seq (lit ''--'') (Star (Not_In [NL]))"

definition strip_sql_comments :: "string \<Rightarrow> string" where
  "strip_sql_comments content =
     (let without_block_comments = re_sub BLOCK_COMMENT_RE '' '' content
      in re_sub LINE_COMMENT_RE '' '' without_block_comments)"

abbreviation QUOTE :: char where "QUOTE \<equiv> CHR 0x27"

definition SINGLE_QUOTED_STRING_RE :: re where
  "SINGLE_QUOTED_STRING_RE =
     Seq (lit [QUOTE]) (Seq (Star (Alt (Not_In [QUOTE]) (lit [QUOTE, QUOTE]))) (lit [QUOTE]))"

definition DOLLAR_QUOTED_STRING_RE :: re where
  "DOLLAR_QUOTED_STRING_RE =
     Seq (lit ''$'') (Seq (Group 1 (Star (Chr (\<lambda>c. is_alpha c \<or> c = CHR ''_'')))) (Seq (lit ''$'')
       (Seq (Lazy Any) (Seq (lit ''$'') (Seq (Ref 1) (lit ''$''))))))"

definition strip_sql_comments_and_literals :: "string \<Rightarrow> string" where
  "strip_sql_comments_and_literals content =
     (let without_comments = strip_sql_comments content;
          without_dollar_strings = re_sub DOLLAR_QUOTED_STRING_RE [QUOTE, QUOTE] without_comments
      in re_sub SINGLE_QUOTED_STRING_RE [QUOTE, QUOTE] without_dollar_strings)"

section \<open>What the header pattern matches\<close>

text \<open>
  A file has a header exactly when, after white space, it starts with a comment opener and a
  closer follows; the header text is what stands before the first closer.
\<close>

lemma prefix_append_not_space:
  "prefix ''/*'' s \<Longrightarrow> s \<noteq> [] \<and> \<not> is_space (hd s)"
  by (cases s) (auto simp: py_simps)

lemma ends_spaces_opener:
  "ends (Seq (Star Space) (Seq (lit ''/*'') r)) (p, s, g) =
     (let t = dropWhile is_space s in
      if prefix ''/*'' t then ends r (char_before p (takeWhile is_space s @ ''/*''), drop 2 t, g) else [])"
proof (induction s arbitrary: p)
  case Nil
  then show ?case by simp
next
  case (Cons c s)
  show ?case
  proof (cases "is_space c")
    case True
    then have "\<not> prefix ''/*'' (c # s)"
      using prefix_append_not_space[of "c # s"] by auto
    with True Cons[of "Some c"] show ?thesis by (auto simp: Let_def)
  next
    case False
    then show ?thesis by (simp add: Let_def)
  qed
qed

lemma re_match_header_block:
  "re_match HEADER_BLOCK_RE s =
     (let t = dropWhile is_space s in
      if prefix ''/*'' t then
        (case find_sub ''*/'' (drop 2 t) of
           None \<Rightarrow> None
         | Some (a, b) \<Rightarrow>
             Some (char_before None (takeWhile is_space s @ ''/*'' @ a @ ''*/''), b, [(1, a)]))
      else None)"
  unfolding re_match_def match_at_first HEADER_BLOCK_RE_def
  using ends_spaces_opener[of "Seq (Group 1 (Lazy Any)) (lit ''*/'')" None s "[]"]
  by (simp add: Let_def first_Group_Lazy_Any_lit split: option.split)

lemma re_match_header_block_Some:
  assumes "\<forall>c\<in>set ws. is_space c" and "\<not> contains ''*/'' (h @ ''*'')"
  shows "\<exists>p. re_match HEADER_BLOCK_RE (ws @ ''/*'' @ h @ ''*/'' @ t) = Some (p, t, [(1, h)])"
proof -
  have "\<not> is_space CHR ''/''"
    by (simp add: py_simps)
  then have "dropWhile is_space (ws @ ''/*'' @ h @ ''*/'' @ t) = ''/*'' @ h @ ''*/'' @ t"
    using assms(1) by (simp add: dropWhile_all)
  moreover have "find_sub ''*/'' (h @ ''*/'' @ t) = Some (h, t)"
    using assms(2) by (intro find_sub_append) simp_all
  ultimately show ?thesis
    by (simp add: re_match_header_block Let_def)
qed

lemma header_found_iff_match:
  "header_found (parse_sql_header s) \<longleftrightarrow> re_match HEADER_BLOCK_RE s \<noteq> None"
  by (simp add: parse_sql_header_def Let_def split: option.split prod.split)

text \<open>Which files have a header at all.\<close>

lemma header_found_char:
  "header_found (parse_sql_header s) \<longleftrightarrow>
     (\<exists>ws t. s = ws @ ''/*'' @ t \<and> (\<forall>c\<in>set ws. is_space c) \<and> contains ''*/'' t)"
proof
  assume "header_found (parse_sql_header s)"
  then have *: "prefix ''/*'' (dropWhile is_space s)" "contains ''*/'' (drop 2 (dropWhile is_space s))"
    by (auto simp: header_found_iff_match re_match_header_block Let_def
        split: if_splits option.splits dest: find_sub_contains)
  show "\<exists>ws t. s = ws @ ''/*'' @ t \<and> (\<forall>c\<in>set ws. is_space c) \<and> contains ''*/'' t"
  proof (intro exI conjI)
    show "s = takeWhile is_space s @ ''/*'' @ drop 2 (dropWhile is_space s)"
      using prefix_drop_append[OF *(1)] takeWhile_dropWhile_id[of is_space s]
      by (simp add: numeral_2_eq_2)
  qed (use * in \<open>auto dest: set_takeWhileD\<close>)
next
  assume "\<exists>ws t. s = ws @ ''/*'' @ t \<and> (\<forall>c\<in>set ws. is_space c) \<and> contains ''*/'' t"
  then obtain ws t where s: "s = ws @ ''/*'' @ t" "\<forall>c\<in>set ws. is_space c" "contains ''*/'' t" by blast
  have "\<not> is_space CHR ''/''"
    by (simp add: py_simps)
  then have "dropWhile is_space s = ''/*'' @ t"
    using s by (simp add: dropWhile_all)
  moreover obtain a b where "find_sub ''*/'' t = Some (a, b)"
    using s(3) find_sub_None[of "''*/''" t] by auto
  ultimately show "header_found (parse_sql_header s)"
    by (simp add: header_found_iff_match re_match_header_block Let_def)
qed

section \<open>What the safety pattern matches\<close>

lemma first_safety_tail:
  assumes "v \<noteq> []" and "\<not> is_space (hd v)" and "CR \<notin> set v" "NL \<notin> set v" and "u = [] \<or> hd u = NL"
  shows "first (ends (Group 1 (Plus (Not_In [CR, NL]))) (p, v @ u, g)) =
     Some (char_before p v, u, (1, v) # g)"
proof -
  have "takeWhile (\<lambda>c. c \<notin> set [CR, NL]) (v @ u) = v" "dropWhile (\<lambda>c. c \<notin> set [CR, NL]) (v @ u) = u"
    using assms by (cases u; auto simp: takeWhile_append dropWhile_append; force)+
  moreover have "hd (v @ u) \<notin> set [CR, NL]"
    using assms by (cases v) auto
  ultimately show ?thesis
    using assms(1) by (simp add: first_Plus_Chr del: ends_Plus)
qed

lemma ends_Group_simp: "first (ends (Group n r) (p, s, g)) = map_option (capture n s) (first (ends r (p, s, g)))"
  by simp

lemma match_safety_value:
  assumes "v \<noteq> []" and "\<not> is_space (hd v)" and "CR \<notin> set v" "NL \<notin> set v" and "u = [] \<or> hd u = NL"
  shows "\<exists>q. match_at SAFETY_VALUE_RE p (''SAFETY:'' @ NL # v @ u) = Some (q, u, [(1, v)])"
proof -
  obtain c w where v: "v = c # w" "\<not> is_space c"
    using assms by (cases v) auto
  have "c \<noteq> NL" "c \<noteq> CR"
    using v(2) by (auto simp: py_simps)
  then show ?thesis
    using first_safety_tail[OF assms, of "Some NL" "[]"] v
    by (simp add: match_at_first SAFETY_VALUE_RE_def del: ends_Plus ends.simps(7))
qed

text \<open>
  The label is the first line of text after the first \<^verbatim>\<open>SAFETY:\<close> of the header that is
  followed by a line break.
\<close>

lemma safety_value_found:
  assumes "\<not> contains ''SAFETY:'' (a @ ''SAFETY'')"
    and "v \<noteq> []" and "\<not> is_space (hd v)" and "CR \<notin> set v" "NL \<notin> set v" and "u = [] \<or> hd u = NL"
  shows "\<exists>q. re_search SAFETY_VALUE_RE (a @ ''SAFETY:'' @ NL # v @ u) =
     Some (''SAFETY:'' @ NL # v @ u, (q, u, [(1, v)]))"
proof -
  obtain q where "match_at SAFETY_VALUE_RE (char_before None a) (''SAFETY:'' @ NL # v @ u) =
      Some (q, u, [(1, v)])"
    using match_safety_value[OF assms(2-6)] by blast
  then show ?thesis
    using search_Seq_lit[of "''SAFETY:''" a _ "NL # v @ u"] assms(1)
    unfolding SAFETY_VALUE_RE_def by (intro exI) simp
qed

text \<open>
  C20: the validator finds a header exactly when the file is white space, a comment opener
  and a text in which the comment is closed. The first character that is not ASCII white
  space has to be ASCII: Python also skips the white space of Unicode.
\<close>

theorem header_found_iff:
  assumes "ascii (take 1 (dropWhile is_space s))"
  shows "header_found (parse_sql_header s) \<longleftrightarrow>
     (\<exists>ws t. s = ws @ ''/*'' @ t \<and> list_all is_space ws \<and> contains ''*/'' t)"
  by (simp add: header_found_char list_all_iff)

theorem header_found_iff_witness:
  "header_found (parse_sql_header (NL # ''/* SAFETY: */ SELECT 1;'')) \<and>
   \<not> header_found (parse_sql_header ''SELECT 1; /* SAFETY: */'')"
proof
  let ?s = "NL # ''/* SAFETY: */ SELECT 1;''"
  have "?s = [NL] @ ''/*'' @ '' SAFETY: */ SELECT 1;''" "list_all is_space [NL]" "contains ''*/'' '' SAFETY: */ SELECT 1;''"
    by simp_all
  then show "header_found (parse_sql_header ?s)"
    by (subst header_found_iff) (simp add: py_simps, blast)
  have "\<not> (\<exists>ws t. ''SELECT 1; /* SAFETY: */'' = ws @ ''/*'' @ t \<and> list_all is_space ws \<and> contains ''*/'' t)"
  proof
    assume "\<exists>ws t. ''SELECT 1; /* SAFETY: */'' = ws @ ''/*'' @ t \<and> list_all is_space ws \<and> contains ''*/'' t"
    then obtain ws t where "''SELECT 1; /* SAFETY: */'' = ws @ ''/*'' @ t" "list_all is_space ws" by blast
    then show False by (cases ws) (auto simp: py_simps)
  qed
  then show "\<not> header_found (parse_sql_header ''SELECT 1; /* SAFETY: */'')"
    by (subst header_found_iff) (simp_all add: py_simps)
qed

section \<open>Reference functions for the stripping passes\<close>

text \<open>
  Each substitution of the source has a one-pass reference function that scans the text from
  left to right without a regular expression.
\<close>

function drop_block_comments :: "string \<Rightarrow> string" where
  "drop_block_comments [] = []"
| "drop_block_comments (c # s) =
     (if prefix ''/*'' (c # s)
      then (case find_sub ''*/'' (drop 1 s) of
              Some (a, b) \<Rightarrow> CHR '' '' # drop_block_comments b
            | None \<Rightarrow> c # drop_block_comments s)
      else c # drop_block_comments s)"
  by pat_completeness auto
termination
  by (relation "measure length") (auto dest!: find_sub_length)

function drop_line_comments :: "string \<Rightarrow> string" where
  "drop_line_comments [] = []"
| "drop_line_comments (c # s) =
     (if prefix ''--'' (c # s) then CHR '' '' # drop_line_comments (dropWhile (\<lambda>d. d \<noteq> NL) (drop 1 s))
      else c # drop_line_comments s)"
  by pat_completeness auto
termination
  by (relation "measure length") (auto simp: less_Suc_eq_le intro: order_trans[OF length_dropWhile_le])

text \<open>The text after the literal that starts before \<open>s\<close>; a doubled quote does not end it.\<close>

fun close_quote :: "string \<Rightarrow> string option" where
  "close_quote [] = None"
| "close_quote (c # s) =
     (if c \<noteq> QUOTE then close_quote s
      else (case s of
              d # s' \<Rightarrow>
                if d = QUOTE then (case close_quote s' of Some t \<Rightarrow> Some t | None \<Rightarrow> Some s)
                else Some s
            | [] \<Rightarrow> Some s))"

lemma close_quote_length: "close_quote s = Some t \<Longrightarrow> length t < length s"
  by (induction s arbitrary: t rule: close_quote.induct)
    (force split: if_splits list.splits option.splits)+

function empty_literals :: "string \<Rightarrow> string" where
  "empty_literals [] = []"
| "empty_literals (c # s) =
     (if c = QUOTE
      then (case close_quote s of
              Some t \<Rightarrow> QUOTE # QUOTE # empty_literals t
            | None \<Rightarrow> c # empty_literals s)
      else c # empty_literals s)"
  by pat_completeness auto
termination
  by (relation "measure length") (auto dest: close_quote_length)

section \<open>The substitutions are the reference functions\<close>

lemma match_block_comment:
  "match_at BLOCK_COMMENT_RE p s =
     (if prefix ''/*'' s
      then map_option (\<lambda>(a, b). (char_before p (''/*'' @ a @ ''*/''), b, [])) (find_sub ''*/'' (drop 2 s))
      else None)"
  by (simp add: match_at_first BLOCK_COMMENT_RE_def first_Lazy_Any_lit numeral_2_eq_2)

lemma sub_block_comments: "sub_at BLOCK_COMMENT_RE '' '' p s = drop_block_comments s"
proof (induction s arbitrary: p rule: drop_block_comments.induct)
  case 1
  show ?case by (simp add: sub_at_Nil match_block_comment)
next
  case (2 c s)
  show ?case
  proof (cases "match_at BLOCK_COMMENT_RE p (c # s)")
    case None
    then have "\<not> (prefix ''/*'' (c # s) \<and> find_sub ''*/'' (drop 1 s) \<noteq> None)"
      by (auto simp: match_block_comment split: if_splits)
    with None 2 show ?thesis
      by (cases "find_sub ''*/'' (drop 1 s)") (auto simp: sub_at_skip)
  next
    case (Some y)
    then obtain a b where ab: "prefix ''/*'' (c # s)" "find_sub ''*/'' (drop 1 s) = Some (a, b)"
      "y = (char_before p (''/*'' @ a @ ''*/''), b, [])"
      by (auto simp: match_block_comment split: if_splits)
    then have "length b < length (c # s)"
      using find_sub_length[OF ab(2)] by simp
    with Some ab 2 show ?thesis
      by (simp add: sub_at_match)
  qed
qed

lemma match_line_comment:
  "match_at LINE_COMMENT_RE p s =
     (if prefix ''--'' s
      then Some (char_before p (''--'' @ takeWhile (\<lambda>d. d \<noteq> NL) (drop 2 s)), dropWhile (\<lambda>d. d \<noteq> NL) (drop 2 s), [])
      else None)"
  by (simp add: match_at_first LINE_COMMENT_RE_def first_Star_Chr numeral_2_eq_2)

lemma sub_line_comments: "sub_at LINE_COMMENT_RE '' '' p s = drop_line_comments s"
proof (induction s arbitrary: p rule: drop_line_comments.induct)
  case 1
  show ?case by (simp add: sub_at_Nil match_line_comment)
next
  case (2 c s)
  show ?case
  proof (cases "prefix ''--'' (c # s)")
    case False
    with 2(2) show ?thesis by (auto simp: sub_at_skip match_line_comment)
  next
    case True
    have "length (dropWhile (\<lambda>d. d \<noteq> NL) (drop 1 s)) < length (c # s)"
      using length_dropWhile_le[of "\<lambda>d. d \<noteq> NL" "drop 1 s"] by simp
    with True 2(1) show ?thesis by (auto simp: sub_at_match match_line_comment)
  qed
qed

lemma strip_comments_eq:
  "strip_sql_comments s = drop_line_comments (drop_block_comments s)"
  by (simp add: strip_sql_comments_def re_sub_def sub_block_comments sub_line_comments)

lemma ends_literal_item:
  "ends (Alt (Not_In [QUOTE]) (lit [QUOTE, QUOTE])) (p, s, g) =
     (case s of
        [] \<Rightarrow> []
      | c # s' \<Rightarrow> if c \<noteq> QUOTE then [(Some c, s', g)]
                 else if prefix [QUOTE] s' then [(Some QUOTE, drop 1 s', g)] else [])"
  by (cases s) (auto simp: char_before_def)

lemma first_literal_tail:
  "first (ends (Seq (Star (Alt (Not_In [QUOTE]) (lit [QUOTE, QUOTE]))) (lit [QUOTE])) (p, s, g)) =
     map_option (\<lambda>t. (Some QUOTE, t, g)) (close_quote s)"
proof (induction s arbitrary: p rule: close_quote.induct)
  case 1
  show ?case
    by (simp only: ends.simps(3)) (subst ends.simps, simp add: ends_literal_item del: ends.simps(4))
next
  case (2 c s)
  let ?A = "Alt (Not_In [QUOTE]) (lit [QUOTE, QUOTE])"
  have unfold: "ends (Seq (Star ?A) (lit [QUOTE])) (p, c # s, g) =
      concat (map (\<lambda>y. ends (Seq (Star ?A) (lit [QUOTE])) y)
        (filter (\<lambda>y. length (rest y) < length (c # s)) (ends ?A (p, c # s, g)))) @
      ends (lit [QUOTE]) (p, c # s, g)"
    by (subst ends_Seq_Star) (simp only: rest.simps)
  show ?case
    unfolding unfold ends_literal_item
    using 2 by (cases s) (auto split: option.split)
qed

lemma match_single_quoted:
  "match_at SINGLE_QUOTED_STRING_RE p s =
     (if prefix [QUOTE] s then map_option (\<lambda>t. (Some QUOTE, t, [])) (close_quote (drop 1 s)) else None)"
  by (simp add: match_at_first SINGLE_QUOTED_STRING_RE_def first_literal_tail[simplified])

lemma sub_single_quoted:
  "sub_at SINGLE_QUOTED_STRING_RE [QUOTE, QUOTE] p s = empty_literals s"
proof (induction s arbitrary: p rule: empty_literals.induct)
  case 1
  show ?case by (simp add: sub_at_Nil match_single_quoted)
next
  case (2 c s)
  show ?case
  proof (cases "match_at SINGLE_QUOTED_STRING_RE p (c # s)")
    case None
    with 2 show ?thesis
      by (cases "close_quote s") (auto simp: sub_at_skip match_single_quoted)
  next
    case (Some y)
    then obtain t where t: "c = QUOTE" "close_quote s = Some t" "y = (Some QUOTE, t, [])"
      by (auto simp: match_single_quoted split: if_splits)
    with Some 2 close_quote_length[OF t(2)] show ?thesis
      by (simp add: sub_at_match)
  qed
qed

definition is_tag_char :: "char \<Rightarrow> bool" where
  "is_tag_char c \<longleftrightarrow> is_alpha c \<or> c = CHR ''_''"

text \<open>The text after a dollar-quoted literal whose opening dollar has been read.\<close>

definition close_dollar :: "string \<Rightarrow> string option" where
  "close_dollar s =
     (let tag = takeWhile is_tag_char s; u = dropWhile is_tag_char s
      in if prefix ''$'' u then map_option snd (find_sub (''$'' @ tag @ ''$'') (drop 1 u)) else None)"

lemma close_dollar_length: "close_dollar s = Some t \<Longrightarrow> length t < length s"
proof -
  assume "close_dollar s = Some t"
  then obtain a where a: "prefix ''$'' (dropWhile is_tag_char s)"
    "find_sub (''$'' @ takeWhile is_tag_char s @ ''$'') (drop 1 (dropWhile is_tag_char s)) = Some (a, t)"
    by (auto simp: close_dollar_def Let_def split: if_splits)
  then have "dropWhile is_tag_char s \<noteq> []"
    by (metis prefix_Nil list.distinct(1))
  moreover have "length t \<le> length (dropWhile is_tag_char s) - 1"
    using find_sub_length[OF a(2)] by simp
  ultimately show "length t < length s"
    using length_dropWhile_le[of is_tag_char s] by (cases "dropWhile is_tag_char s") auto
qed

function empty_dollar_literals :: "string \<Rightarrow> string" where
  "empty_dollar_literals [] = []"
| "empty_dollar_literals (c # s) =
     (if c = CHR ''$''
      then (case close_dollar s of
              Some t \<Rightarrow> QUOTE # QUOTE # empty_dollar_literals t
            | None \<Rightarrow> c # empty_dollar_literals s)
      else c # empty_dollar_literals s)"
  by pat_completeness auto
termination
  by (relation "measure length") (auto dest: close_dollar_length)

lemma ends_closing_tag:
  "map_of g 1 = Some tag \<Longrightarrow>
     ends (Seq (lit ''$'') (Seq (Ref 1) (lit ''$''))) (p, s, g) =
       (if prefix (''$'' @ tag @ ''$'') s
        then [(Some CHR ''$'', drop (length (''$'' @ tag @ ''$'')) s, g)] else [])"
  by (cases s) (auto simp: ends.simps(3) prefix_def char_before_def)

lemma first_dollar_tail:
  assumes "map_of g 1 = Some tag"
  shows "first (ends (Seq (Lazy Any) (Seq (lit ''$'') (Seq (Ref 1) (lit ''$'')))) (p, s, g)) =
    map_option (\<lambda>(a, b). (Some CHR ''$'', b, g)) (find_sub (''$'' @ tag @ ''$'') s)"
proof -
  have "ends (Seq (Lazy Any) (Seq (lit ''$'') (Seq (Ref 1) (lit ''$'')))) (p, s, g) =
      concat (map (\<lambda>(a, b). if prefix (''$'' @ tag @ ''$'') b
        then [(\<lambda>a b. (Some CHR ''$'', b, g)) ([] @ a) (drop (length (''$'' @ tag @ ''$'')) b)] else []) (splits s))"
    unfolding ends.simps(3)[of "Lazy Any"] ends_Lazy_Any map_map comp_def
    by (intro arg_cong[where f = concat] map_cong refl)
      (simp only: ends_closing_tag[OF assms] prod.case split_beta)
  then show ?thesis
    using first_lazy_then_lit[of "''$'' @ tag @ ''$''" "\<lambda>a b. (Some CHR ''$'', b, g)" "[]" s]
    by (simp only:)
qed

lemma match_dollar_quoted:
  "map_option rest (match_at DOLLAR_QUOTED_STRING_RE p s) =
     (if prefix ''$'' s then close_dollar (drop 1 s) else None)"
proof -
  have nd: "\<not> (is_alpha CHR ''$'' \<or> CHR ''$'' = CHR ''_'')"
    by (simp add: py_simps)
  show ?thesis
    using first_dollar_tail[of "[(1, tag)]" tag for tag]
    by (auto simp: match_at_first DOLLAR_QUOTED_STRING_RE_def ends_Group_run_then_lit[where P = "\<lambda>c. is_alpha c \<or> c = CHR ''_''" and d = "CHR ''$''", OF nd]
        close_dollar_def is_tag_char_def[abs_def] Let_def option.map_comp comp_def case_prod_unfold)
qed

lemma sub_dollar_quoted:
  "sub_at DOLLAR_QUOTED_STRING_RE [QUOTE, QUOTE] p s = empty_dollar_literals s"
proof (induction s arbitrary: p rule: empty_dollar_literals.induct)
  case 1
  show ?case using match_dollar_quoted[of p "[]"] by (simp add: sub_at_Nil)
next
  case (2 c s)
  show ?case
  proof (cases "match_at DOLLAR_QUOTED_STRING_RE p (c # s)")
    case None
    with 2 match_dollar_quoted[of p "c # s"] show ?thesis
      by (cases "close_dollar s") (auto simp: sub_at_skip split: if_splits)
  next
    case (Some y)
    obtain q t g where y: "y = (q, t, g)" by (cases y)
    with Some match_dollar_quoted[of p "c # s"] have t: "c = CHR ''$''" "close_dollar s = Some t"
      by (auto split: if_splits)
    with Some y 2 close_dollar_length[OF t(2)] show ?thesis
      by (simp add: sub_at_match)
  qed
qed

lemma strip_literals_eq:
  "strip_sql_comments_and_literals s =
     empty_literals (empty_dollar_literals (drop_line_comments (drop_block_comments s)))"
  by (simp add: strip_sql_comments_and_literals_def strip_comments_eq re_sub_def
    sub_dollar_quoted sub_single_quoted)

text \<open>
  C17: the four substitutions with regular expressions that prepare a file for the keyword scans
  are, in this order, a pass that turns each closed block comment into one blank, one that turns
  each line comment into one blank, one that turns each dollar-quoted string into the empty
  literal, and one that turns each quoted literal into the empty one. No pass knows of the
  others: a comment marker inside a literal starts a comment.
\<close>

theorem strip_sql_comments_and_literals_reference:
  "strip_sql_comments_and_literals s =
     empty_literals (empty_dollar_literals (drop_line_comments (drop_block_comments s)))"
  by (rule strip_literals_eq)

text \<open>
  A literal loses its text and its length, and with it the offsets of what follows; a literal that
  holds a comment marker takes the rest of its line with it.
\<close>

lemma literal_shortened:
  "strip_sql_comments_and_literals (QUOTE # ''four'' @ QUOTE # ''; X'') = QUOTE # QUOTE # ''; X''"
  unfolding strip_literals_eq by code_simp

lemma marker_in_literal:
  "strip_sql_comments_and_literals (''SELECT '' @ QUOTE # ''--'' @ QUOTE # ''; TRUNCATE t;'') = ''SELECT '' @ [QUOTE, CHR '' '']"
  unfolding strip_literals_eq by code_simp

end
