(* ===== verification/Checks.thy ===== *)
theory Checks
  imports Catalog Sql_Header File_System Utf8
begin

text \<open>
  Model of \<^verbatim>\<open>tools/validation/checks.py\<close>: the eight checks over a repository tree. A check is a
  function of the tree and the root; an unreadable file makes it raise, which is the \<open>Inl\<close> of its
  result. \<open>rglob\<close> lists the entries below the root in the order of the tree, which stands for the
  directory order; a link to a directory is an entry without children.
\<close>

section \<open>Issues\<close>

definition ERROR :: string where
  "ERROR = ''error''"

definition WARNING :: string where
  "WARNING = ''warning''"

record issue =
  i_severity :: string
  i_check :: string
  i_path :: string
  i_message :: string

abbreviation Issue :: "string \<Rightarrow> string \<Rightarrow> string \<Rightarrow> string \<Rightarrow> issue" where
  "Issue sev chk p msg \<equiv> \<lparr>i_severity = sev, i_check = chk, i_path = p, i_message = msg\<rparr>"

definition issue_text :: "issue \<Rightarrow> string" where
  "issue_text i =
     (let tag = (if i_severity i = ERROR then ''ERROR'' else ''WARN '') in
      ''['' @ tag @ ''] ('' @ i_check i @ '') '' @ i_path i @ '': '' @ i_message i)"

text \<open>A loop that appends the issues of each element, or stops at the first exception.\<close>

fun collect :: "('a \<Rightarrow> 'b list res) \<Rightarrow> 'a list \<Rightarrow> 'b list res" where
  "collect f [] = Inr []"
| "collect f (x # xs) =
     (case f x of
        Inl e \<Rightarrow> Inl e
      | Inr ys \<Rightarrow> (case collect f xs of Inl e \<Rightarrow> Inl e | Inr zs \<Rightarrow> Inr (ys @ zs)))"

section \<open>Patterns\<close>

definition words_re :: "string \<Rightarrow> string list \<Rightarrow> re" where
  "words_re keyword ws =
     seqs [Word_Boundary, liti keyword, Plus Space, Group 1 (alts (map liti ws)), Word_Boundary]"

definition two_words_re :: "string \<Rightarrow> string \<Rightarrow> re" where
  "two_words_re a b = seqs [Word_Boundary, liti a, Plus Space, liti b, Word_Boundary]"

definition call_re :: "string \<Rightarrow> re" where
  "call_re f = seqs [Word_Boundary, liti f, Star Space, lit ''('']"

definition PLACEHOLDER_TOKENS :: "(re \<times> string) list" where
  "PLACEHOLDER_TOKENS =
     [(lit ''REPLACE_ME'', ''REPLACE_ME''),
      (seqs [Word_Boundary, liti ''PLACEHOLDER'', Word_Boundary], ''PLACEHOLDER''),
      (seqs [Word_Boundary, lit ''TODO'', Word_Boundary], ''TODO''),
      (seqs [Word_Boundary, lit ''FIXME'', Word_Boundary], ''FIXME''),
      (seqs [Word_Boundary, lit ''TBD'', Word_Boundary], ''TBD''),
      (liti ''lorem ipsum'', ''Lorem ipsum'')]"

definition PLACEHOLDER_SCAN_EXCLUDE_FILES :: "string list" where
  "PLACEHOLDER_SCAN_EXCLUDE_FILES = [''CONTRIBUTING.md'', ''docs/production-safety/README.md'']"

definition PLACEHOLDER_SCAN_EXCLUDE_DIR_PREFIXES :: "string list" where
  "PLACEHOLDER_SCAN_EXCLUDE_DIR_PREFIXES = [''tools/validation'']"

text \<open>Each pattern with the text \<open>pattern.pattern\<close>, which the issue quotes.\<close>

definition READ_ONLY_FORBIDDEN_PATTERNS :: "(re \<times> string) list" where
  "READ_ONLY_FORBIDDEN_PATTERNS =
     [(words_re ''DROP'' [''TABLE'', ''INDEX'', ''SCHEMA'', ''DATABASE'', ''SEQUENCE'', ''VIEW'', ''FUNCTION'', ''EXTENSION'', ''ROLE''],
       CHR 0x5C # ''bDROP'' @ CHR 0x5C # ''s+(TABLE|INDEX|SCHEMA|DATABASE|SEQUENCE|VIEW|FUNCTION|EXTENSION|ROLE)'' @ CHR 0x5C # ''b''),
      (seqs [Word_Boundary, liti ''TRUNCATE'', Word_Boundary], CHR 0x5C # ''bTRUNCATE'' @ CHR 0x5C # ''b''),
      (two_words_re ''DELETE'' ''FROM'', CHR 0x5C # ''bDELETE'' @ CHR 0x5C # ''s+FROM'' @ CHR 0x5C # ''b''),
      (two_words_re ''INSERT'' ''INTO'', CHR 0x5C # ''bINSERT'' @ CHR 0x5C # ''s+INTO'' @ CHR 0x5C # ''b''),
      (seqs [Word_Boundary, liti ''UPDATE'', Plus Space, Plus (Chr (\<lambda>c. \<not> is_space c)), Plus Space, liti ''SET'', Word_Boundary],
       CHR 0x5C # ''bUPDATE'' @ CHR 0x5C # ''s+'' @ CHR 0x5C # ''S+'' @ CHR 0x5C # ''s+SET'' @ CHR 0x5C # ''b''),
      (words_re ''ALTER'' [''TABLE'', ''SYSTEM'', ''DATABASE'', ''INDEX'', ''SEQUENCE''],
       CHR 0x5C # ''bALTER'' @ CHR 0x5C # ''s+(TABLE|SYSTEM|DATABASE|INDEX|SEQUENCE)'' @ CHR 0x5C # ''b''),
      (two_words_re ''VACUUM'' ''FULL'', CHR 0x5C # ''bVACUUM'' @ CHR 0x5C # ''s+FULL'' @ CHR 0x5C # ''b''),
      (words_re ''CREATE'' [''TABLE'', ''INDEX'', ''EXTENSION'', ''SEQUENCE'', ''VIEW''],
       CHR 0x5C # ''bCREATE'' @ CHR 0x5C # ''s+(TABLE|INDEX|EXTENSION|SEQUENCE|VIEW)'' @ CHR 0x5C # ''b''),
      (call_re ''pg_terminate_backend'', CHR 0x5C # ''bpg_terminate_backend'' @ CHR 0x5C # ''s*'' @ CHR 0x5C # ''(''),
      (call_re ''pg_cancel_backend'', CHR 0x5C # ''bpg_cancel_backend'' @ CHR 0x5C # ''s*'' @ CHR 0x5C # ''('')]"

definition CREATE_EXTENSION_RE :: re where
  "CREATE_EXTENSION_RE = two_words_re ''CREATE'' ''EXTENSION''"

definition SCRIPT_FILENAME_RE :: re where
  "SCRIPT_FILENAME_RE =
     seqs [Text_Start, Group 1 (Plus (Chr is_digit)), lit ''_'', Plus (Not_In [NL]), lit ''.'',
           Group 2 (alts [liti ''sql'', liti ''md'']), Text_End]"

section \<open>Discovery\<close>

definition rel :: "path \<Rightarrow> path \<Rightarrow> string" where
  "rel root p = relative_posix root p"

text \<open>\<open>Path.name\<close>, \<open>iterdir\<close>, \<open>rglob("*" + extension)\<close> and \<open>read_text(..., errors="replace")\<close>.\<close>

definition name_of :: "path \<Rightarrow> string" where
  "name_of p = (if p = [] then [] else last p)"

definition iterdir :: "fs \<Rightarrow> path \<Rightarrow> path list res" where
  "iterdir t p =
     (if is_dir t p then Inr (map (\<lambda>x. p @ [x]) (child_names t p)) else Inl (OSError ''iterdir''))"

definition rglob :: "fs \<Rightarrow> path \<Rightarrow> string \<Rightarrow> path list" where
  "rglob t root extension = filter (\<lambda>p. strict_prefix root p \<and> suffix extension (name_of p)) (map fst t)"

definition read_replace :: "fs \<Rightarrow> path \<Rightarrow> string res" where
  "read_replace t p =
     (case read_bytes t p of None \<Rightarrow> Inl (OSError ''read_text'') | Some bs \<Rightarrow> Inr (decode_replace bs))"

definition discover_category_dirs :: "fs \<Rightarrow> path \<Rightarrow> path list res" where
  "discover_category_dirs t root =
     (case iterdir t root of
        Inl e \<Rightarrow> Inl e
      | Inr ps \<Rightarrow>
          Inr (sort (filter (\<lambda>p. is_dir t p \<and> name_of p \<notin> set NON_CATEGORY_ROOT_DIRS
                             \<and> \<not> prefix ''.'' (name_of p)) ps)))"

definition discover_workflow_dirs :: "fs \<Rightarrow> path \<Rightarrow> path list res" where
  "discover_workflow_dirs t root =
     (case discover_category_dirs t root of
        Inl e \<Rightarrow> Inl e
      | Inr cats \<Rightarrow>
          collect (\<lambda>category.
            case iterdir t category of
              Inl e \<Rightarrow> Inl e
            | Inr ps \<Rightarrow> Inr (filter (is_dir t) (sort ps))) cats)"

definition discover_sql_files :: "fs \<Rightarrow> path \<Rightarrow> path list" where
  "discover_sql_files t root =
     sort (filter (\<lambda>p. \<not> list_ex (\<lambda>part. part \<in> set [''.git'', ''node_modules'']) p) (rglob t root ''.sql''))"

definition discover_scripts_dirs :: "fs \<Rightarrow> path \<Rightarrow> path list" where
  "discover_scripts_dirs t root =
     sorted_set (map butlast (filter (\<lambda>p. name_of (butlast p) = ''scripts'') (discover_sql_files t root)))"

section \<open>Check 1: README files\<close>

definition workflow_readme_issues :: "fs \<Rightarrow> path \<Rightarrow> path \<Rightarrow> issue list" where
  "workflow_readme_issues t root workflow =
     (let r = rel root workflow;
          readme = workflow @ [''README.md''];
          scripts_dir = workflow @ [''scripts''];
          scripts_readme = scripts_dir @ [''README.md'']
      in (if \<not> is_file t readme then [Issue ERROR ''workflow-readme'' r ''missing README.md''] else [])
         @ (if \<not> is_dir t scripts_dir then [Issue ERROR ''workflow-readme'' r ''missing scripts/ directory'']
            else if \<not> is_file t scripts_readme then [Issue ERROR ''workflow-readme'' r ''missing scripts/README.md'']
            else []))"

definition check_workflow_readmes :: "fs \<Rightarrow> path \<Rightarrow> issue list res" where
  "check_workflow_readmes t root =
     (case discover_workflow_dirs t root of
        Inl e \<Rightarrow> Inl e
      | Inr ws \<Rightarrow> Inr (concat (map (workflow_readme_issues t root) ws)))"

section \<open>Check 2: SQL headers\<close>

definition header_issues :: "string \<Rightarrow> string \<Rightarrow> issue list" where
  "header_issues r content =
     (let header = parse_sql_header content in
      if \<not> header_found header
      then [Issue ERROR ''sql-header'' r ''no leading block-comment header found'']
      else
        (if missing_fields header \<noteq> []
         then [Issue ERROR ''sql-header'' r
                 (''header missing required field(s): '' @ join '', '' (missing_fields header))]
         else [])
        @ (case safety_label header of
             None \<Rightarrow> [Issue ERROR ''sql-header'' r ''SAFETY field has no value'']
           | Some label \<Rightarrow>
               if \<not> safety_label_recognized header
               then [Issue WARNING ''sql-header'' r
                       (''SAFETY value '' @ QUOTE # label @ QUOTE # '' does not start with a recognized label (READ ONLY / LOW RISK WRITE / ELEVATED RISK / DESTRUCTIVE)'')]
               else []))"

definition check_sql_headers :: "fs \<Rightarrow> path \<Rightarrow> issue list res" where
  "check_sql_headers t root =
     collect (\<lambda>f. case read_replace t f of Inl e \<Rightarrow> Inl e | Inr content \<Rightarrow> Inr (header_issues (rel root f) content))
       (discover_sql_files t root)"

section \<open>Check 3: unfinished content\<close>

definition placeholder_issues :: "string \<Rightarrow> string \<Rightarrow> issue list" where
  "placeholder_issues r content =
     map (\<lambda>(pattern, label). Issue ERROR ''no-placeholders'' r (''contains placeholder marker '' @ QUOTE # label @ [QUOTE]))
       (filter (\<lambda>(pattern, label). found pattern content) PLACEHOLDER_TOKENS)"

definition check_no_placeholders :: "fs \<Rightarrow> path \<Rightarrow> issue list res" where
  "check_no_placeholders t root =
     collect (\<lambda>p.
       let r = rel root p in
       if r \<in> set PLACEHOLDER_SCAN_EXCLUDE_FILES then Inr []
       else if list_ex (\<lambda>pre. prefix pre r) PLACEHOLDER_SCAN_EXCLUDE_DIR_PREFIXES then Inr []
       else if ''.git'' \<in> set p then Inr []
       else (case read_replace t p of Inl e \<Rightarrow> Inl e | Inr content \<Rightarrow> Inr (placeholder_issues r content)))
     (rglob t root ''.sql'' @ rglob t root ''.md'')"

section \<open>Check 4: destructive statements\<close>

definition destructive_issues :: "string \<Rightarrow> string \<Rightarrow> issue list" where
  "destructive_issues r content =
     (let header = parse_sql_header content;
          body = strip_sql_comments_and_literals content;
          declared_read_only =
            (case safety_label header of None \<Rightarrow> False | Some label \<Rightarrow> label \<noteq> [] \<and> prefix ''READ ONLY'' (upper label))
      in (if found CREATE_EXTENSION_RE body
          then [Issue ERROR ''no-destructive-statements'' r
                  ''contains an executable CREATE EXTENSION statement; extension setup must be documented (docs/prerequisites/README.md), not auto-run'']
          else [])
         @ (if declared_read_only
            then map (\<lambda>(pattern, txt_of). Issue ERROR ''no-destructive-statements'' r
                       (''declares SAFETY: READ ONLY but body matches forbidden pattern '' @ QUOTE # txt_of @ [QUOTE]))
                   (filter (\<lambda>(pattern, txt_of). found pattern body) READ_ONLY_FORBIDDEN_PATTERNS)
            else []))"

definition check_no_destructive_statements :: "fs \<Rightarrow> path \<Rightarrow> issue list res" where
  "check_no_destructive_statements t root =
     collect (\<lambda>f. case read_replace t f of Inl e \<Rightarrow> Inl e | Inr content \<Rightarrow> Inr (destructive_issues (rel root f) content))
       (discover_sql_files t root)"

section \<open>Check 5: numbering\<close>

text \<open>The number of a script's file name, \<open>None\<close> for a stray file.\<close>

definition script_number :: "string \<Rightarrow> nat option" where
  "script_number n = map_option (\<lambda>m. int_of_digits (group 1 m)) (re_match SCRIPT_FILENAME_RE n)"

definition numbered_entries :: "fs \<Rightarrow> path list \<Rightarrow> string list" where
  "numbered_entries t entries =
     filter (\<lambda>n. lower n \<noteq> ''readme.md'') (map name_of (filter (is_file t) (sort entries)))"

definition numbering_issues :: "string \<Rightarrow> string list \<Rightarrow> issue list" where
  "numbering_issues r names =
     (let numbers = List.map_filter script_number names;
          stray_files = filter (\<lambda>n. script_number n = None) names;
          numbers_sorted = sort numbers;
          dupes = sorted_set (filter (\<lambda>n. 1 < count_list numbers_sorted n) numbers_sorted);
          expected = [1..<length numbers_sorted + 1]
      in map (\<lambda>stray. Issue WARNING ''sequential-filenames'' r
               (''file '' @ QUOTE # stray @ QUOTE # '' does not follow the NN_description.(sql|md) naming convention''))
           stray_files
         @ (if numbers = [] then []
            else if \<not> distinct numbers_sorted
            then [Issue ERROR ''sequential-filenames'' r (''duplicate script number(s): '' @ str_nat_list dupes)]
            else if numbers_sorted \<noteq> expected
            then [Issue ERROR ''sequential-filenames'' r
                    (''script numbering is not sequential starting at 1 (found '' @ str_nat_list numbers_sorted
                       @ '', expected '' @ str_nat_list expected @ '')'')]
            else []))"

definition check_sequential_filenames :: "fs \<Rightarrow> path \<Rightarrow> issue list res" where
  "check_sequential_filenames t root =
     collect (\<lambda>d. case iterdir t d of
         Inl e \<Rightarrow> Inl e
       | Inr entries \<Rightarrow> Inr (numbering_issues (rel root d) (numbered_entries t entries)))
     (discover_scripts_dirs t root)"

section \<open>Check 6: catalog\<close>

definition dir_names :: "fs \<Rightarrow> path \<Rightarrow> string list res" where
  "dir_names t p =
     (case iterdir t p of Inl e \<Rightarrow> Inl e | Inr ps \<Rightarrow> Inr (map name_of (filter (is_dir t) ps)))"

definition missing_category_issues :: "string list \<Rightarrow> issue list" where
  "missing_category_issues existing =
     map (\<lambda>c. Issue ERROR ''catalog-completeness'' c ''category required by the authoritative catalog is missing'')
       (filter (\<lambda>c. c \<notin> set existing) ALL_EXPECTED_CATEGORIES)"

definition catalog_issues :: "string \<Rightarrow> string list \<Rightarrow> string list \<Rightarrow> issue list" where
  "catalog_issues category expected existing =
     (let missing = sorted_set (filter (\<lambda>w. w \<notin> set existing) expected);
          extra = sorted_set (filter (\<lambda>w. w \<notin> set expected) existing)
      in map (\<lambda>w. Issue ERROR ''catalog-completeness'' (category @ ''/'' @ w)
               ''workflow required by the authoritative catalog is missing'') missing
         @ map (\<lambda>w. Issue ERROR ''catalog-completeness'' (category @ ''/'' @ w)
               ''workflow directory is not present in the authoritative catalog'') extra)"

definition explicit_issues :: "fs \<Rightarrow> path \<Rightarrow> string \<times> string list \<Rightarrow> issue list res" where
  "explicit_issues t root = (\<lambda>(category, expected_workflows).
     let category_path = root @ [category] in
     if \<not> is_dir t category_path then Inr []
     else (case dir_names t category_path of
             Inl e \<Rightarrow> Inl e
           | Inr existing \<Rightarrow> Inr (catalog_issues category expected_workflows existing)))"

definition open_issues :: "fs \<Rightarrow> path \<Rightarrow> string \<Rightarrow> issue list res" where
  "open_issues t root category =
     (let category_path = root @ [category] in
      if \<not> is_dir t category_path then Inr []
      else (case dir_names t category_path of
              Inl e \<Rightarrow> Inl e
            | Inr existing \<Rightarrow>
                Inr (if existing = []
                     then [Issue WARNING ''catalog-completeness'' category ''category directory exists but has no workflows yet'']
                     else [])))"

definition check_catalog_completeness :: "fs \<Rightarrow> path \<Rightarrow> issue list res" where
  "check_catalog_completeness t root =
     (case discover_category_dirs t root of
        Inl e \<Rightarrow> Inl e
      | Inr dirs \<Rightarrow>
          (case collect (explicit_issues t root) EXPLICIT_CATALOG of
             Inl e \<Rightarrow> Inl e
           | Inr explicit \<Rightarrow>
               (case collect (open_issues t root) OPEN_CATALOG of
                  Inl e \<Rightarrow> Inl e
                | Inr opened \<Rightarrow> Inr (missing_category_issues (map name_of dirs) @ explicit @ opened))))"

section \<open>Check 7: links\<close>

definition MD_LINK_RE :: re where
  "MD_LINK_RE =
     seqs [lit ''['', Star (Not_In [CHR '']'']), lit [CHR '']'', CHR ''(''],
           Group 1 (Plus (Chr (\<lambda>c. c \<noteq> CHR '')'' \<and> \<not> is_space c))),
           Opt (seqs [Plus Space, lit [CHR 0x22], Star (Not_In [CHR 0x22]), lit [CHR 0x22]]),
           lit [CHR '')'']]"

definition external_link :: "string \<Rightarrow> bool" where
  "external_link target \<longleftrightarrow>
     list_ex (\<lambda>p. prefix p target) [''http://'', ''https://'', ''mailto:'', ''#'']"

text \<open>\<open>target.split("#", 1)[0]\<close>.\<close>

definition path_part :: "string \<Rightarrow> string" where
  "path_part target = takeWhile (\<lambda>c. c \<noteq> CHR ''#'') target"

text \<open>
  What one link gives: nothing for an external link, for a link that leaves the repository and
  for one that resolves. A symbolic link leads out of the tree.
\<close>

definition link_issues :: "fs \<Rightarrow> path \<Rightarrow> path \<Rightarrow> string \<Rightarrow> issue list" where
  "link_issues t root md_file link =
     (let target = strip link in
      if target = [] \<or> external_link target then []
      else if path_part target = [] then []
      else
        (let resolved = join_path (butlast md_file) (path_part target) in
         if is_symlink t resolved \<or> \<not> prefix root resolved then []
         else if \<not> exists_at t resolved
         then [Issue WARNING ''markdown-links'' (rel root md_file) (''link target does not exist: '' @ QUOTE # target @ [QUOTE])]
         else []))"

definition check_markdown_links :: "fs \<Rightarrow> path \<Rightarrow> issue list res" where
  "check_markdown_links t root =
     collect (\<lambda>md_file.
       if ''.git'' \<in> set md_file then Inr []
       else (case read_replace t md_file of
               Inl e \<Rightarrow> Inl e
             | Inr content \<Rightarrow> Inr (concat (map (link_issues t root md_file) (re_findall MD_LINK_RE content)))))
     (sort (rglob t root ''.md''))"

section \<open>Check 8: repository map\<close>

definition REPOSITORY_MAP_RE :: re where
  "REPOSITORY_MAP_RE =
     seqs [Line_Start, lit ''## 13. Repository map (visual navigation)'', Star Space,
           lit [CHR 0x60, CHR 0x60, CHR 0x60], lit ''text'', Star Space, Group 1 (Lazy Any),
           lit [CHR 0x60, CHR 0x60, CHR 0x60]]"

text \<open>
  The branch prefixes are three box-drawing characters and a blank: ten bytes in UTF-8, which
  \<open>line[4:]\<close> drops as four characters.
\<close>

definition TREE_BRANCH_PREFIXES :: "string list" where
  "TREE_BRANCH_PREFIXES =
     [[CHR 0xE2, CHR 0x94, CHR 0x9C, CHR 0xE2, CHR 0x94, CHR 0x80, CHR 0xE2, CHR 0x94, CHR 0x80, CHR '' ''],
      [CHR 0xE2, CHR 0x94, CHR 0x94, CHR 0xE2, CHR 0x94, CHR 0x80, CHR 0xE2, CHR 0x94, CHR 0x80, CHR '' '']]"

definition TREE_VERTICAL :: string where
  "TREE_VERTICAL = [CHR 0xE2, CHR 0x94, CHR 0x82]"

definition map_issue :: "string \<Rightarrow> issue" where
  "map_issue msg = Issue ERROR ''repository-map'' ''README.md'' msg"

text \<open>The loop over the lines of the map, with the issues and the counts so far.\<close>

fun map_lines ::
  "fs \<Rightarrow> path \<Rightarrow> nat \<Rightarrow> string list \<Rightarrow> issue list \<Rightarrow> (string, nat) dict \<Rightarrow> (issue list \<times> (string, nat) dict) res"
where
  "map_lines t root index [] issues counts = Inr (issues, counts)"
| "map_lines t root index (line # ls) issues counts =
     (if strip line = [] \<or> index = 0 \<or> prefix TREE_VERTICAL line
      then map_lines t root (Suc index) ls issues counts
      else if \<not> list_ex (\<lambda>p. prefix p line) TREE_BRANCH_PREFIXES
      then map_lines t root (Suc index) ls
             (issues @ [map_issue (''unlinked synthetic root entry in repository map: '' @ QUOTE # strip line @ [QUOTE])])
             counts
      else
        (case split_words (drop 10 line) of
           [] \<Rightarrow> Inl IndexError
         | entry # _ \<Rightarrow>
             (let relative = rstrip_by (\<lambda>c. c = CHR ''/'') entry;
                  issues' = (if \<not> exists_at t (join_path root relative)
                             then issues @ [map_issue (''top-level map path does not exist: '' @ QUOTE # entry @ [QUOTE])]
                             else issues);
                  counts' = (case dict_get counts relative of
                               None \<Rightarrow> counts
                             | Some n \<Rightarrow> dict_set relative (n + 1) counts)
              in map_lines t root (Suc index) ls issues' counts')))"

definition count_issues :: "(string, nat) dict \<Rightarrow> issue list" where
  "count_issues counts =
     map (\<lambda>(category, count). map_issue (''category '' @ QUOTE # category @ ''/'' @ QUOTE
            # '' must appear exactly once as a top-level map path (found '' @ str_nat count @ '')''))
       (filter (\<lambda>(category, count). count \<noteq> 1) counts)"

definition check_repository_map :: "fs \<Rightarrow> path \<Rightarrow> issue list res" where
  "check_repository_map t root =
     (let readme = root @ [''README.md''] in
      if \<not> is_file t readme then Inr [map_issue ''root README does not exist'']
      else
        (case read_replace t readme of
           Inl e \<Rightarrow> Inl e
         | Inr content \<Rightarrow>
             (case re_search REPOSITORY_MAP_RE content of
                None \<Rightarrow> Inr [map_issue ''section 13 must contain a fenced text repository map'']
              | Some (u, m) \<Rightarrow>
                  (case map_lines t root 0 (splitlines (group 1 m)) [] (map (\<lambda>c. (c, 0)) ALL_EXPECTED_CATEGORIES) of
                     Inl e \<Rightarrow> Inl e
                   | Inr (issues, counts) \<Rightarrow> Inr (issues @ count_issues counts)))))"

definition ALL_CHECKS :: "(string \<times> (fs \<Rightarrow> path \<Rightarrow> issue list res)) list" where
  "ALL_CHECKS =
     [(''workflow-readmes'', check_workflow_readmes),
      (''sql-headers'', check_sql_headers),
      (''no-placeholders'', check_no_placeholders),
      (''no-destructive-statements'', check_no_destructive_statements),
      (''sequential-filenames'', check_sequential_filenames),
      (''catalog-completeness'', check_catalog_completeness),
      (''markdown-links'', check_markdown_links),
      (''repository-map'', check_repository_map)]"

end
