(* ===== verification/Scan_Laws.thy ===== *)
theory Scan_Laws
  imports Checks
begin

text \<open>
  What the keyword scans of the validator find, without regular expressions: a statement is a
  sequence of words in any letter case, separated by white space, that does not continue a word on
  either side.
\<close>

section \<open>Patterns as sets of words\<close>

inductive_simps matches_Seq: "matches (Seq r1 r2) x z"
inductive_simps matches_Alt: "matches (Alt r1 r2) x z"
inductive_simps matches_Eps: "matches Eps x z"
inductive_simps matches_Boundary: "matches Word_Boundary (p, s, g) z"
inductive_simps matches_Chr: "matches (Chr P) (p, s, g) z"
inductive_simps matches_Group: "matches (Group n r) (p, s, g) z"

text \<open>
  \<open>spans r P\<close>: pattern \<open>r\<close> matches exactly the pieces of text that satisfy \<open>P\<close>, whatever is
  around them.
\<close>

definition spans :: "re \<Rightarrow> (string \<Rightarrow> bool) \<Rightarrow> bool" where
  "spans r P \<longleftrightarrow>
     (\<forall>p s g y. matches r (p, s, g) y \<longrightarrow> (\<exists>w b g'. s = w @ b \<and> P w \<and> y = (char_before p w, b, g'))) \<and>
     (\<forall>p w b g. P w \<longrightarrow> (\<exists>g'. matches r (p, w @ b, g) (char_before p w, b, g')))"

lemma spansI:
  assumes "\<And>p s g y. matches r (p, s, g) y \<Longrightarrow> \<exists>w b g'. s = w @ b \<and> P w \<and> y = (char_before p w, b, g')"
    and "\<And>p w b g. P w \<Longrightarrow> \<exists>g'. matches r (p, w @ b, g) (char_before p w, b, g')"
  shows "spans r P"
  using assms by (simp add: spans_def)

lemma spans_sound: "spans r P \<Longrightarrow> matches r (p, s, g) y \<Longrightarrow> \<exists>w b g'. s = w @ b \<and> P w \<and> y = (char_before p w, b, g')"
  unfolding spans_def by blast

lemma spans_complete: "spans r P \<Longrightarrow> P w \<Longrightarrow> \<exists>g'. matches r (p, w @ b, g) (char_before p w, b, g')"
  unfolding spans_def by blast

definition then_piece :: "(string \<Rightarrow> bool) \<Rightarrow> (string \<Rightarrow> bool) \<Rightarrow> string \<Rightarrow> bool" where
  "then_piece P Q w \<longleftrightarrow> (\<exists>u v. w = u @ v \<and> P u \<and> Q v)"

lemma spans_Seq:
  assumes "spans r1 P" and "spans r2 Q"
  shows "spans (Seq r1 r2) (then_piece P Q)"
proof (rule spansI)
  fix p s g y
  assume "matches (Seq r1 r2) (p, s, g) y"
  then obtain x where x: "matches r1 (p, s, g) x" "matches r2 x y"
    by (auto simp: matches_Seq)
  from spans_sound[OF assms(1) x(1)] obtain u b g' where u: "s = u @ b" "P u" "x = (char_before p u, b, g')"
    by blast
  from spans_sound[OF assms(2) x(2)[unfolded u(3)]] obtain v c g''
    where v: "b = v @ c" "Q v" "y = (char_before (char_before p u) v, c, g'')"
    by blast
  show "\<exists>w b g'. s = w @ b \<and> then_piece P Q w \<and> y = (char_before p w, b, g')"
    using u v by (intro exI[of _ "u @ v"] exI[of _ c] exI[of _ g'']) (auto simp: then_piece_def)
next
  fix p w b g
  assume "then_piece P Q w"
  then obtain u v where w: "w = u @ v" "P u" "Q v"
    by (auto simp: then_piece_def)
  obtain g' where 1: "matches r1 (p, u @ v @ b, g) (char_before p u, v @ b, g')"
    using spans_complete[OF assms(1) w(2)] by blast
  obtain g'' where 2: "matches r2 (char_before p u, v @ b, g') (char_before (char_before p u) v, b, g'')"
    using spans_complete[OF assms(2) w(3)] by blast
  from m_seq[OF 1 2] show "\<exists>g'. matches (Seq r1 r2) (p, w @ b, g) (char_before p w, b, g')"
    by (auto simp: w(1))
qed

lemma spans_Eps: "spans Eps (\<lambda>w. w = [])"
  by (rule spansI) (auto simp: matches_Eps)

lemma spans_Chr: "spans (Chr P) (\<lambda>w. \<exists>c. w = [c] \<and> P c)"
  by (rule spansI) (auto simp: matches_Chr)

lemma spans_cong: "spans r P \<Longrightarrow> (\<And>w. P w \<longleftrightarrow> Q w) \<Longrightarrow> spans r Q"
  by (simp add: spans_def)

lemma then_piece_Chr:
  "then_piece (\<lambda>w. \<exists>c. w = [c] \<and> P c) Q w \<longleftrightarrow> (case w of [] \<Rightarrow> False | c # v \<Rightarrow> P c \<and> Q v)"
proof (cases w)
  case Nil
  then show ?thesis by (simp add: then_piece_def)
next
  case (Cons c v)
  have "(\<exists>u z. c # v = u @ z \<and> (\<exists>d. u = [d] \<and> P d) \<and> Q z) \<longleftrightarrow> P c \<and> Q v"
    by (metis append_Cons append_Nil list.inject)
  with Cons show ?thesis by (simp add: then_piece_def)
qed

lemma spans_liti: "spans (liti k) (\<lambda>w. lower w = lower k)"
proof (induction k)
  case Nil
  show ?case
    unfolding liti.simps by (rule spans_cong[OF spans_Eps]) (simp add: lower_def)
next
  case (Cons c k)
  show ?case
    unfolding liti.simps
    by (rule spans_cong[OF spans_Seq[OF spans_Chr Cons]])
      (simp add: then_piece_Chr lower_def split: list.split)
qed

lemma spans_lit: "spans (lit k) (\<lambda>w. w = k)"
proof (induction k)
  case Nil
  show ?case
    unfolding lit.simps by (rule spans_Eps)
next
  case (Cons c k)
  show ?case
    unfolding lit.simps
    by (rule spans_cong[OF spans_Seq[OF spans_Chr Cons]], simp only: then_piece_Chr)
      (auto split: list.split)
qed

lemma spans_Alt:
  assumes "spans r1 P" and "spans r2 Q"
  shows "spans (Alt r1 r2) (\<lambda>w. P w \<or> Q w)"
proof (rule spansI)
  fix p s g y
  assume "matches (Alt r1 r2) (p, s, g) y"
  then show "\<exists>w b g'. s = w @ b \<and> (P w \<or> Q w) \<and> y = (char_before p w, b, g')"
    unfolding matches_Alt by (elim disjE) (blast dest: spans_sound[OF assms(1)] spans_sound[OF assms(2)])+
next
  fix p w b g
  assume "P w \<or> Q w"
  then show "\<exists>g'. matches (Alt r1 r2) (p, w @ b, g) (char_before p w, b, g')"
    unfolding matches_Alt using spans_complete[OF assms(1)] spans_complete[OF assms(2)] by (elim disjE) metis+
qed

lemma spans_alts: "\<forall>k\<in>set ks. spans (f k) (P k) \<Longrightarrow> spans (alts (map f ks)) (\<lambda>w. \<exists>k\<in>set ks. P k w)"
proof (induction ks rule: induct_list012)
  case 1
  then show ?case by (intro spansI) (auto simp: matches_Chr)
next
  case (2 k)
  then show ?case by simp
next
  case (3 k k' ks)
  then have "spans (Alt (f k) (alts (map f (k' # ks)))) (\<lambda>w. P k w \<or> (\<exists>k\<in>set (k' # ks). P k w))"
    by (intro spans_Alt) simp_all
  then show ?case by simp
qed

lemma spans_Group:
  assumes "spans r P"
  shows "spans (Group n r) P"
proof (rule spansI)
  fix p s g y
  assume "matches (Group n r) (p, s, g) y"
  then obtain z where z: "y = capture n s z" "matches r (p, s, g) z"
    by (auto simp: matches_Group)
  from spans_sound[OF assms z(2)] show "\<exists>w b g'. s = w @ b \<and> P w \<and> y = (char_before p w, b, g')"
    by (auto simp: z(1))
next
  fix p w b g
  assume "P w"
  then obtain g' where "matches r (p, w @ b, g) (char_before p w, b, g')"
    using spans_complete[OF assms] by blast
  from m_group[OF this, of n] show "\<exists>g'. matches (Group n r) (p, w @ b, g) (char_before p w, b, g')"
    by auto
qed

lemma ends_Star_Chr: "(q, t, h) \<in> set (ends (Star (Chr P)) (p, s, g)) \<longleftrightarrow>
    (\<exists>w. s = w @ t \<and> list_all P w \<and> q = char_before p w \<and> h = g)"
proof (induction s arbitrary: p)
  case Nil
  then show ?case by auto
next
  case (Cons c s)
  show ?case
    by (cases "P c") (auto simp: Cons Cons_eq_append_conv)
qed

lemma spans_Star_Chr: "spans (Star (Chr P)) (list_all P)"
proof (rule spansI)
  fix p s g y
  assume "matches (Star (Chr P)) (p, s, g) y"
  moreover obtain q t h where y: "y = (q, t, h)" by (cases y)
  ultimately have "(q, t, h) \<in> set (ends (Star (Chr P)) (p, s, g))"
    by (simp only: ends_iff_matches)
  then show "\<exists>w b g'. s = w @ b \<and> list_all P w \<and> y = (char_before p w, b, g')"
    unfolding ends_Star_Chr y by blast
next
  fix p w b g
  assume "list_all P w"
  then show "\<exists>g'. matches (Star (Chr P)) (p, w @ b, g) (char_before p w, b, g')"
    unfolding ends_iff_matches[symmetric] ends_Star_Chr by blast
qed

definition run_of :: "(char \<Rightarrow> bool) \<Rightarrow> string \<Rightarrow> bool" where
  "run_of P w \<longleftrightarrow> w \<noteq> [] \<and> list_all P w"

lemma spans_Plus_Chr: "spans (Plus (Chr P)) (run_of P)"
  unfolding Plus_def
  by (rule spans_cong[OF spans_Seq[OF spans_Chr spans_Star_Chr]]) (simp add: then_piece_Chr run_of_def split: list.split)

section \<open>Words that stand alone\<close>

definition free_left :: "string \<Rightarrow> bool" where
  "free_left a \<longleftrightarrow> a = [] \<or> \<not> is_word (last a)"

definition free_right :: "string \<Rightarrow> bool" where
  "free_right b \<longleftrightarrow> b = [] \<or> \<not> is_word (hd b)"

definition stands_in :: "(string \<Rightarrow> bool) \<Rightarrow> string \<Rightarrow> bool" where
  "stands_in P s \<longleftrightarrow> (\<exists>a w b. s = a @ w @ b \<and> P w \<and> free_left a \<and> free_right b)"

definition starts_in :: "(string \<Rightarrow> bool) \<Rightarrow> string \<Rightarrow> bool" where
  "starts_in P s \<longleftrightarrow> (\<exists>a w b. s = a @ w @ b \<and> P w \<and> free_left a)"

definition wordy :: "(string \<Rightarrow> bool) \<Rightarrow> bool" where
  "wordy P \<longleftrightarrow> (\<forall>w. P w \<longrightarrow> w \<noteq> [] \<and> is_word (hd w))"

lemma matches_Seq_assoc: "matches (Seq r1 (Seq r2 r3)) x y \<longleftrightarrow> matches (Seq (Seq r1 r2) r3) x y"
  by (simp only: matches_Seq) blast

lemma opt_word_before: "opt_word (char_before None a) \<longleftrightarrow> \<not> free_left a"
  by (auto simp: char_before_def free_left_def)

lemma opt_word_first: "opt_word (first_of b) \<longleftrightarrow> \<not> free_right b"
  by (cases b) (auto simp: free_right_def)

lemma first_of_wordy: "wordy P \<Longrightarrow> P w \<Longrightarrow> opt_word (first_of (w @ b))"
  by (cases w) (auto simp: wordy_def)

lemma found_start:
  assumes "spans r P" and "wordy P"
  shows "found (Seq Word_Boundary r) s \<longleftrightarrow> starts_in P s"
proof -
  have front: "opt_word (char_before None a) \<noteq> opt_word (first_of (w @ b)) \<longleftrightarrow> free_left a" if "P w" for a w b
    using first_of_wordy[OF assms(2) that] by (simp add: opt_word_before)
  have "found (Seq Word_Boundary r) s \<longleftrightarrow>
      (\<exists>a b y. s = a @ b \<and> opt_word (char_before None a) \<noteq> opt_word (first_of b) \<and> matches r (char_before None a, b, []) y)"
    unfolding found_iff matches_Seq split_paired_Ex matches_Boundary by blast
  also have "\<dots> \<longleftrightarrow> (\<exists>a w b. s = a @ w @ b \<and> P w \<and> free_left a)"
  proof
    assume "\<exists>a b y. s = a @ b \<and> opt_word (char_before None a) \<noteq> opt_word (first_of b) \<and> matches r (char_before None a, b, []) y"
    then obtain a b y where 1: "s = a @ b" "opt_word (char_before None a) \<noteq> opt_word (first_of b)"
      "matches r (char_before None a, b, []) y" by blast
    obtain w c where w: "b = w @ c" "P w"
      using spans_sound[OF assms(1) 1(3)] by blast
    then have "free_left a"
      using 1(2) front[OF w(2)] by simp
    with 1(1) w show "\<exists>a w b. s = a @ w @ b \<and> P w \<and> free_left a" by blast
  next
    assume "\<exists>a w b. s = a @ w @ b \<and> P w \<and> free_left a"
    then obtain a w b where 2: "s = a @ w @ b" "P w" "free_left a" by blast
    obtain g where "matches r (char_before None a, w @ b, []) (char_before (char_before None a) w, b, g)"
      using spans_complete[OF assms(1) 2(2)] by blast
    moreover have "opt_word (char_before None a) \<noteq> opt_word (first_of (w @ b))"
      using 2(3) front[OF 2(2)] by simp
    ultimately show "\<exists>a b y. s = a @ b \<and> opt_word (char_before None a) \<noteq> opt_word (first_of b) \<and>
        matches r (char_before None a, b, []) y"
      using 2(1) by blast
  qed
  finally show ?thesis by (simp add: starts_in_def)
qed

lemma found_word:
  assumes "spans r P" and "wordy P" and "\<And>w. P w \<Longrightarrow> is_word (last w)"
  shows "found (Seq Word_Boundary (Seq r Word_Boundary)) s \<longleftrightarrow> stands_in P s"
proof -
  have front: "opt_word (char_before None a) \<noteq> opt_word (first_of (w @ b)) \<longleftrightarrow> free_left a" if "P w" for a w b
    using first_of_wordy[OF assms(2) that] by (simp add: opt_word_before)
  have ending: "opt_word (char_before p w) \<noteq> opt_word (first_of b) \<longleftrightarrow> free_right b" if "P w" for p w b
    using assms(2,3) that by (simp add: opt_word_first wordy_def char_before_def)
  have "found (Seq Word_Boundary (Seq r Word_Boundary)) s \<longleftrightarrow>
      (\<exists>a b q t g. s = a @ b \<and> opt_word (char_before None a) \<noteq> opt_word (first_of b) \<and>
         matches r (char_before None a, b, []) (q, t, g) \<and> opt_word q \<noteq> opt_word (first_of t))"
    by (simp add: found_iff matches_Seq split_paired_Ex matches_Boundary)
  also have "\<dots> \<longleftrightarrow> (\<exists>a w b. s = a @ w @ b \<and> P w \<and> free_left a \<and> free_right b)"
  proof
    assume "\<exists>a b q t g. s = a @ b \<and> opt_word (char_before None a) \<noteq> opt_word (first_of b) \<and>
         matches r (char_before None a, b, []) (q, t, g) \<and> opt_word q \<noteq> opt_word (first_of t)"
    then obtain a b q t g where 1: "s = a @ b" "opt_word (char_before None a) \<noteq> opt_word (first_of b)"
      "matches r (char_before None a, b, []) (q, t, g)" "opt_word q \<noteq> opt_word (first_of t)" by blast
    from spans_sound[OF assms(1) 1(3)] obtain w where w: "b = w @ t" "P w" "q = char_before (char_before None a) w"
      by auto
    have "free_left a" "free_right t"
      using 1(2,4) w front[OF w(2)] ending[OF w(2)] by simp_all
    with 1(1) w(1,2) show "\<exists>a w b. s = a @ w @ b \<and> P w \<and> free_left a \<and> free_right b"
      by blast
  next
    assume "\<exists>a w b. s = a @ w @ b \<and> P w \<and> free_left a \<and> free_right b"
    then obtain a w b where 2: "s = a @ w @ b" "P w" "free_left a" "free_right b" by blast
    obtain g where "matches r (char_before None a, w @ b, []) (char_before (char_before None a) w, b, g)"
      using spans_complete[OF assms(1) 2(2)] by blast
    moreover have "opt_word (char_before None a) \<noteq> opt_word (first_of (w @ b))"
      "opt_word (char_before (char_before None a) w) \<noteq> opt_word (first_of b)"
      using 2(3,4) front[OF 2(2)] ending[OF 2(2)] by simp_all
    ultimately show "\<exists>a b q t g. s = a @ b \<and> opt_word (char_before None a) \<noteq> opt_word (first_of b) \<and>
         matches r (char_before None a, b, []) (q, t, g) \<and> opt_word q \<noteq> opt_word (first_of t)"
      using 2(1) by blast
  qed
  finally show ?thesis by (simp add: stands_in_def)
qed

section \<open>Statements\<close>

text \<open>Words with white space between them; a keyword in any letter case.\<close>

definition kw :: "string \<Rightarrow> string \<Rightarrow> bool" where
  "kw k w \<longleftrightarrow> lower w = lower k"

definition one_of :: "string list \<Rightarrow> string \<Rightarrow> bool" where
  "one_of ks w \<longleftrightarrow> (\<exists>k\<in>set ks. kw k w)"

fun spaced :: "(string \<Rightarrow> bool) list \<Rightarrow> string \<Rightarrow> bool" where
  "spaced [] w \<longleftrightarrow> w = []"
| "spaced [P] w \<longleftrightarrow> P w"
| "spaced (P # Q # Ps) w \<longleftrightarrow> then_piece P (then_piece (run_of is_space) (spaced (Q # Ps))) w"

definition called :: "string \<Rightarrow> string \<Rightarrow> bool" where
  "called f = then_piece (kw f) (then_piece (list_all is_space) (\<lambda>w. w = ''(''))"

lemma spans_kw: "spans (liti k) (kw k)"
  using spans_liti[of k] by (simp add: kw_def[abs_def])

lemma spans_one_of: "spans (Group n (alts (map liti ks))) (one_of ks)"
  using spans_Group[OF spans_alts[of ks liti kw]] spans_kw by (simp add: one_of_def[abs_def])

lemma lower_word: "is_word (lower_char c) \<longleftrightarrow> is_word c"
proof -
  have "is_lower (char_of (of_char c + (32 :: nat)))" if "is_upper c"
    using that by (auto simp: is_lower_def is_upper_def in_range_def of_char_of)
  then show ?thesis
    by (auto simp: lower_char_def is_word_def is_alpha_def)
qed

lemma kw_ends:
  assumes "kw k w" and "k \<noteq> []" and "list_all is_word k"
  shows "w \<noteq> [] \<and> is_word (hd w) \<and> is_word (last w)"
proof -
  have w: "map lower_char w = map lower_char k"
    using assms(1) by (simp add: kw_def lower_def)
  then have ne: "w \<noteq> []"
    using assms(2) by auto
  have "\<forall>c\<in>set (map lower_char k). is_word c"
    using assms(3) by (auto simp: lower_word list_all_iff)
  then have "\<forall>c\<in>set w. is_word c"
    unfolding w[symmetric] by (auto simp: lower_word)
  with ne show ?thesis by simp
qed

text \<open>The words the patterns are made of.\<close>

definition word_like :: "(string \<Rightarrow> bool) \<Rightarrow> bool" where
  "word_like P \<longleftrightarrow> (\<forall>w. P w \<longrightarrow> w \<noteq> [] \<and> is_word (hd w) \<and> is_word (last w))"

lemma word_like_kw: "k \<noteq> [] \<Longrightarrow> list_all is_word k \<Longrightarrow> word_like (kw k)"
  using kw_ends by (auto simp: word_like_def)

lemma word_like_one_of: "list_all (\<lambda>k. k \<noteq> [] \<and> list_all is_word k) ks \<Longrightarrow> word_like (one_of ks)"
  unfolding word_like_def one_of_def list_all_iff[of _ ks] using kw_ends by metis

lemma found_cong: "(\<And>x y. matches r x y \<longleftrightarrow> matches r' x y) \<Longrightarrow> found r s \<longleftrightarrow> found r' s"
  by (simp add: found_iff)

lemma found_one:
  "spans r P \<Longrightarrow> word_like P \<Longrightarrow> found (seqs [Word_Boundary, r, Word_Boundary]) s \<longleftrightarrow> stands_in P s"
  unfolding seqs.simps by (rule found_word) (auto simp: word_like_def wordy_def)

lemma found_two:
  assumes "spans r1 P" and "spans r2 Q" and "word_like P" and "word_like Q"
  shows "found (seqs [Word_Boundary, r1, Plus Space, r2, Word_Boundary]) s \<longleftrightarrow> stands_in (spaced [P, Q]) s"
proof -
  have re: "found (seqs [Word_Boundary, r1, Plus Space, r2, Word_Boundary]) s \<longleftrightarrow>
      found (Seq Word_Boundary (Seq (Seq r1 (Seq (Plus Space) r2)) Word_Boundary)) s"
    unfolding seqs.simps by (rule found_cong) (simp only: matches_Seq, blast)
  have sp: "spans (Seq r1 (Seq (Plus Space) r2)) (spaced [P, Q])"
    by (rule spans_cong[OF spans_Seq[OF assms(1) spans_Seq[OF spans_Plus_Chr assms(2)]]])
      (simp add: then_piece_def)
  have ends: "w \<noteq> [] \<and> is_word (hd w) \<and> is_word (last w)" if "spaced [P, Q] w" for w
    using that assms(3,4) by (auto simp: then_piece_def word_like_def)
  show ?thesis
    unfolding re by (rule found_word[OF sp]) (use ends in \<open>auto simp: wordy_def\<close>)
qed

lemma found_three:
  assumes "spans r1 P" and "spans r2 Q" and "spans r3 R" and "word_like P" and "word_like R"
  shows "found (seqs [Word_Boundary, r1, Plus Space, r2, Plus Space, r3, Word_Boundary]) s \<longleftrightarrow>
    stands_in (spaced [P, Q, R]) s"
proof -
  have re: "found (seqs [Word_Boundary, r1, Plus Space, r2, Plus Space, r3, Word_Boundary]) s \<longleftrightarrow>
      found (Seq Word_Boundary (Seq (Seq r1 (Seq (Plus Space) (Seq r2 (Seq (Plus Space) r3)))) Word_Boundary)) s"
    unfolding seqs.simps by (rule found_cong) (simp only: matches_Seq, blast)
  have sp: "spans (Seq r1 (Seq (Plus Space) (Seq r2 (Seq (Plus Space) r3)))) (spaced [P, Q, R])"
    by (rule spans_cong[OF spans_Seq[OF assms(1) spans_Seq[OF spans_Plus_Chr
            spans_Seq[OF assms(2) spans_Seq[OF spans_Plus_Chr assms(3)]]]]])
      (simp add: then_piece_def)
  have ends: "w \<noteq> [] \<and> is_word (hd w) \<and> is_word (last w)" if "spaced [P, Q, R] w" for w
    using that assms(4,5) by (auto simp: then_piece_def word_like_def)
  show ?thesis
    unfolding re by (rule found_word[OF sp]) (use ends in \<open>auto simp: wordy_def\<close>)
qed

lemma found_call:
  assumes "f \<noteq> []" and "list_all is_word f"
  shows "found (call_re f) s \<longleftrightarrow> starts_in (called f) s"
proof -
  have "spans (Seq (liti f) (Seq (Star Space) (lit ''(''))) (called f)"
    unfolding called_def by (intro spans_Seq spans_kw spans_Star_Chr spans_lit)
  moreover have "wordy (called f)"
    using kw_ends[OF _ assms] by (auto simp: wordy_def called_def then_piece_def)
  ultimately show ?thesis
    unfolding call_re_def seqs.simps by (rule found_start)
qed

text \<open>
  What the scan of a read-only script looks for, as statements.
\<close>

definition forbidden_statement :: "string \<Rightarrow> bool" where
  "forbidden_statement s \<longleftrightarrow>
     stands_in (spaced [kw ''DROP'',
       one_of [''TABLE'', ''INDEX'', ''SCHEMA'', ''DATABASE'', ''SEQUENCE'', ''VIEW'', ''FUNCTION'', ''EXTENSION'', ''ROLE'']]) s \<or>
     stands_in (kw ''TRUNCATE'') s \<or>
     stands_in (spaced [kw ''DELETE'', kw ''FROM'']) s \<or>
     stands_in (spaced [kw ''INSERT'', kw ''INTO'']) s \<or>
     stands_in (spaced [kw ''UPDATE'', run_of (\<lambda>c. \<not> is_space c), kw ''SET'']) s \<or>
     stands_in (spaced [kw ''ALTER'', one_of [''TABLE'', ''SYSTEM'', ''DATABASE'', ''INDEX'', ''SEQUENCE'']]) s \<or>
     stands_in (spaced [kw ''VACUUM'', kw ''FULL'']) s \<or>
     stands_in (spaced [kw ''CREATE'', one_of [''TABLE'', ''INDEX'', ''EXTENSION'', ''SEQUENCE'', ''VIEW'']]) s \<or>
     starts_in (called ''pg_terminate_backend'') s \<or>
     starts_in (called ''pg_cancel_backend'') s"

lemma words_re_iff:
  assumes "k \<noteq> []" and "list_all is_word k" and "list_all (\<lambda>k. k \<noteq> [] \<and> list_all is_word k) ks"
  shows "found (words_re k ks) s \<longleftrightarrow> stands_in (spaced [kw k, one_of ks]) s"
  unfolding words_re_def
  by (rule found_two[OF spans_kw spans_one_of word_like_kw[OF assms(1,2)] word_like_one_of[OF assms(3)]])

lemma two_words_iff:
  assumes "k \<noteq> []" and "list_all is_word k" and "l \<noteq> []" and "list_all is_word l"
  shows "found (two_words_re k l) s \<longleftrightarrow> stands_in (spaced [kw k, kw l]) s"
  unfolding two_words_re_def
  by (rule found_two[OF spans_kw spans_kw word_like_kw[OF assms(1,2)] word_like_kw[OF assms(3,4)]])

lemma one_word_iff:
  assumes "k \<noteq> []" and "list_all is_word k"
  shows "found (seqs [Word_Boundary, liti k, Word_Boundary]) s \<longleftrightarrow> stands_in (kw k) s"
  by (rule found_one[OF spans_kw word_like_kw[OF assms]])

lemma list_ex_simps_of: "list_ex P [] = False" "list_ex P (x # xs) = (P x \<or> list_ex P xs)"
  by simp_all

lemma forbidden_patterns_iff:
  "list_ex (\<lambda>(pattern, u). found pattern s) READ_ONLY_FORBIDDEN_PATTERNS \<longleftrightarrow> forbidden_statement s"
proof -
  note found_iffs =
    words_re_iff[of "''DROP''" "[''TABLE'', ''INDEX'', ''SCHEMA'', ''DATABASE'', ''SEQUENCE'', ''VIEW'', ''FUNCTION'', ''EXTENSION'', ''ROLE'']"]
    one_word_iff[of "''TRUNCATE''"]
    two_words_iff[of "''DELETE''" "''FROM''"]
    two_words_iff[of "''INSERT''" "''INTO''"]
    found_three[OF spans_kw[of "''UPDATE''"] spans_Plus_Chr[of "\<lambda>c. \<not> is_space c"] spans_kw[of "''SET''"] word_like_kw word_like_kw]
    words_re_iff[of "''ALTER''" "[''TABLE'', ''SYSTEM'', ''DATABASE'', ''INDEX'', ''SEQUENCE'']"]
    two_words_iff[of "''VACUUM''" "''FULL''"]
    words_re_iff[of "''CREATE''" "[''TABLE'', ''INDEX'', ''EXTENSION'', ''SEQUENCE'', ''VIEW'']"]
    found_call[of "''pg_terminate_backend''"]
    found_call[of "''pg_cancel_backend''"]
  have char_iffs:
    "list_all is_word ''DROP''" "list_all is_word ''TRUNCATE''" "list_all is_word ''DELETE''" "list_all is_word ''FROM''"
    "list_all is_word ''INSERT''" "list_all is_word ''INTO''" "list_all is_word ''UPDATE''" "list_all is_word ''SET''"
    "list_all is_word ''ALTER''" "list_all is_word ''VACUUM''" "list_all is_word ''FULL''" "list_all is_word ''CREATE''"
    "list_all is_word ''pg_terminate_backend''" "list_all is_word ''pg_cancel_backend''"
    "list_all (\<lambda>k. k \<noteq> [] \<and> list_all is_word k) [''TABLE'', ''INDEX'', ''SCHEMA'', ''DATABASE'', ''SEQUENCE'', ''VIEW'', ''FUNCTION'', ''EXTENSION'', ''ROLE'']"
    "list_all (\<lambda>k. k \<noteq> [] \<and> list_all is_word k) [''TABLE'', ''SYSTEM'', ''DATABASE'', ''INDEX'', ''SEQUENCE'']"
    "list_all (\<lambda>k. k \<noteq> [] \<and> list_all is_word k) [''TABLE'', ''INDEX'', ''EXTENSION'', ''SEQUENCE'', ''VIEW'']"
    by (simp_all add: py_simps)
  show ?thesis
    unfolding READ_ONLY_FORBIDDEN_PATTERNS_def forbidden_statement_def list_ex_simps_of prod.case
    by (simp only: found_iffs char_iffs list.distinct(2) not_False_eq_True simp_thms)
qed

end
