(* ===== verification/Validate.thy ===== *)
theory Validate
  imports Checks
begin

text \<open>
  Model of \<^verbatim>\<open>tools/validation/validate_repo.py\<close>: which checks run, the exit code, and the lines
  printed. The command line has been parsed by \<open>argparse\<close>; its namespace is a record. A check
  that raises ends the run with a traceback, which is the \<open>Inl\<close> of the result.
\<close>

record validate_args =
  v_root :: "path option"
  v_only_checks :: "string list"
  v_list_checks :: bool
  v_only_errors :: bool
  v_quiet :: bool

text \<open>\<open>current\<close> and its parents, innermost first; the file system's root is a candidate too.\<close>

definition with_parents :: "path \<Rightarrow> path list" where
  "with_parents p = rev (prefixes p)"

definition find_repo_root :: "fs \<Rightarrow> path \<Rightarrow> path" where
  "find_repo_root t start =
     (case find (\<lambda>candidate. exists_at t (candidate @ [''.git''])) (with_parents start) of
        Some candidate \<Rightarrow> candidate
      | None \<Rightarrow> start)"

definition with_severity :: "string \<Rightarrow> issue list \<Rightarrow> issue list" where
  "with_severity sev is = filter (\<lambda>i. i_severity i = sev) is"

definition section_lines :: "validate_args \<Rightarrow> string \<Rightarrow> issue list \<Rightarrow> string list" where
  "section_lines a name is =
     (if v_quiet a then []
      else
        [[NL] @ ''== '' @ name @ '' ('' @ str_nat (length (with_severity ERROR is)) @ '' error(s), ''
           @ str_nat (length (with_severity WARNING is)) @ '' warning(s)) =='']
        @ map (\<lambda>i. ''  '' @ issue_text i) (filter (\<lambda>i. \<not> (v_only_errors a \<and> i_severity i \<noteq> ERROR)) is))"

text \<open>The loop over the selected checks: all issues, and what is printed on the way.\<close>

fun run_checks ::
  "validate_args \<Rightarrow> fs \<Rightarrow> path \<Rightarrow> (string \<times> (fs \<Rightarrow> path \<Rightarrow> issue list res)) list \<Rightarrow> (issue list \<times> string list) res"
where
  "run_checks a t root [] = Inr ([], [])"
| "run_checks a t root ((name, fn) # cs) =
     (case fn t root of
        Inl e \<Rightarrow> Inl e
      | Inr section_issues \<Rightarrow>
          (case run_checks a t root cs of
             Inl e \<Rightarrow> Inl e
           | Inr (is, out) \<Rightarrow> Inr (section_issues @ is, section_lines a name section_issues @ out)))"

text \<open>\<open>--check\<close> is falsy when it was not given, which is the empty list here.\<close>

definition selected_checks :: "validate_args \<Rightarrow> (string \<times> (fs \<Rightarrow> path \<Rightarrow> issue list res)) list" where
  "selected_checks a =
     (if v_only_checks a = [] then ALL_CHECKS
      else filter (\<lambda>(name, fn). name \<in> set (v_only_checks a)) ALL_CHECKS)"

definition unknown_checks :: "validate_args \<Rightarrow> string list" where
  "unknown_checks a = sorted_set (filter (\<lambda>n. n \<notin> set (map fst ALL_CHECKS)) (v_only_checks a))"

definition summary_lines :: "path \<Rightarrow> issue list \<Rightarrow> string list" where
  "summary_lines root is =
     (let total_errors = length (with_severity ERROR is); total_warnings = length (with_severity WARNING is) in
      [NL # replicate 70 (CHR ''=''),
       ''Validated: /'' @ join ''/'' root,
       ''Total: '' @ str_nat total_errors @ '' error(s), '' @ str_nat total_warnings @ '' warning(s)'',
       if total_errors \<noteq> 0 then ''RESULT: FAIL (errors must be resolved)''
       else ''RESULT: PASS (warnings, if any, are informational)'',
       replicate 70 (CHR ''='')])"

definition validate_root :: "path \<Rightarrow> validate_args \<Rightarrow> fs \<Rightarrow> path" where
  "validate_root here a t = (case v_root a of Some r \<Rightarrow> r | None \<Rightarrow> find_repo_root t here)"

text \<open>The exit code with the lines printed; \<open>here\<close> is the directory of \<^verbatim>\<open>validate_repo.py\<close>.\<close>

definition validate_main :: "path \<Rightarrow> validate_args \<Rightarrow> fs \<Rightarrow> (nat \<times> string list) res" where
  "validate_main here a t =
     (if v_list_checks a then Inr (0, map fst ALL_CHECKS)
      else if unknown_checks a \<noteq> []
      then Inr (2, [''Unknown check name(s): '' @ join '', '' (unknown_checks a)])
      else
        (let root = validate_root here a t in
         case run_checks a t root (selected_checks a) of
           Inl e \<Rightarrow> Inl e
         | Inr (is, out) \<Rightarrow>
             Inr (if with_severity ERROR is \<noteq> [] then 1 else 0, out @ summary_lines root is)))"

end
