(* ===== verification/Check_Laws.thy ===== *)
theory Check_Laws
  imports Validate "HOL-Library.Multiset"
begin

text \<open>
  What the checks of file names and of the tree decide: the numbering of scripts, the catalog, and
  the required files.
\<close>

section \<open>Collecting issues\<close>

lemma collect_ok: "(\<And>x. x \<in> set xs \<Longrightarrow> f x = Inr (g x)) \<Longrightarrow> collect f xs = Inr (concat (map g xs))"
  by (induction xs) auto

lemma collect_Inr: "collect f xs = Inr ys \<Longrightarrow> x \<in> set xs \<Longrightarrow> \<exists>zs. f x = Inr zs \<and> set zs \<subseteq> set ys"
  by (induction xs arbitrary: ys) (fastforce split: sum.splits)+

lemma collect_member: "collect f xs = Inr ys \<Longrightarrow> y \<in> set ys \<Longrightarrow> \<exists>x zs. x \<in> set xs \<and> f x = Inr zs \<and> y \<in> set zs"
  by (induction xs arbitrary: ys) (fastforce split: sum.splits)+

lemma iterdir_ok: "is_dir t p \<Longrightarrow> iterdir t p = Inr (map (\<lambda>x. p @ [x]) (child_names t p))"
  by (simp add: iterdir_def)

lemma name_of_child [simp]: "name_of (p @ [x]) = x"
  by (simp add: name_of_def)

lemma dir_names_ok: "is_dir t p \<Longrightarrow> dir_names t p = Inr (filter (\<lambda>x. is_dir t (p @ [x])) (child_names t p))"
  by (simp add: dir_names_def iterdir_ok filter_map comp_def)

lemma is_dir_child: "wf_fs t \<Longrightarrow> is_dir t (p @ [x]) \<Longrightarrow> x \<in> set (child_names t p)"
  by (auto simp: child_names_iff is_dir_def)

section \<open>Numbering\<close>

lemma numbering_errors:
  "with_severity ERROR (numbering_issues r names) = [] \<longleftrightarrow>
     (let numbers = List.map_filter script_number names in sort numbers = [1..<length numbers + 1])"
proof -
  have "distinct (sort ns) \<and> sort ns = [1..<length ns + 1] \<longleftrightarrow> sort ns = [1..<length ns + 1]" for ns :: "nat list"
    by (metis distinct_upt)
  moreover have "sort ([] :: nat list) = [1..<length ([] :: nat list) + 1]"
    by simp
  ultimately show ?thesis
    by (auto simp: numbering_issues_def with_severity_def ERROR_def WARNING_def Let_def filter_map comp_def
        simp del: distinct_sort)
qed

lemma sort_eq_upt_iff: "sort ns = [1..<length ns + 1] \<longleftrightarrow> mset ns = mset [1..<length ns + 1]"
  for ns :: "nat list"
  by (metis mset_sort sort_upt sorted_list_of_multiset_mset)

text \<open>
  C28: the numbering check has no error to report exactly when the numbers of the scripts, in any
  order, are 1 up to their count, each once.
\<close>

theorem numbering_errors_iff:
  "with_severity ERROR (numbering_issues r names) = [] \<longleftrightarrow>
     mset (List.map_filter script_number names) = mset [1..<length (List.map_filter script_number names) + 1]"
  by (simp only: numbering_errors Let_def sort_eq_upt_iff)

section \<open>Catalog\<close>

lemma catalog_issues_none: "catalog_issues c expected existing = [] \<longleftrightarrow> set expected = set existing"
  by (auto simp: catalog_issues_def Let_def filter_empty_conv)

lemma catalog_no_special: "list_all (\<lambda>c. c \<notin> set NON_CATEGORY_ROOT_DIRS \<and> \<not> prefix ''.'' c) (map fst EXPLICIT_CATALOG)"
  by (simp add: EXPLICIT_CATALOG_def NON_CATEGORY_ROOT_DIRS_def)

lemma category_names:
  assumes "is_dir t root"
  shows "\<exists>dirs. discover_category_dirs t root = Inr dirs \<and>
    set (map name_of dirs) = {c \<in> set (child_names t root). is_dir t (root @ [c]) \<and> c \<notin> set NON_CATEGORY_ROOT_DIRS \<and> \<not> prefix ''.'' c}"
  by (force simp: discover_category_dirs_def iterdir_ok[OF assms] image_iff)

lemma explicit_issues_ok:
  "explicit_issues t root (c, ws) =
     Inr (if is_dir t (root @ [c])
          then catalog_issues c ws (filter (\<lambda>x. is_dir t (root @ [c] @ [x])) (child_names t (root @ [c]))) else [])"
  by (simp add: explicit_issues_def dir_names_ok Let_def)

lemma catalog_complete:
  assumes "wf_fs t" and "node_at t root = Some Dir"
  shows "check_catalog_completeness t root = Inr [] \<longleftrightarrow>
    (\<forall>(c, ws)\<in>set EXPLICIT_CATALOG. is_dir t (root @ [c]) \<and> (\<forall>w. is_dir t (root @ [c, w]) \<longleftrightarrow> w \<in> set ws))"
proof -
  have root: "is_dir t root"
    using assms(2) by (simp add: is_dir_def)
  obtain dirs where dirs: "discover_category_dirs t root = Inr dirs"
    "set (map name_of dirs) = {c \<in> set (child_names t root). is_dir t (root @ [c]) \<and> c \<notin> set NON_CATEGORY_ROOT_DIRS \<and> \<not> prefix ''.'' c}"
    using category_names[OF root] by blast
  have special: "c \<notin> set NON_CATEGORY_ROOT_DIRS \<and> \<not> prefix ''.'' c" if "(c, ws) \<in> set EXPLICIT_CATALOG" for c ws
    using catalog_no_special that unfolding list_all_iff by force
  have existing: "c \<in> set (map name_of dirs) \<longleftrightarrow> is_dir t (root @ [c])" if "(c, ws) \<in> set EXPLICIT_CATALOG" for c ws
    using special[OF that] is_dir_child[OF assms(1)] unfolding dirs(2) by blast
  let ?issues = "\<lambda>(c, ws). if is_dir t (root @ [c])
    then catalog_issues c ws (filter (\<lambda>x. is_dir t (root @ [c] @ [x])) (child_names t (root @ [c]))) else []"
  have explicit: "collect (explicit_issues t root) EXPLICIT_CATALOG = Inr (concat (map ?issues EXPLICIT_CATALOG))"
    by (rule collect_ok) (simp add: explicit_issues_ok split: prod.split)
  have missing: "missing_category_issues (map name_of dirs) = [] \<longleftrightarrow> (\<forall>(c, ws)\<in>set EXPLICIT_CATALOG. is_dir t (root @ [c]))"
    using existing unfolding missing_category_issues_def map_is_Nil_conv filter_empty_conv expected_categories_set
    by fastforce
  have none: "?issues (c, ws) = [] \<longleftrightarrow> (is_dir t (root @ [c]) \<longrightarrow> (\<forall>w. is_dir t (root @ [c, w]) \<longleftrightarrow> w \<in> set ws))" for c ws
    using is_dir_child[OF assms(1), of "root @ [c]"] by (auto simp: catalog_issues_none)
  have "check_catalog_completeness t root = Inr [] \<longleftrightarrow>
      missing_category_issues (map name_of dirs) = [] \<and> (\<forall>x\<in>set EXPLICIT_CATALOG. ?issues x = [])"
    by (simp add: check_catalog_completeness_def dirs(1) explicit OPEN_CATALOG_def)
  also have "\<dots> \<longleftrightarrow> (\<forall>(c, ws)\<in>set EXPLICIT_CATALOG. is_dir t (root @ [c]) \<and> (\<forall>w. is_dir t (root @ [c, w]) \<longleftrightarrow> w \<in> set ws))"
    unfolding missing using none by fast
  finally show ?thesis .
qed

text \<open>
  C26: the catalog check reports nothing exactly when every category of the catalog is a directory
  of the repository whose subdirectories are the workflows listed for it, no fewer and no more.
\<close>

theorem catalog_complete_iff:
  assumes "wf_fs t" and "node_at t root = Some Dir"
  shows "check_catalog_completeness t root = Inr [] \<longleftrightarrow>
    (\<forall>(c, ws)\<in>set EXPLICIT_CATALOG. is_dir t (root @ [c]) \<and> (\<forall>w. is_dir t (root @ [c, w]) \<longleftrightarrow> w \<in> set ws))"
  using assms by (rule catalog_complete)

section \<open>Required files\<close>

definition category_at :: "fs \<Rightarrow> path \<Rightarrow> string \<Rightarrow> bool" where
  "category_at t root c \<longleftrightarrow> is_dir t (root @ [c]) \<and> c \<notin> set NON_CATEGORY_ROOT_DIRS \<and> \<not> prefix ''.'' c"

lemma is_dirI: "node_at t p = Some Dir \<Longrightarrow> is_dir t p"
  by (simp add: is_dir_def)

lemma category_dirs:
  assumes "wf_fs t" and "is_dir t root"
  shows "\<exists>dirs. discover_category_dirs t root = Inr dirs \<and> set dirs = (\<lambda>c. root @ [c]) ` {c. category_at t root c}"
  using is_dir_child[OF assms(1)]
  by (auto simp: discover_category_dirs_def iterdir_ok[OF assms(2)] category_at_def)

lemma workflow_dirs:
  assumes "wf_fs t" and "is_dir t root"
  shows "\<exists>dirs. discover_workflow_dirs t root = Inr dirs \<and>
    set dirs = {root @ [c, w] | c w. category_at t root c \<and> is_dir t (root @ [c, w])}"
proof -
  obtain cats where cats: "discover_category_dirs t root = Inr cats" "set cats = (\<lambda>c. root @ [c]) ` {c. category_at t root c}"
    using category_dirs[OF assms] by blast
  let ?children = "\<lambda>p. filter (is_dir t) (sort (map (\<lambda>x. p @ [x]) (child_names t p)))"
  have dir: "is_dir t p" if "p \<in> set cats" for p
    using that unfolding cats(2) by (auto simp: category_at_def)
  have "discover_workflow_dirs t root = Inr (concat (map ?children cats))"
    unfolding discover_workflow_dirs_def cats(1) sum.case
    by (rule collect_ok) (simp add: iterdir_ok dir)
  moreover have "set (?children p) = {p @ [w] | w. is_dir t (p @ [w])}" for p
    using is_dir_child[OF assms(1), of p] by auto
  then have "set (concat (map ?children cats)) = {root @ [c, w] | c w. category_at t root c \<and> is_dir t (root @ [c, w])}"
    unfolding set_concat set_map cats(2) by auto
  ultimately show ?thesis by blast
qed

definition has_readmes :: "fs \<Rightarrow> path \<Rightarrow> bool" where
  "has_readmes t workflow \<longleftrightarrow>
     is_file t (workflow @ [''README.md'']) \<and> is_dir t (workflow @ [''scripts'']) \<and>
     is_file t (workflow @ [''scripts'', ''README.md''])"

lemma readme_issues_none: "workflow_readme_issues t root workflow = [] \<longleftrightarrow> has_readmes t workflow"
  by (simp add: workflow_readme_issues_def has_readmes_def Let_def)

lemma workflow_readmes:
  assumes "wf_fs t" and "node_at t root = Some Dir"
  shows "check_workflow_readmes t root = Inr [] \<longleftrightarrow>
    (\<forall>c w. category_at t root c \<and> is_dir t (root @ [c, w]) \<longrightarrow> has_readmes t (root @ [c, w]))"
proof -
  obtain dirs where dirs: "discover_workflow_dirs t root = Inr dirs"
    "set dirs = {root @ [c, w] | c w. category_at t root c \<and> is_dir t (root @ [c, w])}"
    using workflow_dirs[OF assms(1) is_dirI[OF assms(2)]] by blast
  have "check_workflow_readmes t root = Inr [] \<longleftrightarrow> (\<forall>d\<in>set dirs. has_readmes t d)"
    by (simp add: check_workflow_readmes_def dirs(1) readme_issues_none)
  then show ?thesis
    unfolding dirs(2) by blast
qed

text \<open>
  C27: the check for required files reports nothing exactly when every directory of every category
  holds a README and a scripts directory with a README.
\<close>

theorem workflow_readmes_iff:
  assumes "wf_fs t" and "node_at t root = Some Dir"
  shows "check_workflow_readmes t root = Inr [] \<longleftrightarrow>
    (\<forall>c w. category_at t root c \<and> is_dir t (root @ [c, w]) \<longrightarrow> has_readmes t (root @ [c, w]))"
  using assms by (rule workflow_readmes)

end
