(* ===== verification/Name_Laws.thy ===== *)
theory Name_Laws
  imports Scan_Laws Check_Laws
begin

text \<open>
  Which file names the numbering check takes for scripts, and with which number.
\<close>

section \<open>Groups\<close>

text \<open>A pattern leaves the groups it does not hold as they are.\<close>

fun group_ids :: "re \<Rightarrow> nat set" where
  "group_ids (Seq r1 r2) = group_ids r1 \<union> group_ids r2"
| "group_ids (Alt r1 r2) = group_ids r1 \<union> group_ids r2"
| "group_ids (Star r) = group_ids r"
| "group_ids (Lazy r) = group_ids r"
| "group_ids (Group n r) = insert n (group_ids r)"
| "group_ids _ = {}"

lemma matches_groups: "matches r x y \<Longrightarrow> n \<notin> group_ids r \<Longrightarrow> map_of (groups y) n = map_of (groups x) n"
proof (induction rule: matches.induct)
  case (m_group r p s g y k)
  then show ?case by (cases y) simp
qed auto

lemma group_ids_lit [simp]: "group_ids (lit w) = {}" "group_ids (liti w) = {}"
  by (induction w) (simp_all add: lit.simps liti.simps)

lemma group_ids_Plus [simp]: "group_ids (Plus r) = group_ids r"
  by (simp add: Plus_def)

section \<open>Script names\<close>

inductive_simps matches_Text_Start: "matches Text_Start (p, s, g) z"
inductive_simps matches_Text_End: "matches Text_End (p, s, g) z"

definition script_tail :: "string \<Rightarrow> bool" where
  "script_tail = then_piece (\<lambda>w. w = ''_'') (then_piece (run_of (\<lambda>c. c \<notin> set [NL]))
     (then_piece (\<lambda>w. w = ''.'') (one_of [''sql'', ''md''])))"

definition script_tail_re :: re where
  "script_tail_re = Seq (lit ''_'') (Seq (Plus (Not_In [NL])) (Seq (lit ''.'') (Group 2 (alts (map liti [''sql'', ''md''])))))"

lemma spans_script_tail: "spans script_tail_re script_tail"
  unfolding script_tail_re_def script_tail_def
  by (intro spans_Seq spans_lit spans_Plus_Chr spans_one_of)

lemma script_re_matches:
  "matches SCRIPT_FILENAME_RE (None, n, []) y \<longleftrightarrow>
     (\<exists>z. matches (Group 1 (Plus (Chr is_digit))) (None, n, []) z \<and> matches (Seq script_tail_re Text_End) z y)"
proof -
  have "matches SCRIPT_FILENAME_RE (None, n, []) y \<longleftrightarrow>
      matches (Seq Text_Start (Seq (Group 1 (Plus (Chr is_digit))) (Seq script_tail_re Text_End))) (None, n, []) y"
    by (simp only: SCRIPT_FILENAME_RE_def script_tail_re_def seqs.simps list.map matches_Seq) blast
  also have "\<dots> \<longleftrightarrow> matches (Seq (Group 1 (Plus (Chr is_digit))) (Seq script_tail_re Text_End)) (None, n, []) y"
    by (simp only: matches_Seq[of Text_Start] matches_Text_Start) simp
  finally show ?thesis
    by (simp only: matches_Seq[of "Group 1 (Plus (Chr is_digit))"] split_paired_Ex)
qed

lemma digits_matches:
  "matches (Group 1 (Plus (Chr is_digit))) (None, n, []) z \<Longrightarrow>
     \<exists>ds b. n = ds @ b \<and> run_of is_digit ds \<and> z = (char_before None ds, b, [(1, ds)])"
proof -
  assume "matches (Group 1 (Plus (Chr is_digit))) (None, n, []) z"
  then obtain y where y: "z = capture 1 n y" "matches (Plus (Chr is_digit)) (None, n, []) y"
    by (auto simp: matches_Group)
  then have "y \<in> set (ends (Plus (Chr is_digit)) (None, n, []))"
    by (simp only: ends_iff_matches)
  then obtain c s where "n = c # s" "is_digit c" "y \<in> set (ends (Star (Chr is_digit)) (Some c, s, []))"
    by (cases n) (auto split: if_splits)
  moreover obtain q t h where "y = (q, t, h)" by (cases y)
  ultimately show ?thesis
    using y(1) by (auto simp: ends_Star_Chr run_of_def intro!: exI[of _ "c # _"])
qed

lemma digits_matched:
  "run_of is_digit ds \<Longrightarrow> matches (Group 1 (Plus (Chr is_digit))) (None, ds @ b, []) (char_before None ds, b, [(1, ds)])"
proof -
  assume ds: "run_of is_digit ds"
  then have "matches (Plus (Chr is_digit)) (None, ds @ b, []) (char_before None ds, b, [])"
    by (cases ds) (auto simp: run_of_def ends_iff_matches[symmetric] ends_Star_Chr)
  from m_group[OF this, of 1] show ?thesis by simp
qed

lemma script_match:
  "matches SCRIPT_FILENAME_RE (None, n, []) y \<longleftrightarrow>
     (\<exists>ds w e. n = ds @ w @ e \<and> run_of is_digit ds \<and> script_tail w \<and> e \<in> {[], [NL]} \<and>
        matches (Seq script_tail_re Text_End) (char_before None ds, w @ e, [(1, ds)]) y)"
proof
  assume "matches SCRIPT_FILENAME_RE (None, n, []) y"
  then obtain ds b where ds: "n = ds @ b" "run_of is_digit ds"
    "matches (Seq script_tail_re Text_End) (char_before None ds, b, [(1, ds)]) y"
    unfolding script_re_matches using digits_matches by metis
  then obtain z where z: "matches script_tail_re (char_before None ds, b, [(1, ds)]) z" "matches Text_End z y"
    by (auto simp: matches_Seq)
  from spans_sound[OF spans_script_tail z(1)] obtain w e g where "b = w @ e" "script_tail w" "z = (char_before (char_before None ds) w, e, g)"
    by blast
  with z(2) ds show "\<exists>ds w e. n = ds @ w @ e \<and> run_of is_digit ds \<and> script_tail w \<and> e \<in> {[], [NL]} \<and>
      matches (Seq script_tail_re Text_End) (char_before None ds, w @ e, [(1, ds)]) y"
    by (auto simp: matches_Text_End)
next
  assume "\<exists>ds w e. n = ds @ w @ e \<and> run_of is_digit ds \<and> script_tail w \<and> e \<in> {[], [NL]} \<and>
      matches (Seq script_tail_re Text_End) (char_before None ds, w @ e, [(1, ds)]) y"
  then show "matches SCRIPT_FILENAME_RE (None, n, []) y"
    unfolding script_re_matches using digits_matched by metis
qed

lemma script_tail_matched:
  assumes "script_tail w" and "e \<in> {[], [NL]}"
  shows "\<exists>y. matches (Seq script_tail_re Text_End) (p, w @ e, g) y"
proof -
  obtain g' where "matches script_tail_re (p, w @ e, g) (char_before p w, e, g')"
    using spans_complete[OF spans_script_tail assms(1)] by blast
  moreover have "matches Text_End (char_before p w, e, g') (char_before p w, e, g')"
    using assms(2) by (auto intro: m_end)
  ultimately show ?thesis by (blast intro: m_seq)
qed

lemma script_number_group:
  assumes "matches (Seq script_tail_re Text_End) (p, b, [(1, ds)]) y"
  shows "group 1 y = ds"
  using matches_groups[OF assms, of 1] by (simp add: script_tail_re_def group_def)

lemma digits_before: "run_of is_digit ds \<Longrightarrow> script_tail w \<Longrightarrow> takeWhile is_digit (ds @ w @ e) = ds"
proof -
  assume "run_of is_digit ds" and w: "script_tail w"
  moreover obtain v where "w = CHR ''_'' # v"
    using w by (auto simp: script_tail_def then_piece_def)
  moreover have "\<not> is_digit CHR ''_''"
    by (simp add: py_simps)
  ultimately show ?thesis
    by (simp add: run_of_def list_all_iff takeWhile_all)
qed

lemma script_number_Some:
  "script_number n = Some k \<longleftrightarrow>
     (\<exists>ds w e. n = ds @ w @ e \<and> run_of is_digit ds \<and> script_tail w \<and> e \<in> {[], [NL]} \<and> k = int_of_digits ds)"
proof
  assume "script_number n = Some k"
  then obtain y where y: "match_at SCRIPT_FILENAME_RE None n = Some y" "k = int_of_digits (group 1 y)"
    by (auto simp: script_number_def re_match_def)
  then show "\<exists>ds w e. n = ds @ w @ e \<and> run_of is_digit ds \<and> script_tail w \<and> e \<in> {[], [NL]} \<and> k = int_of_digits ds"
    using match_at_Some[OF y(1)] unfolding script_match using script_number_group by metis
next
  assume "\<exists>ds w e. n = ds @ w @ e \<and> run_of is_digit ds \<and> script_tail w \<and> e \<in> {[], [NL]} \<and> k = int_of_digits ds"
  then obtain ds w e where n: "n = ds @ w @ e" "run_of is_digit ds" "script_tail w" "e \<in> {[], [NL]}" "k = int_of_digits ds"
    by blast
  have "\<exists>y. matches SCRIPT_FILENAME_RE (None, n, []) y"
    using script_tail_matched[OF n(3,4), of "char_before None ds" "[(1, ds)]"] n(1-4) unfolding script_match by metis
  then obtain y where y: "match_at SCRIPT_FILENAME_RE None n = Some y"
    using match_at_None[of SCRIPT_FILENAME_RE None n] by (cases "match_at SCRIPT_FILENAME_RE None n") auto
  then obtain ds' w' e' where n': "n = ds' @ w' @ e'" "run_of is_digit ds'" "script_tail w'" "group 1 y = ds'"
    using match_at_Some[OF y] unfolding script_match using script_number_group by metis
  have "ds' = ds"
    using digits_before[OF n(2,3), of e] digits_before[OF n'(2,3), of e'] n(1) n'(1) by simp
  then show "script_number n = Some k"
    using y n'(4) n(5) by (simp add: script_number_def re_match_def)
qed

text \<open>
  C29: the numbering check takes an ASCII file name for a script exactly when it is a number, an
  underscore, a description on one line and the extension sql or md in any letter case, with at most
  a line break behind it, and its number is the value of the digits.
\<close>

theorem script_number_iff:
  assumes "ascii n"
  shows "script_number n = Some k \<longleftrightarrow>
     (\<exists>ds w e. n = ds @ w @ e \<and> run_of is_digit ds \<and> script_tail w \<and> e \<in> {[], [NL]} \<and> k = int_of_digits ds)"
  by (rule script_number_Some)

text \<open>The names the generator gives.\<close>

lemma script_tail_name:
  "run_of (\<lambda>c. c \<notin> set [NL]) d \<Longrightarrow> one_of [''sql'', ''md''] ext \<Longrightarrow> script_tail (''_'' @ d @ ''.'' @ ext)"
  unfolding script_tail_def then_piece_def by blast

lemma script_number_of_name:
  assumes "run_of is_digit ds" and "d \<noteq> []" and "NL \<notin> set d" and "ext \<in> {''sql'', ''md''}"
  shows "script_number (ds @ ''_'' @ d @ ''.'' @ ext) = Some (int_of_digits ds)"
proof -
  have "one_of [''sql'', ''md''] ext"
    using assms(4) by (auto simp: one_of_def kw_def)
  moreover have "run_of (\<lambda>c. c \<notin> set [NL]) d"
    using assms(2,3) by (auto simp: run_of_def list_all_iff)
  ultimately have "script_tail (''_'' @ d @ ''.'' @ ext)"
    by (intro script_tail_name)
  then show ?thesis
    using assms(1) unfolding script_number_Some
    by (intro exI[of _ ds] exI[of _ "''_'' @ d @ ''.'' @ ext"] exI[of _ "[]"]) simp
qed

text \<open>The number need not have two digits.\<close>

lemma unpadded_number: "script_number ''7_a.sql'' = Some 7"
  using script_number_of_name[of "''7''" "''a''" "''sql''"] by (simp add: run_of_def py_simps int_of_digits_def)

theorem script_number_iff_witness:
  "script_number ''07_a.SQL'' = Some 7 \<and> script_number ''a_07.sql'' = None"
proof
  have "kw ''sql'' ''SQL''"
    unfolding kw_def by code_simp
  then have "script_tail (''_'' @ ''a'' @ ''.'' @ ''SQL'')"
    by (intro script_tail_name) (simp_all add: run_of_def one_of_def)
  then have "script_tail ''_a.SQL''"
    by simp
  moreover have "run_of is_digit ''07''" "int_of_digits ''07'' = 7"
    by (simp_all add: run_of_def py_simps int_of_digits_def)
  ultimately show "script_number ''07_a.SQL'' = Some 7"
    by (subst script_number_iff) (simp, intro exI[of _ "''07''"] exI[of _ "''_a.SQL''"] exI[of _ "[]"], simp)
  have "script_number ''a_07.sql'' \<noteq> Some k" for k
  proof
    assume "script_number ''a_07.sql'' = Some k"
    then obtain ds w e where "''a_07.sql'' = ds @ w @ e" "run_of is_digit ds"
      by (subst (asm) script_number_iff) (simp, blast)
    then show False
      by (cases ds) (auto simp: run_of_def py_simps)
  qed
  then show "script_number ''a_07.sql'' = None"
    by (metis not_None_eq)
qed

end
