(* ===== verification/Category.thy ===== *)
theory Category
  imports Outline Build_Laws Name_Laws
begin

text \<open>
  What the outline of a category has to satisfy for its files to have paths of their own, numbered
  scripts and names that survive the manifest. \<open>category_ok\<close> computes; the lemmas below draw the
  consequences for the category's workflows.
\<close>

section \<open>The conditions\<close>

definition simple_char :: "char \<Rightarrow> bool" where
  "simple_char c \<longleftrightarrow> c \<noteq> CHR ''/'' \<and> c \<noteq> NL \<and> of_char c < (128 :: nat)"

definition simple_name :: "string \<Rightarrow> bool" where
  "simple_name x \<longleftrightarrow> list_all simple_char x"

definition two_digits :: "nat \<Rightarrow> string" where
  "two_digits i = [digit_char (i div 10), digit_char (i mod 10)]"

fun numbered_scripts :: "nat \<Rightarrow> script_summary list \<Rightarrow> bool" where
  "numbered_scripts i [] \<longleftrightarrow> True"
| "numbered_scripts i ((order, name, kind, managed) # ss) \<longleftrightarrow>
     order = two_digits i \<and> take 3 name = order @ ''_'' \<and> drop 3 name \<noteq> [] \<and> simple_name name \<and>
     kind \<in> {''sql'', ''md''} \<and> numbered_scripts (Suc i) ss"

fun summary_ok :: "string \<Rightarrow> workflow_summary \<Rightarrow> bool" where
  "summary_ok c (category, slug, issues, ss) \<longleftrightarrow>
     category = c \<and> simple_name slug \<and> slug \<noteq> [] \<and> hd slug \<noteq> CHR ''.'' \<and> slug \<noteq> ''README.md'' \<and>
     length ss < 100 \<and> numbered_scripts 1 ss"

definition category_ok :: "string \<Rightarrow> workflow_summary list \<Rightarrow> bool" where
  "category_ok c sums \<longleftrightarrow> list_all (summary_ok c) sums \<and> distinct (map (\<lambda>(category, slug, issues, ss). slug) sums)"

lemma simple_char_eval: "simple_char (Char b0 b1 b2 b3 b4 b5 b6 b7) \<longleftrightarrow>
    Char b0 b1 b2 b3 b4 b5 b6 b7 \<noteq> CHR ''/'' \<and> Char b0 b1 b2 b3 b4 b5 b6 b7 \<noteq> NL \<and> \<not> b7"
  unfolding simple_char_def char_small by (rule refl)

section \<open>Names\<close>

lemma simple_good: "simple_name x \<Longrightarrow> x \<noteq> [] \<Longrightarrow> hd x \<noteq> CHR ''.'' \<Longrightarrow> good_name x"
proof -
  assume x: "simple_name x" "x \<noteq> []" and dot: "hd x \<noteq> CHR ''.''"
  have chars: "\<forall>c\<in>set x. c \<noteq> CHR ''/'' \<and> of_char c < (128 :: nat)"
    using x(1) unfolding simple_name_def simple_char_def list_all_iff by blast
  have "x \<noteq> ''.''" "x \<noteq> ''..''"
    using dot by (metis list.sel(1))+
  then show "good_name x"
    using chars x(2) unfolding good_name_def clean_name_def ascii_def list_all_iff by blast
qed

lemma digit_char_range: "d < 10 \<Longrightarrow> is_digit (digit_char d)"
  by (rule digit_char_digit)

lemma two_digits_run: "i < 100 \<Longrightarrow> run_of is_digit (two_digits i)"
  by (simp add: run_of_def two_digits_def digit_char_digit less_mult_imp_div_less)

lemma two_digits_value: "i < 100 \<Longrightarrow> int_of_digits (two_digits i) = i"
  by (simp add: two_digits_def int_of_digits_def digit_value less_mult_imp_div_less)

text \<open>One script of a numbered list: its file name, and the number the validator reads from it.\<close>

lemma numbered_nth:
  "numbered_scripts i (map script_outline ss) \<Longrightarrow> k < length ss \<Longrightarrow>
     \<exists>d. s_name (ss ! k) = two_digits (i + k) @ ''_'' @ d \<and> d \<noteq> [] \<and> simple_name (s_name (ss ! k)) \<and>
       s_kind (ss ! k) \<in> {''sql'', ''md''}"
proof (induction ss arbitrary: i k)
  case Nil
  then show ?case by simp
next
  case (Cons s ss)
  show ?case
  proof (cases k)
    case 0
    have n: "take 3 (s_name s) = two_digits i @ ''_''" "drop 3 (s_name s) \<noteq> []" "simple_name (s_name s)" "s_kind s \<in> {''sql'', ''md''}"
      using Cons.prems(1) by (simp_all add: script_outline_def)
    then have "s_name s = two_digits i @ ''_'' @ drop 3 (s_name s)"
      by (metis append.assoc append_take_drop_id)
    with 0 n(2-4) show ?thesis by auto
  next
    case (Suc j)
    then show ?thesis
      using Cons.IH[of "Suc i" j] Cons.prems by (simp add: script_outline_def)
  qed
qed

lemma script_named:
  assumes "s_name s = two_digits n @ ''_'' @ d" and "d \<noteq> []" and "simple_name (s_name s)"
    and "s_kind s \<in> {''sql'', ''md''}" and "n < 100"
  shows "good_name (filename s)" and "script_number (filename s) = Some n"
proof -
  have fname: "filename s = s_name s @ ''.'' @ s_kind s"
    using assms(4) by (auto simp: filename_def)
  have ext: "simple_name (''.'' @ s_kind s)"
    using assms(4) by (auto simp: simple_name_def simple_char_eval)
  have "digit_char (n div 10) \<noteq> CHR ''.''"
    using digit_char_digit[of "n div 10"] assms(5) by (auto simp: less_mult_imp_div_less py_simps)
  then show "good_name (filename s)"
    using ext assms(1,3) by (intro simple_good) (auto simp: fname simple_name_def two_digits_def)
  have "NL \<notin> set d"
    using assms(1,3) by (auto simp: simple_name_def simple_char_def list_all_iff)
  then show "script_number (filename s) = Some n"
    using script_number_of_name[of "two_digits n" d "s_kind s"] assms by (simp add: fname two_digits_run two_digits_value)
qed

end
