(* ===== verification/Registry_Paths.thy ===== *)
theory Registry_Paths
  imports Category
begin

text \<open>
  The paths a registry generates: which they are, that each file has a path of its own, that none
  lies below another, and that no generated file takes the place of an external script.
\<close>

section \<open>Registries\<close>

text \<open>
  The condition on a registry: its categories are distinct directory names, and every category has
  distinct slugs and scripts numbered from 1. It computes on the outlines.
\<close>

definition module_ok :: "registry \<Rightarrow> string \<Rightarrow> bool" where
  "module_ok registry m \<longleftrightarrow>
     simple_name (fst (registry m)) \<and> fst (registry m) \<noteq> [] \<and> hd (fst (registry m)) \<noteq> CHR ''.'' \<and>
     category_ok (fst (registry m)) (map workflow_outline (snd (registry m)))"

definition registry_ok :: "registry \<Rightarrow> string list \<Rightarrow> bool" where
  "registry_ok registry mods \<longleftrightarrow> distinct_categories registry mods \<and> list_all (module_ok registry) mods"

lemma summary_of: "category_ok c (map workflow_outline ws) \<Longrightarrow> w \<in> set ws \<Longrightarrow> summary_ok c (workflow_outline w)"
  by (auto simp: category_ok_def list_all_iff)

lemma summary_workflow:
  assumes "summary_ok c (workflow_outline w)"
  shows "w_category_slug w = c" and "good_name (w_slug w)" and "w_slug w \<noteq> ''README.md''"
    and "length (w_scripts w) < 100" and "numbered_scripts 1 (map script_outline (w_scripts w))"
  using assms by (auto simp: workflow_outline_def intro: simple_good)

lemma summary_script:
  assumes "summary_ok c (workflow_outline w)" and "k < length (w_scripts w)"
  shows "good_name (filename (w_scripts w ! k))" and "script_number (filename (w_scripts w ! k)) = Some (k + 1)"
    and "is_digit (hd (filename (w_scripts w ! k)))"
proof -
  note w = summary_workflow[OF assms(1)]
  obtain d where d: "s_name (w_scripts w ! k) = two_digits (1 + k) @ ''_'' @ d" "d \<noteq> []"
    "simple_name (s_name (w_scripts w ! k))" "s_kind (w_scripts w ! k) \<in> {''sql'', ''md''}"
    using numbered_nth[OF w(5) assms(2)] by blast
  have k: "1 + k < 100"
    using assms(2) w(4) by linarith
  note named = script_named[OF d k]
  then show "good_name (filename (w_scripts w ! k))" and "script_number (filename (w_scripts w ! k)) = Some (k + 1)"
    by simp_all
  show "is_digit (hd (filename (w_scripts w ! k)))"
    using k d(1) by (simp add: filename_def two_digits_def Let_def digit_char_digit less_mult_imp_div_less)
qed

lemma script_in: "s \<in> set (w_scripts w) \<longleftrightarrow> (\<exists>k<length (w_scripts w). s = w_scripts w ! k)"
  by (auto simp: in_set_conv_nth)

lemma summary_good: "summary_ok c (workflow_outline w) \<Longrightarrow> good_name c \<Longrightarrow> good_workflow w"
  using summary_workflow[of c w] summary_script(1)[of c w]
  by (auto simp: good_workflow_def list_all_iff script_in)

lemma summary_numbers:
  assumes "summary_ok c (workflow_outline w)"
  shows "map (\<lambda>s. script_number (filename s)) (w_scripts w) = map Some [1..<length (w_scripts w) + 1]"
  by (rule nth_equalityI) (simp_all add: summary_script(2)[OF assms] del: upt_Suc)

lemma summary_distinct:
  assumes "summary_ok c (workflow_outline w)"
  shows "distinct (map filename (w_scripts w))"
proof -
  have "distinct (map script_number (map filename (w_scripts w)))"
    using summary_numbers[OF assms] by (simp add: comp_def distinct_map del: upt_Suc)
  then show ?thesis
    by (simp only: distinct_map)
qed

lemma summary_no_readme:
  assumes "summary_ok c (workflow_outline w)" and "s \<in> set (w_scripts w)"
  shows "filename s \<noteq> ''README.md''" and "lower (filename s) \<noteq> ''readme.md''"
proof -
  have digit: "is_digit (hd (filename s))" and good: "good_name (filename s)"
    using assms summary_script by (auto simp: script_in)
  then show "filename s \<noteq> ''README.md''"
    by (auto simp: py_simps)
  obtain x xs where x: "filename s = x # xs"
    using good by (cases "filename s") (auto simp: good_name_def clean_name_def)
  have "lower_char x = x"
    using digit by (simp add: x lower_char_def py_simps)
  with digit x show "lower (filename s) \<noteq> ''readme.md''"
    by (auto simp: py_simps)
qed

lemma module_category: "module_ok registry m \<Longrightarrow> good_name (fst (registry m))"
  by (auto simp: module_ok_def intro: simple_good)

lemma module_summary: "module_ok registry m \<Longrightarrow> w \<in> set (snd (registry m)) \<Longrightarrow> summary_ok (fst (registry m)) (workflow_outline w)"
  by (auto simp: module_ok_def summary_of)

lemma module_good:
  assumes "module_ok registry m"
  shows "good_module registry m" and "uniform registry m"
proof -
  have "fst (registry m) \<noteq> MANIFEST_FILENAME"
    using assms by (auto simp: module_ok_def MANIFEST_FILENAME_def)
  then show "good_module registry m"
    using module_category[OF assms] module_summary[OF assms] summary_good
    by (auto simp: good_module_def list_all_iff)
  show "uniform registry m"
    using module_summary[OF assms] summary_workflow(1) by (auto simp: uniform_def list_all_iff)
qed

section \<open>The files of a registry\<close>

text \<open>Below the directory of a workflow, owned and external scripts alike.\<close>

definition workflow_names :: "workflow \<Rightarrow> path list" where
  "workflow_names w = [[''README.md''], [''scripts'', ''README.md'']] @ map (\<lambda>s. [''scripts'', filename s]) (w_scripts w)"

definition category_targets :: "path \<Rightarrow> string \<Rightarrow> workflow list \<Rightarrow> path set" where
  "category_targets root c ws =
     (if ws = [] then {} else {root @ [c, ''README.md'']}) \<union>
     (\<Union>w\<in>set ws. (\<lambda>q. root @ c # w_slug w # q) ` set (workflow_names w))"

lemma generated_targets:
  assumes "one_category c ws"
  shows "generated_paths root ws \<union> set (external_scripts root ws) = category_targets root c ws"
proof -
  have ws: "\<forall>w\<in>set ws. w_category_slug w = c \<and> good_workflow w"
    using assms by (simp add: one_category_def list_all_iff)
  have base: "workflow_base root w = root @ [c, w_slug w]" if "w \<in> set ws" for w
    using ws that workflow_base_good by auto
  have files: "fst ` set (workflow_files root w) \<union> script_path root w ` {s \<in> set (w_scripts w). \<not> s_generator_managed s} =
      (\<lambda>q. root @ c # w_slug w # q) ` set (workflow_names w)" if w: "w \<in> set ws" for w
  proof -
    have "script_path root w s = root @ [c, w_slug w, ''scripts'', filename s]" if "s \<in> set (w_scripts w)" for s
      using that ws w by (auto simp: script_path_def base good_join good_workflow_def list_all_iff)
    then have "script_path root w ` set (w_scripts w) = (\<lambda>s. root @ [c, w_slug w, ''scripts'', filename s]) ` set (w_scripts w)"
      by (rule image_cong[OF refl])
    moreover have "script_path root w ` set (filter s_generator_managed (w_scripts w)) \<union>
        script_path root w ` {s \<in> set (w_scripts w). \<not> s_generator_managed s} = script_path root w ` set (w_scripts w)"
      by auto
    ultimately show ?thesis
      unfolding workflow_paths Un_assoc by (simp add: workflow_names_def base[OF w] good_join image_image)
  qed
  have all_files_eq: "(\<Union>w\<in>set ws. fst ` set (workflow_files root w) \<union>
      script_path root w ` {s \<in> set (w_scripts w). \<not> s_generator_managed s}) =
      (\<Union>w\<in>set ws. (\<lambda>q. root @ c # w_slug w # q) ` set (workflow_names w))"
    by (rule SUP_cong[OF refl files])
  have readme: "fst ` set (category_files root ws) = (if ws = [] then {} else {root @ [c, ''README.md'']})"
    using ws by (cases ws) (auto simp: category_files_def good_join good_workflow_def)
  have "generated_paths root ws = (\<Union>w\<in>set ws. fst ` set (workflow_files root w)) \<union> fst ` set (category_files root ws)"
    by (auto simp: generated_paths_def generated_files_def)
  moreover have "set (external_scripts root ws) = (\<Union>w\<in>set ws. script_path root w ` {s \<in> set (w_scripts w). \<not> s_generator_managed s})"
    by (auto simp: external_scripts_def)
  ultimately have "generated_paths root ws \<union> set (external_scripts root ws) =
      (\<Union>w\<in>set ws. fst ` set (workflow_files root w) \<union> script_path root w ` {s \<in> set (w_scripts w). \<not> s_generator_managed s})
      \<union> fst ` set (category_files root ws)"
    by (simp only: UN_Un_distrib Un_ac)
  also have "\<dots> = category_targets root c ws"
    unfolding readme category_targets_def all_files_eq by (rule Un_commute)
  finally show ?thesis .
qed

definition all_targets :: "path \<Rightarrow> registry \<Rightarrow> string list \<Rightarrow> path set" where
  "all_targets root registry mods = (\<Union>m\<in>set mods. category_targets root (fst (registry m)) (snd (registry m)))"

definition all_external :: "path \<Rightarrow> registry \<Rightarrow> string list \<Rightarrow> path list" where
  "all_external root registry mods = concat (map (\<lambda>m. external_scripts root (snd (registry m))) mods)"

abbreviation all_generated :: "path \<Rightarrow> registry \<Rightarrow> string list \<Rightarrow> path set" where
  "all_generated root registry mods \<equiv> fst ` set (all_files root registry mods)"

lemma targets_split:
  assumes "list_all (module_ok registry) mods"
  shows "all_targets root registry mods = all_generated root registry mods \<union> set (all_external root registry mods)"
proof -
  have "generated_paths root (snd (registry m)) \<union> set (external_scripts root (snd (registry m))) =
      category_targets root (fst (registry m)) (snd (registry m))" if "m \<in> set mods" for m
    using assms that generated_targets[OF good_uniform[OF module_good]] by (auto simp: list_all_iff)
  then show ?thesis
    unfolding all_targets_def all_paths all_external_def by auto
qed

lemma target_cases:
  assumes "list_all (module_ok registry) mods" and "p \<in> all_targets root registry mods"
  obtains (readme) m where "m \<in> set mods" "snd (registry m) \<noteq> []" "p = root @ [fst (registry m), ''README.md'']"
  | (workflow) m w q where "m \<in> set mods" "w \<in> set (snd (registry m))" "q \<in> set (workflow_names w)"
      "w_slug w \<noteq> ''README.md''" "p = root @ fst (registry m) # w_slug w # q"
proof -
  obtain m where m: "m \<in> set mods" "p \<in> category_targets root (fst (registry m)) (snd (registry m))"
    using assms(2) unfolding all_targets_def by blast
  then have "w_slug w \<noteq> ''README.md''" if "w \<in> set (snd (registry m))" for w
    using assms(1) that summary_workflow(3)[OF module_summary] by (auto simp: list_all_iff)
  then show thesis
    using m(2) readme[OF m(1)] workflow[OF m(1)] by (auto simp: category_targets_def split: if_splits)
qed

lemma names_cases:
  "q \<in> set (workflow_names w) \<longleftrightarrow>
     q = [''README.md''] \<or> q = [''scripts'', ''README.md''] \<or> (\<exists>s\<in>set (w_scripts w). q = [''scripts'', filename s])"
  by (auto simp: workflow_names_def)

lemma names_antichain: "q \<in> set (workflow_names w) \<Longrightarrow> q' \<in> set (workflow_names w') \<Longrightarrow> prefix q' q \<Longrightarrow> q' = q"
  unfolding names_cases by (elim disjE bexE) simp_all

lemma targets_antichain:
  assumes "list_all (module_ok registry) mods"
  shows "antichain (all_targets root registry mods)"
  unfolding antichain_def
proof (intro ballI notI)
  fix p p'
  assume p: "p \<in> all_targets root registry mods" and p': "p' \<in> all_targets root registry mods" and "strict_prefix p' p"
  from assms p show False
  proof (cases rule: target_cases)
    case p: readme
    from assms p' show False
    proof (cases rule: target_cases)
      case readme
      with p \<open>strict_prefix p' p\<close> show False by (simp add: strict_prefix_def)
    next
      case (workflow m' w' q')
      with p \<open>strict_prefix p' p\<close> show False by (auto simp: strict_prefix_def names_cases)
    qed
  next
    case p: (workflow m w q)
    from assms p' show False
    proof (cases rule: target_cases)
      case readme
      with p \<open>strict_prefix p' p\<close> show False by (simp add: strict_prefix_def)
    next
      case (workflow m' w' q')
      with p \<open>strict_prefix p' p\<close> show False by (auto simp: strict_prefix_def dest: names_antichain[rotated])
    qed
  qed
qed

lemma unique_workflow:
  assumes "registry_ok registry mods" and "m \<in> set mods" and "w \<in> set (snd (registry m))"
    and "m' \<in> set mods" and "w' \<in> set (snd (registry m'))"
    and "fst (registry m) = fst (registry m')" and "w_slug w = w_slug w'"
  shows "w = w'"
proof -
  have "m = m'"
    using assms(1,2,4,6) by (auto simp: registry_ok_def distinct_categories_def distinct_map dest: inj_onD)
  moreover have "distinct (map w_slug (snd (registry m)))"
    using assms(1,2) by (auto simp: registry_ok_def list_all_iff module_ok_def category_ok_def workflow_outline_def comp_def)
  ultimately show ?thesis
    using assms(3,5,7) by (auto simp: distinct_map dest: inj_onD)
qed

section \<open>Paths of their own\<close>

lemma distinct_concat_map:
  "distinct xs \<Longrightarrow> (\<And>x. x \<in> set xs \<Longrightarrow> distinct (f x)) \<Longrightarrow>
     (\<And>x y. x \<in> set xs \<Longrightarrow> y \<in> set xs \<Longrightarrow> x \<noteq> y \<Longrightarrow> set (f x) \<inter> set (f y) = {}) \<Longrightarrow>
     distinct (concat (map f xs))"
proof (induction xs)
  case Nil
  then show ?case by simp
next
  case (Cons x xs)
  then have "set (f x) \<inter> set (f y) = {}" if "y \<in> set xs" for y
    using that by auto
  then have "set (f x) \<inter> set (concat (map f xs)) = {}"
    by auto
  with Cons show ?case by auto
qed

lemma workflow_script_path:
  "summary_ok c (workflow_outline w) \<Longrightarrow> good_name c \<Longrightarrow> s \<in> set (w_scripts w) \<Longrightarrow>
     script_path root w s = root @ [c, w_slug w, ''scripts'', filename s]"
  using summary_good[of c w] summary_workflow(1)[of c w]
  by (auto simp: script_path_def workflow_base_good good_join good_workflow_def list_all_iff)

lemma module_slug: "module_ok registry m \<Longrightarrow> w \<in> set (snd (registry m)) \<Longrightarrow> w_category_slug w = fst (registry m)"
  using module_summary summary_workflow(1) by blast

lemma module_readme:
  assumes "module_ok registry m"
  shows "map fst (category_files root (snd (registry m))) =
    (if snd (registry m) = [] then [] else [root @ [fst (registry m), ''README.md'']])"
  using module_slug[OF assms] good_join[OF module_category[OF assms]]
  by (cases "snd (registry m)") (simp_all add: category_files_def good_join)

lemma module_file:
  assumes "module_ok registry m" and "w \<in> set (snd (registry m))"
  shows "map fst (workflow_files root w) =
    map (\<lambda>q. root @ fst (registry m) # w_slug w # q)
      ([[''README.md''], [''scripts'', ''README.md'']]
       @ map (\<lambda>s. [''scripts'', filename s]) (filter s_generator_managed (w_scripts w)))"
proof -
  note w = module_summary[OF assms] module_category[OF assms(1)]
  have "workflow_base root w = root @ [fst (registry m), w_slug w]"
    using workflow_base_good[OF summary_good[OF w]] summary_workflow(1)[OF w(1)] by simp
  then show ?thesis
    using workflow_script_path[OF w] by (simp add: workflow_files_def good_join)
qed

lemma workflow_files_distinct:
  assumes "module_ok registry m" and "w \<in> set (snd (registry m))"
  shows "distinct (map fst (workflow_files root w))"
proof -
  note w = module_summary[OF assms]
  have "distinct (map filename (filter s_generator_managed (w_scripts w)))"
    using summary_distinct[OF w] by (rule distinct_map_filter)
  then have "distinct (map (\<lambda>s. [''scripts'', filename s]) (filter s_generator_managed (w_scripts w)))"
    by (simp add: distinct_map inj_on_def)
  moreover have "[''scripts'', ''README.md''] \<notin> set (map (\<lambda>s. [''scripts'', filename s]) (filter s_generator_managed (w_scripts w)))"
    by (simp add: image_iff) (metis summary_no_readme(1)[OF w])
  ultimately show ?thesis
    unfolding module_file[OF assms] by (auto simp: distinct_map inj_on_def)
qed

lemma module_files_distinct:
  assumes "module_ok registry m"
  shows "distinct (map fst (generated_files root (snd (registry m))))"
proof -
  let ?ws = "snd (registry m)"
  have slugs: "distinct (map w_slug ?ws)"
    using assms by (auto simp: module_ok_def category_ok_def workflow_outline_def comp_def)
  then have same: "w = w'" if "w \<in> set ?ws" "w' \<in> set ?ws" "w_slug w = w_slug w'" for w w'
    using that by (auto simp: distinct_map dest: inj_onD)
  have "distinct (concat (map (\<lambda>w. map fst (workflow_files root w)) ?ws))"
  proof (rule distinct_concat_map)
    show "distinct ?ws"
      using slugs by (simp add: distinct_map)
    show "set (map fst (workflow_files root w)) \<inter> set (map fst (workflow_files root w')) = {}"
      if "w \<in> set ?ws" "w' \<in> set ?ws" "w \<noteq> w'" for w w'
      using same[OF that(1,2)] that(3) unfolding module_file[OF assms that(1)] module_file[OF assms that(2)] by auto
  qed (rule workflow_files_distinct[OF assms])
  moreover have "root @ [fst (registry m), ''README.md''] \<notin> fst ` set (workflow_files root w)" if "w \<in> set ?ws" for w
    using summary_workflow(3)[OF module_summary[OF assms that]]
    unfolding set_map[symmetric] module_file[OF assms that] by auto
  moreover note module_readme[OF assms, of root]
  ultimately show ?thesis
    by (auto simp: generated_files_def map_concat comp_def)
qed

lemma module_inside:
  "module_ok registry m \<Longrightarrow> p \<in> generated_paths root (snd (registry m)) \<Longrightarrow> inside root (fst (registry m)) p"
  using generated_inside[OF good_uniform[OF module_good]] by blast

lemma registry_paths_distinct:
  assumes "registry_ok registry mods"
  shows "distinct (map fst (all_files root registry mods))"
proof -
  have ok: "\<forall>m\<in>set mods. module_ok registry m" and cats: "distinct (map (\<lambda>m. fst (registry m)) mods)"
    using assms by (simp_all add: registry_ok_def list_all_iff distinct_categories_def)
  have "distinct (concat (map (\<lambda>m. map fst (generated_files root (snd (registry m)))) mods))"
  proof (rule distinct_concat_map)
    show "distinct mods"
      using cats by (simp add: distinct_map)
    show "distinct (map fst (generated_files root (snd (registry m))))" if "m \<in> set mods" for m
      using module_files_distinct ok that by blast
    show "set (map fst (generated_files root (snd (registry m)))) \<inter> set (map fst (generated_files root (snd (registry m')))) = {}"
      if "m \<in> set mods" "m' \<in> set mods" "m \<noteq> m'" for m m'
    proof -
      have "fst (registry m) \<noteq> fst (registry m')"
        using cats that by (auto simp: distinct_map dest: inj_onD)
      then have "\<not> (inside root (fst (registry m)) p \<and> inside root (fst (registry m')) p)" for p
        by (auto simp: inside_def)
      then show ?thesis
        using module_inside[of registry m _ root] module_inside[of registry m' _ root] ok that(1,2)
        unfolding generated_paths_def set_map by blast
    qed
  qed
  then show ?thesis
    by (simp add: all_files_def map_concat comp_def)
qed

text \<open>No generated file has the path of an external script.\<close>

lemma external_path:
  assumes "list_all (module_ok registry) mods" and "p \<in> set (all_external root registry mods)"
  shows "\<exists>m\<in>set mods. \<exists>w\<in>set (snd (registry m)). \<exists>s\<in>set (w_scripts w). \<not> s_generator_managed s \<and>
    p = root @ [fst (registry m), w_slug w, ''scripts'', filename s]"
proof -
  obtain m w s where m: "m \<in> set mods" "w \<in> set (snd (registry m))" "s \<in> set (w_scripts w)" "\<not> s_generator_managed s"
    "p = script_path root w s"
    using assms(2) by (auto simp: all_external_def external_scripts_def)
  then have ok: "module_ok registry m"
    using assms(1) by (simp add: list_all_iff)
  show ?thesis
    using m workflow_script_path[OF module_summary[OF ok m(2)] module_category[OF ok] m(3)] by auto
qed

lemma generated_not_external:
  assumes "registry_ok registry mods"
  shows "all_generated root registry mods \<inter> set (all_external root registry mods) = {}"
proof (rule ccontr)
  assume "\<not> ?thesis"
  then obtain p where p: "p \<in> all_generated root registry mods" "p \<in> set (all_external root registry mods)" by blast
  have ok: "list_all (module_ok registry) mods"
    using assms by (simp add: registry_ok_def)
  obtain m w s where e: "m \<in> set mods" "w \<in> set (snd (registry m))" "s \<in> set (w_scripts w)" "\<not> s_generator_managed s"
    "p = root @ [fst (registry m), w_slug w, ''scripts'', filename s]"
    using external_path[OF ok p(2)] by blast
  obtain m' where m': "m' \<in> set mods" "p \<in> generated_paths root (snd (registry m'))"
    using p(1) unfolding all_paths by blast
  then have mok: "module_ok registry m'"
    using ok by (simp add: list_all_iff)
  have "p \<notin> fst ` set (category_files root (snd (registry m')))"
    unfolding set_map[symmetric] module_readme[OF mok] by (simp add: e(5))
  then obtain w' where w': "w' \<in> set (snd (registry m'))" "p \<in> set (map fst (workflow_files root w'))"
    using m'(2) by (auto simp: generated_paths_def generated_files_def)
  then have names: "fst (registry m') = fst (registry m)" "w_slug w' = w_slug w"
    and last: "filename s = ''README.md'' \<or> (\<exists>s'\<in>set (w_scripts w'). s_generator_managed s' \<and> filename s = filename s')"
    using e(5) unfolding module_file[OF mok w'(1)] by auto
  have "w' = w"
    using unique_workflow[OF assms m'(1) w'(1) e(1,2)] names by simp
  note w = module_summary[OF mok w'(1)[unfolded this]]
  from last show False
  proof
    assume "filename s = ''README.md''"
    then show False using summary_no_readme(1)[OF w e(3)] by simp
  next
    assume "\<exists>s'\<in>set (w_scripts w'). s_generator_managed s' \<and> filename s = filename s'"
    then have "\<exists>s'\<in>set (w_scripts w). s_generator_managed s' \<and> filename s = filename s'"
      unfolding \<open>w' = w\<close> .
    then show False
      using summary_distinct[OF w] e(3,4) by (auto simp: distinct_map dest: inj_onD)
  qed
qed

end
