(* ===== verification/Scratch_Build.thy ===== *)
theory Scratch_Build
  imports Registry_Paths
begin

text \<open>
  A build of a registry into a tree that holds nothing but the external scripts: it returns, and
  leaves exactly the registry's files with the directories above them, and the manifest.
\<close>

section \<open>A build from scratch\<close>

text \<open>
  The tree before the first build: below the root there is nothing but the given files and the
  directories above them.
\<close>

definition fresh_tree :: "fs \<Rightarrow> path \<Rightarrow> path list \<Rightarrow> bool" where
  "fresh_tree t root es \<longleftrightarrow>
     wf_fs t \<and> node_at t root = Some Dir \<and> list_all (is_file t) es \<and>
     list_all (\<lambda>p. strict_prefix root p \<longrightarrow> list_ex (prefix p) es) (map fst t)"

lemma fresh_node:
  assumes "fresh_tree t root es" and "strict_prefix root p" and "node_at t p \<noteq> None"
  shows "\<exists>e\<in>set es. prefix p e"
proof -
  have "p \<in> fst ` set t"
    using assms in_keys_iff[OF wf_fs_root_no_key, of t p] by (auto simp: fresh_tree_def)
  then show ?thesis
    using assms(1,2) by (auto simp: fresh_tree_def list_all_iff list_ex_iff)
qed

lemma fresh_dir: "fresh_tree t root es \<Longrightarrow> e \<in> set es \<Longrightarrow> strict_prefix p e \<Longrightarrow> node_at t p = Some Dir"
  using wf_fs_prefix_dir[of t e p] by (auto simp: fresh_tree_def list_all_iff is_file_def read_bytes_def split: option.splits)

lemma target_below:
  assumes "list_all (module_ok registry) mods" and "p \<in> all_targets root registry mods"
  shows "strict_prefix root p" and "\<not> prefix (manifest_path root) p"
proof -
  have "module_ok registry m \<Longrightarrow> fst (registry m) \<noteq> MANIFEST_FILENAME" for m
    using module_good(1) by (auto simp: good_module_def)
  then have names: "\<forall>m\<in>set mods. fst (registry m) \<noteq> MANIFEST_FILENAME"
    using assms(1) by (auto simp: list_all_iff)
  show "strict_prefix root p"
    using assms by (cases rule: target_cases) (simp_all add: strict_prefix_def)
  show "\<not> prefix (manifest_path root) p"
    using assms by (cases rule: target_cases) (use names in \<open>auto simp: manifest_path_def\<close>)
qed

lemma fresh_open:
  assumes "fresh_tree t root es" and "strict_prefix root p"
    and "\<And>e. e \<in> set es \<Longrightarrow> \<not> prefix p e \<and> \<not> strict_prefix e p"
  shows "open_path t (butlast p)" and "node_at t p = None"
proof -
  show "node_at t p = None"
    using fresh_node[OF assms(1,2)] assms(3) by blast
  show "open_path t (butlast p)"
    unfolding open_path_def
  proof (intro allI impI)
    fix q
    assume q: "prefix q (butlast p)"
    then have below: "strict_prefix q p"
      using butlast_strict_prefix[OF q] not_prefix_butlast[of p] assms(2) by (cases "p = []") auto
    have wf: "wf_fs t" "node_at t root = Some Dir"
      using assms(1) by (simp_all add: fresh_tree_def)
    show "node_at t q = None \<or> node_at t q = Some Dir"
    proof (cases "strict_prefix root q")
      case True
      then show ?thesis
        using fresh_node[OF assms(1) True] fresh_dir[OF assms(1)] assms(3) below
        by (metis prefix_order.le_less)
    next
      case False
      then have "prefix q root"
        using below assms(2) prefix_same_cases[of q p root] by (auto simp: strict_prefix_def)
      then show ?thesis
        using wf wf_fs_prefix_dir[OF wf(1), of root q] by (cases "q = root") (auto simp: strict_prefix_def)
    qed
  qed
qed

text \<open>The loop over the modules returns, with every target in place.\<close>

definition build_ready :: "path set \<Rightarrow> path set \<Rightarrow> build_state \<Rightarrow> bool" where
  "build_ready ps es st \<longleftrightarrow> ready ps es \<lparr>ws_fs = b_fs st, ws_written = []\<rparr>"

definition module_ready :: "path \<Rightarrow> registry \<Rightarrow> path set \<Rightarrow> path set \<Rightarrow> string \<Rightarrow> bool" where
  "module_ready root registry ps es m \<longleftrightarrow>
     uniform registry m \<and> generated_paths root (snd (registry m)) \<subseteq> ps \<and>
     set (external_scripts root (snd (registry m))) \<subseteq> es"

lemma build_module_ready:
  assumes "build_ready ps es st" and "module_ready root registry ps es m"
  shows "fst (build_module root registry m st) = Inr () \<and> build_ready ps es (snd (build_module root registry m st))"
proof -
  have m: "uniform registry m" "generated_paths root (snd (registry m)) \<subseteq> ps"
    "set (external_scripts root (snd (registry m))) \<subseteq> es"
    using assms(2) by (simp_all add: module_ready_def)
  note ok = write_workflows_ready[OF assms(1)[unfolded build_ready_def] m(2,3)]
  obtain t' where t': "write_workflows root (snd (registry m)) (b_fs st) = (Inr (generated_digests root (snd (registry m))), t')"
    using ok(1) by (metis prod.collapse)
  with ok(2) assms(1) m(1) show ?thesis
    by (simp add: build_ready_def build_module_cases Let_def)
qed

interpretation ready_modules: total_loop "build_module root registry" "module_ready root registry ps es" "build_ready ps es"
  for root registry ps es
  by unfold_locales (simp_all add: build_module_ready)

lemma fresh_ready:
  assumes "list_all (module_ok registry) mods" and "fresh_tree t root (all_external root registry mods)"
    and "all_generated root registry mods \<inter> set (all_external root registry mods) = {}"
  shows "build_ready (all_generated root registry mods) (set (all_external root registry mods)) (start_state t)"
proof -
  let ?ps = "all_generated root registry mods" and ?es = "all_external root registry mods"
  note split = targets_split[OF assms(1), of root]
  note chain = targets_antichain[OF assms(1), of root]
  have "writable t ?ps"
    unfolding writable_def
  proof
    fix p
    assume p: "p \<in> ?ps"
    then have below: "strict_prefix root p"
      using target_below(1)[OF assms(1)] split by blast
    have "\<not> prefix p e \<and> \<not> strict_prefix e p" if "e \<in> set ?es" for e
      using that p assms(3) chain split unfolding antichain_def
      by (metis IntI Un_iff empty_iff prefix_order.le_less)
    from fresh_open[OF assms(2) below this] below
    show "p \<noteq> [] \<and> open_path t (butlast p) \<and> (node_at t p = None \<or> (\<exists>s. node_at t p = Some (File s)))"
      by auto
  qed
  moreover have "antichain ?ps"
    using chain split unfolding antichain_def by blast
  ultimately show ?thesis
    using assms(2) by (simp add: build_ready_def ready_def start_state_def fresh_tree_def list_all_iff)
qed

lemma modules_ready:
  assumes "list_all (module_ok registry) mods" and "m \<in> set mods"
  shows "module_ready root registry (all_generated root registry mods) (set (all_external root registry mods)) m"
proof -
  have "uniform registry m"
    using assms module_good(2) by (auto simp: list_all_iff)
  then show ?thesis
    using assms(2) unfolding module_ready_def all_paths all_external_def by auto
qed

lemma no_stale: "dict_get_or_empty ([] :: manifest) c = []" "stale_files [] generated c = []"
  by (simp_all add: stale_files_def dict_get_or_empty_def dict_get_def sorted_set_def)

lemma sync_nothing:
  assumes "load_manifest t root = Inr []"
  shows "\<exists>body. sync_managed_artifacts root generated selected full_build t =
    (case write_text (manifest_path root) body t of (Inl e, t') \<Rightarrow> (Inl e, t') | (Inr _, t') \<Rightarrow> (Inr [], t'))"
proof -
  have "sync_category root [] generated c st = (Inr (), st)" for c and st :: sync_state
    by (simp add: sync_category_def no_stale)
  then have loop: "for_each (sync_category root [] generated) cats st = (Inr (), st)" for cats and st :: sync_state
    by (rule for_each_skip)
  let ?cats = "categories_to_sync [] generated selected full_build"
  show ?thesis
    by (intro exI[of _ "dump_manifest (sort_items (next_categories [] generated ?cats full_build)) @ [NL]"])
      (simp add: sync_managed_artifacts_def assms Let_def loop split: prod.split sum.split)
qed

lemma fresh_no_manifest:
  assumes "list_all (module_ok registry) mods" and "fresh_tree t root (all_external root registry mods)"
  shows "node_at t (manifest_path root) = None" and "load_manifest t root = Inr []"
proof -
  have "\<not> prefix (manifest_path root) e" if "e \<in> set (all_external root registry mods)" for e
    using that target_below(2)[OF assms(1)] targets_split[OF assms(1), of root] by blast
  then show none: "node_at t (manifest_path root) = None"
    using fresh_node[OF assms(2), of "manifest_path root"] by (fastforce simp: manifest_path_def strict_prefix_def)
  show "load_manifest t root = Inr []"
    by (simp add: load_manifest_def exists_at_def none)
qed

text \<open>The tree after the loop: the generated files, and directories above them.\<close>

lemma fresh_build:
  assumes "registry_ok registry CATEGORY_MODULES" and "fresh_tree t root (all_external root registry CATEGORY_MODULES)"
    and "all_generated root registry CATEGORY_MODULES \<inter> set (all_external root registry CATEGORY_MODULES) = {}"
  obtains out t1 body t' where "build_main root None registry t = (Inr out, t')"
    and "wf_fs t1" and "only_written t (all_generated root registry CATEGORY_MODULES) t1"
    and "\<forall>p\<in>all_targets root registry CATEGORY_MODULES. is_file t1 p"
    and "t' = snd (write_text (manifest_path root) body t1)" and "wf_fs t'"
    and "node_at t1 root = Some Dir" and "is_file t' (manifest_path root)"
proof -
  let ?mods = CATEGORY_MODULES
  have ok: "list_all (module_ok registry) ?mods"
    using assms(1) by (simp add: registry_ok_def)
  have good: "list_all (good_module registry) ?mods"
    using ok module_good(1) by (auto simp: list_all_iff)
  have t: "wf_fs t" "node_at t root = Some Dir" "list_all (is_file t) (all_external root registry ?mods)"
    using assms(2) by (simp_all add: fresh_tree_def)
  have "fst (for_each (build_module root registry) ?mods (start_state t)) = Inr ()"
    using ready_modules.loop_returns[OF fresh_ready[OF ok assms(2,3)], of ?mods] modules_ready[OF ok] by blast
  then obtain st where st: "for_each (build_module root registry) ?mods (start_state t) = (Inr (), st)"
    by (metis prod.collapse)
  note loop = build_loop_state[OF st t(1) good]
  have only: "only_written t (all_generated root registry ?mods) (b_fs st)"
    using build_loop_inv[of t root registry ?mods] by (simp add: st build_inv_def)
  have dirs: "node_at (b_fs st) root = Some Dir"
  proof -
    have "root \<notin> all_generated root registry ?mods"
      using target_below(1)[OF ok, of root root] targets_split[OF ok, of root] by auto
    then show ?thesis
      using only t(2) by (auto simp: only_written_def dest!: spec[of _ root])
  qed
  have files: "is_file (b_fs st) p" if "p \<in> all_targets root registry ?mods" for p
  proof (cases "p \<in> all_generated root registry ?mods")
    case True
    then show ?thesis
      using put_files_get[of "all_files root registry ?mods" "read_bytes t" p] loop(4)
      by (auto simp: is_file_def map_of_eq_None_iff split: option.splits)
  next
    case False
    then have "is_file t p"
      using that targets_split[OF ok, of root] t(3) by (auto simp: list_all_iff)
    then show ?thesis
      using only_written_file[OF only False] by (simp add: is_file_def)
  qed
  have none: "node_at (b_fs st) (manifest_path root) = None"
  proof -
    have "\<not> prefix (manifest_path root) p" if "p \<in> all_generated root registry ?mods" for p
      using that target_below(2)[OF ok] targets_split[OF ok, of root] by blast
    then show ?thesis
      using only fresh_no_manifest(1)[OF ok assms(2)] unfolding only_written_def strict_prefix_def
      by (metis prefix_order.refl)
  qed
  have "load_manifest (b_fs st) root = Inr []"
    using loop(5) fresh_no_manifest(2)[OF ok assms(2)] by simp
  from sync_nothing[OF this, of "b_generated st" "b_selected st" True] obtain body where body:
    "sync_managed_artifacts root (b_generated st) (b_selected st) True (b_fs st) =
      (case write_text (manifest_path root) body (b_fs st) of (Inl e, t') \<Rightarrow> (Inl e, t') | (Inr _, t') \<Rightarrow> (Inr [], t'))"
    by blast
  have "open_path (b_fs st) root"
    unfolding open_path_def using wf_fs_prefix_dir[OF loop(1), of root] dirs by (metis option.distinct(1) prefix_order.le_less)
  then have wrote: "fst (write_text (manifest_path root) body (b_fs st)) = Inr ()"
    "node_at (snd (write_text (manifest_path root) body (b_fs st))) (manifest_path root) = Some (File body)"
    using write_text_open[of "b_fs st" "manifest_path root" body] none by (simp_all add: manifest_path_def)
  obtain t' where t': "write_text (manifest_path root) body (b_fs st) = (Inr (), t')"
    using wrote(1) by (metis prod.collapse)
  have sync: "sync_managed_artifacts root (b_generated st) (b_selected st) True (b_fs st) = (Inr [], t')"
    by (simp add: body t')
  have "\<exists>out. build_main root None registry t = (Inr out, t')"
    by (simp add: build_main_def selected_modules_def st sync)
  then obtain out where built: "build_main root None registry t = (Inr out, t')" by blast
  have manifest: "is_file t' (manifest_path root)"
    using wrote(2) by (simp add: t' is_file_def read_bytes_def)
  have tree: "t' = snd (write_text (manifest_path root) body (b_fs st))" "wf_fs t'"
    using write_text_wf[OF loop(1), of "manifest_path root" body] by (simp_all add: t')
  show thesis
    by (rule that[OF built loop(1) only _ tree dirs manifest]) (use files in blast)
qed

text \<open>The tree after the build, below the root.\<close>

lemma fresh_build_tree:
  assumes "registry_ok registry CATEGORY_MODULES" and "fresh_tree t root (all_external root registry CATEGORY_MODULES)"
    and "all_generated root registry CATEGORY_MODULES \<inter> set (all_external root registry CATEGORY_MODULES) = {}"
  obtains out t' where "build_main root None registry t = (Inr out, t')"
    and "wf_fs t'" and "node_at t' root = Some Dir"
    and "\<And>p. strict_prefix root p \<Longrightarrow>
      (is_dir t' p \<longleftrightarrow> (\<exists>f\<in>all_targets root registry CATEGORY_MODULES. strict_prefix p f)) \<and>
      (is_file t' p \<longleftrightarrow> p \<in> all_targets root registry CATEGORY_MODULES \<or> p = manifest_path root) \<and>
      (node_at t' p \<noteq> None \<longrightarrow> is_dir t' p \<or> is_file t' p)"
proof (rule fresh_build[OF assms])
  fix out t1 body t'
  assume built: "build_main root None registry t = (Inr out, t')"
    and t1: "wf_fs t1" "only_written t (all_generated root registry CATEGORY_MODULES) t1"
    and files: "\<forall>p\<in>all_targets root registry CATEGORY_MODULES. is_file t1 p"
    and t': "t' = snd (write_text (manifest_path root) body t1)" "wf_fs t'"
    and root: "node_at t1 root = Some Dir" and manifest: "is_file t' (manifest_path root)"
  let ?all = "all_targets root registry CATEGORY_MODULES"
  have ok: "list_all (module_ok registry) CATEGORY_MODULES"
    using assms(1) by (simp add: registry_ok_def)
  have same: "node_at t' p = node_at t1 p" if "strict_prefix root p" "p \<noteq> manifest_path root" for p
    using write_text_changes[OF that(2), of body t1] that(1)
    by (auto simp: t'(1) manifest_path_def strict_prefix_def)
  have root': "node_at t' root = Some Dir"
    using write_text_changes[of root "manifest_path root" body t1] root by (auto simp: t'(1) manifest_path_def)
  have target_file: "is_file t' f" if "f \<in> ?all" for f
    using same[of f] target_below[OF ok that] files that by (auto simp: is_file_def read_bytes_def)
  have file_iff: "node_at t' p \<noteq> None \<longrightarrow> p \<in> ?all \<or> p = manifest_path root \<or> (\<exists>f\<in>?all. strict_prefix p f)"
    if p: "strict_prefix root p" for p
  proof (intro impI, cases "p = manifest_path root")
    case False
    assume "node_at t' p \<noteq> None"
    then have "node_at t1 p \<noteq> None"
      using same[OF p False] by simp
    then consider "node_at t p \<noteq> None" | "p \<in> ?all" | "\<exists>f\<in>?all. strict_prefix p f"
      using t1(2) targets_split[OF ok, of root] unfolding only_written_def by (metis UnI1)
    then show "p \<in> ?all \<or> p = manifest_path root \<or> (\<exists>f\<in>?all. strict_prefix p f)"
    proof cases
      case 1
      then show ?thesis
        using fresh_node[OF assms(2) p] targets_split[OF ok, of root] by (auto simp: strict_prefix_def)
    qed blast+
  qed simp
  have dir: "is_dir t' p" if "f \<in> ?all" "strict_prefix p f" for p f
    using wf_fs_prefix_dir[OF t'(2), of f p] target_file[OF that(1)] that(2)
    by (auto simp: is_dir_def is_file_def read_bytes_def split: option.splits)
  have not_both: "\<not> (is_dir t' p \<and> is_file t' p)" for p
    by (auto simp: is_dir_def is_file_def read_bytes_def)
  have node: "is_dir t' p \<or> is_file t' p \<Longrightarrow> node_at t' p \<noteq> None" for p
    by (auto simp: is_dir_def is_file_def read_bytes_def split: option.splits)
  have "(is_dir t' p \<longleftrightarrow> (\<exists>f\<in>?all. strict_prefix p f)) \<and> (is_file t' p \<longleftrightarrow> p \<in> ?all \<or> p = manifest_path root) \<and>
      (node_at t' p \<noteq> None \<longrightarrow> is_dir t' p \<or> is_file t' p)"
    if p: "strict_prefix root p" for p
    using file_iff[OF p] node[of p] dir[of _ p] not_both[of p] target_file[of p] manifest by blast
  with that built t'(2) root' show thesis by blast
qed

text \<open>
  C3: a full build of a registry with distinct categories, distinct slugs and numbered scripts
  into such a tree returns, and below the root there are then exactly the registry's files, the
  manifest, and the directories above them.
\<close>

theorem build_from_scratch:
  assumes "registry_ok registry CATEGORY_MODULES"
    and "fresh_tree t root (all_external root registry CATEGORY_MODULES)"
  shows "\<exists>out t'. build_main root None registry t = (Inr out, t') \<and>
    (\<forall>p. strict_prefix root p \<longrightarrow>
      (is_dir t' p \<longleftrightarrow> (\<exists>f\<in>all_targets root registry CATEGORY_MODULES. strict_prefix p f)) \<and>
      (is_file t' p \<longleftrightarrow> p \<in> all_targets root registry CATEGORY_MODULES \<or> p = manifest_path root) \<and>
      (node_at t' p \<noteq> None \<longrightarrow> is_dir t' p \<or> is_file t' p))"
  using fresh_build_tree[OF assms generated_not_external[OF assms(1)]] by metis

end
