(* ===== verification/Sync_Examples.thy ===== *)
theory Sync_Examples
  imports Manifest_Laws
begin

text \<open>
  A small repository on which the laws of the synchronisation are instantiated: a manifest that
  records one file \<^verbatim>\<open>a/x\<close> of a category \<open>a\<close>, and the file, with a digest that may or may not be the
  one of its content.
\<close>

definition example_manifest :: "string \<Rightarrow> manifest" where
  "example_manifest digest = [(''a'', [(''a/x'', digest)])]"

definition example_tree :: "string \<Rightarrow> string \<Rightarrow> fs" where
  "example_tree digest content =
     [([''r''], Dir),
      ([''r'', MANIFEST_FILENAME], File (dump_manifest (example_manifest digest) @ [NL])),
      ([''r'', ''a''], Dir),
      ([''r'', ''a'', ''x''], File content)]"

lemma example_parts: "path_parts ''a/x'' = [''a'', ''x'']"
  by (simp add: path_parts_def)

lemma example_join: "join_path [''r''] ''a/x'' = [''r'', ''a'', ''x'']"
  by (simp add: join_path_def is_absolute_def example_parts)

lemma digest_safe:
  assumes "digest_shape d"
  shows "\<not> unsafe_entry ''a'' ''a/x'' d"
proof -
  have "length d = 64" and "\<not> list_ex (\<lambda>c. c \<notin> set ''0123456789abcdef'') d"
    using assms unfolding digest_shape_def list_all_iff list_ex_iff by blast+
  then show ?thesis
    unfolding unsafe_entry_def by (simp add: example_parts is_absolute_def)
qed

lemma example_valid: "digest_shape d \<Longrightarrow> valid_manifest (example_manifest d)"
  by (simp add: valid_manifest_def valid_files_def example_manifest_def digest_safe)

lemma example_sorted: "sorted_manifest (example_manifest d) = example_manifest d"
  by (simp add: sorted_manifest_def example_manifest_def sort_items_def)

lemma example_read:
  "read_bytes (example_tree d c) (manifest_path [''r'']) = Some (dump_manifest (example_manifest d) @ [NL])"
  by (simp add: read_bytes_def node_at_def manifest_path_def example_tree_def dict_get_def)

lemma example_load:
  "digest_shape d \<Longrightarrow> load_manifest (example_tree d c) [''r''] = Inr (example_manifest d)"
  using load_written_manifest[OF example_valid example_read] by (simp add: example_sorted)

lemma example_wf: "wf_fs (example_tree d c)"
  by (simp add: wf_fs_def example_tree_def node_at_def dict_get_def MANIFEST_FILENAME_def)

lemma example_root: "node_at (example_tree d c) [''r''] = Some Dir"
  by (simp add: node_at_def example_tree_def dict_get_def)

lemma example_file: "node_at (example_tree d c) [''r'', ''a'', ''x''] = Some (File c)"
  by (simp add: node_at_def example_tree_def dict_get_def MANIFEST_FILENAME_def)

lemma example_categories: "categories_to_sync (example_manifest d) [] [] True = [''a'']"
  by (simp add: categories_to_sync_def example_manifest_def sorted_set_def)

lemma example_stale: "stale_files (example_manifest d) [] ''a'' = [''a/x'']"
  by (simp add: stale_files_def example_manifest_def sorted_set_def dict_get_or_empty_def dict_get_def)

lemma example_old: "dict_get (dict_get_or_empty (example_manifest d) ''a'') ''a/x'' = Some d"
  by (simp add: example_manifest_def dict_get_or_empty_def dict_get_def)

lemma example_node:
  "node_at (example_tree d c) (manifest_path [''r'']) = Some (File (dump_manifest (example_manifest d) @ [NL]))"
  by (simp add: node_at_def manifest_path_def example_tree_def dict_get_def)

lemma example_not_manifest: "[''r'', ''a'', ''x''] \<noteq> manifest_path [''r'']"
  by (simp add: manifest_path_def)

text \<open>With the right digest the file goes, and the directory it leaves empty.\<close>

lemma abc_decodes: "decode_text ''abc'' = Inr ''abc''"
  by (rule decode_text_ok) (simp_all add: ascii_valid)

lemma abc_shape: "digest_shape (content_hash ''abc'')"
  using sha.digest_ok by (simp add: content_hash_def)

lemma example_removed:
  "\<exists>t'. sync_managed_artifacts [''r''] [] [] True (example_tree (content_hash ''abc'') ''abc'') = (Inr [''a/x''], t')"
proof -
  let ?t = "example_tree (content_hash ''abc'') ''abc''"
  define t1 where "t1 = remove_empty_parents [''r'', ''a''] [''r''] (del_node [''r'', ''a'', ''x''] ?t)"
  have "for_each (sync_category [''r''] (example_manifest (content_hash ''abc'')) []) [''a''] \<lparr>sy_fs = ?t, sy_removed = []\<rparr> =
      (Inr (), \<lparr>sy_fs = t1, sy_removed = [''a/x'']\<rparr>)"
    by (simp add: sync_category_def example_stale remove_stale_cases example_join example_file abc_decodes
        example_old t1_def)
  note unfolded = sync_unfold[OF example_load[OF abc_shape] example_categories[symmetric] this]
  let ?next = "next_categories (example_manifest (content_hash ''abc'')) [] [''a''] True"
  have "node_at t1 [''r''] = Some Dir"
    using remove_empty_parents_changes[of "[''r'']" "[''r'', ''a'']" "del_node [''r'', ''a'', ''x''] ?t" "[''r'']"]
    by (auto simp: t1_def node_at_del example_root strict_prefix_def)
  moreover have "\<exists>s. node_at t1 (manifest_path [''r'']) = Some (File s)"
    using remove_empty_parents_changes[of "[''r'']" "[''r'', ''a'']" "del_node [''r'', ''a'', ''x''] ?t" "manifest_path [''r'']"]
      example_node[of "content_hash ''abc''" "''abc''"]
    by (auto simp: t1_def node_at_del manifest_path_def MANIFEST_FILENAME_def)
  ultimately have "fst (write_text (manifest_path [''r'']) (dump_manifest (sort_items ?next) @ [NL]) t1) = Inr ()"
    using write_text_open[of t1 "manifest_path [''r'']"]
    by (auto simp: manifest_path_def open_path_def prefix_Cons)
  then show ?thesis
    unfolding unfolded by (auto split: prod.splits)
qed

section \<open>The laws at this repository\<close>

lemma example_gone:
  "node_at (snd (sync_managed_artifacts [''r''] [] [] True (example_tree (content_hash ''abc'') ''abc'')))
     [''r'', ''a'', ''x''] = None"
proof -
  let ?t = "example_tree (content_hash ''abc'') ''abc''"
  obtain t' where s: "sync_managed_artifacts [''r''] [] [] True ?t = (Inr [''a/x''], t')"
    using example_removed by blast
  obtain e st where loop: "for_each (sync_category [''r''] (example_manifest (content_hash ''abc'')) []) [''a'']
      \<lparr>sy_fs = ?t, sy_removed = []\<rparr> = (e, st)"
    by (metis surj_pair)
  then have st: "sy_fs st = remove_empty_parents [''r'', ''a''] [''r''] (del_node [''r'', ''a'', ''x''] ?t)"
    by (auto simp: sync_category_def example_stale remove_stale_cases example_join example_file abc_decodes example_old)
  have "node_at (sy_fs st) [''r'', ''a'', ''x''] = None"
    using remove_empty_parents_changes[of "[''r'']" "[''r'', ''a'']" "del_node [''r'', ''a'', ''x''] ?t" "[''r'', ''a'', ''x'']"]
    by (auto simp: st node_at_del)
  then show ?thesis
    using sync_tree[OF example_load[OF abc_shape] example_categories[symmetric] loop] example_not_manifest
      write_text_changes[OF example_not_manifest, of _ "sy_fs st"]
    by (auto simp: manifest_path_def)
qed

theorem sync_removes_stale_witness:
  "node_at (snd (sync_managed_artifacts [''r''] [] [] True (example_tree (content_hash ''abc'') ''abc'')))
     [''r'', ''a'', ''x''] = None"
proof -
  obtain t' where s: "sync_managed_artifacts [''r''] [] [] True (example_tree (content_hash ''abc'') ''abc'') = (Inr [''a/x''], t')"
    using example_removed by blast
  show ?thesis
    using sync_removes_stale[where c = "''a''" and r = "''a/x''" and removed = "[''a/x'']" and t = "example_tree (content_hash ''abc'') ''abc''",
        OF example_wf example_root example_load[OF abc_shape] example_categories[symmetric]]
    by (simp add: s example_stale example_join example_not_manifest)
qed

theorem sync_changes_only_owned_witness:
  "owned_stale (example_tree (content_hash ''abc'') ''abc'') [''r''] (example_manifest (content_hash ''abc'')) [] [''a'']
     [''r'', ''a'', ''x'']"
proof -
  let ?t = "example_tree (content_hash ''abc'') ''abc''"
  have "node_at (snd (sync_managed_artifacts [''r''] [] [] True ?t)) [''r'', ''a'', ''x''] \<noteq> node_at ?t [''r'', ''a'', ''x'']"
    by (simp add: example_gone example_file)
  from sync_changes_only_owned[OF example_wf example_root example_load[OF abc_shape] example_categories[symmetric] this]
  show ?thesis
    by (simp add: example_not_manifest example_file)
qed

text \<open>One of two digests is not that of the content.\<close>

lemma wrong_digest: "\<exists>d. digest_shape d \<and> content_hash ''abc'' \<noteq> d"
proof -
  have "digest_shape (replicate 64 CHR ''0'')" "digest_shape (replicate 64 CHR ''1'')"
    by (simp_all add: digest_shape_def list_all_iff)
  moreover have "replicate 64 CHR ''0'' \<noteq> replicate 64 CHR ''1''"
    by (simp add: replicate_eq_replicate)
  ultimately show ?thesis by metis
qed

theorem sync_refuses_modified_witness:
  "\<exists>d e. fst (sync_managed_artifacts [''r''] [] [] True (example_tree d ''abc'')) = Inl e"
proof -
  obtain d where shape: "digest_shape d" and "content_hash ''abc'' \<noteq> d"
    using wrong_digest by blast
  then have "\<not> owned_stale (example_tree d ''abc'') [''r''] (example_manifest d) [] [''a''] [''r'', ''a'', ''x'']"
    by (auto simp: owned_stale_def example_stale removable_def example_file example_old abc_decodes)
  then show ?thesis
    using sync_refuses_modified[where c = "''a''" and r = "''a/x''" and p = "[''r'', ''a'', ''x'']" and bs = "''abc''"
        and t = "example_tree d ''abc''", OF example_wf example_load[OF shape] example_categories[symmetric]]
    by (fastforce simp: example_stale example_join example_file)
qed

theorem sync_manifest_roundtrip_witness:
  "\<exists>t'. load_manifest t' [''r''] = Inr []"
proof -
  obtain t' where s: "sync_managed_artifacts [''r''] [] [] True (example_tree (content_hash ''abc'') ''abc'') = (Inr [''a/x''], t')"
    using example_removed by blast
  have "valid_manifest []"
    by (simp add: valid_manifest_def)
  then have "load_manifest t' [''r''] =
      Inr (sorted_manifest (next_categories (example_manifest (content_hash ''abc'')) [] [''a''] True))"
    using sync_manifest_roundtrip[OF example_load[OF abc_shape] example_categories[symmetric] _ _ s] by simp
  also have "next_categories (example_manifest (content_hash ''abc'')) [] [''a''] True = []"
    by (simp add: next_categories_def dict_get_or_empty_def dict_get_def dict_pop_def)
  finally show ?thesis
    by (auto simp: sorted_manifest_def sort_items_def)
qed

theorem sync_idempotent_witness:
  "\<exists>t'. sync_managed_artifacts [''r''] [] [] True t' = (Inr [], t') \<and>
     snd (sync_managed_artifacts [''r''] [] [] True (example_tree (content_hash ''abc'') ''abc'')) = t'"
proof -
  obtain t' where s: "sync_managed_artifacts [''r''] [] [] True (example_tree (content_hash ''abc'') ''abc'') = (Inr [''a/x''], t')"
    using example_removed by blast
  have "valid_manifest []"
    by (simp add: valid_manifest_def)
  from sync_idempotent[OF example_wf this s, of "[]"] s show ?thesis by simp
qed

text \<open>The file with its recorded digest, and no manifest in the way.\<close>

theorem sync_returns_witness:
  "\<exists>removed. fst (sync_managed_artifacts [''r''] [] [] True (example_tree (content_hash ''abc'') ''abc'')) = Inr removed"
proof (rule sync_returns[OF example_wf example_root example_load[OF abc_shape] refl])
  have "removable (example_tree (content_hash ''abc'') ''abc'') [''r''] [(''a/x'', content_hash ''abc'')] ''a/x'' [''r'', ''a'', ''x'']"
    by (simp add: removable_def example_join example_file abc_decodes dict_get_def)
  then have "clearable (example_tree (content_hash ''abc'') ''abc'') [''r''] (example_manifest (content_hash ''abc'')) [] ''a''"
    by (simp add: clearable_def example_stale example_join) (simp add: example_manifest_def dict_get_or_empty_def dict_get_def)
  then show "\<forall>c\<in>set (categories_to_sync (example_manifest (content_hash ''abc'')) [] [] True).
      clearable (example_tree (content_hash ''abc'') ''abc'') [''r''] (example_manifest (content_hash ''abc'')) [] c"
    by (simp add: example_categories)
  show "node_at (example_tree (content_hash ''abc'') ''abc'') (manifest_path [''r'']) = None \<or>
      (\<exists>bs. node_at (example_tree (content_hash ''abc'') ''abc'') (manifest_path [''r'']) = Some (File bs))"
    by (simp add: example_node)
qed

end
