(* ===== verification/Header_Roundtrip.thy ===== *)
theory Header_Roundtrip
  imports Render Helpers Sql_Header
begin

text \<open>
  The generator's header against the validator's parser: what \<^verbatim>\<open>render_sql_file\<close> writes,
  \<^verbatim>\<open>parse_sql_header\<close> reads back, and what is left of a rendered file once its comments are
  stripped. The conditions are on the data of the script only.
\<close>

text \<open>No line of the header closes the comment.\<close>

definition header_closed :: "workflow \<Rightarrow> script \<Rightarrow> bool" where
  "header_closed w s \<longleftrightarrow> list_all (\<lambda>l. \<not> contains ''*/'' l) (header_lines w s)"

text \<open>
  The safety label is one line that starts with a visible character, and no field printed before
  it mentions the field name.
\<close>

definition safety_readable :: "script \<Rightarrow> bool" where
  "safety_readable s \<longleftrightarrow>
     s_safety s \<noteq> [] \<and> \<not> is_space (hd (s_safety s)) \<and> CR \<notin> set (s_safety s) \<and> NL \<notin> set (s_safety s) \<and>
     list_all (\<lambda>f. \<not> contains ''SAFETY:'' f)
       [filename s, s_purpose s, s_aurora_version s, s_execution_location s]"

definition header_text :: "workflow \<Rightarrow> script \<Rightarrow> string" where
  "header_text w s = NL # text_lines (header_lines w s) @ [NL]"

lemma header_lines_nonempty [simp]: "header_lines w s \<noteq> []"
  by (simp add: header_lines_def)

lemma render_sql_header_eq: "render_sql_header w s = ''/*'' @ header_text w s @ ''*/''"
  by (simp add: render_sql_header_def header_text_def text_lines_Cons text_lines_append)

lemma render_sql_file_eq:
  "render_sql_file w s = ''/*'' @ header_text w s @ ''*/'' @ NL # NL # strip_newlines (s_body s) @ [NL]"
  by (simp add: render_sql_file_def render_sql_header_eq)

lemma header_text_open:
  assumes "header_closed w s"
  shows "\<not> contains ''*/'' (header_text w s @ ''*'')"
proof -
  have "\<not> contains ''*/'' (text_lines (header_lines w s))"
    using assms by (simp add: contains_text_lines_iff header_closed_def list_all_iff)
  then have "\<not> contains ''*/'' (text_lines (header_lines w s) @ NL # ''*'')"
    by (simp add: contains_append_sep)
  then show ?thesis
    by (simp add: header_text_def)
qed

section \<open>The parser finds every field\<close>

lemma required_field_printed:
  "f \<in> set REQUIRED_HEADER_FIELDS \<Longrightarrow> f \<in> set (header_lines w s)"
  by (auto simp: REQUIRED_HEADER_FIELDS_def header_lines_def Let_def)

lemma no_missing_fields: "filter (\<lambda>f. \<not> contains f (header_text w s)) REQUIRED_HEADER_FIELDS = []"
  unfolding filter_empty_conv header_text_def
  using required_field_printed[of _ w s]
  by (auto intro!: contains_ConsI contains_appendI1 contains_text_lines)

lemma not_contains_framed:
  "\<not> contains ''SAFETY:'' x \<Longrightarrow> \<not> contains ''SAFETY:'' ((NL # x @ [NL]) @ ''SAFETY'')"
  by (simp add: contains_append_sep)

lemma safety_value_of_header:
  assumes "safety_readable s"
  shows "\<exists>q u. re_search SAFETY_VALUE_RE (header_text w s) =
    Some (''SAFETY:'' @ NL # s_safety s @ u, (q, u, [(1, s_safety s)]))"
proof -
  let ?before = "[RULE, ''SCRIPT NAME:'', filename s, '''', ''PURPOSE:'', s_purpose s, '''',
       ''AURORA POSTGRESQL VERSION:'', s_aurora_version s, '''', ''EXECUTION LOCATION:'',
       s_execution_location s, '''']"
  define after where "after = drop 15 (header_lines w s)"
  have hl: "header_lines w s = ?before @ [''SAFETY:'', s_safety s] @ after"
    by (simp add: after_def header_lines_def Let_def)
  have "after \<noteq> []"
    by (simp add: after_def header_lines_def Let_def)
  then have ht: "header_text w s =
      (NL # text_lines ?before @ [NL]) @ ''SAFETY:'' @ NL # s_safety s @ NL # text_lines after @ [NL]"
    unfolding header_text_def hl by (simp add: text_lines_append text_lines_Cons)
  have "\<not> contains ''SAFETY:'' RULE"
    by (auto simp: RULE_def dest!: contains_set)
  then have "\<not> contains ''SAFETY:'' (text_lines ?before)"
    using assms by (subst contains_text_lines_iff) (simp_all add: safety_readable_def)
  then have "\<not> contains ''SAFETY:'' ((NL # text_lines ?before @ [NL]) @ ''SAFETY'')"
    by (rule not_contains_framed)
  then have "\<exists>q. re_search SAFETY_VALUE_RE (header_text w s) =
      Some (''SAFETY:'' @ NL # s_safety s @ NL # text_lines after @ [NL],
        (q, NL # text_lines after @ [NL], [(1, s_safety s)]))"
    unfolding ht using assms by (intro safety_value_found) (auto simp: safety_readable_def)
  then show ?thesis by blast
qed

section \<open>The round trip\<close>

lemma parse_header_of_render:
  assumes "header_closed w s" and "safety_readable s"
  shows "parse_sql_header (render_sql_file w s) =
    \<lparr>header_found = True, raw_text = header_text w s, missing_fields = [],
     safety_label = Some (strip (s_safety s)),
     safety_label_recognized = list_ex (\<lambda>k. prefix k (upper (strip (s_safety s)))) KNOWN_SAFETY_LABELS\<rparr>"
proof -
  obtain p t where m: "re_match HEADER_BLOCK_RE (render_sql_file w s) = Some (p, t, [(1, header_text w s)])"
    using re_match_header_block_Some[of "[]", OF _ header_text_open[OF assms(1)]]
    unfolding render_sql_file_eq by fastforce
  obtain q u where v: "re_search SAFETY_VALUE_RE (header_text w s) =
      Some (''SAFETY:'' @ NL # s_safety s @ u, (q, u, [(1, s_safety s)]))"
    using safety_value_of_header[OF assms(2)] by blast
  show ?thesis
    by (simp add: parse_sql_header_def m v group_def no_missing_fields Let_def)
qed

text \<open>
  C5: whatever the data of the script, as long as no field closes the comment and the safety
  label is readable: the validator finds the header of a rendered file, misses none of its
  fields, and reads the script's own safety label.
\<close>

theorem parse_rendered:
  assumes "header_closed w s" and "safety_readable s"
  shows "parse_sql_header (render_sql_file w s) =
    \<lparr>header_found = True, raw_text = header_text w s, missing_fields = [],
     safety_label = Some (strip (s_safety s)),
     safety_label_recognized = list_ex (\<lambda>k. prefix k (upper (strip (s_safety s)))) KNOWN_SAFETY_LABELS\<rparr>"
  using assms by (rule parse_header_of_render)

text \<open>A script built with the defaults of \<open>sql_script\<close>.\<close>

definition example_workflow :: workflow where
  "example_workflow =
     \<lparr>w_category_slug = ''performance'', w_category_title = ''Performance'', w_slug = ''high-cpu'', w_title = ''High CPU'',
      w_summary = ''CPU is high.'', w_symptoms = [], w_business_impact = [], w_root_causes = [],
      w_investigation_strategy = [], w_prerequisites = [], w_interpretation_guide = [],
      w_remediation_immediate = [], w_remediation_short_term = [], w_remediation_long_term = [],
      w_production_safety = [], w_escalation_criteria = [], w_related_issues = [], w_scripts = [],
      w_aurora_notes = [], w_execution_guidance = [], w_expected_output_guidance = [],
      w_severe_incident_guidance = []\<rparr>"

definition example_script :: "string \<Rightarrow> script" where
  "example_script safety =
     sql_script ''01'' ''01_check'' ''Check the load.'' ''SELECT 1;'' ''Read the load.'' (sql_args\<lparr>a_safety := safety\<rparr>)"

lemma not_contains_by_set: "c \<in> set w \<Longrightarrow> c \<notin> set s \<Longrightarrow> \<not> contains w s"
  by (auto dest: contains_set)

lemma example_closed: "\<not> contains ''*/'' safety \<Longrightarrow> header_closed example_workflow (example_script safety)"
  unfolding header_closed_def header_lines_def example_script_def example_workflow_def sql_script_def sql_args_def
    filename_def Let_def or_else_def RULE_def ANY_INSTANCE_def AURORA_17_def PG_MONITOR_def
  by (simp add: not_contains_by_set[of "CHR ''*''"])

lemma example_safety_fields:
  "list_all (\<lambda>f. \<not> contains ''SAFETY:'' f) [filename (example_script x), s_purpose (example_script x),
     s_aurora_version (example_script x), s_execution_location (example_script x)]"
  unfolding example_script_def sql_script_def sql_args_def filename_def Let_def ANY_INSTANCE_def AURORA_17_def
  by (simp add: not_contains_by_set[of "CHR '':''"])

lemma read_only_label: "strip ''READ ONLY'' = ''READ ONLY''" "upper ''READ ONLY'' = ''READ ONLY''"
  by (simp_all add: strip_def strip_by_def lstrip_by_def rstrip_by_def upper_def py_simps)

theorem parse_rendered_witness:
  "safety_label (parse_sql_header (render_sql_file example_workflow (example_script READ_ONLY))) = Some ''READ ONLY'' \<and>
   safety_label_recognized (parse_sql_header (render_sql_file example_workflow (example_script READ_ONLY)))"
proof -
  have "safety_readable (example_script READ_ONLY)"
    using example_safety_fields[of READ_ONLY]
    by (simp add: safety_readable_def) (simp add: example_script_def sql_script_def READ_ONLY_def py_simps)
  moreover have "header_closed example_workflow (example_script READ_ONLY)"
    by (rule example_closed) (simp add: READ_ONLY_def)
  moreover have "s_safety (example_script READ_ONLY) = ''READ ONLY''"
    by (simp add: example_script_def sql_script_def READ_ONLY_def)
  ultimately show ?thesis
    using parse_rendered[of example_workflow "example_script READ_ONLY"]
    by (simp add: KNOWN_SAFETY_LABELS_def read_only_label(1) py_simps)
qed

section \<open>Stripping a rendered file\<close>

lemma drop_block_comment_first:
  assumes "\<not> contains ''*/'' (h @ ''*'')"
  shows "drop_block_comments (''/*'' @ h @ ''*/'' @ t) = CHR '' '' # drop_block_comments t"
  using find_sub_append[of "''*/''" h t] assms by simp

lemma strip_rendered:
  assumes "header_closed w s"
  shows "strip_sql_comments_and_literals (render_sql_file w s) =
    CHR '' '' # NL # NL # strip_sql_comments_and_literals (strip_newlines (s_body s) @ [NL])"
proof -
  have "drop_block_comments (render_sql_file w s) =
      CHR '' '' # drop_block_comments (NL # NL # strip_newlines (s_body s) @ [NL])"
    unfolding render_sql_file_eq by (rule drop_block_comment_first[OF header_text_open[OF assms]])
  then show ?thesis
    unfolding strip_literals_eq by simp
qed

end
