(* ===== verification/Build_Examples.thy ===== *)
theory Build_Examples
  imports Scratch_Build Sync_Examples Header_Roundtrip
begin

text \<open>
  A build on a repository whose manifest records a script that the registry has declared external
  since: the build returns without the script, and the next one raises.
\<close>

section \<open>A script that has become external\<close>

text \<open>
  A registry with one workflow, whose script the generator no longer owns, on a repository that an
  earlier generator left: the script is there, and the manifest records it with its digest.
\<close>

definition moved_workflow :: workflow where
  "moved_workflow = example_workflow\<lparr>w_scripts := [(example_script READ_ONLY)\<lparr>s_generator_managed := False\<rparr>]\<rparr>"

definition moved_module :: string where
  "moved_module = ''tools.repo_builder.wf_performance''"

definition moved_registry :: registry where
  "moved_registry m = (if m = moved_module then (''performance'', [moved_workflow]) else (m, []))"

definition moved_path :: path where
  "moved_path = [''r'', ''performance'', ''high-cpu'', ''scripts'', ''01_check.sql'']"

definition moved_name :: string where
  "moved_name = ''performance/high-cpu/scripts/01_check.sql''"

definition moved_manifest :: manifest where
  "moved_manifest = [(''performance'', [(moved_name, content_hash ''abc'')])]"

definition moved_tree :: fs where
  "moved_tree =
     [([''r''], Dir), ([''r'', MANIFEST_FILENAME], File (dump_manifest moved_manifest @ [NL])),
      ([''r'', ''performance''], Dir), ([''r'', ''performance'', ''high-cpu''], Dir),
      ([''r'', ''performance'', ''high-cpu'', ''scripts''], Dir), (moved_path, File ''abc'')]"

lemma moved_fields:
  "w_category_slug moved_workflow = ''performance''" "w_slug moved_workflow = ''high-cpu''"
  "map filename (w_scripts moved_workflow) = [''01_check.sql'']" "list_all (\<lambda>s. \<not> s_generator_managed s) (w_scripts moved_workflow)"
  by (simp_all add: moved_workflow_def example_workflow_def example_script_def sql_script_def filename_def)

lemma moved_names: "good_name ''performance''" "good_name ''high-cpu''" "good_name ''01_check.sql''"
  by (simp_all add: good_name_def clean_name_def)

lemma moved_good: "good_workflow moved_workflow"
  using moved_fields moved_names by (simp add: good_workflow_def) (simp add: moved_workflow_def)

lemma moved_files:
  "generated_paths [''r''] [moved_workflow] =
     {[''r'', ''performance'', ''high-cpu'', ''README.md''], [''r'', ''performance'', ''high-cpu'', ''scripts'', ''README.md''],
      [''r'', ''performance'', ''README.md'']}"
  "external_scripts [''r''] [moved_workflow] = [moved_path]"
proof -
  note base = workflow_base_good[OF moved_good, of "[''r'']", unfolded moved_fields(1,2)]
  obtain s where s: "w_scripts moved_workflow = [s]" "filename s = ''01_check.sql''" "\<not> s_generator_managed s"
    using moved_fields(3,4) by auto
  show "generated_paths [''r''] [moved_workflow] =
     {[''r'', ''performance'', ''high-cpu'', ''README.md''], [''r'', ''performance'', ''high-cpu'', ''scripts'', ''README.md''],
      [''r'', ''performance'', ''README.md'']}"
    using s moved_names by (auto simp: generated_paths_def generated_files_def workflow_files_def category_files_def base good_join moved_fields(1))
  show "external_scripts [''r''] [moved_workflow] = [moved_path]"
    using s moved_names by (simp add: external_scripts_def script_path_def base good_join moved_path_def)
qed

lemma moved_modules:
  "list_all (good_module moved_registry) CATEGORY_MODULES" "distinct_categories moved_registry CATEGORY_MODULES"
  using moved_good moved_names
  by (simp_all add: good_module_def moved_registry_def moved_module_def distinct_categories_def CATEGORY_MODULES_def
      good_name_def clean_name_def MANIFEST_FILENAME_def)

lemma moved_all:
  "all_generated [''r''] moved_registry CATEGORY_MODULES = generated_paths [''r''] [moved_workflow]"
  unfolding all_paths by (auto simp: moved_registry_def moved_module_def CATEGORY_MODULES_def generated_paths_def)

lemma moved_nodes:
  "wf_fs moved_tree" "node_at moved_tree [''r''] = Some Dir" "node_at moved_tree moved_path = Some (File ''abc'')"
  "node_at moved_tree (manifest_path [''r'']) = Some (File (dump_manifest moved_manifest @ [NL]))"
  by (simp_all add: wf_fs_def moved_tree_def moved_path_def node_at_def dict_get_def manifest_path_def MANIFEST_FILENAME_def)

lemma moved_load: "load_manifest moved_tree [''r''] = Inr moved_manifest"
proof -
  have parts: "path_parts moved_name = [''performance'', ''high-cpu'', ''scripts'', ''01_check.sql'']"
    by (simp add: moved_name_def path_parts_def)
  have "length (content_hash ''abc'') = 64" "\<not> list_ex (\<lambda>c. c \<notin> set ''0123456789abcdef'') (content_hash ''abc'')"
    using abc_shape unfolding digest_shape_def list_all_iff list_ex_iff by blast+
  then have "\<not> unsafe_entry ''performance'' moved_name (content_hash ''abc'')"
    unfolding unsafe_entry_def parts by (simp add: moved_name_def is_absolute_def)
  then have "valid_manifest moved_manifest"
    by (simp add: valid_manifest_def valid_files_def moved_manifest_def moved_name_def)
  from load_written_manifest[OF this, of moved_tree "[''r'']"] show ?thesis
    by (simp add: read_bytes_def moved_nodes sorted_manifest_def sort_items_def moved_manifest_def)
qed

lemma moved_ready:
  "build_ready (generated_paths [''r''] [moved_workflow]) {moved_path} (start_state moved_tree)"
proof -
  have "writable moved_tree (generated_paths [''r''] [moved_workflow])"
    by (auto simp: writable_def moved_files open_path_def moved_tree_def moved_path_def node_at_def dict_get_def
        MANIFEST_FILENAME_def prefix_Cons)
  moreover have "antichain (generated_paths [''r''] [moved_workflow])"
    by (simp add: antichain_def moved_files strict_prefix_def)
  moreover have "is_file moved_tree moved_path"
    by (simp add: is_file_def read_bytes_def moved_nodes)
  ultimately show ?thesis
    by (simp add: build_ready_def ready_def start_state_def)
qed

lemma moved_stale: "r \<in> set (stale_files moved_manifest generated c) \<Longrightarrow> c = ''performance'' \<and> r = moved_name"
  by (auto simp: stale_files_def moved_manifest_def dict_get_or_empty_def dict_get_def split: if_splits)

lemma moved_old: "dict_get_or_empty moved_manifest ''performance'' = [(moved_name, content_hash ''abc'')]"
  by (simp add: moved_manifest_def dict_get_or_empty_def dict_get_def)

lemma moved_build:
  "\<exists>out t'. build_main [''r''] None moved_registry moved_tree = (Inr out, t')"
proof -
  let ?ps = "generated_paths [''r''] [moved_workflow]"
  have "module_ready [''r''] moved_registry ?ps {moved_path} m" for m
    by (simp add: module_ready_def moved_registry_def uniform_def moved_fields moved_files(2) generated_paths_def[of _ "[]"])
  then obtain st where st: "for_each (build_module [''r''] moved_registry) CATEGORY_MODULES (start_state moved_tree) = (Inr (), st)"
    using ready_modules.loop_returns[OF moved_ready] by (metis prod.collapse)
  note loop = build_loop_state[OF st moved_nodes(1) moved_modules(1)]
  have only: "only_written moved_tree ?ps (b_fs st)"
    using build_loop_inv[of moved_tree "[''r'']" moved_registry CATEGORY_MODULES] st by (simp add: build_inv_def moved_all)
  have kept: "node_at (b_fs st) p = node_at moved_tree p" if "node_at moved_tree p = Some n" "p \<notin> ?ps" for p n
    using only that unfolding only_written_def by (metis option.distinct(1))
  have path: "join_path [''r''] moved_name = moved_path"
    by (simp add: moved_name_def moved_path_def join_path_def is_absolute_def path_parts_def)
  have fresh: "moved_path \<notin> ?ps" "manifest_path [''r''] \<notin> ?ps"
    by (simp_all add: moved_files moved_path_def manifest_path_def)
  have "removable (b_fs st) [''r''] [(moved_name, content_hash ''abc'')] moved_name moved_path"
    using kept[OF moved_nodes(3) fresh(1)] abc_decodes by (simp add: removable_def path moved_nodes dict_get_def)
  then have "clearable (b_fs st) [''r''] moved_manifest generated c" for generated c
    unfolding clearable_def using path moved_old moved_stale by metis
  moreover have "node_at (b_fs st) [''r''] = Some Dir"
    using kept[OF moved_nodes(2)] by (simp add: moved_nodes moved_files)
  moreover have "node_at (b_fs st) (manifest_path [''r'']) = Some (File (dump_manifest moved_manifest @ [NL]))"
    using kept[OF moved_nodes(4) fresh(2)] by (simp only: moved_nodes)
  ultimately obtain removed where
    "fst (sync_managed_artifacts [''r''] (b_generated st) (b_selected st) True (b_fs st)) = Inr removed"
    using sync_clears[OF loop(1), of "[''r'']" moved_manifest _ "b_generated st" "b_selected st" True] loop(5) moved_load by auto
  then obtain t' where "sync_managed_artifacts [''r''] (b_generated st) (b_selected st) True (b_fs st) = (Inr removed, t')"
    by (metis prod.collapse)
  then show ?thesis
    by (simp add: build_main_def selected_modules_def st)
qed

theorem recorded_external_lost_witness:
  "\<exists>out t' e. build_main [''r''] None moved_registry moved_tree = (Inr out, t') \<and> node_at t' moved_path = None \<and>
     fst (build_main [''r''] None moved_registry t') = Inl e"
proof -
  obtain out t' where t': "build_main [''r''] None moved_registry moved_tree = (Inr out, t')"
    using moved_build by blast
  have m: "moved_module \<in> set CATEGORY_MODULES" "moved_registry moved_module = (''performance'', [moved_workflow])"
    by (simp_all add: moved_module_def CATEGORY_MODULES_def moved_registry_def)
  have "relative_path [''r''] moved_path = moved_name"
    by (simp add: relative_path_def relative_posix_def moved_path_def moved_name_def)
  then have "relative_path [''r''] moved_path \<in> fst ` set (dict_get_or_empty moved_manifest (fst (moved_registry moved_module)))"
    by (simp add: m moved_manifest_def dict_get_or_empty_def dict_get_def)
  moreover have "moved_path \<notin> all_generated [''r''] moved_registry CATEGORY_MODULES"
    by (simp add: moved_all moved_files moved_path_def)
  moreover have "moved_path \<in> set (external_scripts [''r''] (snd (moved_registry moved_module)))"
    by (simp add: m moved_files)
  ultimately show ?thesis
    using recorded_external_lost[OF moved_nodes(1,2) moved_modules moved_load t' m(1)] t' by blast
qed

end
