(* ===== verification/Scratch_Checks.thy ===== *)
theory Scratch_Checks
  imports Scratch_Build
begin

text \<open>
  What the validator says of such a tree: the checks of the catalog, of the required files and of
  the numbering find nothing.
\<close>

section \<open>The checks after a build\<close>

lemma summary_numbering:
  assumes "summary_ok c (workflow_outline w)" and "distinct names" and "set names = filename ` set (w_scripts w)"
  shows "numbering_issues r names = []"
proof -
  have "mset names = mset (map filename (w_scripts w))"
    using assms(2,3) summary_distinct[OF assms(1)] by (intro set_eq_iff_mset_eq_distinct[THEN iffD1]) simp_all
  then have "mset (map the (filter (\<lambda>n. n \<noteq> None) (map script_number names))) =
      mset (map the (filter (\<lambda>n. n \<noteq> None) (map script_number (map filename (w_scripts w)))))"
    by (simp only: mset_map mset_filter)
  also have "map script_number (map filename (w_scripts w)) = map Some [1..<length (w_scripts w) + 1]"
    using summary_numbers[OF assms(1)] by (simp add: comp_def del: upt_Suc)
  finally have "mset (List.map_filter script_number names) = mset [1..<length (w_scripts w) + 1]"
    by (simp add: map_filter_def filter_map comp_def del: upt_Suc)
  then have numbers: "sort (List.map_filter script_number names) = [1..<length (w_scripts w) + 1]"
    by (metis mset_sort sort_upt sorted_list_of_multiset_mset)
  then have "length (List.map_filter script_number names) = length (w_scripts w)"
    by (metis One_nat_def add_diff_cancel_right' length_sort length_upt)
  moreover have "script_number n \<noteq> None" if "n \<in> set names" for n
    using that assms(3) summary_script(2)[OF assms(1)] by (auto simp: script_in)
  then have "filter (\<lambda>n. script_number n = None) names = []"
    by (auto simp: filter_empty_conv)
  ultimately show ?thesis
    using numbers by (simp add: numbering_issues_def Let_def del: upt_Suc)
qed

lemma no_numbers: "numbering_issues r [] = []"
  by (simp add: numbering_issues_def Let_def)

lemma child_names_distinct: "wf_fs t \<Longrightarrow> distinct (child_names t p)"
proof -
  assume "wf_fs t"
  then have "distinct (filter (\<lambda>q. q \<noteq> [] \<and> butlast q = p) (map fst t))"
    by (simp add: wf_fs_def)
  moreover have "inj_on last {q. q \<noteq> [] \<and> butlast q = p}"
    by (rule inj_onI) (metis (mono_tags, lifting) append_butlast_last_id mem_Collect_eq)
  then have "inj_on last (set (filter (\<lambda>q. q \<noteq> [] \<and> butlast q = p) (map fst t)))"
    by (rule inj_on_subset) auto
  ultimately show ?thesis
    by (simp add: child_names_def distinct_map)
qed

lemma entries_numbered:
  assumes "wf_fs t"
  shows "distinct (numbered_entries t (map (\<lambda>x. d @ [x]) (child_names t d)))"
    and "set (numbered_entries t (map (\<lambda>x. d @ [x]) (child_names t d))) = {x. is_file t (d @ [x]) \<and> lower x \<noteq> ''readme.md''}"
proof -
  let ?entries = "map (\<lambda>x. d @ [x]) (child_names t d)"
  have "distinct (filter (is_file t) (sort ?entries))"
    using child_names_distinct[OF assms, of d] by (simp add: distinct_map inj_on_def)
  moreover have "inj_on name_of (set (filter (is_file t) (sort ?entries)))"
    by (auto simp: inj_on_def)
  ultimately show "distinct (numbered_entries t ?entries)"
    by (simp add: numbered_entries_def distinct_map distinct_filter del: set_filter)
  have "is_file t (d @ [x]) \<Longrightarrow> x \<in> set (child_names t d)" for x
    using child_names_iff[OF assms, of x d] by (auto simp: is_file_def read_bytes_def split: option.splits)
  then show "set (numbered_entries t ?entries) = {x. is_file t (d @ [x]) \<and> lower x \<noteq> ''readme.md''}"
    by (force simp: numbered_entries_def image_iff)
qed

lemma lower_readme: "lower ''README.md'' = ''readme.md''"
  by (simp add: lower_char_def py_simps char_of_def bit_0)

lemma target_parent:
  assumes "list_all (module_ok registry) mods" and "d @ [x] \<in> all_targets root registry mods" and "lower x \<noteq> ''readme.md''"
  shows "\<exists>m\<in>set mods. \<exists>w\<in>set (snd (registry m)). d = root @ [fst (registry m), w_slug w, ''scripts''] \<and> x \<in> filename ` set (w_scripts w)"
  using assms(1,2)
proof (cases rule: target_cases)
  case readme
  then show ?thesis using assms(3) by (auto simp: lower_readme simp del: lower_simps)
next
  case (workflow m w q)
  from workflow(3) consider "q = [''README.md'']" | "q = [''scripts'', ''README.md'']"
    | s where "s \<in> set (w_scripts w)" "q = [''scripts'', filename s]"
    by (auto simp: names_cases)
  then show ?thesis
  proof cases
    case 1
    then have "d @ [x] = (root @ [fst (registry m), w_slug w]) @ [''README.md'']"
      using workflow by simp
    then show ?thesis using assms(3) by (simp only: append1_eq_conv) (simp add: lower_readme del: lower_simps)
  next
    case 2
    then have "d @ [x] = (root @ [fst (registry m), w_slug w, ''scripts'']) @ [''README.md'']"
      using workflow by simp
    then show ?thesis using assms(3) by (simp only: append1_eq_conv) (simp add: lower_readme del: lower_simps)
  next
    case 3
    then have "d @ [x] = (root @ [fst (registry m), w_slug w, ''scripts'']) @ [filename s]"
      using workflow by simp
    then show ?thesis using workflow(1,2) 3(1) by (auto simp only: append1_eq_conv)
  qed
qed

lemma script_target:
  "m \<in> set mods \<Longrightarrow> w \<in> set (snd (registry m)) \<Longrightarrow> s \<in> set (w_scripts w) \<Longrightarrow>
     root @ [fst (registry m), w_slug w, ''scripts'', filename s] \<in> all_targets root registry mods"
  by (force simp: all_targets_def category_targets_def workflow_names_def)

lemma scripts_numbered:
  assumes "registry_ok registry mods" and "wf_fs t" and "strict_prefix root d"
    and "\<And>p. strict_prefix root p \<Longrightarrow> is_file t p \<longleftrightarrow> p \<in> all_targets root registry mods \<or> p = manifest_path root"
  shows "numbering_issues r (numbered_entries t (map (\<lambda>x. d @ [x]) (child_names t d))) = []"
proof -
  let ?names = "numbered_entries t (map (\<lambda>x. d @ [x]) (child_names t d))"
  have ok: "list_all (module_ok registry) mods"
    using assms(1) by (simp add: registry_ok_def)
  have targets: "d @ [x] \<in> all_targets root registry mods \<and> lower x \<noteq> ''readme.md''" if "x \<in> set ?names" for x
    using that assms(3,4) unfolding entries_numbered(2)[OF assms(2)]
    by (auto simp: manifest_path_def strict_prefix_def prefix_def)
  show ?thesis
  proof (cases "?names = []")
    case True
    then show ?thesis by (simp add: no_numbers)
  next
    case False
    then obtain x0 where "x0 \<in> set ?names"
      by (meson hd_in_set)
    from target_parent[OF ok] targets[OF this] obtain m w where
      mw: "m \<in> set mods" "w \<in> set (snd (registry m))" "d = root @ [fst (registry m), w_slug w, ''scripts'']"
      by blast
    have summary: "summary_ok (fst (registry m)) (workflow_outline w)"
      using mw(1,2) ok module_summary by (auto simp: list_all_iff)
    have "set ?names = filename ` set (w_scripts w)"
    proof (intro equalityI subsetI)
      fix x
      assume "x \<in> set ?names"
      from target_parent[OF ok] targets[OF this] obtain m' w' where
        "m' \<in> set mods" "w' \<in> set (snd (registry m'))" "d = root @ [fst (registry m'), w_slug w', ''scripts'']"
        "x \<in> filename ` set (w_scripts w')"
        by blast
      with mw show "x \<in> filename ` set (w_scripts w)"
        using unique_workflow[OF assms(1) mw(1,2), of m' w'] by auto
    next
      fix x
      assume "x \<in> filename ` set (w_scripts w)"
      then obtain s where s: "s \<in> set (w_scripts w)" "x = filename s" by blast
      then have "is_file t (d @ [x])"
        using script_target[of m mods w registry s root, OF mw(1,2) s(1)] assms(4)[of "d @ [x]"] by (simp add: mw(3) strict_prefix_def)
      then show "x \<in> set ?names"
        using summary_no_readme(2)[OF summary s(1)] s(2) unfolding entries_numbered(2)[OF assms(2)] by simp
    qed
    with summary_numbering[OF summary entries_numbered(1)[OF assms(2)]] show ?thesis by blast
  qed
qed

text \<open>The catalog of the validator, compared with the registry by category.\<close>

definition same_slugs :: "string list \<Rightarrow> workflow list \<Rightarrow> bool" where
  "same_slugs slugs ws \<longleftrightarrow>
     ws \<noteq> [] \<and> list_all (\<lambda>w. w_slug w \<in> set slugs) ws \<and> list_all (\<lambda>x. x \<in> w_slug ` set ws) slugs"

definition matches_catalog :: "registry \<Rightarrow> string list \<Rightarrow> bool" where
  "matches_catalog registry mods \<longleftrightarrow>
     list_all (\<lambda>(c, slugs). list_ex (\<lambda>m. fst (registry m) = c \<and> same_slugs slugs (snd (registry m))) mods) EXPLICIT_CATALOG"

lemma same_slugs_set: "same_slugs slugs ws \<Longrightarrow> w_slug ` set ws = set slugs"
  by (auto simp: same_slugs_def list_all_iff)

lemma target_category:
  assumes "list_all (module_ok registry) mods"
  shows "(\<exists>f\<in>all_targets root registry mods. strict_prefix (root @ [c]) f) \<longleftrightarrow>
    (\<exists>m\<in>set mods. fst (registry m) = c \<and> snd (registry m) \<noteq> [])"
proof
  assume "\<exists>f\<in>all_targets root registry mods. strict_prefix (root @ [c]) f"
  then obtain f where "f \<in> all_targets root registry mods" "strict_prefix (root @ [c]) f" by blast
  from assms this(1) this(2) show "\<exists>m\<in>set mods. fst (registry m) = c \<and> snd (registry m) \<noteq> []"
    by (cases rule: target_cases) (auto simp: strict_prefix_def)
next
  assume "\<exists>m\<in>set mods. fst (registry m) = c \<and> snd (registry m) \<noteq> []"
  then obtain m where "m \<in> set mods" "fst (registry m) = c" "snd (registry m) \<noteq> []" by blast
  then have "root @ [c, ''README.md''] \<in> all_targets root registry mods"
    by (auto simp: all_targets_def category_targets_def)
  then show "\<exists>f\<in>all_targets root registry mods. strict_prefix (root @ [c]) f"
    by (rule rev_bexI) (simp add: strict_prefix_def)
qed

lemma workflow_target:
  "m \<in> set mods \<Longrightarrow> w \<in> set (snd (registry m)) \<Longrightarrow> q \<in> set (workflow_names w) \<Longrightarrow>
     root @ fst (registry m) # w_slug w # q \<in> all_targets root registry mods"
  unfolding all_targets_def category_targets_def by blast

lemma target_workflow:
  assumes "list_all (module_ok registry) mods"
  shows "(\<exists>f\<in>all_targets root registry mods. strict_prefix (root @ [c, x]) f) \<longleftrightarrow>
    (\<exists>m\<in>set mods. fst (registry m) = c \<and> x \<in> w_slug ` set (snd (registry m)))"
proof
  assume "\<exists>f\<in>all_targets root registry mods. strict_prefix (root @ [c, x]) f"
  then obtain f where "f \<in> all_targets root registry mods" "strict_prefix (root @ [c, x]) f" by blast
  from assms this(1) this(2) show "\<exists>m\<in>set mods. fst (registry m) = c \<and> x \<in> w_slug ` set (snd (registry m))"
    by (cases rule: target_cases) (auto simp: strict_prefix_def)
next
  assume "\<exists>m\<in>set mods. fst (registry m) = c \<and> x \<in> w_slug ` set (snd (registry m))"
  then obtain m w where "m \<in> set mods" "w \<in> set (snd (registry m))" "fst (registry m) = c" "x = w_slug w" by blast
  then have "root @ [c, x, ''README.md''] \<in> all_targets root registry mods"
    using workflow_target[of m mods w registry "[''README.md'']" root] by (simp add: names_cases)
  then show "\<exists>f\<in>all_targets root registry mods. strict_prefix (root @ [c, x]) f"
    by (rule rev_bexI) (simp add: strict_prefix_def)
qed

text \<open>The directories whose scripts are numbered are below the root, unless a category is named like a script.\<close>

definition no_script_names :: "registry \<Rightarrow> string list \<Rightarrow> bool" where
  "no_script_names registry mods \<longleftrightarrow> list_all (\<lambda>m. \<not> suffix ''.sql'' (fst (registry m))) mods"

lemma scripts_dir_below:
  assumes "d \<in> set (discover_scripts_dirs t root)"
  shows "\<exists>x. suffix ''.sql'' x \<and> strict_prefix root (d @ [x]) \<and> d @ [x] \<in> fst ` set t"
proof -
  obtain p where p: "d = butlast p" "p \<in> fst ` set t" "strict_prefix root p" "suffix ''.sql'' (name_of p)"
    using assms by (auto simp: discover_scripts_dirs_def discover_sql_files_def rglob_def)
  then have "p = d @ [name_of p]"
    by (cases p rule: rev_cases) auto
  with p show ?thesis by metis
qed

lemma scratch_checks:
  assumes "registry_ok registry CATEGORY_MODULES" and "matches_catalog registry CATEGORY_MODULES"
    and "no_script_names registry CATEGORY_MODULES"
    and "fresh_tree t root (all_external root registry CATEGORY_MODULES)"
    and "all_generated root registry CATEGORY_MODULES \<inter> set (all_external root registry CATEGORY_MODULES) = {}"
  shows "\<exists>out t'. build_main root None registry t = (Inr out, t') \<and>
    check_catalog_completeness t' root = Inr [] \<and> check_workflow_readmes t' root = Inr [] \<and>
    check_sequential_filenames t' root = Inr []"
proof -
  let ?mods = CATEGORY_MODULES
  let ?all = "all_targets root registry ?mods"
  have ok: "list_all (module_ok registry) ?mods"
    using assms(1) by (simp add: registry_ok_def)
  obtain out t' where t': "build_main root None registry t = (Inr out, t')" "wf_fs t'" "node_at t' root = Some Dir"
    and tree: "\<And>p. strict_prefix root p \<Longrightarrow>
      (is_dir t' p \<longleftrightarrow> (\<exists>f\<in>?all. strict_prefix p f)) \<and> (is_file t' p \<longleftrightarrow> p \<in> ?all \<or> p = manifest_path root) \<and>
      (node_at t' p \<noteq> None \<longrightarrow> is_dir t' p \<or> is_file t' p)"
    using fresh_build_tree[OF assms(1,4,5)] by metis
  have category: "is_dir t' (root @ [c]) \<longleftrightarrow> (\<exists>m\<in>set ?mods. fst (registry m) = c \<and> snd (registry m) \<noteq> [])" for c
    using tree[of "root @ [c]"] target_category[OF ok, of root c] by (simp add: strict_prefix_def)
  have workflow: "is_dir t' (root @ [c, x]) \<longleftrightarrow> (\<exists>m\<in>set ?mods. fst (registry m) = c \<and> x \<in> w_slug ` set (snd (registry m)))" for c x
    using tree[of "root @ [c, x]"] target_workflow[OF ok, of root c x] by (simp add: strict_prefix_def)
  have "is_dir t' (root @ [c]) \<and> (\<forall>x. is_dir t' (root @ [c, x]) \<longleftrightarrow> x \<in> set slugs)"
    if listed: "(c, slugs) \<in> set EXPLICIT_CATALOG" for c slugs
  proof -
    obtain m where m: "m \<in> set ?mods" "fst (registry m) = c" "same_slugs slugs (snd (registry m))"
      using bspec[OF assms(2)[unfolded matches_catalog_def list_all_iff] listed] by (auto simp: list_ex_iff)
    have "m' = m" if "m' \<in> set ?mods" "fst (registry m') = c" for m'
      using assms(1) m that by (auto simp: registry_ok_def distinct_categories_def distinct_map dest: inj_onD)
    then have "is_dir t' (root @ [c, x]) \<longleftrightarrow> x \<in> w_slug ` set (snd (registry m))" for x
      using m(1,2) unfolding workflow by blast
    moreover have "is_dir t' (root @ [c])"
      using m unfolding category same_slugs_def by blast
    ultimately show ?thesis
      using same_slugs_set[OF m(3)] by simp
  qed
  then have catalog: "check_catalog_completeness t' root = Inr []"
    unfolding catalog_complete[OF t'(2,3)] by blast
  have "has_readmes t' (root @ [c, x])" if "is_dir t' (root @ [c, x])" for c x
  proof -
    obtain m w where mw: "m \<in> set ?mods" "w \<in> set (snd (registry m))" "fst (registry m) = c" "x = w_slug w"
      using \<open>is_dir t' (root @ [c, x])\<close> unfolding workflow by blast
    have files: "root @ [c, x, ''README.md''] \<in> ?all" "root @ [c, x, ''scripts'', ''README.md''] \<in> ?all"
      using workflow_target[of m ?mods w registry "[''README.md'']" root, OF mw(1,2)]
        workflow_target[of m ?mods w registry "[''scripts'', ''README.md'']" root, OF mw(1,2)] mw(3,4)
      by (simp_all add: names_cases)
    have "is_file t' (root @ [c, x, ''README.md''])" "is_file t' (root @ [c, x, ''scripts'', ''README.md''])"
      using tree[of "root @ [c, x, ''README.md'']"] tree[of "root @ [c, x, ''scripts'', ''README.md'']"] files
      by (simp_all add: strict_prefix_def)
    moreover have "strict_prefix root (root @ [c, x, ''scripts''])"
      and "strict_prefix (root @ [c, x, ''scripts'']) (root @ [c, x, ''scripts'', ''README.md''])"
      by (simp_all add: strict_prefix_def)
    then have "is_dir t' (root @ [c, x, ''scripts''])"
      using tree files(2) by blast
    ultimately show ?thesis
      by (simp add: has_readmes_def)
  qed
  then have readmes: "check_workflow_readmes t' root = Inr []"
    unfolding workflow_readmes[OF t'(2,3)] by blast
  have numbered: "is_dir t' d \<and> strict_prefix root d" if d: "d \<in> set (discover_scripts_dirs t' root)" for d
  proof -
    obtain x where x: "suffix ''.sql'' x" "strict_prefix root (d @ [x])" "d @ [x] \<in> fst ` set t'"
      using scripts_dir_below[OF d] by blast
    then have node: "node_at t' (d @ [x]) \<noteq> None"
      using in_keys_iff[OF wf_fs_root_no_key[OF t'(2)], of "d @ [x]"] by simp
    have "d \<noteq> root"
    proof
      assume "d = root"
      have "x \<noteq> MANIFEST_FILENAME"
        using x(1) by (auto simp: MANIFEST_FILENAME_def suffix_def)
      moreover have "\<not> is_dir t' (root @ [x])"
        using assms(3) x(1) unfolding category by (auto simp: no_script_names_def list_all_iff)
      moreover have "root @ [x] \<notin> ?all"
        by (intro notI) (erule target_cases[OF ok], auto simp: names_cases)
      ultimately show False
        using node tree[of "root @ [x]"] \<open>d = root\<close> by (auto simp: manifest_path_def strict_prefix_def)
    qed
    then show ?thesis
      using wf_fs_parent[OF t'(2) node] x(2) by (auto simp: is_dir_def strict_prefix_def)
  qed
  have "check_sequential_filenames t' root = Inr (concat (map (\<lambda>d. []) (discover_scripts_dirs t' root)))"
    unfolding check_sequential_filenames_def
  proof (rule collect_ok)
    fix d
    assume "d \<in> set (discover_scripts_dirs t' root)"
    note d = numbered[OF this]
    show "(case iterdir t' d of Inl e \<Rightarrow> Inl e | Inr entries \<Rightarrow> Inr (numbering_issues (rel root d) (numbered_entries t' entries))) = Inr []"
      using scripts_numbered[OF assms(1) t'(2) conjunct2[OF d]] tree by (simp add: iterdir_ok conjunct1[OF d])
  qed
  then have "check_sequential_filenames t' root = Inr []"
    by simp
  with t'(1) catalog readmes show ?thesis by blast
qed

end
