(* ===== verification/Links.thy ===== *)
theory Links
  imports Scratch_Checks
begin

text \<open>
  The links a workflow's README makes to related issues, and when the link check accepts them.
\<close>

section \<open>Links between workflows\<close>

text \<open>
  Where the related issues of a workflow of category \<open>c\<close> lead: to the README of another workflow of
  the category, of a category, or of a workflow of another one, all of them in the catalog.
\<close>

definition near_link :: "string \<Rightarrow> string \<Rightarrow> bool" where
  "near_link c r \<longleftrightarrow>
     list_ex (\<lambda>(d, slugs). d = c \<and> list_ex (\<lambda>s. r = ''../'' @ s @ ''/README.md'') slugs) EXPLICIT_CATALOG"

definition category_link :: "string \<Rightarrow> bool" where
  "category_link r \<longleftrightarrow> list_ex (\<lambda>(d, slugs). r = ''../../'' @ d @ ''/README.md'') EXPLICIT_CATALOG"

definition far_link :: "string \<Rightarrow> bool" where
  "far_link r \<longleftrightarrow>
     list_ex (\<lambda>(d, slugs). list_ex (\<lambda>s. r = ''../../'' @ d @ ''/'' @ s @ ''/README.md'') slugs) EXPLICIT_CATALOG"

definition link_ok :: "string \<Rightarrow> string \<Rightarrow> bool" where
  "link_ok c r \<longleftrightarrow> near_link c r \<or> category_link r \<or> far_link r"

definition links_ok :: "workflow_summary \<Rightarrow> bool" where
  "links_ok = (\<lambda>(c, slug, issues, ss). list_all (link_ok c) issues)"

lemma catalog_near: "list_all (\<lambda>(d, slugs). list_all (\<lambda>s. near_link d (''../'' @ s @ ''/README.md'')) slugs) EXPLICIT_CATALOG"
  unfolding near_link_def list_all_iff list_ex_iff by blast

lemma catalog_category: "list_all (\<lambda>(d, slugs). category_link (''../../'' @ d @ ''/README.md'')) EXPLICIT_CATALOG"
  unfolding category_link_def list_all_iff list_ex_iff by blast

lemma catalog_far:
  "list_all (\<lambda>(d, slugs). list_all (\<lambda>s. far_link (''../../'' @ d @ ''/'' @ s @ ''/README.md'')) slugs) EXPLICIT_CATALOG"
  unfolding far_link_def list_all_iff list_ex_iff by blast

section \<open>Links in the tree\<close>

definition link_name :: "string \<Rightarrow> bool" where
  "link_name x \<longleftrightarrow> clean_name x \<and> CHR ''#'' \<notin> set x"

lemma catalog_names:
  "list_all (\<lambda>(d, slugs). link_name d \<and> list_all link_name slugs) EXPLICIT_CATALOG"
  by code_simp

lemma link_name_chars: "link_name x \<Longrightarrow> CHR ''#'' \<notin> set x \<and> CHR ''/'' \<notin> set x \<and> x \<noteq> [] \<and> x \<noteq> ''.''"
  by (simp add: link_name_def clean_name_def)

lemma set_join: "c \<in> set (join sep xs) \<Longrightarrow> c \<in> set sep \<or> (\<exists>x\<in>set xs. c \<in> set x)"
  by (induction sep xs rule: join.induct) auto

lemma link_clean:
  assumes "ups \<noteq> []" and "list_all (\<lambda>x. x = ''..'') ups" and "list_all link_name names"
    and "r = join ''/'' (ups @ names @ [''README.md''])"
  shows "strip r = r" and "\<not> external_link r" and "path_part r = r" and "r \<noteq> []"
    and "\<not> is_absolute r" and "path_parts r = ups @ names @ [''README.md'']"
proof -
  obtain us where us: "ups = ''..'' # us"
    using assms(1,2) by (cases ups) auto
  obtain u where u: "r = ''../'' @ u"
    using assms(4) by (auto simp: us neq_Nil_conv join_Cons)
  have "last (join ''/'' (xs @ [''README.md''])) = CHR ''d''" for xs
    by (cases "xs = []") (simp_all add: join_append)
  then have "last r = CHR ''d''"
    using assms(4) by (metis append.assoc)
  with u show "strip r = r"
    unfolding strip_def by (intro strip_by_id) (auto simp: py_simps)
  show "\<not> external_link r" "r \<noteq> []" "\<not> is_absolute r"
    by (simp_all add: u external_link_def is_absolute_def)
  let ?parts = "ups @ names @ [''README.md'']"
  have parts: "CHR ''#'' \<notin> set x" "CHR ''/'' \<notin> set x" "x \<noteq> [] \<and> x \<noteq> ''.''" if x: "x \<in> set ?parts" for x
  proof -
    consider "x = ''..''" | "link_name x" | "x = ''README.md''"
      using x assms(2,3) by (auto simp: list_all_iff)
    then have "CHR ''#'' \<notin> set x \<and> CHR ''/'' \<notin> set x \<and> x \<noteq> [] \<and> x \<noteq> ''.''"
      by cases (simp_all add: link_name_chars)
    then show "CHR ''#'' \<notin> set x" "CHR ''/'' \<notin> set x" "x \<noteq> [] \<and> x \<noteq> ''.''"
      by blast+
  qed
  have "CHR ''#'' \<notin> set r"
    using set_join[of "CHR ''#''" "''/''" ?parts] parts(1) unfolding assms(4) by auto
  then show "path_part r = r"
    unfolding path_part_def takeWhile_eq_all_conv by metis
  have "split_on CHR ''/'' r = ?parts"
    unfolding assms(4) using parts(2) by (intro split_on_join) simp_all
  moreover have "filter (\<lambda>x. x \<noteq> [] \<and> x \<noteq> ''.'') ?parts = ?parts"
    by (rule filter_True) (use parts(3) in blast)
  ultimately show "path_parts r = ?parts"
    by (simp only: path_parts_def)
qed

lemma link_found:
  assumes "is_file t (root @ walk [c, slug] (ups @ names @ [''README.md'']))" and "walk (root @ [c, slug]) (ups @ names @ [''README.md'']) = root @ walk [c, slug] (ups @ names @ [''README.md''])"
    and "ups \<noteq> []" and "list_all (\<lambda>x. x = ''..'') ups" and "list_all link_name names"
    and "r = join ''/'' (ups @ names @ [''README.md''])"
  shows "link_issues t root (root @ [c, slug, ''README.md'']) r = []"
proof -
  note r = link_clean[OF assms(3-6)]
  have "join_path (root @ [c, slug]) r = root @ walk [c, slug] (ups @ names @ [''README.md''])"
    using assms(2) by (simp add: join_path_def r)
  moreover have "exists_at t p" if "is_file t p" for p
    using that by (auto simp: is_file_def read_bytes_def exists_at_def split: option.splits node.splits target.splits)
  ultimately show ?thesis
    using assms(1) by (simp add: link_issues_def r butlast_append Let_def)
qed

text \<open>A tree with the READMEs of the catalog.\<close>

definition readmes_at :: "fs \<Rightarrow> path \<Rightarrow> bool" where
  "readmes_at t root \<longleftrightarrow>
     list_all (\<lambda>(d, slugs). is_file t (root @ [d, ''README.md'']) \<and>
       list_all (\<lambda>s. is_file t (root @ [d, s, ''README.md''])) slugs) EXPLICIT_CATALOG"

lemma link_resolves:
  assumes "readmes_at t root" and "link_ok c r"
  shows "link_issues t root (root @ [c, slug, ''README.md'']) r = []"
proof -
  have tree: "is_file t (root @ [d, ''README.md''])" "is_file t (root @ [d, s, ''README.md''])" "link_name d" "link_name s"
    if "(d, slugs) \<in> set EXPLICIT_CATALOG" "s \<in> set slugs" for d slugs s
    using assms(1) catalog_names that unfolding readmes_at_def list_all_iff by blast+
  have up: "walk (root @ [c, slug]) (''..'' # xs) = walk (root @ [c]) xs" "walk (root @ [c, slug]) (''..'' # ''..'' # xs) = walk root xs" for xs
    by (simp_all add: butlast_append)
  have down: "walk p [d, s, ''README.md''] = p @ [d, s, ''README.md'']" "walk p [s, ''README.md''] = p @ [s, ''README.md'']"
    if "link_name d" "link_name s" for p d s
    using that by (auto simp: link_name_def clean_name_def)
  from assms(2) consider (near) slugs s where "(c, slugs) \<in> set EXPLICIT_CATALOG" "s \<in> set slugs" "r = ''../'' @ s @ ''/README.md''"
    | (category) d slugs where "(d, slugs) \<in> set EXPLICIT_CATALOG" "r = ''../../'' @ d @ ''/README.md''"
    | (far) d slugs s where "(d, slugs) \<in> set EXPLICIT_CATALOG" "s \<in> set slugs" "r = ''../../'' @ d @ ''/'' @ s @ ''/README.md''"
    unfolding link_ok_def near_link_def category_link_def far_link_def list_ex_iff by blast
  then show ?thesis
  proof cases
    case near
    note n = tree[OF near(1,2)]
    show ?thesis
      using n near(3) down(2)[OF n(3,4)]
      by (intro link_found[where ups = "[''..'']" and names = "[s]"]) (simp_all add: up butlast_append)
  next
    case category
    have n: "is_file t (root @ [d, ''README.md''])" "link_name d"
      using assms(1) catalog_names category(1) unfolding readmes_at_def list_all_iff by blast+
    show ?thesis
      using n category(2) down(2)[OF n(2,2)]
      by (intro link_found[where ups = "[''..'', ''..'']" and names = "[d]"]) (simp_all add: up butlast_append)
  next
    case far
    note n = tree[OF far(1,2)]
    show ?thesis
      using n far(3) down(1)[OF n(3,4)]
      by (intro link_found[where ups = "[''..'', ''..'']" and names = "[d, s]"]) (simp_all add: up butlast_append)
  qed
qed

end
