(* ===== verification/Sql_Blocks1.thy ===== *)
theory Sql_Blocks1
  imports Py_Str
begin

text \<open>
  The functions of \<^verbatim>\<open>tools/repo_builder/sql_blocks.py\<close> from \<open>activity_overview\<close> to \<open>replication_slots_status\<close>: each returns the text of a
  query, line by line as in the source.
\<close>

definition psql_vars :: "string \<Rightarrow> string" where
  "psql_vars defs = defs"

definition activity_overview :: string where
  \<open>activity_overview = strip_newlines (text_lines [
    '''',
    ''-- Snapshot of every backend known to this instance right now, grouped by'',
    ''-- high-level state. Run this first on any performance or availability'',
    ''-- investigation to understand overall load before drilling into detail.'',
    ''SELECT'',
    ''    datname,'',
    ''    state,'',
    ''    wait_event_type,'',
    ''    count(*)                                                   AS session_count,'',
    ''    count(*) FILTER (WHERE state = 'active')                   AS active_count,'',
    ''    max(now() - query_start)                                   AS '' @
      ''longest_query_runtime,'',
    ''    max(now() - xact_start)                                    AS '' @
      ''longest_txn_runtime'',
    ''FROM pg_stat_activity'',
    ''WHERE pid <> pg_backend_pid()'',
    ''GROUP BY datname, state, wait_event_type'',
    ''ORDER BY session_count DESC, longest_query_runtime DESC NULLS LAST;'',
    ''''])\<close>

definition active_long_running_queries :: string where
  \<open>active_long_running_queries = strip_newlines (text_lines [
    '''',
    ''-- Active queries currently running longer than :min_seconds seconds.'',
    ''-- Adjust :min_seconds for your workload's normal latency profile; a'',
    ''-- crypto-exchange OLTP path is typically sub-100ms, so even a handful of'',
    ''-- seconds may already indicate a problem.'',
    CHR 0x5C # ''set min_seconds 5'',
    ''SELECT'',
    ''    pid,'',
    ''    datname,'',
    ''    usename,'',
    ''    application_name,'',
    ''    client_addr,'',
    ''    state,'',
    ''    wait_event_type,'',
    ''    wait_event,'',
    ''    backend_xid,'',
    ''    backend_xmin,'',
    ''    now() - query_start                                        AS query_runtime,'',
    ''    now() - xact_start                                          AS txn_runtime,'',
    ''    left(query, 200)                                            AS query_snippet'',
    ''FROM pg_stat_activity'',
    ''WHERE state = 'active'' @ [CHR 0x27],
    ''  AND pid <> pg_backend_pid()'',
    ''  AND now() - query_start > make_interval(secs => :min_seconds)'',
    ''ORDER BY query_runtime DESC;'',
    ''''])\<close>

definition idle_in_transaction_sessions :: string where
  \<open>idle_in_transaction_sessions = strip_newlines (text_lines [
    '''',
    ''-- Sessions sitting idle inside an open transaction for longer than'',
    ''-- :min_minutes minutes. These hold open snapshots/locks and are a very'',
    ''-- common cause of autovacuum being unable to clean up dead tuples, and of'',
    ''-- unexpected lock waits on otherwise unrelated statements.'',
    CHR 0x5C # ''set min_minutes 5'',
    ''SELECT'',
    ''    pid,'',
    ''    datname,'',
    ''    usename,'',
    ''    application_name,'',
    ''    client_addr,'',
    ''    state,'',
    ''    backend_xid,'',
    ''    backend_xmin,'',
    ''    now() - xact_start                                          AS '' @
      ''idle_txn_duration,'',
    ''    now() - state_change                                        AS '' @
      ''time_in_current_state,'',
    ''    left(query, 200)                                             AS last_statement'',
    ''FROM pg_stat_activity'',
    ''WHERE state = 'idle in transaction'' @ [CHR 0x27],
    ''  AND pid <> pg_backend_pid()'',
    ''  AND now() - state_change > make_interval(mins => :min_minutes)'',
    ''ORDER BY idle_txn_duration DESC;'',
    ''''])\<close>

definition wait_events_summary :: string where
  \<open>wait_events_summary = strip_newlines (text_lines [
    '''',
    ''-- Aggregated wait events across all current backends. PostgreSQL 17 exposes'',
    ''-- a canonical description of every wait event in pg_wait_events -- join to'',
    ''-- it so unfamiliar wait_event values are self-explanatory without needing'',
    ''-- the manual open.'',
    ''SELECT'',
    ''    a.wait_event_type,'',
    ''    a.wait_event,'',
    ''    we.description,'',
    ''    count(*)                                                    AS backend_count'',
    ''FROM pg_stat_activity a'',
    ''LEFT JOIN pg_wait_events we'',
    ''       ON we.type = a.wait_event_type'',
    ''      AND we.name = a.wait_event'',
    ''WHERE a.pid <> pg_backend_pid()'',
    ''  AND a.wait_event IS NOT NULL'',
    ''GROUP BY a.wait_event_type, a.wait_event, we.description'',
    ''ORDER BY backend_count DESC;'',
    ''''])\<close>

definition connections_by_state :: string where
  \<open>connections_by_state = strip_newlines (text_lines [
    '''',
    ''-- Connection counts by database and state, compared against max_connections'',
    ''-- so the operator can see headroom immediately.'',
    ''SELECT'',
    ''    coalesce(datname, '(no database / background worker)')     AS datname,'',
    ''    state,'',
    ''    count(*)                                                    AS session_count,'',
    ''    round('',
    ''        100.0 * count(*) / NULLIF((SELECT setting::numeric FROM '' @
      ''pg_settings WHERE name = 'max_connections'), 0),'',
    ''        2'',
    ''    )                                                            AS '' @
      ''pct_of_max_connections'',
    ''FROM pg_stat_activity'',
    ''GROUP BY datname, state'',
    ''ORDER BY session_count DESC;'',
    ''''])\<close>

definition connections_by_application_and_user :: string where
  \<open>connections_by_application_and_user = strip_newlines (text_lines [
    '''',
    ''-- Connection counts broken down by application_name and usename. Useful to'',
    ''-- identify which service, connection pool, or batch job is responsible for'',
    ''-- a spike or leak in connection count.'',
    ''SELECT'',
    ''    coalesce(NULLIF(application_name, '' @ CHR 0x27 # '''), '(unset)')           AS application_name,'',
    ''    usename,'',
    ''    datname,'',
    ''    count(*)                                                    AS session_count,'',
    ''    count(*) FILTER (WHERE state = 'active')                    AS active_count,'',
    ''    count(*) FILTER (WHERE state = 'idle')                      AS idle_count,'',
    ''    count(*) FILTER (WHERE state = 'idle in transaction')       AS idle_in_txn_count'',
    ''FROM pg_stat_activity'',
    ''WHERE pid <> pg_backend_pid()'',
    ''GROUP BY application_name, usename, datname'',
    ''ORDER BY session_count DESC;'',
    ''''])\<close>

definition max_connections_headroom :: string where
  \<open>max_connections_headroom = strip_newlines (text_lines [
    '''',
    ''-- Current connection utilization vs. the effective connection ceiling.'',
    ''-- On Aurora, max_connections is derived from the instance class's memory'',
    ''-- (via the parameter group formula) rather than freely set, so headroom'',
    ''-- must be planned around instance class, not just the GUC value alone.'',
    ''SELECT'',
    ''    (SELECT setting::int FROM pg_settings WHERE name = '' @
      '''max_connections')      AS max_connections,'',
    ''    (SELECT setting::int FROM pg_settings WHERE name = '' @
      '''superuser_reserved_connections') AS superuser_reserved,'',
    ''    (SELECT count(*) FROM pg_stat_activity)                             '' @
      ''       AS current_total_connections,'',
    ''    (SELECT count(*) FROM pg_stat_activity WHERE state = 'active')      '' @
      ''       AS current_active_connections,'',
    ''    round('',
    ''        100.0 * (SELECT count(*) FROM pg_stat_activity) /'',
    ''        NULLIF((SELECT setting::numeric FROM pg_settings WHERE name = '' @
      '''max_connections'), 0),'',
    ''        2'',
    ''    )                                                                   '' @
      ''       AS pct_utilized;'',
    ''''])\<close>

definition blocked_sessions :: string where
  \<open>blocked_sessions = strip_newlines (text_lines [
    '''',
    ''-- Every session currently blocked waiting on at least one lock, and the'',
    ''-- pid(s) directly blocking it via the built-in pg_blocking_pids() helper'',
    ''-- (this correctly follows lock-wait-queue order, unlike a naive self-join'',
    ''-- on pg_locks).'',
    ''SELECT'',
    ''    blocked.pid                                                 AS blocked_pid,'',
    ''    blocked.usename                                              AS blocked_user,'',
    ''    blocked.datname                                              AS '' @
      ''blocked_database,'',
    ''    blocked.state                                                AS blocked_state,'',
    ''    now() - blocked.query_start                                  AS '' @
      ''blocked_duration,'',
    ''    pg_blocking_pids(blocked.pid)                                AS blocking_pids,'',
    ''    left(blocked.query, 200)                                     AS blocked_query'',
    ''FROM pg_stat_activity blocked'',
    ''WHERE cardinality(pg_blocking_pids(blocked.pid)) > 0'',
    ''ORDER BY blocked_duration DESC;'',
    ''''])\<close>

definition blocking_sessions_detail :: string where
  \<open>blocking_sessions_detail = strip_newlines (text_lines [
    '''',
    ''-- For every blocked session, expand pg_blocking_pids() into one row per'',
    ''-- blocker and show what the blocker itself is doing, so the operator can'',
    ''-- decide whether to wait, escalate, or (rarely, and only if authorized)'',
    ''-- terminate the blocking backend.'',
    ''SELECT'',
    ''    blocked.pid                                                 AS blocked_pid,'',
    ''    blocked.usename                                              AS blocked_user,'',
    ''    left(blocked.query, 120)                                     AS blocked_query,'',
    ''    blocker.pid                                                  AS blocking_pid,'',
    ''    blocker.usename                                              AS blocking_user,'',
    ''    blocker.state                                                AS blocking_state,'',
    ''    now() - blocker.xact_start                                   AS '' @
      ''blocking_txn_age,'',
    ''    left(blocker.query, 120)                                     AS '' @
      ''blocking_last_query'',
    ''FROM pg_stat_activity blocked'',
    ''CROSS JOIN LATERAL unnest(pg_blocking_pids(blocked.pid)) AS bp(blocking_pid)'',
    ''JOIN pg_stat_activity blocker ON blocker.pid = bp.blocking_pid'',
    ''ORDER BY blocking_txn_age DESC;'',
    ''''])\<close>

definition lock_detail_by_mode :: string where
  \<open>lock_detail_by_mode = strip_newlines (text_lines [
    '''',
    ''-- Raw pg_locks detail joined to pg_stat_activity, restricted to relation and'',
    ''-- transactionid locks that are either not yet granted or held by a session'',
    ''-- that is also blocking someone else. This is the ground truth for "who'',
    ''-- holds what lock, in what mode, on what object".'',
    ''SELECT'',
    ''    l.pid,'',
    ''    a.usename,'',
    ''    l.locktype,'',
    ''    n.nspname                                                   AS schema_name,'',
    ''    c.relname                                                    AS relation_name,'',
    ''    l.mode,'',
    ''    l.granted,'',
    ''    a.state,'',
    ''    now() - a.query_start                                        AS '' @
      ''held_or_waiting_duration,'',
    ''    left(a.query, 160)                                           AS query_snippet'',
    ''FROM pg_locks l'',
    ''LEFT JOIN pg_class c ON c.oid = l.relation'',
    ''LEFT JOIN pg_namespace n ON n.oid = c.relnamespace'',
    ''JOIN pg_stat_activity a ON a.pid = l.pid'',
    ''WHERE l.pid <> pg_backend_pid()'',
    ''  AND l.locktype IN ('relation', 'tuple', 'transactionid')'',
    ''ORDER BY l.granted ASC, held_or_waiting_duration DESC NULLS LAST;'',
    ''''])\<close>

definition ddl_lock_waits :: string where
  \<open>ddl_lock_waits = strip_newlines (text_lines [
    '''',
    ''-- Sessions waiting specifically on AccessExclusiveLock / ShareUpdateExclusiveLock'',
    ''-- style locks typically taken by DDL (CREATE INDEX, ALTER TABLE, VACUUM,'',
    ''-- TRUNCATE). A queue of these is the classic "DDL blocking the whole app"'',
    ''-- incident: the DDL itself is waiting on a long-running transaction while'',
    ''-- every subsequent query queues up behind the DDL's own lock request.'',
    ''SELECT'',
    ''    l.pid,'',
    ''    a.usename,'',
    ''    a.datname,'',
    ''    n.nspname                                                   AS schema_name,'',
    ''    c.relname                                                    AS relation_name,'',
    ''    l.mode,'',
    ''    l.granted,'',
    ''    now() - a.query_start                                        AS wait_duration,'',
    ''    left(a.query, 200)                                            AS statement'',
    ''FROM pg_locks l'',
    ''JOIN pg_stat_activity a ON a.pid = l.pid'',
    ''LEFT JOIN pg_class c ON c.oid = l.relation'',
    ''LEFT JOIN pg_namespace n ON n.oid = c.relnamespace'',
    ''WHERE l.mode IN ('AccessExclusiveLock', 'ShareUpdateExclusiveLock', '' @
      '''ShareRowExclusiveLock')'',
    ''ORDER BY l.granted ASC, wait_duration DESC NULLS LAST;'',
    ''''])\<close>

definition long_running_transactions :: string where
  \<open>long_running_transactions = strip_newlines (text_lines [
    '''',
    ''-- Transactions (not just active queries) open longer than :min_minutes'',
    ''-- minutes, ordered by age. A transaction can be "idle in transaction" or'',
    ''-- actively running a query and still be the oldest open transaction on the'',
    ''-- instance -- which is what actually matters for vacuum horizon and lock'',
    ''-- retention, not just the current query's runtime.'',
    CHR 0x5C # ''set min_minutes 5'',
    ''SELECT'',
    ''    pid,'',
    ''    datname,'',
    ''    usename,'',
    ''    state,'',
    ''    backend_xid,'',
    ''    backend_xmin,'',
    ''    now() - xact_start                                          AS txn_age,'',
    ''    left(query, 160)                                             AS '' @
      ''current_or_last_query'',
    ''FROM pg_stat_activity'',
    ''WHERE xact_start IS NOT NULL'',
    ''  AND now() - xact_start > make_interval(mins => :min_minutes)'',
    ''ORDER BY txn_age DESC;'',
    ''''])\<close>

definition deadlock_counters_by_database :: string where
  \<open>deadlock_counters_by_database = strip_newlines (text_lines [
    '''',
    ''-- Cumulative deadlock counters per database since the last stats reset.'',
    ''-- This does not show individual deadlock events (those are only visible in'',
    ''-- the PostgreSQL log with log_lock_waits / deadlock_timeout logging, which'',
    ''-- on Aurora is surfaced through CloudWatch Logs for the instance), but a'',
    ''-- rising counter confirms deadlocks are actually occurring and lets you'',
    ''-- correlate the timing with an incident window.'',
    ''SELECT'',
    ''    datname,'',
    ''    deadlocks,'',
    ''    xact_commit,'',
    ''    xact_rollback,'',
    ''    round(100.0 * deadlocks / NULLIF(xact_commit + xact_rollback, 0), '' @
      ''4) AS deadlocks_per_100_txn,'',
    ''    stats_reset'',
    ''FROM pg_stat_database'',
    ''WHERE datname IS NOT NULL'',
    ''ORDER BY deadlocks DESC;'',
    ''''])\<close>

definition connection_contention_by_wait_event :: string where
  \<open>connection_contention_by_wait_event = strip_newlines (text_lines [
    '''',
    ''-- Backends waiting specifically on Lock/IPC/Client wait event types,'',
    ''-- summarized to distinguish "too many app connections queuing for locks"'',
    ''-- from "connections idle waiting on client round trips" (often a pooler or'',
    ''-- application-side issue rather than a database issue).'',
    ''SELECT'',
    ''    wait_event_type,'',
    ''    wait_event,'',
    ''    state,'',
    ''    count(*)                                                    AS backend_count,'',
    ''    max(now() - state_change)                                   AS '' @
      ''longest_time_in_state'',
    ''FROM pg_stat_activity'',
    ''WHERE pid <> pg_backend_pid()'',
    ''GROUP BY wait_event_type, wait_event, state'',
    ''ORDER BY backend_count DESC;'',
    ''''])\<close>

definition database_transaction_age :: string where
  \<open>database_transaction_age = strip_newlines (text_lines [
    '''',
    ''-- Transaction ID (XID) age per database, measured against datfrozenxid.'',
    ''-- autovacuum_freeze_max_age (default 200,000,000) is the point at which'',
    ''-- autovacuum is forced to run in every table regardless of cost limits;'',
    ''-- autovacuum_vacuum_freeze_min_age / vacuum_failsafe_age (default'',
    ''-- 1,600,000,000) is the emergency threshold before wraparound-protection'',
    ''-- kicks in and PostgreSQL refuses new writes to protect data integrity.'',
    ''SELECT'',
    ''    datname,'',
    ''    age(datfrozenxid)                                           AS xid_age,'',
    ''    datfrozenxid,'',
    ''    round('',
    ''        100.0 * age(datfrozenxid) /'',
    ''        (SELECT setting::numeric FROM pg_settings WHERE name = '' @
      '''autovacuum_freeze_max_age'),'',
    ''        2'',
    ''    )                                                            AS '' @
      ''pct_of_freeze_max_age,'',
    ''    2147483647 - age(datfrozenxid)                                AS '' @
      ''xids_remaining_to_wraparound'',
    ''FROM pg_database'',
    ''WHERE datallowconn'',
    ''ORDER BY xid_age DESC;'',
    ''''])\<close>

definition table_transaction_age_top_n :: string where
  \<open>table_transaction_age_top_n = strip_newlines (text_lines [
    '''',
    ''-- Per-table XID age ranked descending, restricted to ordinary tables and'',
    ''-- materialized views (relkind 'r'/'m'/'t' -- includes TOAST tables, which'',
    ''-- can independently accumulate age and are frequently overlooked).'',
    CHR 0x5C # ''set top_n 25'',
    ''SELECT'',
    ''    n.nspname                                                   AS schema_name,'',
    ''    c.relname                                                   AS relation_name,'',
    ''    c.relkind,'',
    ''    age(c.relfrozenxid)                                         AS xid_age,'',
    ''    c.relfrozenxid,'',
    ''    pg_size_pretty(pg_total_relation_size(c.oid))                AS total_size'',
    ''FROM pg_class c'',
    ''JOIN pg_namespace n ON n.oid = c.relnamespace'',
    ''WHERE c.relkind IN ('r', 'm', 't')'',
    ''  AND n.nspname NOT IN ('pg_catalog', 'information_schema')'',
    ''ORDER BY xid_age DESC'',
    ''LIMIT :top_n;'',
    ''''])\<close>

definition multixact_age_top_n :: string where
  \<open>multixact_age_top_n = strip_newlines (text_lines [
    '''',
    ''-- Per-table multixact ID age (relminmxid), which tracks a separate'',
    ''-- wraparound horizon from relfrozenxid. Row-level locking (SELECT ... FOR'',
    ''-- UPDATE/SHARE, foreign key checks) generates multixacts, so tables with'',
    ''-- heavy row locking (order books, balances, ledgers) can accumulate'',
    ''-- multixact age even when regular XID age looks healthy.'',
    CHR 0x5C # ''set top_n 25'',
    ''SELECT'',
    ''    n.nspname                                                   AS schema_name,'',
    ''    c.relname                                                   AS relation_name,'',
    ''    mxid_age(c.relminmxid)                                      AS multixact_age,'',
    ''    c.relminmxid,'',
    ''    round('',
    ''        100.0 * mxid_age(c.relminmxid) /'',
    ''        (SELECT setting::numeric FROM pg_settings WHERE name = '' @
      '''autovacuum_multixact_freeze_max_age'),'',
    ''        2'',
    ''    )                                                            AS '' @
      ''pct_of_multixact_freeze_max_age'',
    ''FROM pg_class c'',
    ''JOIN pg_namespace n ON n.oid = c.relnamespace'',
    ''WHERE c.relkind IN ('r', 'm', 't')'',
    ''  AND n.nspname NOT IN ('pg_catalog', 'information_schema')'',
    ''ORDER BY multixact_age DESC'',
    ''LIMIT :top_n;'',
    ''''])\<close>

definition prepared_transactions :: string where
  \<open>prepared_transactions = strip_newlines (text_lines [
    '''',
    ''-- Outstanding two-phase-commit (PREPARE TRANSACTION) entries. These hold'',
    ''-- locks and prevent vacuum from advancing past their snapshot until they'',
    ''-- are COMMIT PREPARED / ROLLBACK PREPARED. Aurora PostgreSQL supports'',
    ''-- two-phase commit, but very few application frameworks intentionally use'',
    ''-- it -- an unexpected non-empty result here is almost always a bug in a'',
    ''-- distributed-transaction coordinator (e.g. XA-style ORM configuration)'',
    ''-- rather than expected behavior.'',
    ''SELECT'',
    ''    gid,'',
    ''    prepared,'',
    ''    owner,'',
    ''    database,'',
    ''    now() - prepared                                            AS prepared_age'',
    ''FROM pg_prepared_xacts'',
    ''ORDER BY prepared ASC;'',
    ''''])\<close>

definition autovacuum_workers_active :: string where
  \<open>autovacuum_workers_active = strip_newlines (text_lines [
    '''',
    ''-- Autovacuum (and manual VACUUM/ANALYZE) workers currently running, and'',
    ''-- what phase they are in via pg_stat_progress_vacuum. On PG17 the dead'',
    ''-- tuple counters are reported in bytes (max_dead_tuple_bytes /'',
    ''-- dead_tuple_bytes), not tuple counts, reflecting the new TID-store based'',
    ''-- vacuum implementation.'',
    ''SELECT'',
    ''    a.pid,'',
    ''    a.datname,'',
    ''    n.nspname                                                    AS schema_name,'',
    ''    c.relname                                                    AS relation_name,'',
    ''    v.phase,'',
    ''    v.heap_blks_total,'',
    ''    v.heap_blks_scanned,'',
    ''    round(100.0 * v.heap_blks_scanned / NULLIF(v.heap_blks_total, 0), '' @
      ''2) AS pct_heap_scanned,'',
    ''    v.indexes_total,'',
    ''    v.indexes_processed,'',
    ''    pg_size_pretty(v.dead_tuple_bytes)                            AS '' @
      ''dead_tuple_data_collected,'',
    ''    pg_size_pretty(v.max_dead_tuple_bytes)                        AS '' @
      ''dead_tuple_data_limit,'',
    ''    now() - a.xact_start                                          AS running_for'',
    ''FROM pg_stat_progress_vacuum v'',
    ''JOIN pg_stat_activity a ON a.pid = v.pid'',
    ''LEFT JOIN pg_class c ON c.oid = v.relid'',
    ''LEFT JOIN pg_namespace n ON n.oid = c.relnamespace'',
    ''ORDER BY running_for DESC;'',
    ''''])\<close>

definition replication_slots_status :: string where
  \<open>replication_slots_status = strip_newlines (text_lines [
    '''',
    ''-- Physical and logical replication slots, and whether they are actively'',
    ''-- consumed. An inactive slot with a growing (restart_lsn falling behind'',
    ''-- current WAL) footprint will hold WAL on disk indefinitely and, on Aurora,'',
    ''-- can contribute to storage growth and volume I/O -- this is one of the'',
    ''-- most common causes of unexplained storage growth on Aurora clusters that'',
    ''-- use logical replication or CDC (e.g. Debezium, DMS).'',
    ''--'',
    ''-- IMPORTANT (verified against Aurora PostgreSQL 17.7): pg_current_wal_lsn()'',
    ''-- is not available on Aurora -- detect Aurora first via a safe,'',
    ''-- catalog/GUC-only check (never a call to an Aurora-only function itself,'',
    ''-- so this never fails on non-Aurora PostgreSQL either) and never send a'',
    ''-- statement referencing pg_current_wal_lsn() on the Aurora execution path.'',
    ''-- wal_status alone (already reported either way) is enough to flag a slot'',
    ''-- that has fallen dangerously behind ('lost'/'extended'); use CloudWatch or'',
    ''-- aurora_replica_status() for byte-level WAL retention on Aurora.'',
    ''SELECT ('',
    ''    current_setting('aurora_version', true) IS NOT NULL'',
    ''    OR current_setting('rds.extensions', true) IS NOT NULL'',
    ''    OR EXISTS (SELECT 1 FROM pg_proc WHERE proname = 'aurora_version')'',
    '')                                                                AS is_aurora'',
    CHR 0x5C # ''gset'',
    '''',
    CHR 0x5C # ''if :is_aurora'',
    ''SELECT'',
    ''    slot_name,'',
    ''    slot_type,'',
    ''    plugin,'',
    ''    database,'',
    ''    active,'',
    ''    active_pid,'',
    ''    wal_status,'',
    ''    restart_lsn,'',
    ''    confirmed_flush_lsn,'',
    ''    NULL::numeric                                                 AS '' @
      ''retained_wal_bytes'',
    ''FROM pg_replication_slots'',
    ''ORDER BY slot_name;'',
    CHR 0x5C # ''else'',
    ''SELECT'',
    ''    slot_name,'',
    ''    slot_type,'',
    ''    plugin,'',
    ''    database,'',
    ''    active,'',
    ''    active_pid,'',
    ''    wal_status,'',
    ''    restart_lsn,'',
    ''    confirmed_flush_lsn,'',
    ''    pg_wal_lsn_diff(pg_current_wal_lsn(), restart_lsn)            AS '' @
      ''retained_wal_bytes'',
    ''FROM pg_replication_slots'',
    ''ORDER BY retained_wal_bytes DESC NULLS LAST;'',
    CHR 0x5C # ''endif'',
    ''''])\<close>

end
