(* ===== verification/Sql_Blocks2.thy ===== *)
theory Sql_Blocks2
  imports Py_Str
begin

text \<open>
  The functions of \<^verbatim>\<open>tools/repo_builder/sql_blocks.py\<close> from \<open>dead_tuples_ranked\<close> to \<open>pgss_wal_heavy\<close>: each returns the text of a
  query, line by line as in the source.
\<close>

definition dead_tuples_ranked :: string where
  \<open>dead_tuples_ranked = strip_newlines (text_lines [
    '''',
    ''-- Tables ranked by dead tuple ratio and absolute dead tuple count. High'',
    ''-- dead-tuple ratios combined with a stale last_autovacuum timestamp are the'',
    ''-- clearest sign that autovacuum is not keeping up with a table's write rate.'',
    CHR 0x5C # ''set top_n 30'',
    ''SELECT'',
    ''    schemaname                                                  AS schema_name,'',
    ''    relname                                                     AS table_name,'',
    ''    n_live_tup,'',
    ''    n_dead_tup,'',
    ''    round(100.0 * n_dead_tup / NULLIF(n_live_tup + n_dead_tup, 0), 2) '' @
      ''AS dead_tuple_pct,'',
    ''    last_vacuum,'',
    ''    last_autovacuum,'',
    ''    last_analyze,'',
    ''    last_autoanalyze,'',
    ''    autovacuum_count,'',
    ''    vacuum_count'',
    ''FROM pg_stat_all_tables'',
    ''WHERE schemaname NOT IN ('pg_catalog', 'information_schema')'',
    ''ORDER BY n_dead_tup DESC'',
    ''LIMIT :top_n;'',
    ''''])\<close>

definition table_bloat_estimate :: string where
  \<open>table_bloat_estimate = strip_newlines (text_lines [
    '''',
    ''-- Lightweight, catalog-only bloat proxy: live/dead tuple ratio plus actual'',
    ''-- on-disk size vs. a rough expectation from reltuples. This is NOT as'',
    ''-- accurate as the pgstattuple extension's exact physical scan, but it'',
    ''-- requires no extension and no table lock, so it is safe to run against any'',
    ''-- table at any time -- use it for triage, and use pgstattuple (see'',
    ''-- 05_pgstattuple_exact_bloat.sql in this same directory, if present) for'',
    ''-- confirmation before scheduling a maintenance window.'',
    ''SELECT'',
    ''    n.nspname                                                   AS schema_name,'',
    ''    c.relname                                                   AS table_name,'',
    ''    pg_size_pretty(pg_relation_size(c.oid))                      AS heap_size,'',
    ''    pg_size_pretty(pg_total_relation_size(c.oid))                 AS total_size,'',
    ''    s.n_live_tup,'',
    ''    s.n_dead_tup,'',
    ''    round(100.0 * s.n_dead_tup / NULLIF(s.n_live_tup + s.n_dead_tup, '' @
      ''0), 2) AS dead_tuple_pct,'',
    ''    c.reltuples::bigint                                          AS '' @
      ''planner_row_estimate,'',
    ''    c.relpages                                                   AS heap_pages'',
    ''FROM pg_class c'',
    ''JOIN pg_namespace n ON n.oid = c.relnamespace'',
    ''JOIN pg_stat_all_tables s ON s.relid = c.oid'',
    ''WHERE c.relkind = 'r'' @ [CHR 0x27],
    ''  AND n.nspname NOT IN ('pg_catalog', 'information_schema')'',
    ''ORDER BY pg_total_relation_size(c.oid) DESC'',
    ''LIMIT 30;'',
    ''''])\<close>

definition pgstattuple_exact_bloat :: string where
  \<open>pgstattuple_exact_bloat = strip_newlines (text_lines [
    '''',
    ''-- Exact physical bloat via the pgstattuple extension, for the single'',
    ''-- largest ordinary user table in the current database (a bounded,'',
    ''-- automatic candidate -- edit the candidate_relation query below to target'',
    ''-- a specific table instead). Performs a full scan of that table (a light'',
    ''-- read lock, not a blocking lock) -- do not run this against your largest'',
    ''-- hot tables during peak trading hours without testing impact first;'',
    ''-- prefer pgstattuple_approx() for very large tables.'',
    ''--'',
    ''-- IMPORTANT: this script deliberately does NOT run `CREATE EXTENSION'',
    ''-- pgstattuple` -- that is a DDL/catalog-write operation that cannot execute'',
    ''-- under `default_transaction_read_only = on` (the recommended posture for'',
    ''-- an investigation script, and the default on an Aurora reader), and'',
    ''-- installing extensions is a change-managed decision, not something an'',
    ''-- ad hoc investigation script should do silently. If the extension is not'',
    ''-- installed, this prints an instructional notice instead of failing, and'',
    ''-- never references the pgstattuple() function by name unless the'',
    ''-- extension is confirmed present -- referencing a function that does not'',
    ''-- exist yet would otherwise fail at parse/analysis time even inside a'',
    ''-- branch that "looks" conditional.'',
    ''SELECT EXISTS ('',
    ''    SELECT 1 FROM pg_extension WHERE extname = 'pgstattuple'' @ [CHR 0x27],
    '')                                                                AS '' @
      ''pgstattuple_available'',
    CHR 0x5C # ''gset'',
    '''',
    CHR 0x5C # ''if :pgstattuple_available'',
    ''SELECT c.oid::regclass::text AS candidate_relation'',
    ''FROM pg_class c'',
    ''JOIN pg_namespace n ON n.oid = c.relnamespace'',
    ''WHERE c.relkind = 'r'' @ [CHR 0x27],
    ''  AND n.nspname NOT IN ('pg_catalog', 'information_schema', 'pg_toast')'',
    ''ORDER BY pg_total_relation_size(c.oid) DESC'',
    ''LIMIT 1'',
    CHR 0x5C # ''gset'',
    '''',
    ''SELECT'',
    ''    :'candidate_relation'                                       AS table_analyzed,'',
    ''    table_len,'',
    ''    tuple_count,'',
    ''    tuple_len,'',
    ''    round(100.0 * tuple_len / NULLIF(table_len, 0), 2)            AS tuple_pct,'',
    ''    dead_tuple_count,'',
    ''    dead_tuple_len,'',
    ''    round(100.0 * dead_tuple_len / NULLIF(table_len, 0), 2)       AS dead_tuple_pct,'',
    ''    free_space,'',
    ''    round(100.0 * free_space / NULLIF(table_len, 0), 2)           AS free_pct'',
    ''FROM pgstattuple(:'candidate_relation'::regclass);'',
    CHR 0x5C # ''else'',
    ''SELECT'',
    ''    'pgstattuple extension is not installed in this database. This script '' @ [CHR 0x27],
    ''    'never runs CREATE EXTENSION automatically (DDL is out of scope for a '' @ [CHR 0x27],
    ''    'read-only investigation script). Ask an administrator to run '' @ [CHR 0x27],
    ''    'CREATE EXTENSION pgstattuple; in a change-managed session if exact '' @ [CHR 0x27],
    ''    'physical bloat is required, or use 01_table_bloat_estimate.sql in this '' @ [CHR 0x27],
    ''    'same directory for a no-extension catalog-only proxy.'               AS notice;'',
    CHR 0x5C # ''endif'',
    ''''])\<close>

definition index_bloat_and_usage :: string where
  \<open>index_bloat_and_usage = strip_newlines (text_lines [
    '''',
    ''-- Index size, scan counts, and a simple size-per-row proxy for bloat.'',
    ''-- PostgreSQL 16+ also reports last_idx_scan/last_idx_tup_fetch/'',
    ''-- last_idx_tup_read (timestamps) on pg_stat_all_indexes, which are included'',
    ''-- here to show *when* an index was last actually useful, not just whether'',
    ''-- idx_scan is currently zero since the last stats reset.'',
    CHR 0x5C # ''set top_n 40'',
    ''SELECT'',
    ''    n.nspname                                                   AS schema_name,'',
    ''    c.relname                                                   AS table_name,'',
    ''    i.relname                                                   AS index_name,'',
    ''    pg_size_pretty(pg_relation_size(i.oid))                      AS index_size,'',
    ''    s.idx_scan,'',
    ''    s.idx_tup_read,'',
    ''    s.idx_tup_fetch,'',
    ''    s.last_idx_scan,'',
    ''    ix.indisunique,'',
    ''    ix.indisprimary,'',
    ''    ix.indisvalid'',
    ''FROM pg_index ix'',
    ''JOIN pg_class c ON c.oid = ix.indrelid'',
    ''JOIN pg_class i ON i.oid = ix.indexrelid'',
    ''JOIN pg_namespace n ON n.oid = c.relnamespace'',
    ''JOIN pg_stat_all_indexes s ON s.indexrelid = ix.indexrelid'',
    ''WHERE n.nspname NOT IN ('pg_catalog', 'information_schema')'',
    ''ORDER BY pg_relation_size(i.oid) DESC'',
    ''LIMIT :top_n;'',
    ''''])\<close>

definition unused_indexes :: string where
  \<open>unused_indexes = strip_newlines (text_lines [
    '''',
    ''-- Candidate unused indexes: idx_scan = 0 (or very low relative to table'',
    ''-- write volume) since the last stats reset, excluding indexes that back a'',
    ''-- primary key, unique, exclusion, or foreign-key-supporting constraint,'',
    ''-- since those often exist for correctness/latching reasons rather than'',
    ''-- query performance and must not be dropped purely on scan-count evidence.'',
    ''--'',
    ''-- IMPORTANT: idx_scan resets to zero on instance restart/failover and after'',
    ''-- pg_stat_reset(). Cross-check stats_reset on pg_stat_database and confirm'',
    ''-- the index has genuinely been unused across at least one full business'',
    ''-- cycle (including month-end/quarter-end batch jobs and reporting queries)'',
    ''-- before considering removal. Never drop an index based on this report'',
    ''-- alone.'',
    ''SELECT'',
    ''    n.nspname                                                   AS schema_name,'',
    ''    c.relname                                                   AS table_name,'',
    ''    i.relname                                                   AS index_name,'',
    ''    pg_size_pretty(pg_relation_size(i.oid))                      AS index_size,'',
    ''    s.idx_scan,'',
    ''    ix.indisunique,'',
    ''    ix.indisprimary,'',
    ''    EXISTS ('',
    ''        SELECT 1 FROM pg_constraint con'',
    ''        WHERE con.conindid = ix.indexrelid'',
    ''    )                                                            AS backs_constraint'',
    ''FROM pg_index ix'',
    ''JOIN pg_class c ON c.oid = ix.indrelid'',
    ''JOIN pg_class i ON i.oid = ix.indexrelid'',
    ''JOIN pg_namespace n ON n.oid = c.relnamespace'',
    ''JOIN pg_stat_all_indexes s ON s.indexrelid = ix.indexrelid'',
    ''WHERE n.nspname NOT IN ('pg_catalog', 'information_schema')'',
    ''  AND s.idx_scan = 0'',
    ''  AND NOT ix.indisprimary'',
    ''  AND NOT EXISTS (SELECT 1 FROM pg_constraint con WHERE con.conindid = '' @
      ''ix.indexrelid)'',
    ''ORDER BY pg_relation_size(i.oid) DESC;'',
    ''''])\<close>

definition duplicate_indexes :: string where
  \<open>duplicate_indexes = strip_newlines (text_lines [
    '''',
    ''-- Indexes on the same table with identical column lists (indkey), access'',
    ''-- method, and expression/predicate signature -- true structural duplicates'',
    ''-- that waste storage and add write overhead without any query benefit.'',
    ''-- Compares the human-readable index definition rather than raw indkey'',
    ''-- arrays so expression indexes and partial indexes are also caught'',
    ''-- correctly.'',
    ''SELECT'',
    ''    n.nspname                                                    AS schema_name,'',
    ''    c.relname                                                    AS table_name,'',
    ''    array_agg(i.relname ORDER BY i.relname)                       AS '' @
      ''duplicate_index_names,'',
    ''    min(regexp_replace(pg_get_indexdef(ix.indexrelid), 'INDEX [^ ]+ ', '' @
      '''INDEX ', 1, 1)) AS normalized_definition,'',
    ''    count(*)                                                     AS duplicate_count,'',
    ''    pg_size_pretty(sum(pg_relation_size(i.oid)))                  AS combined_size'',
    ''FROM pg_index ix'',
    ''JOIN pg_class c ON c.oid = ix.indrelid'',
    ''JOIN pg_class i ON i.oid = ix.indexrelid'',
    ''JOIN pg_namespace n ON n.oid = c.relnamespace'',
    ''WHERE n.nspname NOT IN ('pg_catalog', 'information_schema')'',
    ''GROUP BY n.nspname, c.relname, ix.indrelid,'',
    ''         regexp_replace(pg_get_indexdef(ix.indexrelid), 'INDEX [^ ]+ ', '' @
      '''INDEX ', 1, 1)'',
    ''HAVING count(*) > 1'',
    ''ORDER BY combined_size DESC;'',
    ''''])\<close>

definition invalid_indexes :: string where
  \<open>invalid_indexes = strip_newlines (text_lines [
    '''',
    ''-- Indexes left in an INVALID state, almost always because a previous'',
    ''-- CREATE INDEX CONCURRENTLY or REINDEX CONCURRENTLY failed partway through'',
    ''-- (a killed session, statement_timeout, or deadlock). Invalid indexes are'',
    ''-- not used by the planner but still consume storage and slow down writes,'',
    ''-- so they should be dropped and, if needed, recreated concurrently.'',
    ''SELECT'',
    ''    n.nspname                                                   AS schema_name,'',
    ''    c.relname                                                   AS table_name,'',
    ''    i.relname                                                   AS index_name,'',
    ''    pg_size_pretty(pg_relation_size(i.oid))                      AS wasted_size,'',
    ''    pg_get_indexdef(ix.indexrelid)                               AS index_definition'',
    ''FROM pg_index ix'',
    ''JOIN pg_class c ON c.oid = ix.indrelid'',
    ''JOIN pg_class i ON i.oid = ix.indexrelid'',
    ''JOIN pg_namespace n ON n.oid = c.relnamespace'',
    ''WHERE NOT ix.indisvalid'',
    ''ORDER BY pg_relation_size(i.oid) DESC;'',
    ''''])\<close>

definition sequential_scan_heavy_tables :: string where
  \<open>sequential_scan_heavy_tables = strip_newlines (text_lines [
    '''',
    ''-- Tables where sequential scans dominate over index scans, weighted by'',
    ''-- table size, to prioritize the biggest opportunity first. A high seq_scan'',
    ''-- count alone is not necessarily bad (small lookup tables are often scanned'',
    ''-- sequentially by design and that is faster than an index scan) -- the'',
    ''-- seq_tup_read/seq_scan ratio and table size are what indicate a genuinely'',
    ''-- expensive full-table scan pattern.'',
    CHR 0x5C # ''set top_n 30'',
    ''SELECT'',
    ''    schemaname                                                  AS schema_name,'',
    ''    relname                                                     AS table_name,'',
    ''    seq_scan,'',
    ''    seq_tup_read,'',
    ''    round(seq_tup_read::numeric / NULLIF(seq_scan, 0), 0)         AS '' @
      ''avg_rows_per_seq_scan,'',
    ''    idx_scan,'',
    ''    pg_size_pretty(pg_relation_size(relid))                       AS table_size,'',
    ''    n_live_tup'',
    ''FROM pg_stat_all_tables'',
    ''WHERE schemaname NOT IN ('pg_catalog', 'information_schema')'',
    ''  AND seq_scan > 0'',
    ''ORDER BY seq_tup_read DESC'',
    ''LIMIT :top_n;'',
    ''''])\<close>

definition foreign_keys_missing_index :: string where
  \<open>foreign_keys_missing_index = strip_newlines (text_lines [
    '''',
    ''-- Foreign key constraints whose referencing columns have no supporting'',
    ''-- index on the child table. Unindexed FKs commonly cause full-table'',
    ''-- sequential scans on the child table whenever the parent row is updated or'',
    ''-- deleted (to check for dependents) and are one of the most common'',
    ''-- "missing index candidate" findings in ledger/order/account schemas with'',
    ''-- deep FK graphs.'',
    ''SELECT'',
    ''    con.conname                                                 AS constraint_name,'',
    ''    tn.nspname                                                  AS child_schema,'',
    ''    tc.relname                                                  AS child_table,'',
    ''    pg_get_constraintdef(con.oid)                                AS '' @
      ''constraint_definition'',
    ''FROM pg_constraint con'',
    ''JOIN pg_class tc ON tc.oid = con.conrelid'',
    ''JOIN pg_namespace tn ON tn.oid = tc.relnamespace'',
    ''WHERE con.contype = 'f'' @ [CHR 0x27],
    ''  AND NOT EXISTS ('',
    ''      SELECT 1'',
    ''      FROM pg_index ix'',
    ''      WHERE ix.indrelid = con.conrelid'',
    ''        -- Leftmost-prefix match: the index's first N columns (N = number of'',
    ''        -- FK columns) must exactly equal the FK's referencing columns, in'',
    ''        -- the same order, for the index to actually support the FK's'',
    ''        -- lookup/cascade pattern.'',
    ''        AND (ix.indkey::int2[])[0:array_length(con.conkey, 1) - 1] = con.conkey'',
    ''  )'',
    ''ORDER BY child_schema, child_table;'',
    ''''])\<close>

definition statistics_freshness :: string where
  \<open>statistics_freshness = strip_newlines (text_lines [
    '''',
    ''-- Tables whose planner statistics may be stale relative to how much the'',
    ''-- table has changed since the last ANALYZE. n_mod_since_analyze counts'',
    ''-- inserts+updates+deletes since the last analyze; a large value relative to'',
    ''-- table size means the planner's row estimates (and therefore its join'',
    ''-- order / index choice) can be significantly wrong.'',
    CHR 0x5C # ''set top_n 30'',
    ''SELECT'',
    ''    schemaname                                                  AS schema_name,'',
    ''    relname                                                     AS table_name,'',
    ''    n_live_tup,'',
    ''    n_mod_since_analyze,'',
    ''    round(100.0 * n_mod_since_analyze / NULLIF(n_live_tup, 0), 2) AS '' @
      ''pct_modified_since_analyze,'',
    ''    last_analyze,'',
    ''    last_autoanalyze'',
    ''FROM pg_stat_all_tables'',
    ''WHERE schemaname NOT IN ('pg_catalog', 'information_schema')'',
    ''ORDER BY pct_modified_since_analyze DESC NULLS LAST'',
    ''LIMIT :top_n;'',
    ''''])\<close>

definition pgss_top_by_total_time :: string where
  \<open>pgss_top_by_total_time = strip_newlines (text_lines [
    '''',
    ''-- Top statements by total execution time -- the single best "where is the'',
    ''-- database spending its time" view. Requires the pg_stat_statements'',
    ''-- extension to be created in the current database and'',
    ''-- shared_preload_libraries to include pg_stat_statements at the cluster'',
    ''-- level (an Aurora/RDS parameter-group change requiring a reboot to apply).'',
    CHR 0x5C # ''set top_n 20'',
    ''SELECT'',
    ''    userid::regrole                                             AS run_as_role,'',
    ''    queryid,'',
    ''    calls,'',
    ''    round(total_exec_time::numeric, 2)                            AS '' @
      ''total_exec_time_ms,'',
    ''    round(mean_exec_time::numeric, 2)                             AS '' @
      ''mean_exec_time_ms,'',
    ''    rows,'',
    ''    round(100.0 * shared_blks_hit / NULLIF(shared_blks_hit + '' @
      ''shared_blks_read, 0), 2) AS cache_hit_pct,'',
    ''    temp_blks_written,'',
    ''    left(query, 200)                                              AS query_snippet'',
    ''FROM pg_stat_statements'',
    ''WHERE dbid = (SELECT oid FROM pg_database WHERE datname = current_database())'',
    ''ORDER BY total_exec_time DESC'',
    ''LIMIT :top_n;'',
    ''''])\<close>

definition pgss_top_by_mean_time :: string where
  \<open>pgss_top_by_mean_time = strip_newlines (text_lines [
    '''',
    ''-- Top statements by mean execution time, restricted to statements called at'',
    ''-- least :min_calls times so a single slow one-off migration query does not'',
    ''-- crowd out genuinely slow, frequently-run application queries.'',
    CHR 0x5C # ''set top_n 20'',
    CHR 0x5C # ''set min_calls 20'',
    ''SELECT'',
    ''    queryid,'',
    ''    calls,'',
    ''    round(mean_exec_time::numeric, 2)                             AS '' @
      ''mean_exec_time_ms,'',
    ''    round(stddev_exec_time::numeric, 2)                           AS '' @
      ''stddev_exec_time_ms,'',
    ''    round(max_exec_time::numeric, 2)                              AS '' @
      ''max_exec_time_ms,'',
    ''    rows,'',
    ''    left(query, 200)                                              AS query_snippet'',
    ''FROM pg_stat_statements'',
    ''WHERE dbid = (SELECT oid FROM pg_database WHERE datname = current_database())'',
    ''  AND calls >= :min_calls'',
    ''ORDER BY mean_exec_time DESC'',
    ''LIMIT :top_n;'',
    ''''])\<close>

definition pgss_top_by_calls :: string where
  \<open>pgss_top_by_calls = strip_newlines (text_lines [
    '''',
    ''-- Top statements by call frequency. Extremely high-frequency, low-latency'',
    ''-- statements are exactly what you expect for an OLTP/order-book workload;'',
    ''-- the interesting signal is a sudden large increase in calls for a given'',
    ''-- queryid between two snapshots (application retry storm, N+1 query'',
    ''-- pattern, or a newly deployed hot loop), so save this output and diff it'',
    ''-- across incidents.'',
    CHR 0x5C # ''set top_n 20'',
    ''SELECT'',
    ''    queryid,'',
    ''    calls,'',
    ''    round(total_exec_time::numeric, 2)                            AS '' @
      ''total_exec_time_ms,'',
    ''    round(mean_exec_time::numeric, 4)                             AS '' @
      ''mean_exec_time_ms,'',
    ''    rows,'',
    ''    left(query, 200)                                              AS query_snippet'',
    ''FROM pg_stat_statements'',
    ''WHERE dbid = (SELECT oid FROM pg_database WHERE datname = current_database())'',
    ''ORDER BY calls DESC'',
    ''LIMIT :top_n;'',
    ''''])\<close>

definition pgss_temp_and_io_heavy :: string where
  \<open>pgss_temp_and_io_heavy = strip_newlines (text_lines [
    '''',
    ''-- Statements generating the most temp file I/O and shared buffer reads --'',
    ''-- a direct indicator of work_mem being too small for a sort/hash/group-by,'',
    ''-- or of a query reading far more data (a poor index choice, a missing'',
    ''-- predicate) than a well-planned query should need.'',
    ''--'',
    ''-- IMPORTANT (verified against Aurora PostgreSQL 17.7): pg_stat_statements'',
    ''-- 1.11, bundled with PostgreSQL/Aurora PostgreSQL 17, split the older'',
    ''-- generic blk_read_time/blk_write_time columns into separate'',
    ''-- shared/local/temp variants -- shared_blk_read_time, shared_blk_write_time,'',
    ''-- local_blk_read_time, local_blk_write_time, temp_blk_read_time,'',
    ''-- temp_blk_write_time. The bare blk_read_time/blk_write_time column names'',
    ''-- no longer exist at all on 17, so referencing them raises "column does'',
    ''-- not exist" rather than returning zero. This script reads'',
    ''-- shared_blk_read_time (the direct 1.11 successor covering ordinary shared'',
    ''-- buffer reads, which is what this script is measuring) instead.'',
    CHR 0x5C # ''set top_n 20'',
    ''SELECT'',
    ''    queryid,'',
    ''    calls,'',
    ''    temp_blks_written,'',
    ''    temp_blks_read,'',
    ''    shared_blks_read,'',
    ''    round(shared_blk_read_time::numeric, 2)                       AS '' @
      ''shared_blk_read_time_ms,'',
    ''    round(mean_exec_time::numeric, 2)                             AS '' @
      ''mean_exec_time_ms,'',
    ''    left(query, 200)                                              AS query_snippet'',
    ''FROM pg_stat_statements'',
    ''WHERE dbid = (SELECT oid FROM pg_database WHERE datname = current_database())'',
    ''  AND (temp_blks_written > 0 OR temp_blks_read > 0)'',
    ''ORDER BY temp_blks_written DESC'',
    ''LIMIT :top_n;'',
    ''''])\<close>

definition pgss_wal_heavy :: string where
  \<open>pgss_wal_heavy = strip_newlines (text_lines [
    '''',
    ''-- Statements generating the most WAL, ranked by total WAL bytes. High'',
    ''-- WAL-generating statements are the primary driver of replica lag (Aurora'',
    ''-- readers must apply the same redo the writer generates) and of storage'',
    ''-- growth; this is the first place to look when replication lag or storage'',
    ''-- growth correlates with a specific workload rather than overall volume.'',
    ''--'',
    ''-- CAVEAT (observed on Aurora PostgreSQL 17.7): pg_stat_statements'' @ [CHR 0x27],
    ''-- wal_records/wal_fpi/wal_bytes columns have been observed reporting 0 for'',
    ''-- some write-heavy INSERT/UPDATE statements, even though those statements'',
    ''-- are demonstrably generating WAL (visible via pg_stat_wal / rising storage'',
    ''-- growth). Treat a 0 here as "not observed via this instrumentation path'',
    ''-- for this statement on this engine version" -- NOT as proof the statement'',
    ''-- generates no WAL. Corroborate with storage-and-capacity/wal-generation'',
    ''-- (cluster-wide pg_stat_wal totals) before concluding a specific statement'',
    ''-- is WAL-cheap.'',
    CHR 0x5C # ''set top_n 20'',
    ''SELECT'',
    ''    queryid,'',
    ''    calls,'',
    ''    wal_records,'',
    ''    wal_fpi,'',
    ''    pg_size_pretty(wal_bytes)                                     AS total_wal,'',
    ''    pg_size_pretty((wal_bytes / NULLIF(calls, 0))::bigint)         AS '' @
      ''avg_wal_per_call,'',
    ''    CASE WHEN wal_bytes = 0'',
    ''         THEN 'zero reported -- not observed/unavailable on this engine '' @
      ''version, not proof of no WAL (see script header)'' @ [CHR 0x27],
    ''         ELSE NULL'',
    ''    END                                                            AS '' @
      ''wal_reporting_caveat,'',
    ''    left(query, 200)                                              AS query_snippet'',
    ''FROM pg_stat_statements'',
    ''WHERE dbid = (SELECT oid FROM pg_database WHERE datname = current_database())'',
    ''ORDER BY wal_bytes DESC'',
    ''LIMIT :top_n;'',
    ''''])\<close>

end
