(* ===== verification/Sql_Blocks3.thy ===== *)
theory Sql_Blocks3
  imports Py_Str
begin

text \<open>
  The functions of \<^verbatim>\<open>tools/repo_builder/sql_blocks.py\<close> from \<open>database_sizes\<close> to \<open>key_settings_snapshot\<close>: each returns the text of a
  query, line by line as in the source.
\<close>

definition database_sizes :: string where
  \<open>database_sizes = strip_newlines (text_lines [
    '''',
    ''-- Size of every database in the cluster. On Aurora, this reflects logical'',
    ''-- object size as PostgreSQL reports it; actual billed storage is tracked'',
    ''-- separately by the Aurora storage layer (see AWS Console/CloudWatch'',
    ''-- VolumeBytesUsed, not a SQL-visible value) because Aurora storage grows in'',
    ''-- 10GiB increments and is shared/compressed across the cluster's'',
    ''-- replicas.'',
    ''SELECT'',
    ''    datname,'',
    ''    pg_size_pretty(pg_database_size(datname))                     AS database_size,'',
    ''    pg_database_size(datname)                                     AS '' @
      ''database_size_bytes'',
    ''FROM pg_database'',
    ''WHERE datallowconn'',
    ''ORDER BY pg_database_size(datname) DESC;'',
    ''''])\<close>

definition largest_tables :: string where
  \<open>largest_tables = strip_newlines (text_lines [
    '''',
    ''-- Largest tables in the current database by total size (heap + indexes +'',
    ''-- TOAST), which is what actually matters for storage capacity planning and'',
    ''-- I/O footprint.'',
    CHR 0x5C # ''set top_n 30'',
    ''SELECT'',
    ''    n.nspname                                                   AS schema_name,'',
    ''    c.relname                                                   AS table_name,'',
    ''    pg_size_pretty(pg_relation_size(c.oid))                       AS heap_size,'',
    ''    pg_size_pretty(pg_indexes_size(c.oid))                        AS index_size,'',
    ''    pg_size_pretty(pg_total_relation_size(c.oid))                 AS total_size,'',
    ''    c.reltuples::bigint                                          AS '' @
      ''estimated_row_count'',
    ''FROM pg_class c'',
    ''JOIN pg_namespace n ON n.oid = c.relnamespace'',
    ''WHERE c.relkind IN ('r', 'p')'',
    ''  AND n.nspname NOT IN ('pg_catalog', 'information_schema')'',
    ''ORDER BY pg_total_relation_size(c.oid) DESC'',
    ''LIMIT :top_n;'',
    ''''])\<close>

definition largest_indexes :: string where
  \<open>largest_indexes = strip_newlines (text_lines [
    '''',
    CHR 0x5C # ''set top_n 30'',
    ''SELECT'',
    ''    n.nspname                                                   AS schema_name,'',
    ''    t.relname                                                    AS table_name,'',
    ''    i.relname                                                    AS index_name,'',
    ''    pg_size_pretty(pg_relation_size(i.oid))                       AS index_size'',
    ''FROM pg_index ix'',
    ''JOIN pg_class t ON t.oid = ix.indrelid'',
    ''JOIN pg_class i ON i.oid = ix.indexrelid'',
    ''JOIN pg_namespace n ON n.oid = t.relnamespace'',
    ''WHERE n.nspname NOT IN ('pg_catalog', 'information_schema')'',
    ''ORDER BY pg_relation_size(i.oid) DESC'',
    ''LIMIT :top_n;'',
    ''''])\<close>

definition table_growth_rate_from_snapshot :: string where
  \<open>table_growth_rate_from_snapshot = strip_newlines (text_lines [
    '''',
    ''-- Table size growth over time requires two or more point-in-time samples.'',
    ''-- This query assumes you are periodically appending'',
    ''-- (now(), schemaname, relname, pg_total_relation_size(relid)) rows into a'',
    ''-- tracking table (see automation/growth-monitoring/ for a ready-to-schedule'',
    ''-- collector that creates and populates it) and computes growth between the'',
    ''-- earliest and latest sample in the retention window.'',
    ''--'',
    ''-- This tracking table is optional infrastructure, not a built-in catalog --'',
    ''-- on a database where the collector has never been deployed, the table'',
    ''-- will not exist yet. to_regclass() is used (rather than a bare'',
    ''-- `FROM dba_toolkit.table_size_history`, or a `::regclass` cast, both of'',
    ''-- which fail at parse/analysis time with "relation does not exist" the'',
    ''-- moment the statement is sent) so this script can detect that case and'',
    ''-- print an instructional notice instead of hard-failing.'',
    CHR 0x5C # ''set tracking_table 'dba_toolkit.table_size_history'' @ [CHR 0x27],
    CHR 0x5C # ''set lookback_days 30'',
    ''SELECT to_regclass(:'tracking_table') IS NOT NULL                AS '' @
      ''tracking_table_exists'',
    CHR 0x5C # ''gset'',
    '''',
    CHR 0x5C # ''if :tracking_table_exists'',
    ''SELECT'',
    ''    schema_name,'',
    ''    table_name,'',
    ''    min(size_bytes)  FILTER (WHERE captured_at = first_capture) AS start_size_bytes,'',
    ''    max(size_bytes)  FILTER (WHERE captured_at = last_capture)  AS end_size_bytes,'',
    ''    pg_size_pretty('',
    ''        (max(size_bytes) FILTER (WHERE captured_at = last_capture) -'',
    ''         min(size_bytes) FILTER (WHERE captured_at = first_capture))::bigint'',
    ''    )                                                            AS '' @
      ''growth_over_window'',
    ''FROM ('',
    ''    SELECT'',
    ''        schema_name,'',
    ''        table_name,'',
    ''        captured_at,'',
    ''        size_bytes,'',
    ''        min(captured_at) OVER (PARTITION BY schema_name, table_name) AS '' @
      ''first_capture,'',
    ''        max(captured_at) OVER (PARTITION BY schema_name, table_name) AS last_capture'',
    ''    FROM dba_toolkit.table_size_history'',
    ''    WHERE captured_at > now() - make_interval(days => :lookback_days)'',
    '') sized'',
    ''GROUP BY schema_name, table_name'',
    ''ORDER BY (max(size_bytes) - min(size_bytes)) DESC;'',
    CHR 0x5C # ''else'',
    ''SELECT'',
    ''    :'tracking_table' || ' does not exist in this database, so no growth-'' @ [CHR 0x27],
    ''    'over-time history is available yet. Deploy the collector in '' @ [CHR 0x27],
    ''    'automation/growth-monitoring/ (it creates this table and schedules a '' @ [CHR 0x27],
    ''    'periodic INSERT of current relation sizes) and re-run this script '' @ [CHR 0x27],
    ''    'after at least two collection intervals have elapsed. In the '' @ [CHR 0x27],
    ''    'meantime, use storage-and-capacity/table-growth for a single-point-in-'' @ [CHR 0x27],
    ''    'time size snapshot.'                                        AS notice;'',
    CHR 0x5C # ''endif'',
    ''''])\<close>

definition wal_activity :: string where
  \<open>wal_activity = strip_newlines (text_lines [
    '''',
    ''-- Cluster-wide WAL generation statistics since the last stats reset'',
    ''-- (pg_stat_wal, added in PostgreSQL 14 and unchanged in structure in 17).'',
    ''-- Sustained high wal_bytes correlates directly with Aurora storage I/O and'',
    ''-- with replica apply lag; compare two snapshots over a known time window to'',
    ''-- get a WAL bytes/sec rate.'',
    ''--'',
    ''-- IMPORTANT (verified against Aurora PostgreSQL 17.7): pg_stat_wal is'',
    ''-- present in the catalog on Aurora, but SELECTing it invokes the'',
    ''-- underlying pg_stat_get_wal() function, which Aurora PostgreSQL does not'',
    ''-- implement -- it raises "function pg_stat_get_wal() does not exist" even'',
    ''-- though standard community PostgreSQL 17 supports it. Aurora does not'',
    ''-- expose engine-internal WAL generation counters through this view at all'',
    ''-- (WAL/redo generation happens against Aurora's distributed storage layer,'',
    ''-- not local disk, so the community WAL-writer statistics this view'',
    ''-- describes do not map onto Aurora's architecture). Detect Aurora *before*'',
    ''-- ever sending a statement that references pg_stat_wal, so the'',
    ''-- unsupported view/function is never parsed/resolved on the Aurora'',
    ''-- execution path at all.'',
    ''--'',
    ''-- The detection below is a plain data-level check, never a call to an'',
    ''-- Aurora-only function itself (so nothing here can fail on non-Aurora'',
    ''-- PostgreSQL either): current_setting(name, missing_ok) is a stable core'',
    ''-- PostgreSQL function that returns NULL instead of raising when the named'',
    ''-- GUC does not exist, so it is safe to probe Aurora-only parameters with'',
    ''-- it on any engine. Three independent Aurora signals are OR'd together so'',
    ''-- a single naming/version quirk in one signal cannot cause a false'',
    ''-- negative that would fall through to the unsupported pg_stat_wal branch:'',
    ''--   1. the `aurora_version` GUC, which only exists on Aurora PostgreSQL'',
    ''--      (visible via `SHOW aurora_version;` on a real Aurora instance);'',
    ''--   2. the `rds.extensions` GUC, present on every RDS/Aurora PostgreSQL'',
    ''--      instance (never on self-managed/community PostgreSQL);'',
    ''--   3. the presence of the Aurora-specific aurora_version() SQL function'',
    ''--      in pg_proc (checked by name only -- a catalog lookup, not a call).'',
    ''SELECT ('',
    ''    current_setting('aurora_version', true) IS NOT NULL'',
    ''    OR current_setting('rds.extensions', true) IS NOT NULL'',
    ''    OR EXISTS (SELECT 1 FROM pg_proc WHERE proname = 'aurora_version')'',
    '')                                                                AS is_aurora'',
    CHR 0x5C # ''gset'',
    '''',
    CHR 0x5C # ''if :is_aurora'',
    ''SELECT'',
    ''    'NOT AVAILABLE on Aurora PostgreSQL'::text                    AS status,'',
    ''    'pg_stat_wal reports community PostgreSQL WAL-writer statistics that '' @ [CHR 0x27],
    ''    'rely on pg_stat_get_wal(), which Aurora PostgreSQL (verified through '' @ [CHR 0x27],
    ''    '17.7) does not implement -- querying pg_stat_wal here raises '' @ [CHR 0x27],
    ''    '"function pg_stat_get_wal() does not exist". Aurora'' @ CHR 0x27 # '''s WAL/redo '' @ [CHR 0x27],
    ''    'generation is written directly to the distributed storage layer, not '' @ [CHR 0x27],
    ''    'local disk, so use the CloudWatch VolumeWriteIOPs / '' @ [CHR 0x27],
    ''    'VolumeBytesUsed / WriteThroughput metrics, or the Performance '' @ [CHR 0x27],
    ''    'Insights wait-event breakdown (wal_write / wal_sync / Log wait '' @ [CHR 0x27],
    ''    'events), as the Aurora-native source for write/WAL volume instead.'' @ [CHR 0x27],
    ''                                                                   AS guidance;'',
    CHR 0x5C # ''else'',
    ''SELECT'',
    ''    wal_records,'',
    ''    wal_fpi,'',
    ''    pg_size_pretty(wal_bytes)                                    AS total_wal_bytes,'',
    ''    wal_buffers_full,'',
    ''    wal_write,'',
    ''    wal_sync,'',
    ''    round(wal_write_time::numeric, 2)                             AS '' @
      ''wal_write_time_ms,'',
    ''    round(wal_sync_time::numeric, 2)                              AS '' @
      ''wal_sync_time_ms,'',
    ''    stats_reset'',
    ''FROM pg_stat_wal;'',
    CHR 0x5C # ''endif'',
    ''''])\<close>

definition checkpoint_activity :: string where
  \<open>checkpoint_activity = strip_newlines (text_lines [
    '''',
    ''-- Checkpointer statistics. PostgreSQL 17 moved these counters out of'',
    ''-- pg_stat_bgwriter into their own pg_stat_checkpointer view -- do not query'',
    ''-- pg_stat_bgwriter for checkpoint counters on 17, they no longer exist'',
    ''-- there. Frequent num_requested (forced) checkpoints relative to num_timed'',
    ''-- (scheduled) checkpoints indicates checkpoint_timeout/max_wal_size are too'',
    ''-- small for the current write rate.'',
    ''SELECT'',
    ''    num_timed,'',
    ''    num_requested,'',
    ''    round('',
    ''        100.0 * num_requested / NULLIF(num_timed + num_requested, 0), 2'',
    ''    )                                                            AS '' @
      ''pct_forced_checkpoints,'',
    ''    buffers_written,'',
    ''    round(write_time::numeric, 2)                                 AS write_time_ms,'',
    ''    round(sync_time::numeric, 2)                                  AS sync_time_ms,'',
    ''    stats_reset'',
    ''FROM pg_stat_checkpointer;'',
    ''''])\<close>

definition bgwriter_activity :: string where
  \<open>bgwriter_activity = strip_newlines (text_lines [
    '''',
    ''-- Background writer activity (PG17 pg_stat_bgwriter is now limited to'',
    ''-- non-checkpoint buffer writes: buffers_clean/maxwritten_clean/'',
    ''-- buffers_alloc). Per-backend-type I/O detail, including buffers written'',
    ''-- directly by backends under memory pressure, moved to pg_stat_io in'',
    ''-- PostgreSQL 16+; query that view for the fuller I/O breakdown.'',
    ''SELECT'',
    ''    buffers_clean,'',
    ''    maxwritten_clean,'',
    ''    buffers_alloc,'',
    ''    stats_reset'',
    ''FROM pg_stat_bgwriter;'',
    ''''])\<close>

definition pg_stat_io_summary :: string where
  \<open>pg_stat_io_summary = strip_newlines (text_lines [
    '''',
    ''-- Per-backend-type I/O statistics (added PostgreSQL 16, still current in'',
    ''-- 17). Useful to see whether I/O pressure is coming from regular client'',
    ''-- backends, autovacuum workers, or background writer/checkpointer activity.'',
    ''--'',
    ''-- IMPORTANT (verified against Aurora PostgreSQL 17.7): pg_stat_io on'',
    ''-- PostgreSQL 17 does NOT have read_bytes/write_bytes/extend_bytes columns'',
    ''-- -- those were only added in PostgreSQL 18. On 17, every I/O operation is'',
    ''-- the same fixed size, reported separately as `op_bytes` (typically 8192,'',
    ''-- one buffer page), so the actual byte volume must be derived numerically'',
    ''-- as reads * op_bytes / writes * op_bytes rather than read directly.'',
    ''-- Referencing read_bytes/write_bytes directly on 17 raises'',
    ''-- "column does not exist".'',
    ''SELECT'',
    ''    backend_type,'',
    ''    object,'',
    ''    context,'',
    ''    reads,'',
    ''    op_bytes,'',
    ''    pg_size_pretty((reads * op_bytes)::numeric)                   AS '' @
      ''read_bytes_derived,'',
    ''    writes,'',
    ''    pg_size_pretty((writes * op_bytes)::numeric)                  AS '' @
      ''write_bytes_derived,'',
    ''    extends,'',
    ''    hits,'',
    ''    round(read_time::numeric, 2)                                  AS read_time_ms,'',
    ''    round(write_time::numeric, 2)                                 AS write_time_ms'',
    ''FROM pg_stat_io'',
    ''WHERE reads > 0 OR writes > 0 OR hits > 0'',
    ''ORDER BY (reads * op_bytes) DESC NULLS LAST;'',
    ''''])\<close>

definition temp_file_usage_by_database :: string where
  \<open>temp_file_usage_by_database = strip_newlines (text_lines [
    '''',
    ''-- Cumulative temp file counters per database. A rising temp_bytes rate'',
    ''-- indicates queries are spilling sorts/hashes/materializations to disk,'',
    ''-- most often because work_mem is undersized for the actual query shapes'',
    ''-- running in production, or because statistics are stale and the planner'',
    ''-- underestimates row counts.'',
    ''SELECT'',
    ''    datname,'',
    ''    temp_files,'',
    ''    pg_size_pretty(temp_bytes)                                    AS '' @
      ''temp_bytes_total,'',
    ''    stats_reset'',
    ''FROM pg_stat_database'',
    ''WHERE datname IS NOT NULL'',
    ''ORDER BY temp_bytes DESC;'',
    ''''])\<close>

definition cluster_recovery_role :: string where
  \<open>cluster_recovery_role = strip_newlines (text_lines [
    '''',
    ''-- Is this instance currently a writer or a reader? On Aurora, every reader'',
    ''-- instance is always in continuous recovery mode (pg_is_in_recovery() ='',
    ''-- true), even though it is not a traditional PostgreSQL physical standby --'',
    ''-- it is replaying redo log records shipped from the shared Aurora storage'',
    ''-- layer, not a WAL stream from the writer. Always confirm this before'',
    ''-- interpreting any other replication-related query on this connection.'',
    ''SELECT'',
    ''    pg_is_in_recovery()                                          AS '' @
      ''is_reader_instance,'',
    ''    CASE WHEN pg_is_in_recovery()'',
    ''         THEN 'This connection is to an Aurora reader instance (or a '' @
      ''standard PostgreSQL physical replica).'' @ [CHR 0x27],
    ''         ELSE 'This connection is to the Aurora writer instance (or a '' @
      ''standalone/primary PostgreSQL server).'' @ [CHR 0x27],
    ''    END                                                           AS '' @
      ''role_description;'',
    ''''])\<close>

definition standard_streaming_replication_status :: string where
  \<open>standard_streaming_replication_status = strip_newlines (text_lines [
    '''',
    ''-- Standard PostgreSQL streaming replication status, as seen from the writer.'',
    ''-- IMPORTANT (Aurora-specific): this view only shows genuine WAL-streaming'',
    ''-- consumers -- e.g. a logical replication subscriber, an external physical'',
    ''-- replica, or AWS DMS -- connected to this instance. It does NOT show'',
    ''-- Aurora's own reader instances, because Aurora readers do not attach as'',
    ''-- standard streaming replicas; they read redo records from the shared'',
    ''-- Aurora storage volume through an internal mechanism that is invisible to'',
    ''-- pg_stat_replication. Use aurora_replica_status() (writer or reader) or'',
    ''-- the AWS Console/CloudWatch AuroraReplicaLag metric to observe Aurora'',
    ''-- reader lag; never assume an empty pg_stat_replication result means "no'',
    ''-- replicas" on Aurora.'',
    ''SELECT'',
    ''    pid,'',
    ''    usename,'',
    ''    application_name,'',
    ''    client_addr,'',
    ''    state,'',
    ''    sync_state,'',
    ''    write_lag,'',
    ''    flush_lag,'',
    ''    replay_lag'',
    ''FROM pg_stat_replication'',
    ''ORDER BY replay_lag DESC NULLS LAST;'',
    ''''])\<close>

definition aurora_replica_status :: string where
  \<open>aurora_replica_status = strip_newlines (text_lines [
    '''',
    ''-- Aurora-specific cluster-wide replica status and lag, callable from any'',
    ''-- instance in the cluster (writer or reader). This is the correct,'',
    ''-- Aurora-native way to check reader lag -- it reflects the actual Aurora'',
    ''-- storage-layer replication mechanism, not standard PostgreSQL streaming'',
    ''-- replication. The exact column set has evolved across Aurora PostgreSQL'',
    ''-- engine releases, so this script selects all columns explicitly via'',
    ''-- information_schema-free SELECT * (a documented, deliberate exception to'',
    ''-- the "no bare SELECT *" rule, since the function's return type is'',
    ''-- engine-version-defined rather than a fixed catalog): confirm the columns'',
    ''-- returned in your environment with '' @ CHR 0x5C # ''x and adjust downstream automation'',
    ''-- accordingly.'',
    ''SELECT *'',
    ''FROM aurora_replica_status()'',
    ''ORDER BY 1;'',
    ''''])\<close>

definition replication_slots_and_wal_retention :: string where
  \<open>replication_slots_and_wal_retention = strip_newlines (text_lines [
    '''',
    ''-- Combines replication slot lag with current WAL position to flag slots'',
    ''-- that are retaining an unusually large amount of WAL. On Aurora, WAL'',
    ''-- retained by an inactive or lagging logical replication slot still'',
    ''-- consumes storage on the cluster volume and can eventually force'',
    ''-- corrective action (dropping the slot) if the consumer cannot be'',
    ''-- recovered.'',
    ''--'',
    ''-- IMPORTANT (verified against Aurora PostgreSQL 17.7): pg_current_wal_lsn()'',
    ''-- is not available on Aurora -- detect Aurora first via a safe,'',
    ''-- catalog/GUC-only check (never a call to an Aurora-only function itself,'',
    ''-- so this never fails on non-Aurora PostgreSQL either) and never send a'',
    ''-- statement referencing pg_current_wal_lsn() on the Aurora execution path'',
    ''-- at all. On Aurora, per-slot retained WAL still cannot be sized from'',
    ''-- SQL; report retention via wal_status instead (a slot already reports'',
    ''-- 'lost'/'extended'/'unreserved' there) and point at CloudWatch/'',
    ''-- aurora_replica_status() for volume-level WAL retention pressure.'',
    CHR 0x5C # ''set retained_wal_warning_gb 50'',
    ''SELECT ('',
    ''    current_setting('aurora_version', true) IS NOT NULL'',
    ''    OR current_setting('rds.extensions', true) IS NOT NULL'',
    ''    OR EXISTS (SELECT 1 FROM pg_proc WHERE proname = 'aurora_version')'',
    '')                                                                AS is_aurora'',
    CHR 0x5C # ''gset'',
    '''',
    CHR 0x5C # ''if :is_aurora'',
    ''SELECT'',
    ''    slot_name,'',
    ''    slot_type,'',
    ''    active,'',
    ''    wal_status,'',
    ''    'NOT AVAILABLE on Aurora (see wal_status and the guidance column)'::text'',
    ''                                                                  AS retained_wal,'',
    ''    NULL::boolean                                                AS '' @
      ''exceeds_warning_threshold,'',
    ''    'pg_current_wal_lsn() is not available on Aurora PostgreSQL, so retained '' @ [CHR 0x27],
    ''    'WAL cannot be sized in bytes from SQL here. A wal_status of '' @ CHR 0x27 # '''lost'' @ CHR 0x27 # ''' or '' @ [CHR 0x27],
    ''    '' @ CHR 0x27 # CHR 0x27 # '''extended'' @ CHR 0x27 # ''' already signals a slot that has fallen dangerously behind; '' @ [CHR 0x27],
    ''    'use CloudWatch (VolumeBytesUsed trend, ReplicaLag) or '' @ [CHR 0x27],
    ''    'aurora_replica_status() for cluster-wide storage-layer WAL retention '' @ [CHR 0x27],
    ''    'pressure instead.'                                          AS guidance'',
    ''FROM pg_replication_slots'',
    ''ORDER BY slot_name;'',
    CHR 0x5C # ''else'',
    ''-- NOTE: the threshold is cast to numeric BEFORE multiplying by 1024^3.'',
    ''-- pg_wal_lsn_diff() returns numeric, but the psql-substituted literal'',
    ''-- ":retained_wal_warning_gb" is a bare integer constant; PostgreSQL infers'',
    ''-- an int4 literal type for "50 * 1024 * 1024 * 1024" left-to-right before'',
    ''-- ever comparing it against the numeric LSN diff, and that intermediate'',
    ''-- product (~53.7 billion) overflows int4 (max ~2.1 billion), raising'',
    ''-- "integer out of range" -- casting the threshold to numeric first forces'',
    ''-- numeric arithmetic throughout and avoids the overflow entirely.'',
    ''SELECT'',
    ''    slot_name,'',
    ''    slot_type,'',
    ''    active,'',
    ''    wal_status,'',
    ''    pg_size_pretty(pg_wal_lsn_diff(pg_current_wal_lsn(), restart_lsn)) '' @
      ''AS retained_wal,'',
    ''    pg_wal_lsn_diff(pg_current_wal_lsn(), restart_lsn) >'',
    ''        (:retained_wal_warning_gb::numeric * 1024 * 1024 * 1024)    AS '' @
      ''exceeds_warning_threshold,'',
    ''    NULL::text                                                      AS guidance'',
    ''FROM pg_replication_slots'',
    ''ORDER BY pg_wal_lsn_diff(pg_current_wal_lsn(), restart_lsn) DESC;'',
    CHR 0x5C # ''endif'',
    ''''])\<close>

definition key_settings_snapshot :: string where
  \<open>key_settings_snapshot = strip_newlines (text_lines [
    '''',
    ''-- Snapshot of the settings that most commonly explain performance and'',
    ''-- concurrency behavior differences between environments. On Aurora, most of'',
    ''-- these are controlled by the DB cluster parameter group (values shared by'',
    ''-- all instances) or the DB instance parameter group (writer/reader-specific'',
    ''-- overrides), not postgresql.conf -- use the AWS Console/CLI'',
    ''-- (describe-db-cluster-parameters / describe-db-parameters) to change them,'',
    ''-- not ALTER SYSTEM, which Aurora does not support for most parameters.'',
    ''SELECT'',
    ''    name,'',
    ''    setting,'',
    ''    unit,'',
    ''    category,'',
    ''    short_desc,'',
    ''    context'',
    ''FROM pg_settings'',
    ''WHERE name IN ('',
    ''    'max_connections', 'shared_buffers', 'work_mem', 'maintenance_work_mem','',
    ''    'effective_cache_size', 'autovacuum', 'autovacuum_max_workers','',
    ''    'autovacuum_naptime', 'autovacuum_vacuum_cost_limit','',
    ''    'autovacuum_freeze_max_age', 'autovacuum_multixact_freeze_max_age','',
    ''    'checkpoint_timeout', 'max_wal_size', 'statement_timeout','',
    ''    'idle_in_transaction_session_timeout', 'lock_timeout','',
    ''    'log_lock_waits', 'deadlock_timeout', 'track_io_timing','',
    ''    'shared_preload_libraries', 'random_page_cost', 'effective_io_concurrency'' @ [CHR 0x27],
    '')'',
    ''ORDER BY name;'',
    ''''])\<close>

end
