(* ===== verification/Sql_Blocks4.thy ===== *)
theory Sql_Blocks4
  imports Py_Str
begin

text \<open>
  The functions of \<^verbatim>\<open>tools/repo_builder/sql_blocks.py\<close> from \<open>extension_inventory\<close> to \<open>target_table_size_detail\<close>: each returns the text of a
  query, line by line as in the source.
\<close>

definition extension_inventory :: string where
  \<open>extension_inventory = strip_newlines (text_lines [
    '''',
    ''-- Extensions currently installed in this database vs. what Aurora'',
    ''-- PostgreSQL makes available. Many investigation scripts in this toolkit'',
    ''-- depend on pg_stat_statements (query stats) and/or pgstattuple (exact'',
    ''-- bloat); confirm both are available/installed before relying on those'',
    ''-- scripts.'',
    ''SELECT'',
    ''    e.extname,'',
    ''    e.extversion,'',
    ''    n.nspname                                                   AS installed_schema'',
    ''FROM pg_extension e'',
    ''JOIN pg_namespace n ON n.oid = e.extnamespace'',
    ''ORDER BY e.extname;'',
    ''''])\<close>

definition available_extensions_check :: string where
  \<open>available_extensions_check = strip_newlines (text_lines [
    '''',
    ''-- Confirms whether a specific extension is available to install on this'',
    ''-- Aurora PostgreSQL instance (it may be available but not yet CREATE'',
    ''-- EXTENSION'd). Aurora PostgreSQL supports a curated allowlist of'',
    ''-- extensions per engine version; if an extension you need is missing from'',
    ''-- pg_available_extensions entirely (not just pg_extension), it is not'',
    ''-- supported on this Aurora engine version and must be requested via AWS'',
    ''-- support or worked around at the application layer.'',
    CHR 0x5C # ''set extension_name 'pg_stat_statements'' @ [CHR 0x27],
    ''SELECT'',
    ''    name,'',
    ''    default_version,'',
    ''    installed_version,'',
    ''    comment'',
    ''FROM pg_available_extensions'',
    ''WHERE name = :'extension_name';'',
    ''''])\<close>

definition current_role_privileges :: string where
  \<open>current_role_privileges = strip_newlines (text_lines [
    '''',
    ''-- What the currently connected role can actually do: superuser-equivalent'',
    ''-- Aurora role membership, and the built-in monitoring roles that grant'',
    ''-- read access to statistics views without needing broader privileges. On'',
    ''-- Aurora/RDS, the true "superuser" is reserved for AWS-managed processes;'',
    ''-- the bootstrap application user is typically only a member of'',
    ''-- rds_superuser, which is intentionally weaker (no filesystem/OS access).'',
    ''SELECT'',
    ''    r.rolname,'',
    ''    r.rolsuper,'',
    ''    r.rolcreaterole,'',
    ''    r.rolcreatedb,'',
    ''    r.rolreplication,'',
    ''    r.rolbypassrls,'',
    ''    ARRAY('',
    ''        SELECT b.rolname'',
    ''        FROM pg_auth_members m'',
    ''        JOIN pg_roles b ON b.oid = m.roleid'',
    ''        WHERE m.member = r.oid'',
    ''    )                                                            AS member_of_roles'',
    ''FROM pg_roles r'',
    ''WHERE r.rolname = current_user;'',
    ''''])\<close>

definition schema_sizes :: string where
  \<open>schema_sizes = strip_newlines (text_lines [
    '''',
    ''-- On-disk footprint of every user schema in the current database (heap +'',
    ''-- indexes + TOAST for every relation the schema owns). On a crypto-exchange'',
    ''-- schema layout this is the fastest way to attribute growth to a business'',
    ''-- domain: the trading path (orders, trades, order_book_snapshots), the'',
    ''-- money path (wallets, ledger_entries, deposits, withdrawals), or an'',
    ''-- audit/compliance schema nobody has ever pruned.'',
    ''--'',
    ''-- Partitioned parents (relkind 'p') have no storage of their own; their'',
    ''-- partitions are separate 'r' relations and are counted individually, so'',
    ''-- there is no double counting here.'',
    ''SELECT'',
    ''    n.nspname                                                    AS schema_name,'',
    ''    count(*)                                                     AS relation_count,'',
    ''    pg_size_pretty(sum(pg_total_relation_size(c.oid)))            AS total_size,'',
    ''    sum(pg_total_relation_size(c.oid))                            AS '' @
      ''total_size_bytes,'',
    ''    round('',
    ''        100.0 * sum(pg_total_relation_size(c.oid)) / NULLIF(('',
    ''            SELECT sum(pg_total_relation_size(c2.oid))'',
    ''            FROM pg_class c2'',
    ''            JOIN pg_namespace n2 ON n2.oid = c2.relnamespace'',
    ''            WHERE c2.relkind IN ('r', 'p', 'm')'',
    ''              AND n2.nspname NOT IN ('pg_catalog', 'information_schema')'',
    ''        ), 0), 2'',
    ''    )                                                            AS pct_of_user_data'',
    ''FROM pg_class c'',
    ''JOIN pg_namespace n ON n.oid = c.relnamespace'',
    ''WHERE c.relkind IN ('r', 'p', 'm')'',
    ''  AND n.nspname NOT IN ('pg_catalog', 'information_schema')'',
    ''GROUP BY n.nspname'',
    ''ORDER BY sum(pg_total_relation_size(c.oid)) DESC;'',
    ''''])\<close>

definition object_counts_by_schema :: string where
  \<open>object_counts_by_schema = strip_newlines (text_lines [
    '''',
    ''-- Object counts per user schema, broken down by relation kind. Storage'',
    ''-- growth is not always about row volume: a partitioned ledger table whose'',
    ''-- maintenance job creates daily partitions but never detaches old ones'',
    ''-- accumulates thousands of child relations and index entries, which inflates'',
    ''-- the system catalogs themselves, slows planning, and increases the'',
    ''-- per-relation lock footprint of every DDL statement touching the parent.'',
    ''SELECT'',
    ''    n.nspname                                                    AS schema_name,'',
    ''    count(*) FILTER (WHERE c.relkind = 'r')                       AS '' @
      ''ordinary_tables,'',
    ''    count(*) FILTER (WHERE c.relkind = 'p')                       AS '' @
      ''partitioned_parents,'',
    ''    count(*) FILTER (WHERE c.relkind = 'i')                       AS indexes,'',
    ''    count(*) FILTER (WHERE c.relkind = 'I')                       AS '' @
      ''partitioned_indexes,'',
    ''    count(*) FILTER (WHERE c.relkind = 'm')                       AS '' @
      ''materialized_views,'',
    ''    count(*) FILTER (WHERE c.relkind = 'v')                       AS views,'',
    ''    count(*) FILTER (WHERE c.relkind = 'S')                       AS sequences,'',
    ''    count(*)                                                     AS total_objects'',
    ''FROM pg_class c'',
    ''JOIN pg_namespace n ON n.oid = c.relnamespace'',
    ''WHERE n.nspname NOT IN ('pg_catalog', 'information_schema', 'pg_toast')'',
    ''GROUP BY n.nspname'',
    ''ORDER BY count(*) DESC;'',
    ''''])\<close>

definition table_size_components :: string where
  \<open>table_size_components = strip_newlines (text_lines [
    '''',
    ''-- Splits each large relation's footprint into its three physical'',
    ''-- components -- main heap fork, TOAST (out-of-line storage for wide values'',
    ''-- such as JSON order payloads, raw blockchain transaction bodies, or'',
    ''-- serialized order-book snapshots), and indexes -- so growth can be'',
    ''-- attributed to the right cause before any remediation is chosen.'',
    ''--'',
    ''-- pg_relation_size(oid) returns the main fork only; pg_indexes_size(oid)'',
    ''-- sums every index on the relation; the TOAST branch is guarded with a'',
    ''-- reltoastrelid <> 0 test because relations with no varlena columns have'',
    ''-- no TOAST relation at all.'',
    CHR 0x5C # ''set top_n 30'',
    ''SELECT'',
    ''    n.nspname                                                    AS schema_name,'',
    ''    c.relname                                                    AS table_name,'',
    ''    pg_size_pretty(pg_relation_size(c.oid))                       AS heap_main_fork,'',
    ''    pg_size_pretty('',
    ''        CASE WHEN c.reltoastrelid <> 0'',
    ''             THEN pg_total_relation_size(c.reltoastrelid)'',
    ''             ELSE 0 END'',
    ''    )                                                            AS toast_total,'',
    ''    pg_size_pretty(pg_indexes_size(c.oid))                        AS index_total,'',
    ''    pg_size_pretty(pg_total_relation_size(c.oid))                 AS grand_total,'',
    ''    round('',
    ''        100.0 * pg_indexes_size(c.oid)'',
    ''        / NULLIF(pg_total_relation_size(c.oid), 0), 1'',
    ''    )                                                            AS pct_indexes,'',
    ''    round('',
    ''        100.0 * (CASE WHEN c.reltoastrelid <> 0'',
    ''                      THEN pg_total_relation_size(c.reltoastrelid)'',
    ''                      ELSE 0 END)'',
    ''        / NULLIF(pg_total_relation_size(c.oid), 0), 1'',
    ''    )                                                            AS pct_toast,'',
    ''    c.reltuples::bigint                                          AS '' @
      ''estimated_row_count'',
    ''FROM pg_class c'',
    ''JOIN pg_namespace n ON n.oid = c.relnamespace'',
    ''WHERE c.relkind IN ('r', 'p', 'm')'',
    ''  AND n.nspname NOT IN ('pg_catalog', 'information_schema')'',
    ''ORDER BY pg_total_relation_size(c.oid) DESC'',
    ''LIMIT :top_n;'',
    ''''])\<close>

definition write_volume_by_table :: string where
  \<open>write_volume_by_table = strip_newlines (text_lines [
    '''',
    ''-- Row-level write volume per table since the last statistics reset. This is'',
    ''-- the single best in-database proxy for "which tables are actually driving'',
    ''-- storage and WAL growth", because every insert, every non-HOT update'',
    ''-- (which writes a whole new row version plus every index entry), and every'',
    ''-- delete (which leaves a dead tuple until vacuum reclaims it) contributes'',
    ''-- directly to both.'',
    ''--'',
    ''-- Counters are cumulative since the last reset; pg_stat_all_tables has no'',
    ''-- stats_reset column of its own, so read stats_reset from pg_stat_database'',
    ''-- for the current database to know what window these numbers cover.'',
    CHR 0x5C # ''set top_n 30'',
    ''SELECT'',
    ''    schemaname                                                  AS schema_name,'',
    ''    relname                                                     AS table_name,'',
    ''    n_tup_ins,'',
    ''    n_tup_upd,'',
    ''    n_tup_del,'',
    ''    n_tup_hot_upd,'',
    ''    n_tup_ins + n_tup_upd + n_tup_del                            AS '' @
      ''total_row_writes,'',
    ''    round(100.0 * n_tup_hot_upd / NULLIF(n_tup_upd, 0), 1)        AS '' @
      ''pct_hot_updates,'',
    ''    n_live_tup,'',
    ''    n_dead_tup,'',
    ''    pg_size_pretty(pg_total_relation_size(relid))                 AS total_size,'',
    ''    (SELECT stats_reset FROM pg_stat_database'',
    ''      WHERE datname = current_database())                        AS stats_reset'',
    ''FROM pg_stat_all_tables'',
    ''WHERE schemaname NOT IN ('pg_catalog', 'information_schema')'',
    ''ORDER BY (n_tup_ins + n_tup_upd + n_tup_del) DESC'',
    ''LIMIT :top_n;'',
    ''''])\<close>

definition index_to_table_size_ratio :: string where
  \<open>index_to_table_size_ratio = strip_newlines (text_lines [
    '''',
    ''-- Tables whose index footprint is large relative to their heap. A ratio'',
    ''-- above roughly 1.0 (more bytes in indexes than in the table itself) is'',
    ''-- normal for a narrow, heavily queried lookup table but is a strong'',
    ''-- over-indexing signal on a wide, write-heavy table such as an order or'',
    ''-- ledger table -- every extra index multiplies write amplification, WAL'',
    ''-- volume, and vacuum cost, not just stored bytes.'',
    CHR 0x5C # ''set top_n 30'',
    CHR 0x5C # ''set min_total_bytes 104857600'',
    ''SELECT'',
    ''    n.nspname                                                    AS schema_name,'',
    ''    c.relname                                                    AS table_name,'',
    ''    count(ix.indexrelid)                                         AS index_count,'',
    ''    pg_size_pretty(pg_relation_size(c.oid))                       AS heap_size,'',
    ''    pg_size_pretty(pg_indexes_size(c.oid))                        AS index_size,'',
    ''    round('',
    ''        pg_indexes_size(c.oid)::numeric'',
    ''        / NULLIF(pg_relation_size(c.oid), 0), 2'',
    ''    )                                                            AS '' @
      ''index_to_heap_ratio,'',
    ''    pg_size_pretty(pg_total_relation_size(c.oid))                 AS total_size'',
    ''FROM pg_class c'',
    ''JOIN pg_namespace n ON n.oid = c.relnamespace'',
    ''LEFT JOIN pg_index ix ON ix.indrelid = c.oid'',
    ''WHERE c.relkind IN ('r', 'p')'',
    ''  AND n.nspname NOT IN ('pg_catalog', 'information_schema')'',
    ''  AND pg_total_relation_size(c.oid) >= :min_total_bytes'',
    ''GROUP BY n.nspname, c.relname, c.oid'',
    ''ORDER BY (pg_indexes_size(c.oid)::numeric / NULLIF(pg_relation_size(c.oid), 0))'',
    ''         DESC NULLS LAST'',
    ''LIMIT :top_n;'',
    ''''])\<close>

definition create_index_progress :: string where
  \<open>create_index_progress = strip_newlines (text_lines [
    '''',
    ''-- Live progress of any index build currently running on this instance,'',
    ''-- read from pg_stat_progress_create_index. This covers both the blocking'',
    ''-- and the non-blocking build forms as well as reindex operations; the'',
    ''-- `command` column tells you which one is running.'',
    ''--'',
    ''-- The `phase` column is the key field: a build that is parked in'',
    ''-- "waiting for writers before validation" or "waiting for readers before'',
    ''-- marking dead" is not slow because of I/O -- it is waiting for older'',
    ''-- transactions to finish, and no amount of waiting will help until those'',
    ''-- transactions commit or are ended. `current_locker_pid` names the exact'',
    ''-- backend being waited on.'',
    ''SELECT'',
    ''    p.pid,'',
    ''    p.datname,'',
    ''    n.nspname                                                    AS schema_name,'',
    ''    c.relname                                                    AS table_name,'',
    ''    i.relname                                                    AS index_name,'',
    ''    p.command,'',
    ''    p.phase,'',
    ''    p.lockers_total,'',
    ''    p.lockers_done,'',
    ''    p.current_locker_pid,'',
    ''    p.blocks_done,'',
    ''    p.blocks_total,'',
    ''    round(100.0 * p.blocks_done / NULLIF(p.blocks_total, 0), 1)   AS '' @
      ''pct_blocks_done,'',
    ''    p.tuples_done,'',
    ''    p.tuples_total,'',
    ''    round(100.0 * p.tuples_done / NULLIF(p.tuples_total, 0), 1)   AS '' @
      ''pct_tuples_done,'',
    ''    p.partitions_done,'',
    ''    p.partitions_total,'',
    ''    now() - a.query_start                                        AS elapsed,'',
    ''    left(a.query, 200)                                           AS statement'',
    ''FROM pg_stat_progress_create_index p'',
    ''LEFT JOIN pg_class c ON c.oid = p.relid'',
    ''LEFT JOIN pg_namespace n ON n.oid = c.relnamespace'',
    ''LEFT JOIN pg_class i ON i.oid = p.index_relid'',
    ''LEFT JOIN pg_stat_activity a ON a.pid = p.pid'',
    ''ORDER BY elapsed DESC NULLS LAST;'',
    ''''])\<close>

definition ddl_safety_settings :: string where
  \<open>ddl_safety_settings = strip_newlines (text_lines [
    '''',
    ''-- The settings that determine how a DDL statement behaves when it cannot'',
    ''-- get its lock immediately, and how much memory/parallelism an index build'',
    ''-- gets. Always confirm these BEFORE issuing DDL against a busy production'',
    ''-- table: a DDL statement with no lock_timeout that queues behind a'',
    ''-- long-running transaction will itself block every subsequent query on the'',
    ''-- table, converting a single slow statement into a full application outage.'',
    ''--'',
    ''-- On Aurora these are set through the DB cluster/instance parameter group,'',
    ''-- not postgresql.conf; `source` tells you whether the current value came'',
    ''-- from the parameter group (configuration file), a session-level SET, or'',
    ''-- the built-in default.'',
    ''SELECT'',
    ''    name,'',
    ''    setting,'',
    ''    unit,'',
    ''    context,'',
    ''    source,'',
    ''    short_desc'',
    ''FROM pg_settings'',
    ''WHERE name IN ('',
    ''    'lock_timeout', 'statement_timeout', 'transaction_timeout','',
    ''    'idle_in_transaction_session_timeout', 'deadlock_timeout','',
    ''    'log_lock_waits', 'maintenance_work_mem','',
    ''    'max_parallel_maintenance_workers', 'max_locks_per_transaction','',
    ''    'default_transaction_read_only', 'default_statistics_target'' @ [CHR 0x27],
    '')'',
    ''ORDER BY name;'',
    ''''])\<close>

definition index_and_constraint_inventory_for_table :: string where
  \<open>index_and_constraint_inventory_for_table = strip_newlines (text_lines [
    '''',
    ''-- Complete index and constraint inventory for one target table, which is'',
    ''-- the mandatory pre-flight read before any schema change: it tells you what'',
    ''-- already exists (so you do not build a redundant index), which indexes back'',
    ''-- constraints (so you do not attempt to drop one directly), and whether any'',
    ''-- index is currently INVALID or NOT READY from an earlier failed build.'',
    ''--'',
    ''-- Ships with an illustrative default (public.trades) -- edit the '' @ CHR 0x5C # ''set lines'',
    ''-- below for your real target. Both branches compare the name only inside a'',
    ''-- catalog WHERE clause and never cast it to regclass, so this script is'',
    ''-- safe to run unmodified even when that table does not exist here: it simply'',
    ''-- returns zero rows.'',
    CHR 0x5C # ''set schema_name 'public'' @ [CHR 0x27],
    CHR 0x5C # ''set table_name 'trades'' @ [CHR 0x27],
    ''SELECT'',
    ''    'index'                                                     AS object_type,'',
    ''    i.relname                                                    AS object_name,'',
    ''    pg_size_pretty(pg_relation_size(i.oid))                       AS object_size,'',
    ''    ix.indisvalid                                                AS is_valid,'',
    ''    ix.indisready                                                AS is_ready,'',
    ''    ix.indisprimary                                              AS is_primary,'',
    ''    ix.indisunique                                               AS is_unique,'',
    ''    pg_get_indexdef(ix.indexrelid)                               AS definition'',
    ''FROM pg_index ix'',
    ''JOIN pg_class c ON c.oid = ix.indrelid'',
    ''JOIN pg_class i ON i.oid = ix.indexrelid'',
    ''JOIN pg_namespace n ON n.oid = c.relnamespace'',
    ''WHERE n.nspname = :'schema_name'' @ [CHR 0x27],
    ''  AND c.relname = :'table_name'' @ [CHR 0x27],
    ''UNION ALL'',
    ''SELECT'',
    ''    'constraint','',
    ''    con.conname,'',
    ''    NULL,'',
    ''    con.convalidated,'',
    ''    NULL,'',
    ''    con.contype = 'p','',
    ''    con.contype IN ('u', 'p'),'',
    ''    pg_get_constraintdef(con.oid)'',
    ''FROM pg_constraint con'',
    ''JOIN pg_class c ON c.oid = con.conrelid'',
    ''JOIN pg_namespace n ON n.oid = c.relnamespace'',
    ''WHERE n.nspname = :'schema_name'' @ [CHR 0x27],
    ''  AND c.relname = :'table_name'' @ [CHR 0x27],
    ''ORDER BY object_type, object_name;'',
    ''''])\<close>

definition target_table_size_detail :: string where
  \<open>target_table_size_detail = strip_newlines (text_lines [
    '''',
    ''-- Size, row estimate, and maintenance state for a single target table --'',
    ''-- the numbers that determine how long a rewriting DDL statement will hold'',
    ''-- its lock, and therefore whether the operation can be done directly or'',
    ''-- needs the online (build-alongside-and-swap) pattern instead.'',
    ''--'',
    ''-- Ships with an illustrative default (public.trades); edit the '' @ CHR 0x5C # ''set lines'',
    ''-- below for your real target. to_regclass() is used throughout rather than'',
    ''-- a ::regclass cast, because a cast raises "relation does not exist" and'',
    ''-- aborts the statement outright when the name is absent, whereas'',
    ''-- to_regclass() simply returns NULL and lets the guard print guidance.'',
    CHR 0x5C # ''set schema_name 'public'' @ [CHR 0x27],
    CHR 0x5C # ''set table_name 'trades'' @ [CHR 0x27],
    ''SELECT to_regclass(:'schema_name' || '.' || :'table_name') IS NOT NULL'',
    ''                                                             AS target_table_exists'',
    CHR 0x5C # ''gset'',
    '''',
    CHR 0x5C # ''if :target_table_exists'',
    ''SELECT'',
    ''    :'schema_name' || '.' || :'table_name'                        AS target_table,'',
    ''    pg_size_pretty(pg_relation_size('',
    ''        to_regclass(:'schema_name' || '.' || :'table_name')))     AS heap_size,'',
    ''    pg_size_pretty(pg_indexes_size('',
    ''        to_regclass(:'schema_name' || '.' || :'table_name')))     AS index_size,'',
    ''    pg_size_pretty(pg_total_relation_size('',
    ''        to_regclass(:'schema_name' || '.' || :'table_name')))     AS total_size,'',
    ''    pg_total_relation_size('',
    ''        to_regclass(:'schema_name' || '.' || :'table_name'))      AS '' @
      ''total_size_bytes,'',
    ''    s.n_live_tup,'',
    ''    s.n_dead_tup,'',
    ''    s.n_mod_since_analyze,'',
    ''    s.last_vacuum,'',
    ''    s.last_autovacuum,'',
    ''    s.last_analyze,'',
    ''    s.last_autoanalyze,'',
    ''    (SELECT count(*) FROM pg_index ix'',
    ''      WHERE ix.indrelid = to_regclass(:'schema_name' || '.' || :'table_name'))'',
    ''                                                                 AS index_count'',
    ''FROM pg_stat_all_tables s'',
    ''WHERE s.relid = to_regclass(:'schema_name' || '.' || :'table_name');'',
    CHR 0x5C # ''else'',
    ''SELECT'',
    ''    'Table ' || :'schema_name' || '.' || :'table_name' || ' does not exist '' @ [CHR 0x27],
    ''    'in this database. Edit the schema_name/table_name '' @ CHR 0x5C # ''set lines at the top '' @ [CHR 0x27],
    ''    'of this script to point at the real table you intend to change, then '' @ [CHR 0x27],
    ''    're-run. Realistic targets on an exchange platform include public.orders, '' @ [CHR 0x27],
    ''    'public.trades, public.ledger_entries, public.wallets, public.deposits '' @ [CHR 0x27],
    ''    'and public.withdrawals.'                                     AS notice;'',
    CHR 0x5C # ''endif'',
    ''''])\<close>

end
