(* ===== verification/Sql_Blocks.thy ===== *)
theory Sql_Blocks
  imports Sql_Blocks1 Sql_Blocks2 Sql_Blocks3 Sql_Blocks4
begin

text \<open>
  All query functions of \<^verbatim>\<open>tools/repo_builder/sql_blocks.py\<close>, by name.
\<close>

definition SQL_BLOCKS :: "(string \<times> string) list" where
  "SQL_BLOCKS = [
     (''activity_overview'', activity_overview),
     (''active_long_running_queries'', active_long_running_queries),
     (''idle_in_transaction_sessions'', idle_in_transaction_sessions),
     (''wait_events_summary'', wait_events_summary),
     (''connections_by_state'', connections_by_state),
     (''connections_by_application_and_user'', connections_by_application_and_user),
     (''max_connections_headroom'', max_connections_headroom),
     (''blocked_sessions'', blocked_sessions),
     (''blocking_sessions_detail'', blocking_sessions_detail),
     (''lock_detail_by_mode'', lock_detail_by_mode),
     (''ddl_lock_waits'', ddl_lock_waits),
     (''long_running_transactions'', long_running_transactions),
     (''deadlock_counters_by_database'', deadlock_counters_by_database),
     (''connection_contention_by_wait_event'', connection_contention_by_wait_event),
     (''database_transaction_age'', database_transaction_age),
     (''table_transaction_age_top_n'', table_transaction_age_top_n),
     (''multixact_age_top_n'', multixact_age_top_n),
     (''prepared_transactions'', prepared_transactions),
     (''autovacuum_workers_active'', autovacuum_workers_active),
     (''replication_slots_status'', replication_slots_status),
     (''dead_tuples_ranked'', dead_tuples_ranked),
     (''table_bloat_estimate'', table_bloat_estimate),
     (''pgstattuple_exact_bloat'', pgstattuple_exact_bloat),
     (''index_bloat_and_usage'', index_bloat_and_usage),
     (''unused_indexes'', unused_indexes),
     (''duplicate_indexes'', duplicate_indexes),
     (''invalid_indexes'', invalid_indexes),
     (''sequential_scan_heavy_tables'', sequential_scan_heavy_tables),
     (''foreign_keys_missing_index'', foreign_keys_missing_index),
     (''statistics_freshness'', statistics_freshness),
     (''pgss_top_by_total_time'', pgss_top_by_total_time),
     (''pgss_top_by_mean_time'', pgss_top_by_mean_time),
     (''pgss_top_by_calls'', pgss_top_by_calls),
     (''pgss_temp_and_io_heavy'', pgss_temp_and_io_heavy),
     (''pgss_wal_heavy'', pgss_wal_heavy),
     (''database_sizes'', database_sizes),
     (''largest_tables'', largest_tables),
     (''largest_indexes'', largest_indexes),
     (''table_growth_rate_from_snapshot'', table_growth_rate_from_snapshot),
     (''wal_activity'', wal_activity),
     (''checkpoint_activity'', checkpoint_activity),
     (''bgwriter_activity'', bgwriter_activity),
     (''pg_stat_io_summary'', pg_stat_io_summary),
     (''temp_file_usage_by_database'', temp_file_usage_by_database),
     (''cluster_recovery_role'', cluster_recovery_role),
     (''standard_streaming_replication_status'', standard_streaming_replication_status),
     (''aurora_replica_status'', aurora_replica_status),
     (''replication_slots_and_wal_retention'', replication_slots_and_wal_retention),
     (''key_settings_snapshot'', key_settings_snapshot),
     (''extension_inventory'', extension_inventory),
     (''available_extensions_check'', available_extensions_check),
     (''current_role_privileges'', current_role_privileges),
     (''schema_sizes'', schema_sizes),
     (''object_counts_by_schema'', object_counts_by_schema),
     (''table_size_components'', table_size_components),
     (''write_volume_by_table'', write_volume_by_table),
     (''index_to_table_size_ratio'', index_to_table_size_ratio),
     (''create_index_progress'', create_index_progress),
     (''ddl_safety_settings'', ddl_safety_settings),
     (''index_and_constraint_inventory_for_table'', index_and_constraint_inventory_for_table),
     (''target_table_size_detail'', target_table_size_detail)]"

end
