(* ===== verification/Wf_Vacuum.thy ===== *)
theory Wf_Vacuum
  imports Outline Sql_Blocks
begin

text \<open>
  The registry \<^verbatim>\<open>tools/repo_builder/wf_vacuum.py\<close>: its workflows with their scripts, each script and
  each workflow as one definition, and the list \<open>WORKFLOWS\<close> in the source's order, then its outline.
\<close>

definition vacuum_CATEGORY_SLUG :: string where
  \<open>vacuum_CATEGORY_SLUG = ''vacuum-and-autovacuum''\<close>

definition vacuum_CATEGORY_TITLE :: string where
  \<open>vacuum_CATEGORY_TITLE = ''Vacuum and Autovacuum''\<close>

text \<open>\<open>_wf\<close>: the category is filled in, and the fields with a default are empty.\<close>

definition vacuum_wf :: workflow where
  \<open>vacuum_wf = \<lparr>w_category_slug = vacuum_CATEGORY_SLUG, w_category_title = vacuum_CATEGORY_TITLE, w_slug = [], w_title = [], w_summary = [], w_symptoms = [], w_business_impact = [], w_root_causes = [], w_investigation_strategy = [], w_prerequisites = [], w_interpretation_guide = [], w_remediation_immediate = [], w_remediation_short_term = [], w_remediation_long_term = [], w_production_safety = [], w_escalation_criteria = [], w_related_issues = [], w_scripts = [], w_aurora_notes = [], w_execution_guidance = [], w_expected_output_guidance = [], w_severe_incident_guidance = []\<rparr>\<close>

definition vacuum_1_script_1 :: script where
  \<open>vacuum_1_script_1 = sql_script
    (''01'')
    (''01_dead_tuples_ranked'')
    (''Ranks tables by dead tuple count and ratio to find the worst '' @
      ''autovacuum-lag offenders.'')
    (dead_tuples_ranked)
    (''A high dead_tuple_pct combined with a recent autovacuum_count increase '' @
      ''means autovacuum is active but losing ground; combined with a stale '' @
      ''last_autovacuum means it is not running at all.'')
    (sql_args\<lparr>a_related_scripts := ''02_current_autovacuum_workers.sql''\<rparr>)\<close>

definition vacuum_1_script_2 :: script where
  \<open>vacuum_1_script_2 = sql_script
    (''02'')
    (''02_current_autovacuum_workers'')
    (''Shows currently running autovacuum workers and their progress.'')
    (autovacuum_workers_active)
    (''Confirm the tables from script 01 have an active worker; if not, check '' @
      ''for a blocking transaction (script 03) preventing autovacuum from '' @
      ''starting/completing.'')
    (sql_args\<lparr>a_related_scripts := ''03_blocking_transactions.sql''\<rparr>)\<close>

definition vacuum_1_script_3 :: script where
  \<open>vacuum_1_script_3 = sql_script
    (''03'')
    (''03_blocking_transactions'')
    (''Checks for long-running transactions that could be preventing '' @
      ''autovacuum from reclaiming space it has already identified as dead.'')
    (long_running_transactions)
    (''Any old transaction here can prevent autovacuum from making real '' @
      ''progress even while it appears to run continuously -- resolve it per '' @
      ''concurrency-and-locking/long-running-transactions.'')
    (sql_args\<lparr>a_related_scripts := ''04_autovacuum_configuration.sql''\<rparr>)\<close>

definition vacuum_1_script_4 :: script where
  \<open>vacuum_1_script_4 = sql_script
    (''04'')
    (''04_autovacuum_configuration'')
    (''Snapshots current autovacuum cost/worker configuration to assess '' @
      ''whether tuning is the root cause.'')
    (key_settings_snapshot)
    (''Low autovacuum_vacuum_cost_limit combined with high '' @
      ''autovacuum_vacuum_cost_delay throttles autovacuum heavily -- '' @
      ''appropriate for shared/small instances, often too conservative for a '' @
      ''high-throughput exchange workload.'')
    (sql_args\<lparr>a_related_scripts := ''../../vacuum-and-autovacuum/vacuum-progress/README.md''\<rparr>)\<close>

definition vacuum_autovacuum_not_keeping_up :: workflow where
  \<open>vacuum_autovacuum_not_keeping_up = vacuum_wf\<lparr>
    w_slug := ''autovacuum-not-keeping-up'',
    w_title := ''Autovacuum Not Keeping Up'',
    w_summary := ''Autovacuum is running but dead tuples / table bloat are growing faster '' @
      ''than autovacuum can clean them up, degrading query performance and '' @
      ''increasing storage over time.'',
    w_symptoms := [
      ''n_dead_tup growing steadily across snapshots on one or more hot tables.'',
      ''last_autovacuum timestamp falling further and further behind for a specific table.'',
      ''Increasing bloat-driven query latency on tables that were previously fast.''],
    w_business_impact := [
      ''Unchecked bloat on hot OLTP tables (orders, balances) increases I/O per '' @
      ''query and, left long enough, risks an emergency VACUUM disruption and '' @
      ''XID wraparound exposure.''],
    w_root_causes := [
      ''autovacuum_vacuum_cost_limit / autovacuum_vacuum_cost_delay set too '' @
      ''conservatively for the actual write volume.'',
      ''Too few autovacuum_max_workers for the number of tables needing '' @
      ''attention simultaneously.'',
      ''A long-running transaction repeatedly preventing autovacuum from '' @
      ''removing dead tuples it has already identified.'',
      ''autovacuum_naptime too long relative to the table's churn rate.''],
    w_investigation_strategy := [
      ''Rank tables by dead tuple count/ratio to find the worst offenders.'',
      ''Check current and historical autovacuum activity/frequency for those tables.'',
      ''Check for competing long-running transactions blocking cleanup.'',
      ''Review current autovacuum cost/worker configuration.''],
    w_prerequisites := [
      ''pg_monitor role membership.''],
    w_interpretation_guide := [
      ''A high dead_tuple_pct with a recent last_autovacuum timestamp means '' @
      ''autovacuum is running but not keeping pace -- a tuning problem. A high '' @
      ''dead_tuple_pct with a stale/NULL last_autovacuum means autovacuum is '' @
      ''not running at all on that table -- an investigation-for-blocker problem.''],
    w_remediation_immediate := [
      ''If a specific table is critically bloated, issue a manual `VACUUM '' @
      ''(VERBOSE, ANALYZE) <table>;` to catch it up immediately.''],
    w_remediation_short_term := [
      ''Set a more aggressive per-table autovacuum_vacuum_cost_limit/scale_facto'' @
      ''r for the specific hot tables identified (via `ALTER TABLE ... SET '' @
      ''(autovacuum_vacuum_scale_factor = 0.01)` for very large tables where '' @
      ''the default 20% dead-tuple threshold is too high in absolute terms).'',
      ''Increase autovacuum_max_workers via the cluster parameter group if many '' @
      ''tables need attention concurrently.''],
    w_remediation_long_term := [
      ''Consider partitioning extremely large, high-churn tables so each '' @
      ''partition is vacuumed independently and more frequently in smaller '' @
      ''units (see partitioning/).''],
    w_production_safety := [
      ''Investigation scripts are read-only.'',
      ''Manual VACUUM (without FULL) is non-blocking and safe to run '' @
      ''concurrently with production traffic.''],
    w_escalation_criteria := [
      ''Bloat continues to grow despite tuning changes and manual vacuum -- '' @
      ''escalate to database engineering for a schema/partitioning-level fix.''],
    w_related_issues := [
      ''../dead-tuples/README.md'',
      ''../table-bloat/README.md'',
      ''../emergency-autovacuum/README.md''],
    w_scripts := [vacuum_1_script_1, vacuum_1_script_2, vacuum_1_script_3, vacuum_1_script_4]\<rparr>\<close>

definition vacuum_2_script_1 :: script where
  \<open>vacuum_2_script_1 = sql_script
    (''01'')
    (''01_vacuum_progress_detail'')
    (''Shows detailed progress for every currently running VACUUM (manual or '' @
      ''autovacuum), using PostgreSQL 17's byte-based progress columns.'')
    (autovacuum_workers_active)
    (''Re-run this every 30-60 seconds; heap_blks_scanned and '' @
      ''indexes_processed should both be advancing over time. dead_tuple_bytes '' @
      ''approaching max_dead_tuple_bytes signals an index vacuum cycle is about '' @
      ''to be triggered (normal).'')
    (sql_args\<lparr>a_related_scripts := ''02_relation_scan_rate.sql''\<rparr>)\<close>

definition vacuum_2_script_2 :: script where
  \<open>vacuum_2_script_2 = sql_script
    (''02'')
    (''02_relation_scan_rate'')
    (''Computes the target table's total size against the vacuum's current '' @
      ''scanned-block progress to estimate percent complete.'')
    (strip_newlines (text_lines [
      '''',
      ''-- Percent-complete estimate for a specific in-flight vacuum, combining'',
      ''-- pg_stat_progress_vacuum with the table's total block count.'',
      ''SELECT'',
      ''    n.nspname                                                   AS schema_name,'',
      ''    c.relname                                                    AS table_name,'',
      ''    v.phase,'',
      ''    v.heap_blks_scanned,'',
      ''    v.heap_blks_total,'',
      ''    round(100.0 * v.heap_blks_scanned / NULLIF(v.heap_blks_total, 0), '' @
        ''1) AS pct_heap_scanned,'',
      ''    v.indexes_processed,'',
      ''    v.indexes_total'',
      ''FROM pg_stat_progress_vacuum v'',
      ''JOIN pg_class c ON c.oid = v.relid'',
      ''JOIN pg_namespace n ON n.oid = c.relnamespace'',
      ''ORDER BY pct_heap_scanned ASC NULLS LAST;'',
      '''']))
    (''pct_heap_scanned is only for the 'scanning heap' phase; once in '' @
      '''vacuuming indexes' or 'cleaning up indexes' phases, watch '' @
      ''indexes_processed/indexes_total instead.'')
    (sql_args\<lparr>a_related_scripts := ''../autovacuum-not-keeping-up/README.md''\<rparr>)\<close>

definition vacuum_vacuum_progress :: workflow where
  \<open>vacuum_vacuum_progress = vacuum_wf\<lparr>
    w_slug := ''vacuum-progress'',
    w_title := ''Vacuum Progress Monitoring'',
    w_summary := ''Tracks the real-time progress of an in-flight VACUUM (manual or '' @
      ''autovacuum) operation, to answer 'how much longer will this take' and 'is it stuck'.'',
    w_symptoms := [
      ''A known VACUUM is running and its completion time/impact needs to be estimated.'',
      ''Uncertainty about whether a long-running vacuum is stuck or genuinely '' @
      ''making progress.''],
    w_business_impact := [
      ''Understanding vacuum progress lets the DBA make an informed decision '' @
      ''about whether to let it continue, especially when the vacuum itself is '' @
      ''competing for I/O with production traffic.''],
    w_root_causes := [
      ''N/A -- this is a monitoring workflow for an already-running vacuum, not '' @
      ''a root-cause investigation.''],
    w_investigation_strategy := [
      ''Query pg_stat_progress_vacuum for the specific relation.'',
      ''Interpret phase and the PG17 byte-based dead-tuple counters to estimate '' @
      ''remaining work.'',
      ''Re-run periodically to confirm heap_blks_scanned is advancing (not stalled).''],
    w_prerequisites := [
      ''pg_monitor role membership.''],
    w_interpretation_guide := [
      ''heap_blks_scanned advancing between two snapshots confirms the vacuum '' @
      ''is making progress, even if slowly. A phase stuck at 'vacuuming '' @
      ''indexes' for a long time on a table with many/large indexes is '' @
      ''expected, not necessarily stuck.''],
    w_remediation_immediate := [
      ''None required if progressing normally; if genuinely stalled '' @
      ''(heap_blks_scanned not advancing across several checks and no visible '' @
      ''wait_event explaining why), investigate for an internal lock conflict.''],
    w_remediation_short_term := [
      ''Consider `VACUUM (PARALLEL n)` behavior is automatic for index '' @
      ''vacuuming when the table has multiple indexes and maintenance_work_mem '' @
      ''permits -- no manual action normally needed.''],
    w_remediation_long_term := [
      ''If vacuum on this table routinely takes an inconvenient amount of time, '' @
      ''investigate whether it is a partitioning candidate.''],
    w_production_safety := [
      ''All scripts are read-only. VACUUM itself (non-FULL) does not block '' @
      ''reads/writes to the table it targets, aside from momentary lock '' @
      ''acquisition for truncation at the very end (which can itself be skipped '' @
      ''with `VACUUM (TRUNCATE false)` if that final step is a concern).''],
    w_escalation_criteria := [
      ''A vacuum has been running for an unusually long time with no progress '' @
      ''and no clear cause -- escalate to database engineering.''],
    w_related_issues := [
      ''../autovacuum-not-keeping-up/README.md'',
      ''../emergency-autovacuum/README.md''],
    w_scripts := [vacuum_2_script_1, vacuum_2_script_2]\<rparr>\<close>

definition vacuum_3_script_1 :: script where
  \<open>vacuum_3_script_1 = sql_script
    (''01'')
    (''01_dead_tuples_ranked'')
    (''Ranks tables by dead tuple count and ratio.'')
    (dead_tuples_ranked)
    (''Cross-reference dead_tuple_pct against the table's write pattern -- a '' @
      ''high ratio on a rarely-updated table is more concerning than the same '' @
      ''ratio on a known-hot table between vacuum cycles.'')
    (sql_args\<lparr>a_related_scripts := ''../table-bloat/README.md''\<rparr>)\<close>

definition vacuum_dead_tuples :: workflow where
  \<open>vacuum_dead_tuples = vacuum_wf\<lparr>
    w_slug := ''dead-tuples'',
    w_title := ''Dead Tuple Accumulation'',
    w_summary := ''Investigates elevated dead tuple counts/ratios across tables -- the '' @
      ''direct precursor to bloat, degraded index efficiency, and increased '' @
      ''I/O, and the primary metric autovacuum acts on.'',
    w_symptoms := [
      ''Rising n_dead_tup on one or more tables.'',
      ''Growing gap between n_live_tup + n_dead_tup and the table's expected '' @
      ''logical row count.''],
    w_business_impact := [
      ''Dead tuples directly inflate table and index size, increasing I/O for '' @
      ''every scan and reducing effective cache hit ratio for hot tables.''],
    w_root_causes := [
      ''High UPDATE/DELETE churn on a table (common for order status '' @
      ''transitions, balance updates) outpacing vacuum's cleanup rate.'',
      ''A long-running transaction preventing cleanup of tuples that are otherwise eligible.'',
      ''autovacuum thresholds (scale_factor) too high in absolute terms for a '' @
      ''very large table.''],
    w_investigation_strategy := [
      ''Rank tables by dead tuple count/ratio.'',
      ''Cross-reference with UPDATE/DELETE volume (n_tup_upd, n_tup_del) to '' @
      ''confirm churn is the driver.'',
      ''Check for a blocking transaction preventing cleanup.''],
    w_prerequisites := [
      ''pg_monitor role membership.''],
    w_interpretation_guide := [
      ''A table with high n_tup_upd/n_tup_del and correspondingly high '' @
      ''n_dead_tup is behaving as expected for a busy OLTP table -- the '' @
      ''question is whether autovacuum's scale_factor threshold is appropriate '' @
      ''for its absolute size, not whether dead tuples exist at all (some level '' @
      ''is normal and expected between vacuum cycles).''],
    w_remediation_immediate := [
      ''Manually VACUUM tables with a critically high dead_tuple_pct if '' @
      ''autovacuum has not yet caught up.''],
    w_remediation_short_term := [
      ''Lower autovacuum_vacuum_scale_factor for large, high-churn tables '' @
      ''(default 20% of table size is very large in absolute terms for a '' @
      ''multi-million-row table).''],
    w_remediation_long_term := [
      ''See vacuum-and-autovacuum/autovacuum-not-keeping-up for systemic '' @
      ''tuning; see partitioning/ for tables where per-partition vacuum would help.''],
    w_production_safety := [
      ''Investigation scripts are read-only; manual VACUUM guidance is non-blocking.''],
    w_escalation_criteria := [
      ''Dead tuple ratio remains high and growing despite tuning -- escalate to '' @
      ''autovacuum-not-keeping-up for a deeper investigation.''],
    w_related_issues := [
      ''../autovacuum-not-keeping-up/README.md'',
      ''../table-bloat/README.md''],
    w_scripts := [vacuum_3_script_1]\<rparr>\<close>

definition vacuum_4_script_1 :: script where
  \<open>vacuum_4_script_1 = sql_script
    (''01'')
    (''01_bloat_estimate_catalog_only'')
    (''Lightweight, lock-free bloat proxy using only '' @
      ''pg_class/pg_stat_all_tables -- always safe to run.'')
    (table_bloat_estimate)
    (''Use this to triage which tables merit a closer, exact look; it is a '' @
      ''proxy, not an exact bloat percentage.'')
    (sql_args\<lparr>a_related_scripts := ''02_exact_bloat_pgstattuple.sql''\<rparr>)\<close>

definition vacuum_4_script_2 :: script where
  \<open>vacuum_4_script_2 = sql_script
    (''02'')
    (''02_exact_bloat_pgstattuple'')
    (''Exact physical bloat scan for one specific table using the pgstattuple extension.'')
    (pgstattuple_exact_bloat)
    (''free_pct and dead_tuple_pct together give the true reclaimable-space '' @
      ''percentage; a combined figure above 30-40% on a large table is a strong '' @
      ''candidate for a scheduled space-reclaiming operation.'')
    (sql_args\<lparr>a_safety := ''READ ONLY (may be resource intensive on very large tables -- see EXPECTED IMPACT)'',
      a_expected_impact := ''Performs a full table scan (or sampled scan for pgstattuple_approx) and '' @
      ''takes a light read lock; can be I/O-intensive on very large tables.'',
      a_prerequisites := ''pgstattuple extension must be created in the current database.'',
      a_related_scripts := ''../../maintenance/README.md''\<rparr>)\<close>

definition vacuum_table_bloat :: workflow where
  \<open>vacuum_table_bloat = vacuum_wf\<lparr>
    w_slug := ''table-bloat'',
    w_title := ''Table Bloat'',
    w_summary := ''Investigates physical table bloat -- disk space consumed by '' @
      ''dead/reusable tuple space that has not been returned to the OS or '' @
      ''reused efficiently, distinct from the logical dead-tuple count itself.'',
    w_symptoms := [
      ''Table on-disk size much larger than expected for its live row count.'',
      ''Growing total_relation_size with flat or declining n_live_tup.''],
    w_business_impact := [
      ''Bloat increases storage costs and, more importantly, increases the '' @
      ''number of pages that must be read for a sequential or even index scan, '' @
      ''directly degrading query performance.''],
    w_root_causes := [
      ''Sustained dead-tuple accumulation (see dead-tuples) without full space '' @
      ''reclamation, since ordinary VACUUM marks space reusable but does not '' @
      ''necessarily shrink the file on disk.'',
      ''A historical spike in deletes/updates (e.g. a large one-time cleanup) '' @
      ''leaving behind free space that is reused slowly.''],
    w_investigation_strategy := [
      ''Estimate bloat using the catalog-only proxy (safe, no lock, approximate).'',
      ''Confirm with pgstattuple's exact physical scan for the top candidates '' @
      ''(heavier, but precise).'',
      ''Decide between routine VACUUM (reclaims space for reuse, does not '' @
      ''shrink file) and a maintenance-window VACUUM FULL/pg_repack (shrinks '' @
      ''file, but locks/rewrites).''],
    w_prerequisites := [
      ''pgstattuple extension for the exact-bloat script (optional but '' @
      ''recommended for confirmation).''],
    w_interpretation_guide := [
      ''Regular (non-FULL) VACUUM makes dead space available for reuse by '' @
      ''future inserts/updates on the same table -- it does NOT shrink the file '' @
      ''on disk. Only VACUUM FULL, CLUSTER, or pg_repack physically shrink the '' @
      ''table, and all require careful scheduling due to locking.''],
    w_remediation_immediate := [
      ''None -- bloat remediation is inherently a planned, scheduled action, '' @
      ''not an emergency one, unless bloat is actively causing a severe '' @
      ''performance incident.''],
    w_remediation_short_term := [
      ''Ensure routine VACUUM is keeping bloat from growing further (see '' @
      ''autovacuum-not-keeping-up) before considering a space-reclaiming operation.''],
    w_remediation_long_term := [
      ''Schedule a VACUUM FULL (small tables, brief maintenance window) or '' @
      ''pg_repack (installed via Aurora's supported extension list, '' @
      ''minimal-lock alternative for large tables) during a planned maintenance '' @
      ''window -- see maintenance/ for the runbook and locking implications.''],
    w_production_safety := [
      ''Bloat estimation scripts are read-only and safe at any time.'',
      ''pgstattuple's exact scan takes a light read lock and can be '' @
      ''I/O-intensive on very large tables -- prefer pgstattuple_approx() for '' @
      ''tables over a few GB, or schedule the exact scan off-peak.''],
    w_escalation_criteria := [
      ''Bloat is confirmed severe (free_pct from pgstattuple well above 30-40%) '' @
      ''on a business-critical table -- escalate to schedule a '' @
      ''maintenance-window remediation with stakeholder sign-off.''],
    w_related_issues := [
      ''../dead-tuples/README.md'',
      ''../index-bloat/README.md'',
      ''../../maintenance/README.md''],
    w_scripts := [vacuum_4_script_1, vacuum_4_script_2]\<rparr>\<close>

definition vacuum_5_script_1 :: script where
  \<open>vacuum_5_script_1 = sql_script
    (''01'')
    (''01_index_bloat_and_usage'')
    (''Index size and usage statistics to identify large, potentially bloated indexes.'')
    (index_bloat_and_usage)
    (''A large index_size relative to the table's row count and low '' @
      ''idx_tup_fetch efficiency suggests bloat; confirm with pgstattuple if a '' @
      ''precise figure is needed before scheduling a REINDEX.'')
    (sql_args\<lparr>a_related_scripts := ''../../schema-changes/concurrent-index-build/README.md''\<rparr>)\<close>

definition vacuum_index_bloat :: workflow where
  \<open>vacuum_index_bloat = vacuum_wf\<lparr>
    w_slug := ''index-bloat'',
    w_title := ''Index Bloat'',
    w_summary := ''Investigates physical bloat specifically within indexes, which '' @
      ''accumulates independently of table bloat and directly slows down index '' @
      ''scans and increases index-storage footprint.'',
    w_symptoms := [
      ''Index size disproportionately large relative to the table's row count.'',
      ''Index scan performance degrading over time without a corresponding '' @
      ''table-size change.''],
    w_business_impact := [
      ''Bloated indexes on hot lookup columns (order id, account id) directly '' @
      ''increase the latency of the most frequent, latency-sensitive queries.''],
    w_root_causes := [
      ''High UPDATE churn on indexed columns (each update typically creates a '' @
      ''new index entry) without corresponding cleanup.'',
      ''A historical bulk delete/update leaving substantial '' @
      ''reusable-but-unreclaimed space in the index structure.''],
    w_investigation_strategy := [
      ''Rank indexes by size and scan activity.'',
      ''Cross-reference with the parent table's bloat status, since index bloat '' @
      ''commonly correlates with table bloat.'',
      ''Consider REINDEX CONCURRENTLY for confirmed bloated indexes.''],
    w_prerequisites := [
      ''pg_monitor role membership.''],
    w_interpretation_guide := [
      ''Unlike tables, indexes generally benefit more directly from a REINDEX '' @
      ''to reclaim space efficiently, and PostgreSQL supports `REINDEX INDEX '' @
      ''CONCURRENTLY` (non-blocking) as the safe production path -- prefer it '' @
      ''over `REINDEX INDEX` (which takes a blocking lock).''],
    w_remediation_immediate := [
      ''None -- index bloat remediation is a planned action.''],
    w_remediation_short_term := [
      ''`REINDEX INDEX CONCURRENTLY schema.index_name;` during a lower-traffic '' @
      ''window, monitoring for the same failure modes as CREATE INDEX '' @
      ''CONCURRENTLY (can leave an INVALID index if interrupted).''],
    w_remediation_long_term := [
      ''Investigate whether the underlying UPDATE pattern can be reduced (e.g. '' @
      ''avoid updating indexed columns unnecessarily) to slow future bloat accumulation.''],
    w_production_safety := [
      ''Investigation scripts are read-only.'',
      ''REINDEX CONCURRENTLY requires roughly double the index's disk space '' @
      ''temporarily and cannot run inside an explicit transaction block; see '' @
      ''schema-changes/concurrent-index-build for the full safety runbook.''],
    w_escalation_criteria := [
      ''A hot-path index shows severe bloat and cannot tolerate a REINDEX '' @
      ''CONCURRENTLY window without app-visible impact -- escalate to schedule '' @
      ''an off-peak maintenance action.''],
    w_related_issues := [
      ''../table-bloat/README.md'',
      ''../../tables-and-indexes/index-bloat/README.md'',
      ''../../schema-changes/concurrent-index-build/README.md''],
    w_scripts := [vacuum_5_script_1]\<rparr>\<close>

definition vacuum_6_script_1 :: script where
  \<open>vacuum_6_script_1 = sql_script
    (''01'')
    (''01_locks_conflicting_with_vacuum'')
    (''Checks for locks on candidate tables that would conflict with vacuum's '' @
      ''required ShareUpdateExclusiveLock.'')
    (ddl_lock_waits)
    (''Any granted lock at ShareUpdateExclusiveLock or stronger on a table '' @
      ''that needs vacuuming will prevent a new vacuum from starting until it is released.'')
    (sql_args\<lparr>a_related_scripts := ''02_transactions_predating_dead_tuples.sql''\<rparr>)\<close>

definition vacuum_6_script_2 :: script where
  \<open>vacuum_6_script_2 = sql_script
    (''02'')
    (''02_transactions_predating_dead_tuples'')
    (''Checks for long-running transactions whose snapshot predates recent '' @
      ''dead tuples, preventing vacuum from reclaiming them even if it can run.'')
    (long_running_transactions)
    (''A transaction open since before the dead tuples were created means '' @
      ''vacuum can scan the table but cannot yet remove those specific rows -- '' @
      ''resolving the transaction is the direct fix.'')
    (sql_args\<lparr>a_related_scripts := ''../autovacuum-not-keeping-up/README.md''\<rparr>)\<close>

definition vacuum_vacuum_blocked :: workflow where
  \<open>vacuum_vacuum_blocked = vacuum_wf\<lparr>
    w_slug := ''vacuum-blocked'',
    w_title := ''Vacuum Blocked or Unable to Proceed'',
    w_summary := ''Autovacuum or a manual VACUUM is unable to start or make progress on a '' @
      ''specific table due to a lock conflict or a long-running transaction '' @
      ''holding back its required snapshot horizon.'',
    w_symptoms := [
      ''A table shows a stale last_autovacuum/last_vacuum timestamp despite '' @
      ''clearly needing attention (high dead_tup).'',
      ''No active pg_stat_progress_vacuum entry for a table that should be '' @
      ''receiving attention.''],
    w_business_impact := [
      ''A table vacuum cannot proceed indefinitely blocks bloat and (if '' @
      ''sustained) XID-age cleanup for that table, compounding into the more '' @
      ''severe autovacuum-not-keeping-up and xid-wraparound-risk scenarios.''],
    w_root_causes := [
      ''A conflicting lock (e.g. an explicit LOCK TABLE, or a long-running '' @
      ''transaction holding a conflicting lock mode) preventing vacuum from '' @
      ''acquiring the ShareUpdateExclusiveLock it needs.'',
      ''A long-running transaction whose snapshot predates the dead tuples, '' @
      ''meaning vacuum can scan the table but cannot yet remove those specific tuples.''],
    w_investigation_strategy := [
      ''Confirm no autovacuum worker is currently assigned to the table despite '' @
      ''it needing attention.'',
      ''Check for locks on the table that would conflict with vacuum's required lock mode.'',
      ''Check for a long-running transaction whose xmin predates the table's dead tuples.''],
    w_prerequisites := [
      ''pg_monitor role membership.''],
    w_interpretation_guide := [
      ''VACUUM only requires ShareUpdateExclusiveLock, which does not block '' @
      ''ordinary reads/writes -- but it does conflict with other '' @
      ''ShareUpdateExclusiveLock or stronger requests (another VACUUM, a CREATE '' @
      ''INDEX CONCURRENTLY, most ALTER TABLE forms) already in progress on the same table.''],
    w_remediation_immediate := [
      ''Resolve the conflicting lock holder or long-running transaction '' @
      ''identified, using the concurrency-and-locking workflows.''],
    w_remediation_short_term := [
      ''Avoid scheduling concurrent CONCURRENTLY-mode DDL and manual VACUUM '' @
      ''against the same large table in the same window.''],
    w_remediation_long_term := [
      ''Add monitoring that alerts when a known-hot table has gone unusually '' @
      ''long without a successful vacuum.''],
    w_production_safety := [
      ''Investigation scripts are read-only.''],
    w_escalation_criteria := [
      ''The table's XID age is simultaneously climbing toward a concerning '' @
      ''threshold while vacuum remains blocked -- escalate immediately per '' @
      ''xid-wraparound-risk.''],
    w_related_issues := [
      ''../../transactions-and-xid/xid-wraparound-risk/README.md'',
      ''../../concurrency-and-locking/long-running-transactions/README.md''],
    w_scripts := [vacuum_6_script_1, vacuum_6_script_2]\<rparr>\<close>

definition vacuum_7_script_1 :: script where
  \<open>vacuum_7_script_1 = sql_script
    (''01'')
    (''01_confirm_emergency_vacuum'')
    (''Confirms whether a currently running vacuum is in '' @
      ''anti-wraparound/failsafe mode by cross-referencing its target table's '' @
      ''age against the configured thresholds.'')
    (autovacuum_workers_active @ (text_lines [
      '''',
      '''',
      ''-- Cross-reference each relid above against '' @
        ''transactions-and-xid/xid-wraparound-risk/scripts/01_database_transaction'' @
        ''_age.sql and 02_table_transaction_age.sql output: a worker on a table '' @
        ''already past autovacuum_freeze_max_age is running in mandatory anti-wraparound mode.'']))
    (''A worker present here for a table whose age already exceeds '' @
      ''autovacuum_freeze_max_age (from the xid-wraparound-risk scripts) is '' @
      ''running in anti-wraparound mode -- let it complete.'')
    (sql_args\<lparr>a_related_scripts := ''../../transactions-and-xid/xid-wraparound-risk/scripts/04_current_autova'' @
      ''cuum_activity.sql''\<rparr>)\<close>

definition vacuum_7_script_2 :: script where
  \<open>vacuum_7_script_2 = md_script
    (''02'')
    (''02_safe_handling_during_emergency_vacuum'')
    (''Manual guidance for what to do (and not do) while an '' @
      ''anti-wraparound/failsafe vacuum is in progress.'')
    (text_lines [
      ''## Do'',
      '''',
      ''- Monitor progress via `pg_stat_progress_vacuum` (see script 01) every few minutes.'',
      ''- Resolve any long-running transaction or lock conflict that could be '' @
        ''preventing the vacuum from completing (see '' @
        ''concurrency-and-locking/long-running-transactions and '' @
        ''vacuum-and-autovacuum/vacuum-blocked).'',
      ''- Communicate expected duration to stakeholders based on '' @
        ''heap_blks_scanned progress rate, since this vacuum may consume more '' @
        ''visible I/O/CPU than routine background vacuuming.'',
      '''',
      ''## Do NOT'',
      '''',
      ''- Do NOT run `SELECT pg_cancel_backend(<autovacuum_worker_pid>);` '' @
        ''against this worker -- cancelling it does not remove the underlying '' @
        ''wraparound risk, it only delays the inevitable next attempt while the '' @
        ''risk continues to grow.'',
      ''- Do NOT disable autovacuum (globally or per-table) to 'stop the noise' '' @
        ''-- this is the single worst possible action during an active wraparound-risk event.'',
      ''- Do NOT attempt a `VACUUM FULL` instead, hoping it will be faster -- '' @
        ''it takes an AccessExclusiveLock for a full table rewrite and is not '' @
        ''needed; the running anti-wraparound vacuum is already the correct, safe operation.'',
      ''''])
    (''Read this in full before taking any action while an emergency vacuum is '' @
      ''in progress -- the single most important guidance is to let it run.'')
    (md_args\<lparr>a_safety := ''DOCUMENTATION -- no SQL executed by this file itself'',
      a_expected_impact := ''None from this file directly.'',
      a_required_privileges := ''N/A'',
      a_prerequisites := ''An anti-wraparound/failsafe vacuum confirmed via script 01.'',
      a_related_scripts := ''../../transactions-and-xid/xid-wraparound-risk/README.md''\<rparr>)\<close>

definition vacuum_emergency_autovacuum :: workflow where
  \<open>vacuum_emergency_autovacuum = vacuum_wf\<lparr>
    w_slug := ''emergency-autovacuum'',
    w_title := ''Emergency / Anti-Wraparound Autovacuum'',
    w_summary := ''A table has crossed autovacuum_freeze_max_age and is now being vacuumed '' @
      ''in mandatory 'anti-wraparound' mode (or has crossed vacuum_failsafe_age '' @
      ''and is in accelerated failsafe mode), which cannot be cancelled without '' @
      ''directly increasing wraparound risk.'',
    w_symptoms := [
      ''Autovacuum log entries explicitly marked '(to prevent wraparound)'.'',
      ''A vacuum that appears to ignore normal cost-based throttling and run at '' @
      ''maximum speed (failsafe mode, PostgreSQL 14+).'',
      ''pg_stat_progress_vacuum showing a worker on a table whose age already '' @
      ''exceeds autovacuum_freeze_max_age.''],
    w_business_impact := [
      ''This is the last automatic safety net before a full '' @
      ''wraparound-protection outage -- it is expected, necessary behavior, and '' @
      ''interfering with it (e.g. cancelling it) directly increases outage risk.''],
    w_root_causes := [
      ''See transactions-and-xid/xid-wraparound-risk for the full root-cause '' @
      ''list; this workflow is specifically about safely handling the emergency '' @
      ''vacuum once it has already started.''],
    w_investigation_strategy := [
      ''Confirm the vacuum is genuinely in anti-wraparound/failsafe mode (not '' @
      ''just a normal, but slow, routine vacuum).'',
      ''Monitor its progress rather than attempting to stop it.'',
      ''Ensure no long-running transaction is preventing it from completing.''],
    w_prerequisites := [
      ''pg_monitor role membership; rds_superuser-equivalent only if manual '' @
      ''intervention beyond monitoring becomes necessary.''],
    w_interpretation_guide := [
      ''In failsafe mode, PostgreSQL suspends cost-based delay entirely and may '' @
      ''skip index cleanup to freeze rows as fast as possible -- this is '' @
      ''intentional and appropriate given the alternative (a full outage), even '' @
      ''though it consumes more I/O/CPU than a routine vacuum.''],
    w_remediation_immediate := [
      ''Do NOT cancel or terminate an anti-wraparound/failsafe vacuum. Instead, '' @
      ''ensure it can complete: resolve any long-running transaction that could '' @
      ''still be blocking its progress.''],
    w_remediation_short_term := [
      ''Once complete, immediately address the underlying root cause (see '' @
      ''xid-wraparound-risk) so this does not recur within days.''],
    w_remediation_long_term := [
      ''Tune autovacuum settings proactively so freeze work happens in smaller, '' @
      ''routine increments well before failsafe mode is ever triggered again.''],
    w_production_safety := [
      ''This vacuum itself is the safety mechanism -- the primary safety '' @
      ''guidance here is 'do not interfere with it', not 'here is a destructive '' @
      ''action to avoid'.''],
    w_escalation_criteria := [
      ''The database has already begun refusing new transactions (full '' @
      ''wraparound outage) -- this is beyond routine emergency-autovacuum '' @
      ''monitoring; escalate as a major incident immediately.''],
    w_related_issues := [
      ''../../transactions-and-xid/xid-wraparound-risk/README.md'',
      ''../autovacuum-not-keeping-up/README.md''],
    w_scripts := [vacuum_7_script_1, vacuum_7_script_2]\<rparr>\<close>

definition vacuum_8_script_1 :: script where
  \<open>vacuum_8_script_1 = sql_script
    (''01'')
    (''01_statistics_freshness'')
    (''Checks statistics freshness (modifications since last analyze) across all tables.'')
    (statistics_freshness)
    (''A high pct_modified_since_analyze combined with a stale '' @
      ''last_analyze/last_autoanalyze is the clearest sign the planner is '' @
      ''working from outdated assumptions for that table.'')
    (sql_args\<lparr>a_related_scripts := ''../../query-optimization/stale-statistics/README.md''\<rparr>)\<close>

definition vacuum_analyze_statistics :: workflow where
  \<open>vacuum_analyze_statistics = vacuum_wf\<lparr>
    w_slug := ''analyze-statistics'',
    w_title := ''ANALYZE and Planner Statistics'',
    w_summary := ''Investigates whether planner statistics are fresh and representative, '' @
      ''distinct from vacuum's tuple-cleanup role -- ANALYZE (whether run '' @
      ''manually, via autoanalyze, or as part of autovacuum) is what keeps the '' @
      ''query planner's row/selectivity estimates accurate.'',
    w_symptoms := [
      ''Query plans that do not match expected row-count estimates.'',
      ''n_mod_since_analyze high relative to table size.'',
      ''last_analyze/last_autoanalyze significantly stale relative to the '' @
      ''table's write rate.''],
    w_business_impact := [
      ''Stale statistics are one of the most common root causes of sudden '' @
      ''query-plan regressions on an otherwise-unchanged query.''],
    w_root_causes := [
      ''autovacuum_analyze_scale_factor too high in absolute terms for a very large table.'',
      ''A large bulk load/backfill completed without a follow-up manual ANALYZE.'',
      ''autoanalyze disabled or starved similarly to autovacuum (shares the '' @
      ''same worker pool and cost settings).''],
    w_investigation_strategy := [
      ''Check statistics freshness (modifications since last analyze) across tables.'',
      ''For any table suspected of a plan regression, manually ANALYZE it and '' @
      ''compare plans before/after.'',
      ''Consider a higher statistics target for specific skewed columns.''],
    w_prerequisites := [
      ''pg_monitor role membership; table-owner privilege to run ANALYZE manually.''],
    w_interpretation_guide := [
      ''Distinguish ANALYZE (statistics only, all data types, fast, no data '' @
      ''rewrite) from VACUUM ANALYZE (does both). Running ANALYZE alone is '' @
      ''comparatively cheap and safe to run more frequently than a full VACUUM '' @
      ''pass if statistics freshness -- not bloat -- is the specific concern.''],
    w_remediation_immediate := [
      ''`ANALYZE schema.table_name;` (targeted, not database-wide) for any '' @
      ''table with clearly stale statistics implicated in a current performance issue.''],
    w_remediation_short_term := [
      ''Lower autovacuum_analyze_scale_factor for large tables so autoanalyze '' @
      ''triggers more frequently in absolute row-count terms.'',
      ''Increase the statistics target (`ALTER TABLE ... ALTER COLUMN ... SET '' @
      ''STATISTICS n;`) for specific columns with skewed distributions that the '' @
      ''planner is misjudging.''],
    w_remediation_long_term := [
      ''Adopt a habit of running a manual, targeted ANALYZE immediately after '' @
      ''any large bulk load/backfill/migration as a standard runbook step.''],
    w_production_safety := [
      ''ANALYZE takes only a brief, low-impact lock (does not block '' @
      ''reads/writes) and never rewrites table data -- safe to run on '' @
      ''production at any time.'',
      ''Never run a blind, database-wide `ANALYZE;` as a routine fix -- target '' @
      ''the specific tables that need it.''],
    w_escalation_criteria := [
      ''A specific query's plan regression is not resolved by a fresh ANALYZE '' @
      ''-- escalate to query-optimization/analyze-query-plan for a deeper investigation.''],
    w_related_issues := [
      ''../../query-optimization/stale-statistics/README.md'',
      ''../../performance/query-regression/README.md''],
    w_scripts := [vacuum_8_script_1]\<rparr>\<close>

definition vacuum_WORKFLOWS :: "workflow list" where
  "vacuum_WORKFLOWS = [
     vacuum_autovacuum_not_keeping_up,
     vacuum_vacuum_progress,
     vacuum_dead_tuples,
     vacuum_table_bloat,
     vacuum_index_bloat,
     vacuum_vacuum_blocked,
     vacuum_emergency_autovacuum,
     vacuum_analyze_statistics]"

section \<open>Outline\<close>

lemmas vacuum_parts =
  outline_plain[OF vacuum_autovacuum_not_keeping_up_def]
  outline_sql[OF vacuum_1_script_1_def]
  outline_sql[OF vacuum_1_script_2_def]
  outline_sql[OF vacuum_1_script_3_def]
  outline_sql[OF vacuum_1_script_4_def]
  outline_plain[OF vacuum_vacuum_progress_def]
  outline_sql[OF vacuum_2_script_1_def]
  outline_sql[OF vacuum_2_script_2_def]
  outline_plain[OF vacuum_dead_tuples_def]
  outline_sql[OF vacuum_3_script_1_def]
  outline_plain[OF vacuum_table_bloat_def]
  outline_sql[OF vacuum_4_script_1_def]
  outline_sql[OF vacuum_4_script_2_def]
  outline_plain[OF vacuum_index_bloat_def]
  outline_sql[OF vacuum_5_script_1_def]
  outline_plain[OF vacuum_vacuum_blocked_def]
  outline_sql[OF vacuum_6_script_1_def]
  outline_sql[OF vacuum_6_script_2_def]
  outline_plain[OF vacuum_emergency_autovacuum_def]
  outline_sql[OF vacuum_7_script_1_def]
  outline_md[OF vacuum_7_script_2_def]
  outline_plain[OF vacuum_analyze_statistics_def]
  outline_sql[OF vacuum_8_script_1_def]

lemma vacuum_outline:
  \<open>map workflow_outline vacuum_WORKFLOWS = [
    (''vacuum-and-autovacuum'', ''autovacuum-not-keeping-up'', [
      ''../dead-tuples/README.md'',
      ''../table-bloat/README.md'',
      ''../emergency-autovacuum/README.md''],
     [(''01'', ''01_dead_tuples_ranked'', ''sql'', True),
      (''02'', ''02_current_autovacuum_workers'', ''sql'', True),
      (''03'', ''03_blocking_transactions'', ''sql'', True),
      (''04'', ''04_autovacuum_configuration'', ''sql'', True)]),
    (''vacuum-and-autovacuum'', ''vacuum-progress'', [
      ''../autovacuum-not-keeping-up/README.md'',
      ''../emergency-autovacuum/README.md''],
     [(''01'', ''01_vacuum_progress_detail'', ''sql'', True),
      (''02'', ''02_relation_scan_rate'', ''sql'', True)]),
    (''vacuum-and-autovacuum'', ''dead-tuples'', [
      ''../autovacuum-not-keeping-up/README.md'',
      ''../table-bloat/README.md''],
     [(''01'', ''01_dead_tuples_ranked'', ''sql'', True)]),
    (''vacuum-and-autovacuum'', ''table-bloat'', [
      ''../dead-tuples/README.md'',
      ''../index-bloat/README.md'',
      ''../../maintenance/README.md''],
     [(''01'', ''01_bloat_estimate_catalog_only'', ''sql'', True),
      (''02'', ''02_exact_bloat_pgstattuple'', ''sql'', True)]),
    (''vacuum-and-autovacuum'', ''index-bloat'', [
      ''../table-bloat/README.md'',
      ''../../tables-and-indexes/index-bloat/README.md'',
      ''../../schema-changes/concurrent-index-build/README.md''],
     [(''01'', ''01_index_bloat_and_usage'', ''sql'', True)]),
    (''vacuum-and-autovacuum'', ''vacuum-blocked'', [
      ''../../transactions-and-xid/xid-wraparound-risk/README.md'',
      ''../../concurrency-and-locking/long-running-transactions/README.md''],
     [(''01'', ''01_locks_conflicting_with_vacuum'', ''sql'', True),
      (''02'', ''02_transactions_predating_dead_tuples'', ''sql'', True)]),
    (''vacuum-and-autovacuum'', ''emergency-autovacuum'', [
      ''../../transactions-and-xid/xid-wraparound-risk/README.md'',
      ''../autovacuum-not-keeping-up/README.md''],
     [(''01'', ''01_confirm_emergency_vacuum'', ''sql'', True),
      (''02'', ''02_safe_handling_during_emergency_vacuum'', ''md'', True)]),
    (''vacuum-and-autovacuum'', ''analyze-statistics'', [
      ''../../query-optimization/stale-statistics/README.md'',
      ''../../performance/query-regression/README.md''],
     [(''01'', ''01_statistics_freshness'', ''sql'', True)])]\<close>
  by (simp add: vacuum_WORKFLOWS_def vacuum_parts vacuum_wf_def vacuum_CATEGORY_SLUG_def sql_args_def md_args_def)

end
