(* ===== verification/Wf_Tables_indexes.thy ===== *)
theory Wf_Tables_indexes
  imports Outline Sql_Blocks
begin

text \<open>
  The registry \<^verbatim>\<open>tools/repo_builder/wf_tables_indexes.py\<close>: its workflows with their scripts, each script and
  each workflow as one definition, and the list \<open>WORKFLOWS\<close> in the source's order, then its outline.
\<close>

definition tables_indexes_CATEGORY_SLUG :: string where
  \<open>tables_indexes_CATEGORY_SLUG = ''tables-and-indexes''\<close>

definition tables_indexes_CATEGORY_TITLE :: string where
  \<open>tables_indexes_CATEGORY_TITLE = ''Table and Index Health''\<close>

text \<open>\<open>_wf\<close>: the category is filled in, and the fields with a default are empty.\<close>

definition tables_indexes_wf :: workflow where
  \<open>tables_indexes_wf = \<lparr>w_category_slug = tables_indexes_CATEGORY_SLUG, w_category_title = tables_indexes_CATEGORY_TITLE, w_slug = [], w_title = [], w_summary = [], w_symptoms = [], w_business_impact = [], w_root_causes = [], w_investigation_strategy = [], w_prerequisites = [], w_interpretation_guide = [], w_remediation_immediate = [], w_remediation_short_term = [], w_remediation_long_term = [], w_production_safety = [], w_escalation_criteria = [], w_related_issues = [], w_scripts = [], w_aurora_notes = [], w_execution_guidance = [], w_expected_output_guidance = [], w_severe_incident_guidance = []\<rparr>\<close>

definition tables_indexes_1_script_1 :: script where
  \<open>tables_indexes_1_script_1 = sql_script
    (''01'')
    (''01_unused_index_candidates'')
    (''Lists candidate unused indexes, excluding those backing a constraint.'')
    (unused_indexes)
    (''Cross-check the instance's stats_reset/uptime before treating any '' @
      ''result as conclusive; a recently restarted/failed-over instance will '' @
      ''show idx_scan = 0 for everything.'')
    (sql_args\<lparr>a_related_scripts := ''../../schema-changes/drop-index-safely/README.md''\<rparr>)\<close>

definition tables_indexes_unused_indexes :: workflow where
  \<open>tables_indexes_unused_indexes = tables_indexes_wf\<lparr>
    w_slug := ''unused-indexes'',
    w_title := ''Unused Indexes'',
    w_summary := ''Identifies indexes that appear to receive zero or negligible scans, '' @
      ''representing pure write-amplification and storage cost with no measured '' @
      ''query benefit -- while explicitly guarding against premature removal.'',
    w_symptoms := [
      ''Elevated write latency/WAL volume on tables with many indexes.'',
      ''Storage growth attributable to index size rather than table size.''],
    w_business_impact := [
      ''Every index adds overhead to every INSERT/UPDATE/DELETE on its table; '' @
      ''an unused index is pure cost on the hottest part of the workload '' @
      ''(writes) for zero benefit.''],
    w_root_causes := [
      ''An index created for a query pattern that was later removed/changed in '' @
      ''application code.'',
      ''A speculative index added 'just in case' that never proved necessary.'',
      ''An index that only supports a rare (e.g. quarterly reporting) query and '' @
      ''looks unused within a short observation window.''],
    w_investigation_strategy := [
      ''List candidate unused indexes (idx_scan = 0), excluding those backing a constraint.'',
      ''Cross-check stats_reset / instance uptime to ensure the observation '' @
      ''window is long enough to be meaningful (must span at least one full business cycle).'',
      ''Confirm with the owning application team before dropping anything.''],
    w_prerequisites := [
      ''pg_monitor role membership.'',
      ''Confidence that no failover/restart has reset statistics recently '' @
      ''(which would make idx_scan = 0 look artificially alarming).''],
    w_interpretation_guide := [
      ''idx_scan = 0 since the last stats reset is necessary but NOT sufficient '' @
      ''evidence to drop an index -- always check stats_reset age and confirm '' @
      ''the query pattern that would use this index truly no longer exists '' @
      ''(including rare batch/reporting jobs).''],
    w_remediation_immediate := [
      ''None -- index removal is always a planned, reviewed action.''],
    w_remediation_short_term := [
      ''For a confirmed-unused, non-constraint-backing index, drop it with '' @
      ''`DROP INDEX CONCURRENTLY` (see schema-changes/drop-index-safely) during '' @
      ''a low-traffic window, keeping the index definition saved in case it '' @
      ''needs to be recreated.''],
    w_remediation_long_term := [
      ''Add a periodic (e.g. quarterly) unused-index review to standing '' @
      ''operational practice (see automation/index-monitoring) rather than a '' @
      ''one-off cleanup.''],
    w_production_safety := [
      ''The investigation script is read-only.'',
      ''Never drop an index the same day it is found 'unused' without '' @
      ''confirming the observation window is long enough and the owning team '' @
      ''has been consulted.''],
    w_escalation_criteria := [
      ''An index appears unused but is suspected to back a rare, '' @
      ''business-critical batch/compliance job -- escalate to the owning team '' @
      ''before any action.''],
    w_related_issues := [
      ''../duplicate-indexes/README.md'',
      ''../../schema-changes/drop-index-safely/README.md''],
    w_scripts := [tables_indexes_1_script_1]\<rparr>\<close>

definition tables_indexes_2_script_1 :: script where
  \<open>tables_indexes_2_script_1 = sql_script
    (''01'')
    (''01_duplicate_indexes'')
    (''Finds indexes with identical normalized definitions on the same table.'')
    (duplicate_indexes)
    (''Prefer keeping the index backing a constraint (if any) or the one with '' @
      ''the clearer name; drop the other via DROP INDEX CONCURRENTLY.'')
    (sql_args\<lparr>a_related_scripts := ''../../schema-changes/drop-index-safely/README.md''\<rparr>)\<close>

definition tables_indexes_duplicate_indexes :: workflow where
  \<open>tables_indexes_duplicate_indexes = tables_indexes_wf\<lparr>
    w_slug := ''duplicate-indexes'',
    w_title := ''Duplicate Indexes'',
    w_summary := ''Identifies structurally identical or fully redundant indexes on the '' @
      ''same table -- pure waste with no tradeoff, unlike unused-indexes which '' @
      ''requires judgment about rare query patterns.'',
    w_symptoms := [
      ''Two or more indexes on the same table with the same columns/expressions/predicate.''],
    w_business_impact := [
      ''Duplicate indexes are unambiguous waste: every one adds write overhead '' @
      ''and storage without any additional query benefit over its twin.''],
    w_root_causes := [
      ''An ORM or migration tool creating an index that already existed manually.'',
      ''A renamed/recreated index left alongside its original instead of replacing it.'',
      ''Independent teams adding the same index unaware of each other's prior work.''],
    w_investigation_strategy := [
      ''Find indexes with matching normalized definitions on the same table.'',
      ''Confirm neither is required for a differently-named constraint before '' @
      ''dropping either.''],
    w_prerequisites := [
      ''pg_monitor role membership.''],
    w_interpretation_guide := [
      ''Unlike unused-indexes, true structural duplicates provide no scenario '' @
      ''where keeping both is beneficial -- the only decision is which one to '' @
      ''keep (usually the one with the more descriptive name, or the one '' @
      ''backing a constraint).''],
    w_remediation_immediate := [
      ''None -- always a planned, reviewed action.''],
    w_remediation_short_term := [
      ''Drop the redundant duplicate using `DROP INDEX CONCURRENTLY` (see '' @
      ''schema-changes/drop-index-safely), keeping only one copy.''],
    w_remediation_long_term := [
      ''Add a duplicate-index check to CI/migration review to prevent recurrence.''],
    w_production_safety := [
      ''Investigation script is read-only; drop guidance follows '' @
      ''schema-changes/drop-index-safely's safety practices.''],
    w_escalation_criteria := [
      ''None typical -- this is usually a low-risk, straightforward cleanup once confirmed.''],
    w_related_issues := [
      ''../unused-indexes/README.md'',
      ''../../schema-changes/drop-index-safely/README.md''],
    w_scripts := [tables_indexes_2_script_1]\<rparr>\<close>

definition tables_indexes_3_script_1 :: script where
  \<open>tables_indexes_3_script_1 = sql_script
    (''01'')
    (''01_unindexed_foreign_keys'')
    (''Finds foreign key constraints with no supporting index on the '' @
      ''referencing (child) columns.'')
    (foreign_keys_missing_index)
    (''Every result here is a near-certain candidate for a supporting index, '' @
      ''since unindexed FKs cause sequential scans on the child table for every '' @
      ''parent-row UPDATE/DELETE.'')
    (sql_args\<lparr>a_related_scripts := ''02_sequential_scan_heavy_tables.sql''\<rparr>)\<close>

definition tables_indexes_3_script_2 :: script where
  \<open>tables_indexes_3_script_2 = sql_script
    (''02'')
    (''02_sequential_scan_heavy_tables'')
    (''Finds large tables with a high sequential-scan-to-row-read ratio, a '' @
      ''proxy for a missing index on a filter/join column.'')
    (sequential_scan_heavy_tables)
    (''Cross-reference against pg_stat_statements query text for these tables '' @
      ''to identify the specific column(s) driving the scans before adding an index.'')
    (sql_args\<lparr>a_related_scripts := ''../../schema-changes/concurrent-index-build/README.md''\<rparr>)\<close>

definition tables_indexes_missing_index_candidates :: workflow where
  \<open>tables_indexes_missing_index_candidates = tables_indexes_wf\<lparr>
    w_slug := ''missing-index-candidates'',
    w_title := ''Missing Index Candidates'',
    w_summary := ''Identifies tables/query patterns that would likely benefit from a new '' @
      ''index -- unindexed foreign keys, and tables with heavy sequential scans '' @
      ''relative to their size.'',
    w_symptoms := [
      ''Queries filtering/joining on a column with no supporting index, visible '' @
      ''as high seq_scan/seq_tup_read in pg_stat_all_tables.'',
      ''UPDATE/DELETE on a parent row taking noticeably long due to an '' @
      ''unindexed FK on the child table.''],
    w_business_impact := [
      ''A missing index on a hot query path is one of the most common and '' @
      ''highest-leverage fixes for both high-cpu and slow-queries incidents.''],
    w_root_causes := [
      ''A new query pattern shipped without an accompanying index.'',
      ''A foreign key added without a supporting index on the referencing column(s).'',
      ''Data growth crossed the threshold where a sequential scan is no longer '' @
      ''efficient for a previously-fine query.''],
    w_investigation_strategy := [
      ''Check for unindexed foreign keys.'',
      ''Check for sequential-scan-heavy tables.'',
      ''Confirm against actual query patterns (pg_stat_statements) before '' @
      ''adding an index speculatively.''],
    w_prerequisites := [
      ''pg_stat_statements recommended for confirming the query pattern.''],
    w_interpretation_guide := [
      ''Add indexes based on confirmed query patterns, not just theoretical '' @
      ''schema analysis -- an unindexed FK that is never used in a JOIN/lookup '' @
      ''direction may not need an index despite appearing in this report.''],
    w_remediation_immediate := [
      ''None -- always add indexes deliberately, never as an emergency '' @
      ''same-incident action unless directly resolving an active severe '' @
      ''incident with full understanding of the tradeoffs.''],
    w_remediation_short_term := [
      ''Add the identified index using `CREATE INDEX CONCURRENTLY` (see '' @
      ''schema-changes/concurrent-index-build).''],
    w_remediation_long_term := [
      ''Add FK-index-coverage and query-pattern review to the standard '' @
      ''schema/migration review checklist.''],
    w_production_safety := [
      ''Investigation scripts are read-only; index creation must always use '' @
      ''CONCURRENTLY per schema-changes guidance.''],
    w_escalation_criteria := [
      ''A confirmed missing index is on an extremely large, hot table where '' @
      ''even a CONCURRENTLY build carries meaningful resource-consumption risk '' @
      ''-- coordinate a build window with the owning team.''],
    w_related_issues := [
      ''../sequential-scan-investigation/README.md'',
      ''../../schema-changes/concurrent-index-build/README.md''],
    w_scripts := [tables_indexes_3_script_1, tables_indexes_3_script_2]\<rparr>\<close>

definition tables_indexes_4_script_1 :: script where
  \<open>tables_indexes_4_script_1 = sql_script
    (''01'')
    (''01_sequential_scan_heavy_tables'')
    (''Confirms which tables are experiencing the most sequential-scan read volume.'')
    (sequential_scan_heavy_tables)
    (''Focus only on tables large enough (check table_size) that a seq scan is '' @
      ''genuinely costly -- small tables in this list are not a concern.'')
    (sql_args\<lparr>a_related_scripts := ''02_statistics_freshness.sql''\<rparr>)\<close>

definition tables_indexes_4_script_2 :: script where
  \<open>tables_indexes_4_script_2 = sql_script
    (''02'')
    (''02_statistics_freshness'')
    (''Checks whether stale statistics could be causing the planner to '' @
      ''misjudge selectivity and avoid an existing index.'')
    (statistics_freshness)
    (''If statistics are stale, run a targeted ANALYZE and re-check the '' @
      ''query's plan before concluding an index is actually missing.'')
    (sql_args\<lparr>a_related_scripts := ''../../vacuum-and-autovacuum/analyze-statistics/README.md''\<rparr>)\<close>

definition tables_indexes_sequential_scan_investigation :: workflow where
  \<open>tables_indexes_sequential_scan_investigation = tables_indexes_wf\<lparr>
    w_slug := ''sequential-scan-investigation'',
    w_title := ''Sequential Scan Investigation'',
    w_summary := ''Deep-dive investigation into why a specific table or query is using a '' @
      ''sequential scan instead of an expected index scan.'',
    w_symptoms := [
      ''A specific query's EXPLAIN plan shows Seq Scan on a large table where '' @
      ''an Index Scan was expected.''],
    w_business_impact := [
      ''An unexpected sequential scan on a large hot table is a direct, often '' @
      ''severe, latency and CPU/IO cost.''],
    w_root_causes := [
      ''No index exists for the query's predicate.'',
      ''An index exists but the planner chose not to use it (poor selectivity '' @
      ''estimate from stale statistics, or the predicate uses a function/cast '' @
      ''the index cannot support).'',
      ''The table is small enough that the planner correctly judges a '' @
      ''sequential scan cheaper (not actually a problem).''],
    w_investigation_strategy := [
      ''Confirm table size -- a seq scan on a genuinely small table is expected and fine.'',
      ''Check for an existing, usable index matching the query's predicate.'',
      ''Check statistics freshness, since stale stats can cause the planner to '' @
      ''misjudge selectivity and skip a usable index.'',
      ''Obtain EXPLAIN to see the planner's actual reasoning/estimates.''],
    w_prerequisites := [
      ''Query text/plan for the specific case under investigation.''],
    w_interpretation_guide := [
      ''A sequential scan on a table under a few thousand rows (or a few MB) is '' @
      ''frequently the CORRECT and fastest plan -- do not chase 'seq_scan > 0' '' @
      ''as inherently bad; focus on large tables where the ratio of rows read '' @
      ''to rows returned is poor.''],
    w_remediation_immediate := [
      ''None -- diagnose before acting.''],
    w_remediation_short_term := [
      ''Add a targeted index if none exists and the table/row-selectivity '' @
      ''justifies one; refresh statistics if staleness is the cause.''],
    w_remediation_long_term := [
      ''See missing-index-candidates for the broader, table-wide review.''],
    w_production_safety := [
      ''Investigation is read-only; EXPLAIN (without ANALYZE) never executes the query.''],
    w_escalation_criteria := [
      ''The planner ignores an existing, seemingly-appropriate index even with '' @
      ''fresh statistics -- escalate to query-optimization/analyze-query-plan '' @
      ''for a deeper plan-level investigation.''],
    w_related_issues := [
      ''../missing-index-candidates/README.md'',
      ''../../query-optimization/analyze-query-plan/README.md''],
    w_scripts := [tables_indexes_4_script_1, tables_indexes_4_script_2]\<rparr>\<close>

definition tables_indexes_5_script_1 :: script where
  \<open>tables_indexes_5_script_1 = sql_script
    (''01'')
    (''01_index_bloat_and_usage'')
    (''Index size and usage statistics to identify large, potentially bloated indexes.'')
    (index_bloat_and_usage)
    (''Cross-reference with vacuum-and-autovacuum/index-bloat for the exact '' @
      ''pgstattuple confirmation script and REINDEX CONCURRENTLY guidance.'')
    (sql_args\<lparr>a_related_scripts := ''../../vacuum-and-autovacuum/index-bloat/scripts/01_index_bloat_and_usage.sql''\<rparr>)\<close>

definition tables_indexes_index_bloat :: workflow where
  \<open>tables_indexes_index_bloat = tables_indexes_wf\<lparr>
    w_slug := ''index-bloat'',
    w_title := ''Index Bloat (Tables-and-Indexes View)'',
    w_summary := ''Table/index-health-focused entry point for index bloat investigation; '' @
      ''see vacuum-and-autovacuum/index-bloat for the vacuum-lifecycle '' @
      ''perspective on the same underlying issue.'',
    w_symptoms := [
      ''Index size disproportionate to table row count.'',
      ''Index scan latency degrading over time.''],
    w_business_impact := [
      ''Bloated indexes on hot lookup paths directly increase the latency of '' @
      ''the most frequent queries.''],
    w_root_causes := [
      ''High UPDATE churn on indexed columns without full space reclamation.'',
      ''See vacuum-and-autovacuum/index-bloat for the complete root-cause list.''],
    w_investigation_strategy := [
      ''Rank indexes by size and usage.'',
      ''Confirm bloat with pgstattuple if a precise figure is needed.'',
      ''Plan a REINDEX CONCURRENTLY if confirmed.''],
    w_prerequisites := [
      ''pg_monitor role membership; pgstattuple optional for exact confirmation.''],
    w_interpretation_guide := [
      ''See vacuum-and-autovacuum/index-bloat's interpretation guidance -- this '' @
      ''workflow exists as the tables-and-indexes-category entry point to the '' @
      ''same investigation for discoverability.''],
    w_remediation_immediate := [
      ''None -- planned action.''],
    w_remediation_short_term := [
      ''REINDEX INDEX CONCURRENTLY during a lower-traffic window.''],
    w_remediation_long_term := [
      ''See vacuum-and-autovacuum/autovacuum-not-keeping-up for the systemic '' @
      ''prevention angle.''],
    w_production_safety := [
      ''Investigation is read-only; REINDEX CONCURRENTLY guidance is in '' @
      ''schema-changes/concurrent-index-build.''],
    w_escalation_criteria := [
      ''Same as vacuum-and-autovacuum/index-bloat.''],
    w_related_issues := [
      ''../../vacuum-and-autovacuum/index-bloat/README.md'',
      ''../../schema-changes/concurrent-index-build/README.md''],
    w_scripts := [tables_indexes_5_script_1]\<rparr>\<close>

definition tables_indexes_6_script_1 :: script where
  \<open>tables_indexes_6_script_1 = sql_script
    (''01'')
    (''01_bloat_estimate_catalog_only'')
    (''Lightweight, lock-free bloat proxy.'')
    (table_bloat_estimate)
    (''Use to triage which tables merit the exact pgstattuple confirmation in script 02.'')
    (sql_args\<lparr>a_related_scripts := ''02_exact_bloat_pgstattuple.sql''\<rparr>)\<close>

definition tables_indexes_6_script_2 :: script where
  \<open>tables_indexes_6_script_2 = sql_script
    (''02'')
    (''02_exact_bloat_pgstattuple'')
    (''Exact physical bloat scan for one specific table.'')
    (pgstattuple_exact_bloat)
    (''free_pct + dead_tuple_pct above 30-40% on a large table is a strong '' @
      ''candidate for a scheduled space-reclaiming operation.'')
    (sql_args\<lparr>a_safety := ''READ ONLY (may be resource intensive on very large tables -- see EXPECTED IMPACT)'',
      a_expected_impact := ''Full or sampled table scan; can be I/O-intensive on very large tables.'',
      a_prerequisites := ''pgstattuple extension must be created in the current database.'',
      a_related_scripts := ''../../maintenance/README.md''\<rparr>)\<close>

definition tables_indexes_table_bloat :: workflow where
  \<open>tables_indexes_table_bloat = tables_indexes_wf\<lparr>
    w_slug := ''table-bloat'',
    w_title := ''Table Bloat (Tables-and-Indexes View)'',
    w_summary := ''Table/index-health-focused entry point for table bloat investigation; '' @
      ''see vacuum-and-autovacuum/table-bloat for the vacuum-lifecycle '' @
      ''perspective on the same underlying issue.'',
    w_symptoms := [
      ''Table on-disk size much larger than expected for its live row count.''],
    w_business_impact := [
      ''Bloat increases storage cost and the number of pages scanned per query.''],
    w_root_causes := [
      ''See vacuum-and-autovacuum/table-bloat for the complete root-cause list.''],
    w_investigation_strategy := [
      ''Estimate bloat via the catalog-only proxy.'',
      ''Confirm with pgstattuple for top candidates.'',
      ''Plan remediation per vacuum-and-autovacuum/table-bloat / maintenance/.''],
    w_prerequisites := [
      ''pgstattuple optional for exact confirmation.''],
    w_interpretation_guide := [
      ''See vacuum-and-autovacuum/table-bloat's interpretation guidance.''],
    w_remediation_immediate := [
      ''None -- planned action.''],
    w_remediation_short_term := [
      ''Confirm autovacuum is keeping pace (autovacuum-not-keeping-up) before '' @
      ''considering a space-reclaiming operation.''],
    w_remediation_long_term := [
      ''Schedule a maintenance-window VACUUM FULL/pg_repack if confirmed severe '' @
      ''(see maintenance/).''],
    w_production_safety := [
      ''Investigation is read-only; pgstattuple's exact scan can be I/O '' @
      ''intensive on very large tables.''],
    w_escalation_criteria := [
      ''Same as vacuum-and-autovacuum/table-bloat.''],
    w_related_issues := [
      ''../../vacuum-and-autovacuum/table-bloat/README.md'',
      ''../../maintenance/README.md''],
    w_scripts := [tables_indexes_6_script_1, tables_indexes_6_script_2]\<rparr>\<close>

definition tables_indexes_7_script_1 :: script where
  \<open>tables_indexes_7_script_1 = sql_script
    (''01'')
    (''01_invalid_indexes'')
    (''Lists all indexes currently in an INVALID state.'')
    (invalid_indexes)
    (''Any result is actionable: drop it, and rebuild with CREATE INDEX '' @
      ''CONCURRENTLY if still needed.'')
    (sql_args\<lparr>a_related_scripts := ''../../schema-changes/failed-index-build/README.md''\<rparr>)\<close>

definition tables_indexes_invalid_indexes :: workflow where
  \<open>tables_indexes_invalid_indexes = tables_indexes_wf\<lparr>
    w_slug := ''invalid-indexes'',
    w_title := ''Invalid Indexes'',
    w_summary := ''Finds indexes left in an INVALID state after a failed CREATE INDEX '' @
      ''CONCURRENTLY or REINDEX CONCURRENTLY -- unused by the planner, but '' @
      ''still consuming storage and write overhead until removed and, if needed, rebuilt.'',
    w_symptoms := [
      ''A recent plan regression on a table where a CONCURRENTLY index build '' @
      ''was recently attempted.'',
      ''Unexplained storage growth from an index providing no query benefit.''],
    w_business_impact := [
      ''An invalid index provides zero planner benefit while still paying its '' @
      ''full write-overhead and storage cost -- and its presence often directly '' @
      ''explains a co-occurring plan regression (see performance/query-regression).''],
    w_root_causes := [
      ''A CREATE INDEX CONCURRENTLY or REINDEX CONCURRENTLY was interrupted '' @
      ''(killed session, statement_timeout, deadlock) partway through.''],
    w_investigation_strategy := [
      ''List all invalid indexes.'',
      ''Drop each (a normal, fast DROP INDEX is safe since an invalid index is '' @
      ''never in use) and rebuild with CONCURRENTLY if the index is still needed.''],
    w_prerequisites := [
      ''DDL privileges to drop/rebuild.''],
    w_interpretation_guide := [
      ''Any result here is unambiguous -- an invalid index has zero query '' @
      ''benefit and should either be dropped (if no longer needed) or rebuilt '' @
      ''(if still needed), not left in place.''],
    w_remediation_immediate := [
      ''Drop the invalid index if identified as the cause of an active plan '' @
      ''regression, then immediately rebuild with CONCURRENTLY if it is still needed.''],
    w_remediation_short_term := [
      ''Audit recent CONCURRENTLY build failures to understand why they were '' @
      ''interrupted (a too-aggressive statement_timeout on the migration role '' @
      ''is a common cause).''],
    w_remediation_long_term := [
      ''Add a post-migration automated check for invalid indexes to deployment '' @
      ''pipelines (see database-health/post-deployment-check).''],
    w_production_safety := [
      ''Dropping an invalid index is safe and low-risk (it is never used by the '' @
      ''planner). Rebuilding uses CREATE INDEX CONCURRENTLY per schema-changes guidance.''],
    w_escalation_criteria := [
      ''None typical -- straightforward once found, though the underlying cause '' @
      ''of the failed build should still be investigated.''],
    w_related_issues := [
      ''../../performance/query-regression/README.md'',
      ''../../schema-changes/failed-index-build/README.md''],
    w_scripts := [tables_indexes_7_script_1]\<rparr>\<close>

definition tables_indexes_8_script_1 :: script where
  \<open>tables_indexes_8_script_1 = sql_script
    (''01'')
    (''01_largest_tables'')
    (''Lists the largest tables by total size.'')
    (largest_tables)
    (''The top entries here are your primary candidates for '' @
      ''partitioning/archiving investigation.'')
    (sql_args\<lparr>a_related_scripts := ''02_largest_indexes.sql''\<rparr>)\<close>

definition tables_indexes_8_script_2 :: script where
  \<open>tables_indexes_8_script_2 = sql_script
    (''02'')
    (''02_largest_indexes'')
    (''Lists the largest indexes by size.'')
    (largest_indexes)
    (''A very large index relative to its table's size may indicate bloat (see '' @
      ''index-bloat) rather than genuinely large data volume.'')
    (sql_args\<lparr>a_related_scripts := ''../rapidly-growing-tables/README.md''\<rparr>)\<close>

definition tables_indexes_large_tables :: workflow where
  \<open>tables_indexes_large_tables = tables_indexes_wf\<lparr>
    w_slug := ''large-tables'',
    w_title := ''Large Tables Inventory'',
    w_summary := ''Routine inventory of the largest tables/indexes in the database, used '' @
      ''as a starting point for capacity planning, partitioning, and archiving decisions.'',
    w_symptoms := [
      ''No specific symptom -- routine inventory/health-check workflow.''],
    w_business_impact := [
      ''Knowing which tables are largest (and growing fastest) focuses '' @
      ''capacity, partitioning, and archiving effort where it matters most.''],
    w_root_causes := [
      ''N/A.''],
    w_investigation_strategy := [
      ''List largest tables and indexes by total size.'',
      ''Cross-reference against partitioning-and-archival candidacy workflows '' @
      ''for the biggest entries.''],
    w_prerequisites := [
      ''pg_monitor role membership.''],
    w_interpretation_guide := [
      ''Rank by total_size (heap + indexes + TOAST), not just heap size, for an '' @
      ''accurate capacity picture.''],
    w_remediation_immediate := [
      ''N/A.''],
    w_remediation_short_term := [
      ''N/A.''],
    w_remediation_long_term := [
      ''Feed this inventory into storage-and-capacity/capacity-forecasting on a '' @
      ''recurring basis.''],
    w_production_safety := [
      ''Read-only.''],
    w_escalation_criteria := [
      ''N/A.''],
    w_related_issues := [
      ''../rapidly-growing-tables/README.md'',
      ''../../storage-and-capacity/capacity-forecasting/README.md''],
    w_scripts := [tables_indexes_8_script_1, tables_indexes_8_script_2]\<rparr>\<close>

definition tables_indexes_9_script_1 :: script where
  \<open>tables_indexes_9_script_1 = sql_script
    (''01'')
    (''01_growth_rate_from_history'')
    (''Computes growth over a lookback window using a historical size-tracking '' @
      ''table populated by automation/growth-monitoring.'')
    (table_growth_rate_from_snapshot)
    (''Requires automation/growth-monitoring's collector to already be '' @
      ''populating dba_toolkit.table_size_history; without history, fall back '' @
      ''to large-tables for a current-state-only view.'')
    (sql_args\<lparr>a_related_scripts := ''../../automation/growth-monitoring/README.md''\<rparr>)\<close>

definition tables_indexes_rapidly_growing_tables :: workflow where
  \<open>tables_indexes_rapidly_growing_tables = tables_indexes_wf\<lparr>
    w_slug := ''rapidly-growing-tables'',
    w_title := ''Rapidly Growing Tables'',
    w_summary := ''Identifies which tables are growing fastest (not just which are '' @
      ''currently largest), the more actionable signal for proactive capacity '' @
      ''planning, partitioning, and archiving prioritization.'',
    w_symptoms := [
      ''Overall database storage growth trend exceeds expectations.'',
      ''A specific table's size has doubled within an unexpectedly short window.''],
    w_business_impact := [
      ''A rapidly growing table will become tomorrow's largest-table problem; '' @
      ''catching growth rate early gives more lead time for a '' @
      ''partitioning/archiving decision than waiting until it is already enormous.''],
    w_root_causes := [
      ''Organic business growth (more users, more trades).'',
      ''A new feature writing at a much higher rate than anticipated.'',
      ''A missing archiving/retention mechanism allowing indefinite accumulation.''],
    w_investigation_strategy := [
      ''Requires historical snapshots (see automation/growth-monitoring) to '' @
      ''compute a genuine growth rate, not just a single point-in-time size.'',
      ''Compare growth rate against the largest-tables inventory to prioritize.''],
    w_prerequisites := [
      ''A historical size-tracking table populated by '' @
      ''automation/growth-monitoring; without it, this workflow can only '' @
      ''establish current state, not a rate.''],
    w_interpretation_guide := [
      ''A small table growing 10x/month is a more urgent long-term concern than '' @
      ''a huge table growing 1%/month, even though the huge table is 'larger' today.''],
    w_remediation_immediate := [
      ''N/A.''],
    w_remediation_short_term := [
      ''Flag rapidly growing tables for investigate-partitioning-candidate / '' @
      ''investigate-archiving-candidate assessment.''],
    w_remediation_long_term := [
      ''Ensure automation/growth-monitoring is actively populating historical '' @
      ''snapshots so this workflow remains usable over time.''],
    w_production_safety := [
      ''Read-only.''],
    w_escalation_criteria := [
      ''A core financial table's growth rate significantly exceeds the capacity '' @
      ''plan's assumptions -- escalate to capacity planning/database engineering leadership.''],
    w_related_issues := [
      ''../large-tables/README.md'',
      ''../../automation/growth-monitoring/README.md''],
    w_scripts := [tables_indexes_9_script_1]\<rparr>\<close>

definition tables_indexes_10_script_1 :: script where
  \<open>tables_indexes_10_script_1 = sql_script
    (''01'')
    (''01_read_write_ratio'')
    (''Compares read activity (scans) against write activity '' @
      ''(inserts/updates/deletes) per table.'')
    (strip_newlines (text_lines [
      '''',
      ''-- Read vs. write activity ratio per table, to characterize its access'',
      ''-- pattern for indexing/partitioning/caching decisions.'',
      ''SELECT'',
      ''    schemaname                                                  AS schema_name,'',
      ''    relname                                                     AS table_name,'',
      ''    seq_scan + idx_scan                                          AS total_reads,'',
      ''    n_tup_ins + n_tup_upd + n_tup_del                             AS total_writes,'',
      ''    round('',
      ''        (seq_scan + idx_scan)::numeric /'',
      ''        NULLIF(n_tup_ins + n_tup_upd + n_tup_del, 0),'',
      ''        2'',
      ''    )                                                            AS read_write_ratio'',
      ''FROM pg_stat_all_tables'',
      ''WHERE schemaname NOT IN ('pg_catalog', 'information_schema')'',
      ''ORDER BY (seq_scan + idx_scan) + (n_tup_ins + n_tup_upd + n_tup_del) DESC'',
      ''LIMIT 30;'',
      '''']))
    (''A read_write_ratio well above 1 indicates a read-dominated table (a '' @
      ''good indexing candidate); well below 1 indicates a write-dominated '' @
      ''table (prioritize vacuum tuning and be cautious about adding '' @
      ''write-amplifying indexes).'')
    (sql_args\<lparr>a_related_scripts := ''../missing-index-candidates/README.md''\<rparr>)\<close>

definition tables_indexes_table_access_patterns :: workflow where
  \<open>tables_indexes_table_access_patterns = tables_indexes_wf\<lparr>
    w_slug := ''table-access-patterns'',
    w_title := ''Table Access Pattern Analysis'',
    w_summary := ''Characterizes how a table is actually accessed (read-heavy vs '' @
      ''write-heavy, sequential vs index-driven, hot vs cold) to inform '' @
      ''indexing, partitioning, and caching decisions.'',
    w_symptoms := [
      ''Uncertainty about whether a table is a good candidate for a specific '' @
      ''optimization (index, partition, cache) without first understanding its '' @
      ''actual access pattern.''],
    w_business_impact := [
      ''Optimizing a table without understanding its real access pattern risks '' @
      ''solving the wrong problem (e.g. adding an index to a write-heavy table '' @
      ''with few reads, adding write overhead for no benefit).''],
    w_root_causes := [
      ''N/A -- diagnostic/characterization workflow.''],
    w_investigation_strategy := [
      ''Compare read (seq_scan + idx_scan) vs write (n_tup_ins/upd/del) volume.'',
      ''Compare index scan vs sequential scan ratio.'',
      ''Cross-reference with pg_stat_statements for the specific query shapes '' @
      ''touching the table.''],
    w_prerequisites := [
      ''pg_stat_statements recommended.''],
    w_interpretation_guide := [
      ''A table with n_tup_upd/n_tup_ins far exceeding idx_scan+seq_scan is '' @
      ''write-dominated -- index additions should be weighed carefully against '' @
      ''their write-amplification cost. A table with the reverse ratio is '' @
      ''read-dominated and a better candidate for additional indexing.''],
    w_remediation_immediate := [
      ''N/A.''],
    w_remediation_short_term := [
      ''Route the finding into the appropriate specific workflow '' @
      ''(missing-index-candidates for read-heavy tables needing better index '' @
      ''coverage, vacuum-and-autovacuum for write-heavy tables needing more '' @
      ''aggressive vacuum tuning).''],
    w_remediation_long_term := [
      ''Document known access patterns for the platform's core tables (orders, '' @
      ''balances, ledger) as living architecture documentation.''],
    w_production_safety := [
      ''Read-only.''],
    w_escalation_criteria := [
      ''N/A.''],
    w_related_issues := [
      ''../missing-index-candidates/README.md'',
      ''../../vacuum-and-autovacuum/autovacuum-not-keeping-up/README.md''],
    w_scripts := [tables_indexes_10_script_1]\<rparr>\<close>

definition tables_indexes_WORKFLOWS :: "workflow list" where
  "tables_indexes_WORKFLOWS = [
     tables_indexes_unused_indexes,
     tables_indexes_duplicate_indexes,
     tables_indexes_missing_index_candidates,
     tables_indexes_sequential_scan_investigation,
     tables_indexes_index_bloat,
     tables_indexes_table_bloat,
     tables_indexes_invalid_indexes,
     tables_indexes_large_tables,
     tables_indexes_rapidly_growing_tables,
     tables_indexes_table_access_patterns]"

section \<open>Outline\<close>

lemmas tables_indexes_parts =
  outline_plain[OF tables_indexes_unused_indexes_def]
  outline_sql[OF tables_indexes_1_script_1_def]
  outline_plain[OF tables_indexes_duplicate_indexes_def]
  outline_sql[OF tables_indexes_2_script_1_def]
  outline_plain[OF tables_indexes_missing_index_candidates_def]
  outline_sql[OF tables_indexes_3_script_1_def]
  outline_sql[OF tables_indexes_3_script_2_def]
  outline_plain[OF tables_indexes_sequential_scan_investigation_def]
  outline_sql[OF tables_indexes_4_script_1_def]
  outline_sql[OF tables_indexes_4_script_2_def]
  outline_plain[OF tables_indexes_index_bloat_def]
  outline_sql[OF tables_indexes_5_script_1_def]
  outline_plain[OF tables_indexes_table_bloat_def]
  outline_sql[OF tables_indexes_6_script_1_def]
  outline_sql[OF tables_indexes_6_script_2_def]
  outline_plain[OF tables_indexes_invalid_indexes_def]
  outline_sql[OF tables_indexes_7_script_1_def]
  outline_plain[OF tables_indexes_large_tables_def]
  outline_sql[OF tables_indexes_8_script_1_def]
  outline_sql[OF tables_indexes_8_script_2_def]
  outline_plain[OF tables_indexes_rapidly_growing_tables_def]
  outline_sql[OF tables_indexes_9_script_1_def]
  outline_plain[OF tables_indexes_table_access_patterns_def]
  outline_sql[OF tables_indexes_10_script_1_def]

lemma tables_indexes_outline:
  \<open>map workflow_outline tables_indexes_WORKFLOWS = [
    (''tables-and-indexes'', ''unused-indexes'', [
      ''../duplicate-indexes/README.md'',
      ''../../schema-changes/drop-index-safely/README.md''],
     [(''01'', ''01_unused_index_candidates'', ''sql'', True)]),
    (''tables-and-indexes'', ''duplicate-indexes'', [
      ''../unused-indexes/README.md'',
      ''../../schema-changes/drop-index-safely/README.md''],
     [(''01'', ''01_duplicate_indexes'', ''sql'', True)]),
    (''tables-and-indexes'', ''missing-index-candidates'', [
      ''../sequential-scan-investigation/README.md'',
      ''../../schema-changes/concurrent-index-build/README.md''],
     [(''01'', ''01_unindexed_foreign_keys'', ''sql'', True),
      (''02'', ''02_sequential_scan_heavy_tables'', ''sql'', True)]),
    (''tables-and-indexes'', ''sequential-scan-investigation'', [
      ''../missing-index-candidates/README.md'',
      ''../../query-optimization/analyze-query-plan/README.md''],
     [(''01'', ''01_sequential_scan_heavy_tables'', ''sql'', True),
      (''02'', ''02_statistics_freshness'', ''sql'', True)]),
    (''tables-and-indexes'', ''index-bloat'', [
      ''../../vacuum-and-autovacuum/index-bloat/README.md'',
      ''../../schema-changes/concurrent-index-build/README.md''],
     [(''01'', ''01_index_bloat_and_usage'', ''sql'', True)]),
    (''tables-and-indexes'', ''table-bloat'', [
      ''../../vacuum-and-autovacuum/table-bloat/README.md'',
      ''../../maintenance/README.md''],
     [(''01'', ''01_bloat_estimate_catalog_only'', ''sql'', True),
      (''02'', ''02_exact_bloat_pgstattuple'', ''sql'', True)]),
    (''tables-and-indexes'', ''invalid-indexes'', [
      ''../../performance/query-regression/README.md'',
      ''../../schema-changes/failed-index-build/README.md''],
     [(''01'', ''01_invalid_indexes'', ''sql'', True)]),
    (''tables-and-indexes'', ''large-tables'', [
      ''../rapidly-growing-tables/README.md'',
      ''../../storage-and-capacity/capacity-forecasting/README.md''],
     [(''01'', ''01_largest_tables'', ''sql'', True),
      (''02'', ''02_largest_indexes'', ''sql'', True)]),
    (''tables-and-indexes'', ''rapidly-growing-tables'', [
      ''../large-tables/README.md'',
      ''../../automation/growth-monitoring/README.md''],
     [(''01'', ''01_growth_rate_from_history'', ''sql'', True)]),
    (''tables-and-indexes'', ''table-access-patterns'', [
      ''../missing-index-candidates/README.md'',
      ''../../vacuum-and-autovacuum/autovacuum-not-keeping-up/README.md''],
     [(''01'', ''01_read_write_ratio'', ''sql'', True)])]\<close>
  by (simp add: tables_indexes_WORKFLOWS_def tables_indexes_parts tables_indexes_wf_def tables_indexes_CATEGORY_SLUG_def sql_args_def md_args_def)

end
