(* ===== verification/Registry.thy ===== *)
theory Registry
  imports Build Wf_Performance Wf_Locking Wf_Xid Wf_Vacuum Wf_Partitioning Wf_Archival
    Wf_Tables_indexes Wf_Connections Wf_Replication Wf_Health Wf_Query_optimization Wf_Storage
    Wf_Schema_changes Wf_Incident_response Wf_Security Wf_Observability Wf_Maintenance Wf_Dr
    Wf_Automation
begin

text \<open>
  The modules a build imports, in the order of \<open>CATEGORY_MODULES\<close>, each with the slug of its
  category and its workflows.
\<close>

definition REGISTRIES :: "(string \<times> string \<times> workflow list) list" where
  "REGISTRIES =
     [(''tools.repo_builder.wf_performance'', performance_CATEGORY_SLUG, performance_WORKFLOWS),
      (''tools.repo_builder.wf_locking'', locking_CATEGORY_SLUG, locking_WORKFLOWS),
      (''tools.repo_builder.wf_xid'', xid_CATEGORY_SLUG, xid_WORKFLOWS),
      (''tools.repo_builder.wf_vacuum'', vacuum_CATEGORY_SLUG, vacuum_WORKFLOWS),
      (''tools.repo_builder.wf_partitioning'', partitioning_CATEGORY_SLUG, partitioning_WORKFLOWS),
      (''tools.repo_builder.wf_archival'', archival_CATEGORY_SLUG, archival_WORKFLOWS),
      (''tools.repo_builder.wf_tables_indexes'', tables_indexes_CATEGORY_SLUG, tables_indexes_WORKFLOWS),
      (''tools.repo_builder.wf_connections'', connections_CATEGORY_SLUG, connections_WORKFLOWS),
      (''tools.repo_builder.wf_replication'', replication_CATEGORY_SLUG, replication_WORKFLOWS),
      (''tools.repo_builder.wf_health'', health_CATEGORY_SLUG, health_WORKFLOWS),
      (''tools.repo_builder.wf_query_optimization'', query_optimization_CATEGORY_SLUG, query_optimization_WORKFLOWS),
      (''tools.repo_builder.wf_storage'', storage_CATEGORY_SLUG, storage_WORKFLOWS),
      (''tools.repo_builder.wf_schema_changes'', schema_changes_CATEGORY_SLUG, schema_changes_WORKFLOWS),
      (''tools.repo_builder.wf_incident_response'', incident_response_CATEGORY_SLUG, incident_response_WORKFLOWS),
      (''tools.repo_builder.wf_security'', security_CATEGORY_SLUG, security_WORKFLOWS),
      (''tools.repo_builder.wf_observability'', observability_CATEGORY_SLUG, observability_WORKFLOWS),
      (''tools.repo_builder.wf_maintenance'', maintenance_CATEGORY_SLUG, maintenance_WORKFLOWS),
      (''tools.repo_builder.wf_dr'', dr_CATEGORY_SLUG, dr_WORKFLOWS),
      (''tools.repo_builder.wf_automation'', automation_CATEGORY_SLUG, automation_WORKFLOWS)]"

text \<open>The attributes of an imported module; other modules are not in the list of a build.\<close>

definition program_registry :: registry where
  "program_registry mod_name =
     (case dict_get REGISTRIES mod_name of Some r \<Rightarrow> r | None \<Rightarrow> ([], []))"

end
