(* ===== verification/Program.thy ===== *)
theory Program
  imports Links Registry
begin

text \<open>
  The program's own registry: its workflows are those of the catalog, their scripts are numbered,
  their links lead to one another, and a build of them into an empty repository is accepted by the
  validator's checks. The facts about the modules are read off their outlines.
\<close>

section \<open>What the modules contain\<close>

text \<open>The links that lead to the catalog, one by one.\<close>

lemmas known_near [simp] = catalog_near[unfolded EXPLICIT_CATALOG_def list.pred_inject prod.case append.simps simp_thms]

lemmas known_category [simp] = catalog_category[unfolded EXPLICIT_CATALOG_def list.pred_inject prod.case append.simps simp_thms]

lemmas known_far [simp] = catalog_far[unfolded EXPLICIT_CATALOG_def list.pred_inject prod.case append.simps simp_thms]

lemmas links_eval = links_ok_def link_ok_def

lemma digit_char_eval:
  "digit_char 0 = CHR ''0''" "digit_char (Suc 0) = CHR ''1''" "digit_char (Suc (Suc 0)) = CHR ''2''"
  "digit_char 2 = CHR ''2''" "digit_char 3 = CHR ''3''" "digit_char 4 = CHR ''4''" "digit_char 5 = CHR ''5''"
  "digit_char 6 = CHR ''6''" "digit_char 7 = CHR ''7''" "digit_char 8 = CHR ''8''" "digit_char 9 = CHR ''9''"
  by code_simp+

lemma same_slugs_outline:
  "same_slugs slugs ws \<longleftrightarrow>
     (let names = map (\<lambda>(c, slug, issues, ss). slug) (map workflow_outline ws) in
      names \<noteq> [] \<and> list_all (\<lambda>x. x \<in> set slugs) names \<and> list_all (\<lambda>x. x \<in> set names) slugs)"
  by (auto simp: same_slugs_def workflow_outline_def list_all_iff Let_def comp_def)

text \<open>The scripts of a module that the generator does not write, from the outlines.\<close>

definition external_names :: "workflow_summary list \<Rightarrow> path list" where
  "external_names sums =
     concat (map (\<lambda>(c, slug, issues, ss).
       map (\<lambda>(order, name, kind, managed). [c, slug, ''scripts'', name @ ''.'' @ kind])
         (filter (\<lambda>(order, name, kind, managed). \<not> managed) ss)) sums)"

lemma external_outline:
  assumes "module_ok registry m"
  shows "external_scripts root (snd (registry m)) = map ((@) root) (external_names (map workflow_outline (snd (registry m))))"
proof -
  have path: "script_path root w s = root @ [w_category_slug w, w_slug w, ''scripts'', s_name s @ ''.'' @ s_kind s]"
    if w: "w \<in> set (snd (registry m))" and s: "s \<in> set (w_scripts w)" for w s
  proof -
    note sum = module_summary[OF assms w]
    have "s_kind s \<in> {''sql'', ''md''}"
      using numbered_nth[OF summary_workflow(5)[OF sum]] s by (auto simp: script_in)
    then show ?thesis
      using workflow_script_path[OF sum module_category[OF assms] s, of root] module_slug[OF assms w]
      by (auto simp: filename_def)
  qed
  have scripts: "map (script_path root w) (filter (\<lambda>s. \<not> s_generator_managed s) (w_scripts w)) =
      map ((@) root) (map (\<lambda>(order, name, kind, managed). [w_category_slug w, w_slug w, ''scripts'', name @ ''.'' @ kind])
        (filter (\<lambda>(order, name, kind, managed). \<not> managed) (map script_outline (w_scripts w))))"
    if "w \<in> set (snd (registry m))" for w
    using path[OF that] by (simp add: filter_map comp_def script_outline_def)
  then show ?thesis
    unfolding external_scripts_def external_names_def map_concat
    by (simp add: workflow_outline_def comp_def cong: map_cong)
qed

lemmas category_eval = category_ok_def two_digits_def digit_char_eval simple_name_def simple_char_eval

lemma performance_category: "category_ok ''performance'' (map workflow_outline performance_WORKFLOWS)"
  by (simp add: performance_outline category_eval)

lemma performance_links: "list_all links_ok (map workflow_outline performance_WORKFLOWS)"
  by (simp add: performance_outline links_eval)

lemma performance_external: "external_names (map workflow_outline performance_WORKFLOWS) = []"
  by (simp add: performance_outline external_names_def)

lemma performance_slugs: "same_slugs
    [''high-cpu'', ''high-database-load'', ''slow-queries'', ''query-regression'', ''high-iops'',
     ''high-latency'', ''throughput-degradation'', ''sudden-performance-degradation'',
     ''performance-after-deployment'', ''performance-after-failover'']
    performance_WORKFLOWS"
  by (simp add: same_slugs_outline performance_outline)

lemma locking_category: "category_ok ''concurrency-and-locking'' (map workflow_outline locking_WORKFLOWS)"
  by (simp add: locking_outline category_eval)

lemma locking_links: "list_all links_ok (map workflow_outline locking_WORKFLOWS)"
  by (simp add: locking_outline links_eval)

lemma locking_external: "external_names (map workflow_outline locking_WORKFLOWS) = []"
  by (simp add: locking_outline external_names_def)

lemma locking_slugs: "same_slugs
    [''blocked-queries'', ''lock-contention'', ''deadlocks'', ''long-running-transactions'',
     ''idle-in-transaction'', ''transaction-contention'', ''ddl-blocking'', ''connection-contention'']
    locking_WORKFLOWS"
  by (simp add: same_slugs_outline locking_outline)

lemma xid_category: "category_ok ''transactions-and-xid'' (map workflow_outline xid_WORKFLOWS)"
  by (simp add: xid_outline category_eval)

lemma xid_links: "list_all links_ok (map workflow_outline xid_WORKFLOWS)"
  by (simp add: xid_outline links_eval)

lemma xid_external: "external_names (map workflow_outline xid_WORKFLOWS) = []"
  by (simp add: xid_outline external_names_def)

lemma xid_slugs: "same_slugs
    [''xid-wraparound-risk'', ''transaction-age'', ''oldest-transactions'', ''prepared-transactions'',
     ''multixact-risk'']
    xid_WORKFLOWS"
  by (simp add: same_slugs_outline xid_outline)

lemma vacuum_category: "category_ok ''vacuum-and-autovacuum'' (map workflow_outline vacuum_WORKFLOWS)"
  by (simp add: vacuum_outline category_eval)

lemma vacuum_links: "list_all links_ok (map workflow_outline vacuum_WORKFLOWS)"
  by (simp add: vacuum_outline links_eval)

lemma vacuum_external: "external_names (map workflow_outline vacuum_WORKFLOWS) = []"
  by (simp add: vacuum_outline external_names_def)

lemma vacuum_slugs: "same_slugs
    [''autovacuum-not-keeping-up'', ''vacuum-progress'', ''dead-tuples'', ''table-bloat'', ''index-bloat'',
     ''vacuum-blocked'', ''emergency-autovacuum'', ''analyze-statistics'']
    vacuum_WORKFLOWS"
  by (simp add: same_slugs_outline vacuum_outline)

lemma partitioning_category: "category_ok ''partitioning'' (map workflow_outline partitioning_WORKFLOWS)"
  by (simp add: partitioning_outline category_eval)

lemma partitioning_links: "list_all links_ok (map workflow_outline partitioning_WORKFLOWS)"
  by (simp add: partitioning_outline links_eval)

lemma partitioning_external: "external_names (map workflow_outline partitioning_WORKFLOWS) = []"
  by (simp add: partitioning_outline external_names_def)

lemma partitioning_slugs: "same_slugs
    [''investigate-partitioning-candidate'', ''partition-existing-large-table'', ''partition-maintenance'',
     ''partition-pruning'', ''missing-partitions'', ''partition-skew'', ''partition-performance'']
    partitioning_WORKFLOWS"
  by (simp add: same_slugs_outline partitioning_outline)

lemma archival_category: "category_ok ''archival-and-data-lifecycle'' (map workflow_outline archival_WORKFLOWS)"
  by (simp add: archival_outline category_eval)

lemma archival_links: "list_all links_ok (map workflow_outline archival_WORKFLOWS)"
  by (simp add: archival_outline links_eval)

lemma archival_external: "external_names (map workflow_outline archival_WORKFLOWS) = []"
  by (simp add: archival_outline external_names_def)

lemma archival_slugs: "same_slugs
    [''investigate-archiving-candidate'', ''archive-large-table'', ''archive-partition'', ''purge-old-data'',
     ''retention-policy'', ''archive-validation'']
    archival_WORKFLOWS"
  by (simp add: same_slugs_outline archival_outline)

lemma tables_indexes_category: "category_ok ''tables-and-indexes'' (map workflow_outline tables_indexes_WORKFLOWS)"
  by (simp add: tables_indexes_outline category_eval)

lemma tables_indexes_links: "list_all links_ok (map workflow_outline tables_indexes_WORKFLOWS)"
  by (simp add: tables_indexes_outline links_eval)

lemma tables_indexes_external: "external_names (map workflow_outline tables_indexes_WORKFLOWS) = []"
  by (simp add: tables_indexes_outline external_names_def)

lemma tables_indexes_slugs: "same_slugs
    [''unused-indexes'', ''duplicate-indexes'', ''missing-index-candidates'',
     ''sequential-scan-investigation'', ''index-bloat'', ''table-bloat'', ''invalid-indexes'',
     ''large-tables'', ''rapidly-growing-tables'', ''table-access-patterns'']
    tables_indexes_WORKFLOWS"
  by (simp add: same_slugs_outline tables_indexes_outline)

lemma connections_category: "category_ok ''connections'' (map workflow_outline connections_WORKFLOWS)"
  by (simp add: connections_outline category_eval)

lemma connections_links: "list_all links_ok (map workflow_outline connections_WORKFLOWS)"
  by (simp add: connections_outline links_eval)

lemma connections_external: "external_names (map workflow_outline connections_WORKFLOWS) = []"
  by (simp add: connections_outline external_names_def)

lemma connections_slugs: "same_slugs
    [''connection-exhaustion'', ''connection-spikes'', ''idle-connections'', ''idle-in-transaction'',
     ''connection-pooling'', ''max-connections-planning'', ''application-connection-analysis'']
    connections_WORKFLOWS"
  by (simp add: same_slugs_outline connections_outline)

lemma replication_category: "category_ok ''replication-and-ha'' (map workflow_outline replication_WORKFLOWS)"
  by (simp add: replication_outline category_eval)

lemma replication_links: "list_all links_ok (map workflow_outline replication_WORKFLOWS)"
  by (simp add: replication_outline links_eval)

lemma replication_external: "external_names (map workflow_outline replication_WORKFLOWS) = []"
  by (simp add: replication_outline external_names_def)

lemma replication_slugs: "same_slugs
    [''replication-lag'', ''reader-performance'', ''reader-lag-investigation'', ''failover-investigation'',
     ''failover-readiness'', ''writer-reader-imbalance'', ''replication-health'']
    replication_WORKFLOWS"
  by (simp add: same_slugs_outline replication_outline)

lemma health_category: "category_ok ''database-health'' (map workflow_outline health_WORKFLOWS)"
  by (simp add: health_outline category_eval)

lemma health_links: "list_all links_ok (map workflow_outline health_WORKFLOWS)"
  by (simp add: health_outline links_eval)

lemma health_external: "external_names (map workflow_outline health_WORKFLOWS) = []"
  by (simp add: health_outline external_names_def)

lemma health_slugs: "same_slugs
    [''comprehensive-health-check'', ''daily-health-check'', ''pre-deployment-check'',
     ''post-deployment-check'', ''pre-maintenance-check'', ''post-maintenance-check'',
     ''capacity-health-check'']
    health_WORKFLOWS"
  by (simp add: same_slugs_outline health_outline)

lemma query_optimization_category: "category_ok ''query-optimization'' (map workflow_outline query_optimization_WORKFLOWS)"
  by (simp add: query_optimization_outline category_eval)

lemma query_optimization_links: "list_all links_ok (map workflow_outline query_optimization_WORKFLOWS)"
  by (simp add: query_optimization_outline links_eval)

lemma query_optimization_external: "external_names (map workflow_outline query_optimization_WORKFLOWS) = []"
  by (simp add: query_optimization_outline external_names_def)

lemma query_optimization_slugs: "same_slugs
    [''analyze-query-plan'', ''nested-loop-problems'', ''hash-join-analysis'', ''merge-join-analysis'',
     ''cardinality-estimation'', ''stale-statistics'', ''sort-spills'', ''temp-file-investigation'',
     ''inefficient-index-usage'', ''query-plan-regression'']
    query_optimization_WORKFLOWS"
  by (simp add: same_slugs_outline query_optimization_outline)

lemma storage_category: "category_ok ''storage-and-capacity'' (map workflow_outline storage_WORKFLOWS)"
  by (simp add: storage_outline category_eval)

lemma storage_links: "list_all links_ok (map workflow_outline storage_WORKFLOWS)"
  by (simp add: storage_outline links_eval)

lemma storage_external: "external_names (map workflow_outline storage_WORKFLOWS) = []"
  by (simp add: storage_outline external_names_def)

lemma storage_slugs: "same_slugs
    [''database-growth'', ''table-growth'', ''index-growth'', ''wal-generation'', ''temp-file-growth'',
     ''capacity-forecasting'', ''unexpected-storage-growth'']
    storage_WORKFLOWS"
  by (simp add: same_slugs_outline storage_outline)

lemma schema_changes_category: "category_ok ''schema-changes'' (map workflow_outline schema_changes_WORKFLOWS)"
  by (simp add: schema_changes_outline category_eval)

lemma schema_changes_links: "list_all links_ok (map workflow_outline schema_changes_WORKFLOWS)"
  by (simp add: schema_changes_outline links_eval)

lemma schema_changes_external: "external_names (map workflow_outline schema_changes_WORKFLOWS) = []"
  by (simp add: schema_changes_outline external_names_def)

lemma schema_changes_slugs: "same_slugs
    [''safe-index-creation'', ''concurrent-index-build'', ''failed-index-build'', ''large-table-ddl'',
     ''column-type-change'', ''add-column-large-table'', ''add-index-large-table'', ''drop-index-safely'',
     ''ddl-lock-investigation'']
    schema_changes_WORKFLOWS"
  by (simp add: same_slugs_outline schema_changes_outline)

lemma incident_response_category: "category_ok ''incident-response'' (map workflow_outline incident_response_WORKFLOWS)"
  by (simp add: incident_response_outline category_eval)

lemma incident_response_links: "list_all links_ok (map workflow_outline incident_response_WORKFLOWS)"
  by (simp add: incident_response_outline links_eval)

lemma incident_response_external: "external_names (map workflow_outline incident_response_WORKFLOWS) = []"
  by (simp add: incident_response_outline external_names_def)

lemma incident_response_slugs: "same_slugs
    [''database-unavailable'', ''sudden-latency-spike'', ''high-cpu'', ''connection-exhaustion'',
     ''lock-storm'', ''runaway-query'', ''application-timeouts'', ''post-deployment-incident'',
     ''production-triage'']
    incident_response_WORKFLOWS"
  by (simp add: same_slugs_outline incident_response_outline)

lemma security_category: "category_ok ''security-and-access'' (map workflow_outline security_WORKFLOWS)"
  by (simp add: security_outline category_eval)

lemma security_links: "list_all links_ok (map workflow_outline security_WORKFLOWS)"
  by (simp add: security_outline links_eval)

lemma security_external: "external_names (map workflow_outline security_WORKFLOWS) = []"
  by (simp add: security_outline external_names_def)

lemma security_slugs: "same_slugs
    [''role-and-privilege-audit'', ''unused-and-orphaned-roles'', ''public-schema-exposure'',
     ''ssl-and-connection-security'', ''audit-logging-and-iam-auth'', ''row-level-security-review'',
     ''credential-and-authentication-hygiene'', ''access-anomaly-investigation'']
    security_WORKFLOWS"
  by (simp add: same_slugs_outline security_outline)

lemma observability_category: "category_ok ''observability'' (map workflow_outline observability_WORKFLOWS)"
  by (simp add: observability_outline category_eval)

lemma observability_links: "list_all links_ok (map workflow_outline observability_WORKFLOWS)"
  by (simp add: observability_outline links_eval)

lemma observability_external: "external_names (map workflow_outline observability_WORKFLOWS) = [[''observability'', ''comprehensive-html-report'', ''scripts'', ''01_postgres_observability_report.sql'']]"
  by (simp add: observability_outline external_names_def)

lemma observability_slugs: "same_slugs
    [''postgres-metrics'', ''performance-insights'', ''cloudwatch'', ''slow-query-observability'',
     ''wait-event-analysis'', ''dashboard-recommendations'', ''comprehensive-html-report'']
    observability_WORKFLOWS"
  by (simp add: same_slugs_outline observability_outline)

lemma maintenance_category: "category_ok ''maintenance'' (map workflow_outline maintenance_WORKFLOWS)"
  by (simp add: maintenance_outline category_eval)

lemma maintenance_links: "list_all links_ok (map workflow_outline maintenance_WORKFLOWS)"
  by (simp add: maintenance_outline links_eval)

lemma maintenance_external: "external_names (map workflow_outline maintenance_WORKFLOWS) = []"
  by (simp add: maintenance_outline external_names_def)

lemma maintenance_slugs: "same_slugs
    [''routine-maintenance-checklist'', ''reindex-strategy'', ''extension-upgrade-planning'',
     ''parameter-group-change-management'', ''minor-version-upgrade-readiness'', ''statistics-maintenance'',
     ''planned-maintenance-window-checklist'']
    maintenance_WORKFLOWS"
  by (simp add: same_slugs_outline maintenance_outline)

lemma dr_category: "category_ok ''disaster-recovery'' (map workflow_outline dr_WORKFLOWS)"
  by (simp add: dr_outline category_eval)

lemma dr_links: "list_all links_ok (map workflow_outline dr_WORKFLOWS)"
  by (simp add: dr_outline links_eval)

lemma dr_external: "external_names (map workflow_outline dr_WORKFLOWS) = []"
  by (simp add: dr_outline external_names_def)

lemma dr_slugs: "same_slugs
    [''cluster-failover-drill'', ''backup-and-restore-validation'', ''point-in-time-recovery-drill'',
     ''cross-region-and-full-cluster-loss'', ''rto-rpo-validation'', ''snapshot-restore-testing'']
    dr_WORKFLOWS"
  by (simp add: same_slugs_outline dr_outline)

lemma automation_category: "category_ok ''automation'' (map workflow_outline automation_WORKFLOWS)"
  by (simp add: automation_outline category_eval)

lemma automation_links: "list_all links_ok (map workflow_outline automation_WORKFLOWS)"
  by (simp add: automation_outline links_eval)

lemma automation_external: "external_names (map workflow_outline automation_WORKFLOWS) = []"
  by (simp add: automation_outline external_names_def)

lemma automation_slugs: "same_slugs
    [''health-checks'', ''growth-monitoring'', ''xid-monitoring'', ''index-monitoring'',
     ''capacity-monitoring'']
    automation_WORKFLOWS"
  by (simp add: same_slugs_outline automation_outline)

lemmas module_slugs =
  performance_CATEGORY_SLUG_def locking_CATEGORY_SLUG_def xid_CATEGORY_SLUG_def
  vacuum_CATEGORY_SLUG_def partitioning_CATEGORY_SLUG_def archival_CATEGORY_SLUG_def
  tables_indexes_CATEGORY_SLUG_def connections_CATEGORY_SLUG_def replication_CATEGORY_SLUG_def
  health_CATEGORY_SLUG_def query_optimization_CATEGORY_SLUG_def storage_CATEGORY_SLUG_def
  schema_changes_CATEGORY_SLUG_def incident_response_CATEGORY_SLUG_def security_CATEGORY_SLUG_def
  observability_CATEGORY_SLUG_def maintenance_CATEGORY_SLUG_def dr_CATEGORY_SLUG_def
  automation_CATEGORY_SLUG_def

lemmas module_category_ok =
  performance_category locking_category xid_category vacuum_category
  partitioning_category archival_category tables_indexes_category connections_category
  replication_category health_category query_optimization_category storage_category
  schema_changes_category incident_response_category security_category observability_category
  maintenance_category dr_category automation_category

lemmas module_links_ok =
  performance_links locking_links xid_links vacuum_links
  partitioning_links archival_links tables_indexes_links connections_links
  replication_links health_links query_optimization_links storage_links
  schema_changes_links incident_response_links security_links observability_links
  maintenance_links dr_links automation_links

lemmas module_slugs_ok =
  performance_slugs locking_slugs xid_slugs vacuum_slugs
  partitioning_slugs archival_slugs tables_indexes_slugs connections_slugs
  replication_slugs health_slugs query_optimization_slugs storage_slugs
  schema_changes_slugs incident_response_slugs security_slugs observability_slugs
  maintenance_slugs dr_slugs automation_slugs

lemmas module_external =
  performance_external locking_external xid_external vacuum_external
  partitioning_external archival_external tables_indexes_external connections_external
  replication_external health_external query_optimization_external storage_external
  schema_changes_external incident_response_external security_external observability_external
  maintenance_external dr_external automation_external

section \<open>The registry of the program\<close>

lemma registry_list: "map program_registry CATEGORY_MODULES = map snd REGISTRIES"
proof -
  have keys: "CATEGORY_MODULES = map fst REGISTRIES"
    by (simp add: CATEGORY_MODULES_def REGISTRIES_def)
  have "distinct (map (drop 22) CATEGORY_MODULES)"
    by (simp add: CATEGORY_MODULES_def)
  then have "distinct (map fst REGISTRIES)"
    unfolding keys[symmetric] by (simp only: distinct_map)
  then have "map_of REGISTRIES (fst r) = Some (snd r)" if "r \<in> set REGISTRIES" for r
    using that by simp
  then show ?thesis
    by (simp add: keys program_registry_def dict_get_def)
qed

lemma over_registries:
  "list_all (\<lambda>m. P (program_registry m)) CATEGORY_MODULES \<longleftrightarrow> list_all P (map snd REGISTRIES)"
  by (simp only: registry_list[symmetric] list.pred_map comp_def)

lemma program_module_ok: "list_all (module_ok program_registry) CATEGORY_MODULES"
proof -
  have "list_all (\<lambda>(c, ws). simple_name c \<and> c \<noteq> [] \<and> hd c \<noteq> CHR ''.'' \<and> category_ok c (map workflow_outline ws))
      (map snd REGISTRIES)"
    by (simp add: REGISTRIES_def module_slugs module_category_ok simple_name_def simple_char_eval)
  then show ?thesis
    unfolding over_registries[symmetric] by (simp add: module_ok_def[abs_def] case_prod_unfold)
qed

lemma program_categories: "distinct_categories program_registry CATEGORY_MODULES"
proof -
  have "distinct (map fst (map snd REGISTRIES))"
    by (simp add: REGISTRIES_def module_slugs)
  then show ?thesis
    unfolding distinct_categories_def registry_list[symmetric] by (simp add: comp_def)
qed

lemma program_registry_ok: "registry_ok program_registry CATEGORY_MODULES"
  unfolding registry_ok_def using program_categories program_module_ok by blast

lemma program_no_script_names: "no_script_names program_registry CATEGORY_MODULES"
proof -
  have "list_all (\<lambda>r. \<not> suffix ''.sql'' (fst r)) (map snd REGISTRIES)"
    by (simp add: REGISTRIES_def module_slugs suffix_to_prefix)
  then show ?thesis
    unfolding over_registries[symmetric] no_script_names_def .
qed

lemma program_matches: "matches_catalog program_registry CATEGORY_MODULES"
proof -
  have "list_all (\<lambda>(c, slugs). list_ex (\<lambda>r. fst r = c \<and> same_slugs slugs (snd r)) (map snd REGISTRIES)) EXPLICIT_CATALOG"
    by (simp add: REGISTRIES_def EXPLICIT_CATALOG_def module_slugs module_slugs_ok)
  then show ?thesis
    unfolding matches_catalog_def registry_list[symmetric] by (simp add: list_ex_iff)
qed

lemma program_links: "list_all (\<lambda>m. list_all links_ok (map workflow_outline (snd (program_registry m)))) CATEGORY_MODULES"
proof -
  have "list_all (\<lambda>r. list_all links_ok (map workflow_outline (snd r))) (map snd REGISTRIES)"
    by (simp only: REGISTRIES_def list.map snd_conv list.pred_inject module_links_ok simp_thms)
  then show ?thesis
    unfolding over_registries[symmetric] .
qed

text \<open>The one script that the generator refers to and that is kept by hand.\<close>

definition program_external :: "path \<Rightarrow> path" where
  "program_external root =
     root @ [''observability'', ''comprehensive-html-report'', ''scripts'', ''01_postgres_observability_report.sql'']"

lemma program_externals: "all_external root program_registry CATEGORY_MODULES = [program_external root]"
proof -
  have "all_external root program_registry CATEGORY_MODULES =
      concat (map (\<lambda>m. map ((@) root) (external_names (map workflow_outline (snd (program_registry m))))) CATEGORY_MODULES)"
    unfolding all_external_def
    using program_module_ok by (intro arg_cong[where f = concat] map_cong[OF refl] external_outline) (simp add: list_all_iff)
  also have "\<dots> = concat (map (\<lambda>r. map ((@) root) (external_names (map workflow_outline (snd r)))) (map program_registry CATEGORY_MODULES))"
    by (simp add: comp_def)
  also have "\<dots> = [program_external root]"
    unfolding registry_list REGISTRIES_def list.map snd_conv module_external
    by (simp add: program_external_def)
  finally show ?thesis .
qed

section \<open>A build of the program\<close>

lemma program_build:
  assumes "fresh_tree t root [program_external root]"
  shows "\<exists>out out' t'. build_main root None program_registry t = (Inr out, t') \<and>
    check_catalog_completeness t' root = Inr [] \<and> check_workflow_readmes t' root = Inr [] \<and>
    check_sequential_filenames t' root = Inr [] \<and> readmes_at t' root \<and>
    build_main root None program_registry t' = (Inr out', t')"
proof -
  let ?mods = CATEGORY_MODULES
  note ok = program_registry_ok
  have fresh: "fresh_tree t root (all_external root program_registry ?mods)"
    using assms by (simp only: program_externals)
  obtain out t' where t': "build_main root None program_registry t = (Inr out, t')"
    and tree: "\<And>p. strict_prefix root p \<Longrightarrow>
      (is_dir t' p \<longleftrightarrow> (\<exists>f\<in>all_targets root program_registry ?mods. strict_prefix p f)) \<and>
      (is_file t' p \<longleftrightarrow> p \<in> all_targets root program_registry ?mods \<or> p = manifest_path root) \<and>
      (node_at t' p \<noteq> None \<longrightarrow> is_dir t' p \<or> is_file t' p)"
    using fresh_build_tree[OF ok fresh generated_not_external[OF ok]] by metis
  have target: "is_file t' p" if "p \<in> all_targets root program_registry ?mods" for p
    using tree[OF target_below(1)[OF program_module_ok that]] that by blast
  have again: "\<exists>out'. build_main root None program_registry t' = (Inr out', t')"
  proof (rule build_again[OF _ _ program_categories registry_paths_distinct[OF ok] _ _ t'])
    show "wf_fs t"
      using assms by (simp add: fresh_tree_def)
    show "list_all (good_module program_registry) ?mods"
      using program_module_ok module_good(1) by (auto simp: list_all_iff)
    show "load_manifest t root = Inr []"
      by (rule fresh_no_manifest(2)[OF program_module_ok fresh])
    show "normal_manifest []"
      by (simp add: normal_manifest_def)
    show "list_all (\<lambda>m. list_all (is_file t') (external_scripts root (snd (program_registry m)))) ?mods"
      using target targets_split[OF program_module_ok, of root] by (auto simp: list_all_iff all_external_def)
  qed
  have "readmes_at t' root"
    unfolding readmes_at_def list_all_iff
  proof (intro ballI, clarify, intro conjI ballI)
    fix c slugs
    assume "(c, slugs) \<in> set EXPLICIT_CATALOG"
    then obtain m where m: "m \<in> set ?mods" "fst (program_registry m) = c" "same_slugs slugs (snd (program_registry m))"
      using bspec[OF program_matches[unfolded matches_catalog_def list_all_iff]] by (auto simp: list_ex_iff)
    then show "is_file t' (root @ [c, ''README.md''])"
      by (intro target) (auto simp: all_targets_def category_targets_def same_slugs_def)
    fix s
    assume "s \<in> set slugs"
    then obtain w where "w \<in> set (snd (program_registry m))" "s = w_slug w"
      using same_slugs_set[OF m(3)] by blast
    then show "is_file t' (root @ [c, s, ''README.md''])"
      using workflow_target[of m ?mods w program_registry "[''README.md'']" root] m(1,2)
      by (intro target) (simp add: names_cases)
  qed
  with again t' show ?thesis
    using scratch_checks[OF ok program_matches program_no_script_names fresh generated_not_external[OF ok]]
    by (metis prod.inject)
qed

lemma program_links_resolve:
  assumes "readmes_at t root" and "m \<in> set CATEGORY_MODULES" and "w \<in> set (snd (program_registry m))"
    and "r \<in> set (w_related_issues w)"
  shows "link_issues t root (root @ [w_category_slug w, w_slug w, ''README.md'']) r = []"
proof -
  have "link_ok (w_category_slug w) r"
    using program_links assms(2-4) by (fastforce simp: list_all_iff links_ok_def workflow_outline_def)
  then show ?thesis
    by (rule link_resolves[OF assms(1)])
qed

section \<open>Properties\<close>

text \<open>
  C2: building the program's registry into a tree that holds the report kept by hand and nothing
  else below the root returns; on the result the checks of the catalog, of the required files and
  of the numbering find nothing, and a second build returns and changes nothing.
\<close>

theorem program_build_accepted:
  assumes "fresh_tree t root [program_external root]"
  shows "\<exists>out out' t'. build_main root None program_registry t = (Inr out, t') \<and>
    check_catalog_completeness t' root = Inr [] \<and> check_workflow_readmes t' root = Inr [] \<and>
    check_sequential_filenames t' root = Inr [] \<and> build_main root None program_registry t' = (Inr out', t')"
  using program_build[OF assms] by blast

text \<open>
  C32: after such a build the link check has nothing to report on any related issue of any
  workflow, at the README that shows it.
\<close>

theorem related_links_resolve:
  assumes "fresh_tree t root [program_external root]" and "build_main root None program_registry t = (Inr out, t')"
  shows "list_all (\<lambda>m. list_all (\<lambda>w. list_all (\<lambda>r.
      link_issues t' root (root @ [w_category_slug w, w_slug w, ''README.md'']) r = [])
    (w_related_issues w)) (snd (program_registry m))) CATEGORY_MODULES"
proof -
  have "readmes_at t' root"
    using program_build[OF assms(1)] assms(2) by auto
  from program_links_resolve[OF this] show ?thesis
    by (simp add: list_all_iff)
qed

text \<open>
  C33: the modules hold, category by category, the workflows that the validator's catalog lists,
  no fewer and no more.
\<close>

theorem registry_is_catalog:
  "length CATEGORY_MODULES = length EXPLICIT_CATALOG \<and>
   list_all (\<lambda>(c, slugs). list_ex (\<lambda>m. fst (program_registry m) = c \<and>
     set (map w_slug (snd (program_registry m))) = set slugs) CATEGORY_MODULES) EXPLICIT_CATALOG"
proof
  show "length CATEGORY_MODULES = length EXPLICIT_CATALOG"
    by (simp add: CATEGORY_MODULES_def EXPLICIT_CATALOG_def)
  show "list_all (\<lambda>(c, slugs). list_ex (\<lambda>m. fst (program_registry m) = c \<and>
      set (map w_slug (snd (program_registry m))) = set slugs) CATEGORY_MODULES) EXPLICIT_CATALOG"
    using program_matches same_slugs_set unfolding matches_catalog_def list_all_iff list_ex_iff set_map by fast
qed

text \<open>
  C34: the file names of the scripts of every workflow, owned and external, pass the numbering
  check: they run from 1 up without a gap, and none of them is a stray file.
\<close>

theorem program_scripts_numbered:
  "list_all (\<lambda>m. list_all (\<lambda>w. numbering_issues r (map filename (w_scripts w)) = []) (snd (program_registry m)))
     CATEGORY_MODULES"
proof -
  have "numbering_issues r (map filename (w_scripts w)) = []"
    if "module_ok program_registry m" "w \<in> set (snd (program_registry m))" for m w
    using summary_numbering[OF module_summary[OF that] summary_distinct[OF module_summary[OF that]]] by simp
  then show ?thesis
    using program_module_ok unfolding list_all_iff by blast
qed

section \<open>A tree to build into\<close>

definition empty_repository :: fs where
  "empty_repository =
     [([''r''], Dir), ([''r'', ''observability''], Dir), ([''r'', ''observability'', ''comprehensive-html-report''], Dir),
      ([''r'', ''observability'', ''comprehensive-html-report'', ''scripts''], Dir),
      (program_external [''r''], File ''select 1'')]"

lemma empty_repository_fresh: "fresh_tree empty_repository [''r''] [program_external [''r'']]"
  by (simp add: fresh_tree_def empty_repository_def program_external_def wf_fs_def node_at_def dict_get_def is_file_def
      read_bytes_def strict_prefix_def)

theorem program_build_accepted_witness:
  "\<exists>out out' t'. build_main [''r''] None program_registry empty_repository = (Inr out, t') \<and>
     check_catalog_completeness t' [''r''] = Inr [] \<and> check_workflow_readmes t' [''r''] = Inr [] \<and>
     check_sequential_filenames t' [''r''] = Inr [] \<and> build_main [''r''] None program_registry t' = (Inr out', t')"
  by (rule program_build_accepted[OF empty_repository_fresh])

theorem related_links_resolve_witness:
  "\<exists>t'. list_all (\<lambda>m. list_all (\<lambda>w. list_all (\<lambda>r.
      link_issues t' [''r''] [''r'', w_category_slug w, w_slug w, ''README.md''] r = [])
    (w_related_issues w)) (snd (program_registry m))) CATEGORY_MODULES"
proof -
  obtain out t' where "build_main [''r''] None program_registry empty_repository = (Inr out, t')"
    using program_build[OF empty_repository_fresh] by blast
  from related_links_resolve[OF empty_repository_fresh this] show ?thesis
    by (intro exI[of _ t']) simp
qed

theorem build_from_scratch_witness:
  "\<exists>out t'. build_main [''r''] None program_registry empty_repository = (Inr out, t') \<and>
     is_file t' [''r'', ''performance'', ''README.md'']"
proof -
  have fresh: "fresh_tree empty_repository [''r''] (all_external [''r''] program_registry CATEGORY_MODULES)"
    using empty_repository_fresh by (simp only: program_externals)
  have "list_ex (\<lambda>m. fst (program_registry m) = ''performance'' \<and> snd (program_registry m) \<noteq> []) CATEGORY_MODULES"
    using bspec[OF program_matches[unfolded matches_catalog_def list_all_iff], of "hd EXPLICIT_CATALOG"]
    by (simp add: EXPLICIT_CATALOG_def list_ex_iff same_slugs_def) blast
  then have "[''r'', ''performance'', ''README.md''] \<in> all_targets [''r''] program_registry CATEGORY_MODULES"
    by (auto simp: list_ex_iff all_targets_def category_targets_def)
  then show ?thesis
    using build_from_scratch[OF program_registry_ok fresh] by (auto simp: strict_prefix_def dest!: spec[of _ "[''r'', ''performance'', ''README.md'']"])
qed

end

