(* ===== verification/Validator_Laws.thy ===== *)
theory Validator_Laws
  imports Name_Laws Header_Roundtrip
begin

text \<open>
  The loops over files that the checks share, and the verdict of the check for destructive
  statements, on any tree and on what the generator renders.
\<close>

section \<open>Loops over files\<close>

lemma collect_none: "collect f xs = Inr [] \<longleftrightarrow> list_all (\<lambda>x. f x = Inr []) xs"
  by (induction xs) (auto split: sum.splits)

lemma collect_raises: "(\<exists>e. collect f xs = Inl e) \<longleftrightarrow> list_ex (\<lambda>x. \<exists>e. f x = Inl e) xs"
  by (induction xs) (auto split: sum.splits)

lemma collect_errors:
  "collect f xs = Inr is \<Longrightarrow>
     with_severity ERROR is = [] \<longleftrightarrow> list_all (\<lambda>x. case f x of Inl e \<Rightarrow> False | Inr js \<Rightarrow> with_severity ERROR js = []) xs"
  by (induction xs arbitrary: "is") (auto simp: with_severity_def split: sum.splits)

section \<open>Destructive statements\<close>

definition declares_read_only :: "string \<Rightarrow> bool" where
  "declares_read_only content \<longleftrightarrow>
     (case safety_label (parse_sql_header content) of None \<Rightarrow> False | Some label \<Rightarrow> label \<noteq> [] \<and> prefix ''READ ONLY'' (upper label))"

definition creates_extension :: "string \<Rightarrow> bool" where
  "creates_extension = stands_in (spaced [kw ''CREATE'', kw ''EXTENSION''])"

definition harmless :: "bool \<Rightarrow> string \<Rightarrow> bool" where
  "harmless read_only body \<longleftrightarrow> \<not> creates_extension body \<and> \<not> (read_only \<and> forbidden_statement body)"

lemma create_extension_found: "found CREATE_EXTENSION_RE s \<longleftrightarrow> creates_extension s"
  unfolding CREATE_EXTENSION_RE_def creates_extension_def by (rule two_words_iff) (simp_all add: py_simps)

lemma forbidden_none:
  "filter (\<lambda>(pattern, txt_of). found pattern s) READ_ONLY_FORBIDDEN_PATTERNS = [] \<longleftrightarrow> \<not> forbidden_statement s"
  unfolding forbidden_patterns_iff[symmetric] filter_empty_conv list_ex_iff by auto

lemma destructive_none:
  "destructive_issues r content = [] \<longleftrightarrow>
     harmless (declares_read_only content) (strip_sql_comments_and_literals content)"
  unfolding destructive_issues_def Let_def declares_read_only_def[symmetric] create_extension_found harmless_def
  by (simp add: forbidden_none)

definition accepted :: "fs \<Rightarrow> (string \<Rightarrow> bool) \<Rightarrow> path \<Rightarrow> bool" where
  "accepted t ok f \<longleftrightarrow> (case read_replace t f of Inl e \<Rightarrow> False | Inr content \<Rightarrow> ok content)"

text \<open>The SQL files below a root whose text is ASCII, as far as they can be read.\<close>

definition ascii_sql :: "fs \<Rightarrow> path \<Rightarrow> bool" where
  "ascii_sql t root \<longleftrightarrow>
     list_all (\<lambda>f. case read_replace t f of Inl e \<Rightarrow> True | Inr content \<Rightarrow> ascii content) (discover_sql_files t root)"

lemma destructive_check_none:
  "check_no_destructive_statements t root = Inr [] \<longleftrightarrow>
     list_all (accepted t (\<lambda>content. harmless (declares_read_only content) (strip_sql_comments_and_literals content)))
       (discover_sql_files t root)"
proof -
  have "(case read_replace t f of Inl e \<Rightarrow> Inl e | Inr content \<Rightarrow> Inr (destructive_issues (rel root f) content)) = Inr [] \<longleftrightarrow>
      accepted t (\<lambda>content. harmless (declares_read_only content) (strip_sql_comments_and_literals content)) f" for f
    by (simp add: accepted_def destructive_none split: sum.split)
  then show ?thesis
    by (simp only: check_no_destructive_statements_def collect_none)
qed

text \<open>
  C18: where every SQL file is ASCII, the check for destructive statements reports nothing exactly
  when every SQL file can be read and what the four stripping passes leave of it creates no extension
  and, if the file declares itself read-only, has no forbidden statement: no TRUNCATE, no DROP, ALTER
  or CREATE directly followed by one of the listed kinds of object, no DELETE FROM, INSERT INTO,
  VACUUM FULL or UPDATE with its SET two words on, and no call of the two backend functions, each as
  words of their own in any letter case.
\<close>

theorem destructive_check_iff:
  assumes "ascii_sql t root"
  shows "check_no_destructive_statements t root = Inr [] \<longleftrightarrow>
     list_all (accepted t (\<lambda>content. harmless (declares_read_only content) (strip_sql_comments_and_literals content)))
       (discover_sql_files t root)"
  by (rule destructive_check_none)

text \<open>A repository with one script, which creates an extension.\<close>

definition extension_tree :: fs where
  "extension_tree = [([''r''], Dir), ([''r'', ''a.sql''], File ''CREATE EXTENSION x'')]"

lemma extension_read: "read_replace extension_tree [''r'', ''a.sql''] = Inr ''CREATE EXTENSION x''"
proof -
  have "read_bytes extension_tree [''r'', ''a.sql''] = Some ''CREATE EXTENSION x''"
    by (simp add: read_bytes_def node_at_def dict_get_def extension_tree_def)
  moreover have "decode_replace ''CREATE EXTENSION x'' = ''CREATE EXTENSION x''"
    by (simp add: decode_replace_ok ascii_valid)
  ultimately show ?thesis by (simp add: read_replace_def)
qed

lemma extension_files: "discover_sql_files extension_tree [''r''] = [[''r'', ''a.sql'']]"
  by (simp add: discover_sql_files_def rglob_def extension_tree_def name_of_def strict_prefix_def suffix_to_prefix)

lemma extension_created: "creates_extension ''CREATE EXTENSION x''"
proof -
  have one: "spaced [kw ''EXTENSION''] = kw ''EXTENSION''"
    by (rule ext) simp
  have two: "then_piece (run_of is_space) (kw ''EXTENSION'') ('' '' @ ''EXTENSION'')"
    unfolding then_piece_def by (intro exI[of _ "'' ''"] exI[of _ "''EXTENSION''"]) (simp add: run_of_def kw_def)
  have "spaced [kw ''CREATE'', kw ''EXTENSION''] (''CREATE'' @ '' '' @ ''EXTENSION'')"
    unfolding spaced.simps one then_piece_def[of "kw ''CREATE''"]
    using two by (metis kw_def)
  then show ?thesis
    unfolding creates_extension_def stands_in_def
    by (intro exI[of _ "[]"] exI[of _ "''CREATE'' @ '' '' @ ''EXTENSION''"] exI[of _ "'' x''"])
      (simp add: free_left_def free_right_def py_simps)
qed

theorem destructive_check_iff_witness: "check_no_destructive_statements extension_tree [''r''] \<noteq> Inr []"
proof -
  have "ascii_sql extension_tree [''r'']"
    by (simp add: ascii_sql_def extension_files extension_read)
  moreover have "strip_sql_comments_and_literals ''CREATE EXTENSION x'' = ''CREATE EXTENSION x''"
    unfolding strip_literals_eq by code_simp
  then have "\<not> harmless b (strip_sql_comments_and_literals ''CREATE EXTENSION x'')" for b
    using extension_created by (simp add: harmless_def)
  ultimately show ?thesis
    unfolding destructive_check_iff[OF \<open>ascii_sql extension_tree [''r'']\<close>]
    by (simp add: extension_files accepted_def extension_read)
qed

text \<open>A text without any of the first words of the patterns is harmless.\<close>

lemma kw_lower: "kw k w \<Longrightarrow> contains (lower k) (lower (a @ w @ b))"
  by (auto simp: kw_def contains_iff)

lemma first_word_lower:
  "stands_in (kw k) s \<Longrightarrow> contains (lower k) (lower s)"
  "stands_in (spaced (kw k # Q # Ps)) s \<Longrightarrow> contains (lower k) (lower s)"
  "starts_in (called k) s \<Longrightarrow> contains (lower k) (lower s)"
  unfolding stands_in_def starts_in_def called_def spaced.simps(3) then_piece_def
  using kw_lower by (metis append.assoc)+

definition forbidden_words :: "string list" where
  "forbidden_words =
     [''DROP'', ''TRUNCATE'', ''DELETE'', ''INSERT'', ''UPDATE'', ''ALTER'', ''VACUUM'', ''CREATE'',
      ''pg_terminate_backend'', ''pg_cancel_backend'']"

lemma forbidden_lower:
  "map lower forbidden_words =
     [''drop'', ''truncate'', ''delete'', ''insert'', ''update'', ''alter'', ''vacuum'', ''create'',
      ''pg_terminate_backend'', ''pg_cancel_backend'']"
  by code_simp

lemma harmless_without_words: "list_all (\<lambda>k. \<not> contains k (lower s)) (map lower forbidden_words) \<Longrightarrow> harmless ro s"
  unfolding harmless_def creates_extension_def forbidden_statement_def forbidden_words_def list.map list.pred_inject
  by (auto dest: first_word_lower simp del: lower_simps)

text \<open>
  What the scan of a read-only file does not see: a statement behind a comment marker in a literal,
  and statements that write without one of the listed words.
\<close>

lemma unseen_lower:
  "lower (''SELECT '' @ [QUOTE, CHR '' '']) = ''select '' @ [QUOTE, CHR '' '']" "lower ''COPY t FROM f'' = ''copy t from f''"
  "lower ''GRANT ALL ON t TO u'' = ''grant all on t to u''" "lower ''REINDEX TABLE t'' = ''reindex table t''"
  by code_simp+

lemma unseen_statements:
  "harmless True (strip_sql_comments_and_literals (''SELECT '' @ QUOTE # ''--'' @ QUOTE # ''; TRUNCATE t;''))"
  "harmless True ''COPY t FROM f''" "harmless True ''GRANT ALL ON t TO u''" "harmless True ''REINDEX TABLE t''"
  unfolding marker_in_literal
  by (rule harmless_without_words, simp only: forbidden_lower unseen_lower, simp)+

text \<open>What is before the first word of a text does not matter to the scan.\<close>

lemma stands_in_skip: "wordy P \<Longrightarrow> \<not> is_word c \<Longrightarrow> stands_in P (c # s) \<longleftrightarrow> stands_in P s"
proof
  assume P: "wordy P" and c: "\<not> is_word c" and "stands_in P (c # s)"
  then obtain a w b where a: "c # s = a @ w @ b" "P w" "free_left a" "free_right b"
    by (auto simp: stands_in_def)
  have "a \<noteq> []"
    using a(1,2) P c by (cases a; cases w) (auto simp: wordy_def)
  then obtain a' where "a = c # a'"
    using a(1) by (cases a) auto
  moreover have "free_left a'"
    using a(3) \<open>a = c # a'\<close> by (cases a') (auto simp: free_left_def)
  ultimately show "stands_in P s"
    using a by (auto simp: stands_in_def)
next
  assume "\<not> is_word c" and "stands_in P s"
  then obtain a w b where a: "s = a @ w @ b" "P w" "free_left a" "free_right b"
    by (auto simp: stands_in_def)
  moreover have "free_left (c # a)"
    using a(3) \<open>\<not> is_word c\<close> by (cases a) (auto simp: free_left_def)
  ultimately show "stands_in P (c # s)"
    unfolding stands_in_def by (intro exI[of _ "c # a"] exI[of _ w] exI[of _ b]) simp
qed

lemma starts_in_skip: "wordy P \<Longrightarrow> \<not> is_word c \<Longrightarrow> starts_in P (c # s) \<longleftrightarrow> starts_in P s"
proof
  assume P: "wordy P" and c: "\<not> is_word c" and "starts_in P (c # s)"
  then obtain a w b where a: "c # s = a @ w @ b" "P w" "free_left a"
    by (auto simp: starts_in_def)
  have "a \<noteq> []"
    using a(1,2) P c by (cases a; cases w) (auto simp: wordy_def)
  then obtain a' where "a = c # a'"
    using a(1) by (cases a) auto
  moreover have "free_left a'"
    using a(3) \<open>a = c # a'\<close> by (cases a') (auto simp: free_left_def)
  ultimately show "starts_in P s"
    using a by (auto simp: starts_in_def)
next
  assume "\<not> is_word c" and "starts_in P s"
  then obtain a w b where a: "s = a @ w @ b" "P w" "free_left a"
    by (auto simp: starts_in_def)
  moreover have "free_left (c # a)"
    using a(3) \<open>\<not> is_word c\<close> by (cases a) (auto simp: free_left_def)
  ultimately show "starts_in P (c # s)"
    unfolding starts_in_def by (intro exI[of _ "c # a"] exI[of _ w] exI[of _ b]) simp
qed

lemma wordy_kw: "k \<noteq> [] \<Longrightarrow> list_all is_word k \<Longrightarrow> wordy (kw k)"
  using kw_ends by (auto simp: wordy_def)

lemma wordy_then: "wordy P \<Longrightarrow> wordy (then_piece P Q)"
  by (auto simp: wordy_def then_piece_def)

lemma wordy_spaced: "wordy P \<Longrightarrow> wordy (spaced (P # Q # Ps))"
proof -
  assume P: "wordy P"
  have "spaced (P # Q # Ps) = then_piece P (then_piece (run_of is_space) (spaced (Q # Ps)))"
    by (rule ext) (rule spaced.simps(3))
  then show "wordy (spaced (P # Q # Ps))"
    using wordy_then[OF P] by simp
qed

lemma harmless_skip:
  assumes "\<not> is_word c"
  shows "harmless ro (c # s) \<longleftrightarrow> harmless ro s"
  unfolding harmless_def creates_extension_def forbidden_statement_def
  using assms
  by (simp add: stands_in_skip starts_in_skip wordy_kw wordy_spaced called_def wordy_then py_simps)

text \<open>The generator against the check: only the body and the safety label of a script count.\<close>

lemma strip_read_only_label:
  assumes "header_closed w s" and "safety_readable s"
  shows "declares_read_only (render_sql_file w s) \<longleftrightarrow> prefix ''READ ONLY'' (upper (strip (s_safety s)))"
proof -
  have "strip (s_safety s) \<noteq> []"
    using assms(2) by (cases "s_safety s") (auto simp: safety_readable_def strip_def strip_by_def lstrip_by_def rstrip_by_def)
  then show ?thesis
    using parse_header_of_render[OF assms] by (simp add: declares_read_only_def)
qed

text \<open>
  C19: a rendered script passes the check for destructive statements exactly when its body does,
  whatever its header says in words; the scan is strict when its safety label is read-only.
\<close>

theorem rendered_destructive_iff:
  assumes "header_closed w s" and "safety_readable s"
  shows "destructive_issues r (render_sql_file w s) = [] \<longleftrightarrow>
    harmless (prefix ''READ ONLY'' (upper (strip (s_safety s))))
      (strip_sql_comments_and_literals (strip_newlines (s_body s) @ [NL]))"
  unfolding destructive_none strip_read_only_label[OF assms] strip_rendered[OF assms(1)]
  by (simp add: harmless_skip py_simps)

end
