(* ===== verification/Verdict_Laws.thy ===== *)
theory Verdict_Laws
  imports Validator_Laws
begin

text \<open>
  The other checks and the command: headers of generated files, unfinished content, the exit code,
  where the validator looks for the repository, the repository map, and which runs return.
\<close>

section \<open>Headers of generated files\<close>

definition recognized :: "string \<Rightarrow> bool" where
  "recognized label \<longleftrightarrow> list_ex (\<lambda>k. prefix k (upper (strip label))) KNOWN_SAFETY_LABELS"

lemma rendered_header_issues:
  assumes "header_closed w s" and "safety_readable s"
  shows "header_issues r (render_sql_file w s) =
    (if recognized (s_safety s) then []
     else [Issue WARNING ''sql-header'' r
       (''SAFETY value '' @ QUOTE # strip (s_safety s) @ QUOTE # '' does not start with a recognized label (READ ONLY / LOW RISK WRITE / ELEVATED RISK / DESTRUCTIVE)'')])"
  by (simp add: header_issues_def parse_header_of_render[OF assms] recognized_def Let_def)

text \<open>
  C21: the header check has no error to report on a rendered script, and a warning exactly when its
  safety label does not begin with one of the four known labels.
\<close>

theorem rendered_header_verdict:
  assumes "header_closed w s" and "safety_readable s"
  shows "with_severity ERROR (header_issues r (render_sql_file w s)) = [] \<and>
    (header_issues r (render_sql_file w s) = [] \<longleftrightarrow> recognized (s_safety s))"
  by (simp add: rendered_header_issues[OF assms] with_severity_def ERROR_def WARNING_def)

theorem rendered_header_verdict_witness:
  "header_issues ''x'' (render_sql_file example_workflow (example_script READ_ONLY)) = []"
proof -
  have readable: "safety_readable (example_script READ_ONLY)"
    using example_safety_fields[of READ_ONLY]
    by (simp add: safety_readable_def) (simp add: example_script_def sql_script_def READ_ONLY_def py_simps)
  have closed: "header_closed example_workflow (example_script READ_ONLY)"
    by (rule example_closed) (simp add: READ_ONLY_def)
  have "recognized (s_safety (example_script READ_ONLY))"
    by (simp add: recognized_def example_script_def sql_script_def READ_ONLY_def read_only_label(1) KNOWN_SAFETY_LABELS_def py_simps)
  then show ?thesis
    using rendered_header_verdict[OF closed readable] by blast
qed

text \<open>
  The default label of the manual scripts is none of the four; and where the value of the safety field is
  left empty, the heading of the next field is read for it.
\<close>

lemma guarded_label: "\<not> recognized GUARDED_DDL"
  by code_simp

lemma empty_safety_value:
  "safety_label (parse_sql_header (''/* SAFETY:'' @ NL # NL # ''PURPOSE:'' @ NL # ''x */'')) = Some ''PURPOSE:''"
  by code_simp

section \<open>Unfinished content\<close>

lemma found_plain: "spans r P \<Longrightarrow> found r s \<longleftrightarrow> (\<exists>a w b. s = a @ w @ b \<and> P w)"
  unfolding found_iff by (metis spans_sound spans_complete)

lemma found_lit: "found (lit k) s \<longleftrightarrow> contains k s"
  using found_plain[OF spans_lit] by (auto simp: contains_iff)

lemma word_like_exact: "k \<noteq> [] \<Longrightarrow> list_all is_word k \<Longrightarrow> word_like (\<lambda>w. w = k)"
  by (auto simp: word_like_def list_all_iff)

definition unfinished :: "string \<Rightarrow> bool" where
  "unfinished s \<longleftrightarrow>
     contains ''REPLACE_ME'' s \<or>
     stands_in (kw ''PLACEHOLDER'') s \<or>
     stands_in (\<lambda>w. w = ''TODO'') s \<or>
     stands_in (\<lambda>w. w = ''FIXME'') s \<or>
     stands_in (\<lambda>w. w = ''TBD'') s \<or>
     (\<exists>a w b. s = a @ w @ b \<and> kw ''lorem ipsum'' w)"

lemma placeholder_none: "placeholder_issues r s = [] \<longleftrightarrow> \<not> unfinished s"
proof -
  note words = found_one[OF spans_lit word_like_exact]
  have chars: "list_all is_word ''TODO''" "list_all is_word ''FIXME''" "list_all is_word ''TBD''" "list_all is_word ''PLACEHOLDER''"
    by (simp_all add: py_simps)
  have "placeholder_issues r s = [] \<longleftrightarrow> \<not> list_ex (\<lambda>(pattern, label). found pattern s) PLACEHOLDER_TOKENS"
    by (auto simp: placeholder_issues_def filter_empty_conv list_ex_iff)
  also have "\<dots> \<longleftrightarrow> \<not> unfinished s"
    unfolding PLACEHOLDER_TOKENS_def list_ex_simps_of prod.case unfinished_def
    by (simp only: found_lit words chars one_word_iff found_plain[OF spans_kw] list.distinct not_False_eq_True simp_thms)
  finally show ?thesis .
qed

text \<open>
  C30: an ASCII text passes the scan for unfinished content exactly when it does not contain the
  marker REPLACE_ME or the filler text, nor one of the other markers as a word of its own; two of
  them count in any letter case.
\<close>

theorem placeholder_issues_iff:
  assumes "ascii s"
  shows "placeholder_issues r s = [] \<longleftrightarrow> \<not> unfinished s"
  by (rule placeholder_none)

theorem placeholder_issues_iff_witness: "placeholder_issues ''a.sql'' ''-- TODO: x'' \<noteq> []"
proof -
  have "stands_in (\<lambda>w. w = ''TODO'') ''-- TODO: x''"
    unfolding stands_in_def
    by (intro exI[of _ "''-- ''"] exI[of _ "''TODO''"] exI[of _ "'': x''"]) (simp add: free_left_def free_right_def py_simps)
  then have "unfinished ''-- TODO: x''"
    by (simp add: unfinished_def)
  then show ?thesis
    by (subst placeholder_issues_iff) simp_all
qed

text \<open>A marker that is part of a longer word passes.\<close>

lemma marker_in_word: "placeholder_issues r ''TODO_1'' = []"
  unfolding placeholder_issues_def PLACEHOLDER_TOKENS_def by code_simp

section \<open>The command\<close>

lemma run_checks_issues:
  "run_checks a t root cs = Inr (is, out) \<Longrightarrow>
     with_severity ERROR is = [] \<longleftrightarrow>
     list_all (\<lambda>(name, fn). case fn t root of Inl e \<Rightarrow> False | Inr js \<Rightarrow> with_severity ERROR js = []) cs"
  by (induction a t root cs arbitrary: "is" out rule: run_checks.induct) (auto simp: with_severity_def split: sum.splits)

lemma run_checks_raises:
  "(\<exists>e. run_checks a t root cs = Inl e) \<longleftrightarrow> list_ex (\<lambda>(name, fn). \<exists>e. fn t root = Inl e) cs"
  by (induction a t root cs rule: run_checks.induct) (auto split: sum.splits)

definition finds_error :: "fs \<Rightarrow> path \<Rightarrow> string \<times> (fs \<Rightarrow> path \<Rightarrow> issue list res) \<Rightarrow> bool" where
  "finds_error t root = (\<lambda>(name, fn). case fn t root of Inl e \<Rightarrow> False | Inr js \<Rightarrow> with_severity ERROR js \<noteq> [])"

lemma finds_error_iff:
  "\<not> list_ex (\<lambda>(name, fn). \<exists>e. fn t root = Inl e) cs \<Longrightarrow>
     list_ex (finds_error t root) cs \<longleftrightarrow>
     \<not> list_all (\<lambda>(name, fn). case fn t root of Inl e \<Rightarrow> False | Inr js \<Rightarrow> with_severity ERROR js = []) cs"
proof (induction cs)
  case Nil
  then show ?case by simp
next
  case (Cons c cs)
  obtain name fn where c: "c = (name, fn)" by (cases c)
  with Cons show ?case
    by (cases "fn t root") (simp_all add: finds_error_def)
qed

lemma exit_code:
  assumes "validate_main here a t = Inr (code, out)"
  shows "code =
    (if v_list_checks a then 0
     else if unknown_checks a \<noteq> [] then 2
     else if list_ex (finds_error t (validate_root here a t)) (selected_checks a) then 1 else 0)"
proof -
  have "with_severity ERROR is \<noteq> [] \<longleftrightarrow> list_ex (finds_error t root) (selected_checks a)"
    if run: "run_checks a t root (selected_checks a) = Inr (is, out')" for "is" out' root
  proof -
    have ok: "\<not> list_ex (\<lambda>(name, fn). \<exists>e. fn t root = Inl e) (selected_checks a)"
      using run_checks_raises[of a t root "selected_checks a"] run by simp
    show ?thesis
      unfolding run_checks_issues[OF run] finds_error_iff[OF ok] by (rule refl)
  qed
  then show ?thesis
    using assms by (auto simp: validate_main_def Let_def split: if_splits sum.splits prod.splits)
qed

text \<open>
  C22: when the validator exits, its code is 0 for a listing, 2 when a check that does not exist was
  asked for, although no check then runs, 1 when a selected check found an error, and 0 otherwise;
  warnings do not count.
\<close>

theorem validate_exit_code:
  assumes "validate_main here a t = Inr (code, out)"
  shows "code =
    (if v_list_checks a then 0
     else if unknown_checks a \<noteq> [] then 2
     else if list_ex (finds_error t (validate_root here a t)) (selected_checks a) then 1 else 0)"
  using assms by (rule exit_code)

text \<open>A check that does not exist: the code is 2 and no issue is found.\<close>

theorem validate_exit_code_witness:
  "finds_error [] [] (''workflow-readmes'', \<lambda>t root. Inr [Issue ERROR ''a'' ''b'' ''c'']) \<and>
   fst (case validate_main [] \<lparr>v_root = Some [], v_only_checks = [''none''], v_list_checks = False, v_only_errors = False, v_quiet = True\<rparr> [] of
      Inr r \<Rightarrow> r | Inl e \<Rightarrow> (0, [])) = 2"
proof -
  let ?a = "\<lparr>v_root = Some [], v_only_checks = [''none''], v_list_checks = False, v_only_errors = False, v_quiet = True\<rparr>"
  have unknown: "unknown_checks ?a = [''none'']"
    by (simp add: unknown_checks_def ALL_CHECKS_def sorted_set_def)
  then have "validate_main [] ?a [] = Inr (2, [''Unknown check name(s): '' @ join '', '' (unknown_checks ?a)])"
    by (simp add: validate_main_def)
  with validate_exit_code[OF this] unknown show ?thesis
    by (simp add: finds_error_def with_severity_def)
qed

lemma run_checks_quiet:
  "map_sum id fst (run_checks (a\<lparr>v_quiet := q, v_only_errors := e\<rparr>) t root cs) = map_sum id fst (run_checks a t root cs)"
  by (induction a t root cs rule: run_checks.induct) (auto split: sum.splits)

text \<open>
  C24: the options that shorten the report change neither the exit code nor whether the validator
  raises.
\<close>

theorem report_options_irrelevant:
  "map_sum id fst (validate_main here (a\<lparr>v_quiet := q, v_only_errors := e\<rparr>) t) = map_sum id fst (validate_main here a t)"
proof -
  let ?b = "a\<lparr>v_quiet := q, v_only_errors := e\<rparr>"
  have same: "selected_checks ?b = selected_checks a" "unknown_checks ?b = unknown_checks a"
    "validate_root here ?b t = validate_root here a t"
    by (simp_all add: selected_checks_def unknown_checks_def validate_root_def)
  show ?thesis
    using run_checks_quiet[where a = a and q = q and e = e and t = t and root = "validate_root here a t" and cs = "selected_checks a"]
    by (auto simp: validate_main_def Let_def same split: sum.splits prod.splits)
qed

section \<open>The repository root\<close>

lemma prefixes_snoc_rev: "rev (prefixes (p @ [x])) = (p @ [x]) # rev (prefixes p)"
  by simp

lemma find_rev_prefixes:
  "find P (rev (prefixes p)) = None \<longleftrightarrow> (\<forall>q. prefix q p \<longrightarrow> \<not> P q)"
  "find P (rev (prefixes p)) = Some q \<Longrightarrow> prefix q p \<and> P q \<and> (\<forall>r. prefix r p \<longrightarrow> P r \<longrightarrow> prefix r q)"
proof -
  show "find P (rev (prefixes p)) = None \<longleftrightarrow> (\<forall>q. prefix q p \<longrightarrow> \<not> P q)"
    by (simp add: find_None_iff)
  show "find P (rev (prefixes p)) = Some q \<Longrightarrow> prefix q p \<and> P q \<and> (\<forall>r. prefix r p \<longrightarrow> P r \<longrightarrow> prefix r q)"
    by (induction p rule: rev_induct) (auto split: if_splits)
qed

text \<open>
  C25: the validator works at the closest directory above its own, itself included, that holds an
  entry .git; when there is none, where it started.
\<close>

theorem find_repo_root_nearest:
  "let candidates = filter (\<lambda>p. exists_at t (p @ [''.git''])) (prefixes start); found_root = find_repo_root t start in
   if candidates = [] then found_root = start
   else found_root \<in> set candidates \<and> list_all (\<lambda>p. prefix p found_root) candidates"
proof (cases "find (\<lambda>candidate. exists_at t (candidate @ [''.git''])) (rev (prefixes start))")
  case None
  then show ?thesis
    using find_rev_prefixes(1)[THEN iffD1, OF None]
    by (simp add: find_repo_root_def with_parents_def filter_empty_conv)
next
  case (Some q)
  then show ?thesis
    using find_rev_prefixes(2)[OF Some]
    by (auto simp: find_repo_root_def with_parents_def list_all_iff filter_empty_conv)
qed

section \<open>The repository map\<close>


lemma strip_not_blank: "s \<noteq> [] \<Longrightarrow> \<not> is_space (hd s) \<Longrightarrow> strip s \<noteq> []"
  by (cases s) (auto simp: strip_def strip_by_def lstrip_by_def rstrip_by_def)

lemma bare_branch:
  assumes "b \<in> set TREE_BRANCH_PREFIXES"
  shows "strip (b @ w) \<noteq> []" and "\<not> prefix TREE_VERTICAL (b @ w)"
    and "list_ex (\<lambda>p. prefix p (b @ w)) TREE_BRANCH_PREFIXES" and "drop 10 (b @ w) = w"
  using assms by (auto simp: TREE_BRANCH_PREFIXES_def TREE_VERTICAL_def strip_not_blank py_simps)

lemma split_words_blank: "split_words (replicate n CHR '' '') = []"
  by (simp add: split_words.simps dropWhile_replicate)

lemma map_lines_bare:
  assumes "b \<in> set TREE_BRANCH_PREFIXES"
  shows "0 < i \<Longrightarrow> map_lines t root i (ls @ (b @ replicate n CHR '' '') # ls') issues counts = Inl IndexError"
proof (induction ls arbitrary: i issues counts)
  case Nil
  then show ?case
    using bare_branch[OF assms, of "replicate n CHR '' ''"] by (simp add: split_words_blank)
next
  case (Cons line ls)
  then show ?case
    by (auto simp: Let_def split: list.split)
qed

text \<open>
  C31: reading the repository map ends with an index error, whatever its other lines are, when a
  line after the first is a branch with nothing but blanks behind it.
\<close>

theorem bare_branch_raises:
  "list_all (\<lambda>b. map_lines t root 0 (head_line # ls @ (b @ replicate n CHR '' '') # ls') issues counts = Inl IndexError)
     TREE_BRANCH_PREFIXES"
  by (simp add: list_all_iff map_lines_bare)



section \<open>A run that returns\<close>


















end
