(* ===== verification/Program_Examples.thy ===== *)
theory Program_Examples
  imports Program Verdict_Laws
begin

text \<open>
  The laws of the writer, the build and the checks at the program's own modules and the repository
  of \<open>Program\<close> that holds only the report kept by hand.
\<close>

section \<open>Writing one category of the program\<close>

lemma performance_module: "program_registry ''tools.repo_builder.wf_performance'' = (''performance'', performance_WORKFLOWS)"
  by (simp add: program_registry_def REGISTRIES_def dict_get_def performance_CATEGORY_SLUG_def)

lemma performance_selected: "''tools.repo_builder.wf_performance'' \<in> set CATEGORY_MODULES"
  by (simp add: CATEGORY_MODULES_def)

lemma performance_ok: "one_category ''performance'' performance_WORKFLOWS"
proof -
  have "module_ok program_registry ''tools.repo_builder.wf_performance''"
    using program_module_ok performance_selected by (simp only: list_all_iff)
  from good_uniform[OF module_good[OF this]] show ?thesis
    by (simp only: performance_module fst_conv snd_conv)
qed

lemma repository_ready:
  "ready (all_generated [''r''] program_registry CATEGORY_MODULES) {program_external [''r'']}
     \<lparr>ws_fs = empty_repository, ws_written = []\<rparr>"
proof -
  have "fresh_tree empty_repository [''r''] (all_external [''r''] program_registry CATEGORY_MODULES)"
    using empty_repository_fresh by (simp only: program_externals)
  from fresh_ready[OF program_module_ok this generated_not_external[OF program_registry_ok]] show ?thesis
    by (simp only: build_ready_def start_state_def build_state.simps program_externals list.simps)
qed

lemma performance_ready:
  "module_ready [''r''] program_registry (all_generated [''r''] program_registry CATEGORY_MODULES) {program_external [''r'']}
     ''tools.repo_builder.wf_performance''"
  using modules_ready[OF program_module_ok performance_selected, of "[''r'']"] by (simp only: program_externals list.simps)

lemma performance_paths:
  "generated_paths [''r''] performance_WORKFLOWS \<subseteq> all_generated [''r''] program_registry CATEGORY_MODULES"
  "external_scripts [''r''] performance_WORKFLOWS = []"
proof -
  show "generated_paths [''r''] performance_WORKFLOWS \<subseteq> all_generated [''r''] program_registry CATEGORY_MODULES"
    using performance_ready by (simp only: module_ready_def performance_module snd_conv)
  have "module_ok program_registry ''tools.repo_builder.wf_performance''"
    using program_module_ok performance_selected by (simp only: list_all_iff)
  from external_outline[OF this, of "[''r'']"] show "external_scripts [''r''] performance_WORKFLOWS = []"
    by (simp only: performance_module snd_conv performance_external list.map)
qed

lemma performance_written:
  obtains t' where "write_workflows [''r''] performance_WORKFLOWS empty_repository =
    (Inr (generated_digests [''r''] performance_WORKFLOWS), t')"
proof -
  have "set (external_scripts [''r''] performance_WORKFLOWS) \<subseteq> {program_external [''r'']}"
    by (simp add: performance_paths(2))
  from write_workflows_ready(1)[OF repository_ready performance_paths(1) this] show thesis
    using that by (metis prod.collapse)
qed

theorem write_workflows_refines_witness:
  "\<exists>written t'. write_workflows [''r''] performance_WORKFLOWS empty_repository = (Inr written, t') \<and>
     read_bytes t' = put_files (generated_files [''r''] performance_WORKFLOWS) (read_bytes empty_repository) \<and>
     written = generated_digests [''r''] performance_WORKFLOWS"
proof -
  obtain t' where t': "write_workflows [''r''] performance_WORKFLOWS empty_repository =
      (Inr (generated_digests [''r''] performance_WORKFLOWS), t')"
    by (rule performance_written)
  from write_workflows_refines[OF t'] t' show ?thesis by blast
qed

theorem write_workflows_returns_witness:
  "fst (write_workflows [''r''] performance_WORKFLOWS empty_repository) = Inr (generated_digests [''r''] performance_WORKFLOWS)"
proof (rule write_workflows_returns)
  note ready = conjunct1[OF repository_ready[unfolded ready_def write_state.simps]]
    conjunct1[OF conjunct2[OF repository_ready[unfolded ready_def write_state.simps]]]
  show "writable empty_repository (generated_paths [''r''] performance_WORKFLOWS)"
    by (rule writable_mono[OF ready(1) performance_paths(1)])
  show "antichain (generated_paths [''r''] performance_WORKFLOWS)"
    by (rule antichain_mono[OF ready(2) performance_paths(1)])
  show "list_all (is_file empty_repository) (external_scripts [''r''] performance_WORKFLOWS)"
    by (simp add: performance_paths(2))
qed

text \<open>The digest of the category's README.\<close>

theorem written_digests_match_witness:
  "\<exists>written t' h c. write_workflows [''r''] performance_WORKFLOWS empty_repository = (Inr written, t') \<and>
     dict_get written ''performance/README.md'' = Some h \<and>
     read_bytes t' [''r'', ''performance'', ''README.md''] = Some c \<and> h = content_hash c"
proof -
  obtain t' where t': "write_workflows [''r''] performance_WORKFLOWS empty_repository =
      (Inr (generated_digests [''r''] performance_WORKFLOWS), t')"
    by (rule performance_written)
  have "module_ok program_registry ''tools.repo_builder.wf_performance''"
    using program_module_ok performance_selected by (simp only: list_all_iff)
  from module_readme[OF this, of "[''r'']"]
  have "[''r'', ''performance'', ''README.md''] \<in> set (map fst (category_files [''r''] performance_WORKFLOWS))"
    by (simp add: performance_module performance_WORKFLOWS_def)
  then have path: "[''r'', ''performance'', ''README.md''] \<in> generated_paths [''r''] performance_WORKFLOWS"
    by (simp add: generated_paths_def generated_files_def image_Un)
  have "relative_path [''r''] [''r'', ''performance'', ''README.md''] = ''performance/README.md''"
    by (simp add: relative_path_def relative_posix_def)
  with path have "''performance/README.md'' \<in> fst ` set (generated_digests [''r''] performance_WORKFLOWS)"
    unfolding digests_keys by (metis image_eqI)
  then obtain h where h: "dict_get (generated_digests [''r''] performance_WORKFLOWS) ''performance/README.md'' = Some h"
    by (metis dict_get_def map_of_eq_None_iff option.exhaust)
  obtain c where "read_bytes t' (join_path [''r''] ''performance/README.md'') = Some c" "h = content_hash c"
    using written_digests_match[OF t' performance_ok h] by blast
  moreover have "join_path [''r''] ''performance/README.md'' = [''r'', ''performance'', ''README.md'']"
    by (simp add: join_path_def is_absolute_def path_parts_def)
  ultimately show ?thesis
    using t' h by (intro exI[of _ "generated_digests [''r''] performance_WORKFLOWS"] exI[of _ t'] exI[of _ h] exI[of _ c]) simp
qed

section \<open>A missing script\<close>

lemma observability_module: "program_registry ''tools.repo_builder.wf_observability'' = (''observability'', observability_WORKFLOWS)"
  by (simp add: program_registry_def REGISTRIES_def dict_get_def observability_CATEGORY_SLUG_def)

lemma observability_selected: "''tools.repo_builder.wf_observability'' \<in> set CATEGORY_MODULES"
  by (simp add: CATEGORY_MODULES_def)

lemma report_external:
  "program_external [''r''] \<in> set (external_scripts [''r''] observability_WORKFLOWS)"
  "program_external [''r''] \<notin> generated_paths [''r''] observability_WORKFLOWS"
proof -
  have "module_ok program_registry ''tools.repo_builder.wf_observability''"
    using program_module_ok observability_selected by (simp only: list_all_iff)
  from external_outline[OF this, of "[''r'']"]
  show "program_external [''r''] \<in> set (external_scripts [''r''] observability_WORKFLOWS)"
    by (simp add: observability_module observability_external program_external_def)
  have "generated_paths [''r''] observability_WORKFLOWS \<subseteq> all_generated [''r''] program_registry CATEGORY_MODULES"
    using modules_ready[OF program_module_ok observability_selected, of "[''r'']"]
    by (simp only: module_ready_def observability_module snd_conv)
  then show "program_external [''r''] \<notin> generated_paths [''r''] observability_WORKFLOWS"
    using generated_not_external[OF program_registry_ok, of "[''r'']"] unfolding program_externals by auto
qed

text \<open>In an empty tree the report is missing, and its category is not written.\<close>

theorem external_script_required_witness:
  "\<exists>e. fst (write_workflows [''r''] observability_WORKFLOWS []) = Inl e"
proof -
  have "\<not> is_file [] (program_external [''r''])"
    by (simp add: is_file_def read_bytes_def node_at_def dict_get_def program_external_def)
  with external_script_required[OF report_external, of "[]"] show ?thesis by blast
qed

section \<open>The build twice\<close>

theorem build_idempotent_witness:
  "\<exists>out out' t'. build_main [''r''] None program_registry empty_repository = (Inr out, t') \<and>
     build_main [''r''] None program_registry t' = (Inr out', t')"
proof -
  obtain out t' where t': "build_main [''r''] None program_registry empty_repository = (Inr out, t')"
    using fresh_build_tree[OF program_registry_ok _ generated_not_external[OF program_registry_ok], of empty_repository "[''r'']"]
      empty_repository_fresh unfolding program_externals by metis
  have "list_all (good_module program_registry) CATEGORY_MODULES"
    using program_module_ok module_good(1) by (auto simp: list_all_iff)
  moreover have "wf_fs empty_repository"
    using empty_repository_fresh by (simp add: fresh_tree_def)
  moreover have "load_manifest empty_repository [''r''] = Inr []"
    using fresh_no_manifest(2)[OF program_module_ok] empty_repository_fresh unfolding program_externals by metis
  moreover have "normal_manifest []" "externals_unrecorded [''r''] program_registry []"
    by (simp_all add: normal_manifest_def externals_unrecorded_def unrecorded_def list_all_iff)
  ultimately show ?thesis
    using build_idempotent[OF _ _ program_categories registry_paths_distinct[OF program_registry_ok] _ _ t'] t' by blast
qed

section \<open>The checks on the tree before the build\<close>

lemma empty_repository_root: "wf_fs empty_repository" "node_at empty_repository [''r''] = Some Dir"
  using empty_repository_fresh by (simp_all add: fresh_tree_def)

theorem catalog_complete_iff_witness: "check_catalog_completeness empty_repository [''r''] \<noteq> Inr []"
proof -
  have "\<not> is_dir empty_repository [''r'', ''performance'']"
    by (simp add: is_dir_def node_at_def empty_repository_def program_external_def dict_get_def)
  moreover obtain ws where "(''performance'', ws) \<in> set EXPLICIT_CATALOG"
    using that by (simp add: EXPLICIT_CATALOG_def)
  ultimately show ?thesis
    unfolding catalog_complete_iff[OF empty_repository_root] by auto
qed

theorem workflow_readmes_iff_witness: "check_workflow_readmes empty_repository [''r''] \<noteq> Inr []"
proof -
  have "category_at empty_repository [''r''] ''observability''"
    "is_dir empty_repository [''r'', ''observability'', ''comprehensive-html-report'']"
    "\<not> has_readmes empty_repository [''r'', ''observability'', ''comprehensive-html-report'']"
    by (simp_all add: category_at_def has_readmes_def is_dir_def is_file_def read_bytes_def node_at_def empty_repository_def
        program_external_def dict_get_def NON_CATEGORY_ROOT_DIRS_def)
  then show ?thesis
    unfolding workflow_readmes_iff[OF empty_repository_root] by auto
qed

section \<open>A rendered script\<close>

text \<open>A script that calls itself read-only and truncates a table.\<close>

definition truncating_script :: script where
  "truncating_script = (example_script READ_ONLY)\<lparr>s_body := ''TRUNCATE t;''\<rparr>"

lemma truncating_readable: "safety_readable truncating_script"
  using example_safety_fields[of READ_ONLY]
  by (simp add: safety_readable_def truncating_script_def filename_def)
    (simp add: example_script_def sql_script_def READ_ONLY_def py_simps)

lemma truncating_closed: "header_closed example_workflow truncating_script"
proof -
  have "header_lines example_workflow truncating_script = header_lines example_workflow (example_script READ_ONLY)"
    by (simp add: header_lines_def truncating_script_def filename_def)
  moreover have "header_closed example_workflow (example_script READ_ONLY)"
    by (rule example_closed) (simp add: READ_ONLY_def)
  ultimately show ?thesis
    by (simp add: header_closed_def)
qed

lemma truncating_body: "strip_sql_comments_and_literals (strip_newlines (s_body truncating_script) @ [NL]) = ''TRUNCATE t;'' @ [NL]"
  unfolding truncating_script_def script.simps by code_simp

lemma truncating_forbidden: "forbidden_statement (''TRUNCATE t;'' @ [NL])"
proof -
  have "stands_in (kw ''TRUNCATE'') (''TRUNCATE t;'' @ [NL])"
    unfolding stands_in_def
    by (intro exI[of _ "[]"] exI[of _ "''TRUNCATE''"] exI[of _ "'' t;'' @ [NL]"]) (simp add: kw_def free_left_def free_right_def py_simps)
  then show ?thesis by (simp add: forbidden_statement_def)
qed

theorem rendered_destructive_iff_witness:
  "destructive_issues ''x'' (render_sql_file example_workflow truncating_script) \<noteq> []"
proof -
  have "s_safety truncating_script = ''READ ONLY''"
    by (simp add: truncating_script_def example_script_def sql_script_def READ_ONLY_def)
  then have "prefix ''READ ONLY'' (upper (strip (s_safety truncating_script)))"
    by (simp only: read_only_label prefix_order.order_refl)
  then show ?thesis
    unfolding rendered_destructive_iff[OF truncating_closed truncating_readable] truncating_body
    using truncating_forbidden by (simp add: harmless_def)
qed
end
