(* ===== verification/Spec2Isabelle.thy ===== *)
theory Spec2Isabelle
  imports Build_Examples Program_Examples
begin

text \<open>
  The Aurora PostgreSQL DBA Toolkit is a repository of diagnostic workflows for Aurora PostgreSQL:
  directories of SQL scripts and Markdown pages by category. This development is about the two
  Python programs that keep it: the generator \<^verbatim>\<open>tools/build_repository.py\<close> with
  \<^verbatim>\<open>tools/repo_builder/\<close>, which renders the pages and scripts from a registry of workflows and
  removes what it no longer generates, and the validator \<^verbatim>\<open>tools/validation/validate_repo.py\<close>,
  which checks the tree. They share no code and no state but the tree: the generator writes it and
  its manifest \<^verbatim>\<open>.repo-builder-manifest.json\<close>; the validator reads it.

  \<^bold>\<open>The base.\<close> \<open>Prelude\<close> holds the exceptions of the tools, results as sums of an exception and
  a value, and facts on lists and substrings.
  \<open>Py_Str\<close> models the operations of \<open>str\<close>, \<open>Utf8\<close> reading a file as text, \<open>Py_Regex\<close>
  the part of \<open>re\<close> in use, as a backtracking matcher in Python's order of choices with an
  inductive semantics it is proved equal to, \<open>Json\<close> the manifest's \<open>json.dumps\<close> and
  \<open>json.loads\<close>, \<open>Sha256\<close> the digest on 32-bit words, and \<open>File_System\<close> the tree: a map
  from paths to directories, files and links with the operations of \<open>os\<close> and \<open>pathlib\<close>.
  It also has dictionaries, as association lists in insertion order whose laws are a locale, and
  loops that stop at an exception (\<open>for_each\<close>) with what they keep and when they return as locales.

  \<^bold>\<open>The generator.\<close> \<open>Model\<close> is \<^verbatim>\<open>model.py\<close>: the dataclasses as records. \<open>Helpers\<close> is
  \<^verbatim>\<open>helpers.py\<close>, \<open>Sql_Blocks\<close> with its four parts \<^verbatim>\<open>sql_blocks.py\<close>, and each
  \<open>Wf_\<close>\<^emph>\<open>category\<close> the module \<^verbatim>\<open>wf_\<close>\<^emph>\<open>category\<close>\<^verbatim>\<open>.py\<close>: 143 workflows with 555 scripts, text for
  text. \<open>Registry\<close> puts the modules together as the import of \<open>build_repository.py\<close> does.
  \<open>Render\<close> is \<^verbatim>\<open>render.py\<close>, \<open>Writer\<close> is \<^verbatim>\<open>writer.py\<close> (\<open>write_workflows\<close>,
  \<open>load_manifest\<close>, \<open>sync_managed_artifacts\<close> with the removal of stale files and of directories
  left empty), and \<open>Build\<close> the \<open>main\<close> of \<^verbatim>\<open>build_repository.py\<close>. State is passed
  explicitly: the tree and what a loop has collected so far, which survive an exception.

  \<^bold>\<open>The validator.\<close> \<open>Catalog\<close> is \<^verbatim>\<open>catalog.py\<close>, \<open>Sql_Header\<close> is \<^verbatim>\<open>sql_header.py\<close>,
  \<open>Checks\<close> the eight checks of \<^verbatim>\<open>checks.py\<close>, \<open>Validate\<close> the \<open>main\<close> and
  \<open>find_repo_root\<close> of \<^verbatim>\<open>validate_repo.py\<close>.

  \<^bold>\<open>What is proved of the generator.\<close> \<open>Write_Laws\<close>: which paths writing a category touches, the
  contents it leaves as a map from paths (a refinement), when it returns, and that external scripts
  are required and kept. \<open>Sync_Laws\<close>: a synchronisation removes recorded, unmodified and no longer
  generated files only, and all of them when it returns; when it refuses, and when it returns.
  \<open>Manifest_Laws\<close>: the manifest is read back as written, and a second synchronisation does
  nothing. \<open>Build_Laws\<close>: recorded digests are those of the files left; a second build changes
  nothing, except where a recorded script has been declared external, which the first build removes
  and the second one misses. \<open>Registry_Paths\<close>, \<open>Category\<close>, \<open>Outline\<close>: the names in a
  registry give every file its own path; the rules read them off without looking into the texts.
  \<open>Scratch_Build\<close>: a build into an empty tree leaves exactly the registry's files. \<open>Program\<close>:
  all of this for the program's own registry, which also is the catalog of the validator.

  \<^bold>\<open>What is proved of the validator.\<close> \<open>Sql_Header\<close>: what the patterns of the header parser match,
  and that the stripping of comments and literals equals four passes without regular expressions.
  \<open>Header_Roundtrip\<close>: the header that the generator renders is read back by the validator.
  \<open>Scan_Laws\<close>, \<open>Name_Laws\<close>: the keyword patterns and the file-name pattern in terms of words.
  \<open>Check_Laws\<close>, \<open>Validator_Laws\<close>, \<open>Verdict_Laws\<close>: each check against the condition on the
  tree or the text, the exit code, the runs that return, the one that does not. \<open>Scratch_Checks\<close>,
  \<open>Links\<close>: the checks accept what a build leaves. \<open>Sync_Examples\<close>, \<open>Build_Examples\<close> and
  \<open>Program_Examples\<close> instantiate the laws on small repositories and on the program's modules.

  \<^bold>\<open>Termination.\<close> Every definition is total. The matcher recurses on the pattern and the length of
  the text, a repetition continuing only after an iteration that consumed something, as Python's
  does; the loops of the writer run over lists; the walk up to the root when directories become
  empty recurses on the path. The one function with fuel is the parser of \<open>Json\<close>, which gets twice
  the length of its text; \<open>parse_fuel\<close> shows that more of it changes nothing.

  \<^bold>\<open>Text.\<close> A string is the UTF-8 form of the Python string, one character per byte. White space, word
  characters, digits and letter case are those of ASCII: the laws whose statement depends on a
  character class and is meant to be exact (the header pattern, the file-name pattern, the scans for
  unfinished content and for statements) are stated for ASCII text, where the two agree; Python's
  classes on \<open>str\<close> are those of Unicode. The texts of the registry are modelled byte for byte.

  \<^bold>\<open>Not modelled.\<close> The parsing of the command line by \<open>argparse\<close> (its namespace is an argument),
  \<open>importlib\<close> (a function from module names to registries), printing and process exit; access
  rights, limits on the length of names, other processes changing the tree, and the content behind a
  link to a directory, which has no entries here; the unit tests; the category directories, which
  are output of the generator, and the scripts kept by hand.
\<close>

end
